(* ===== verification/Prelude.thy ===== *)
theory Prelude
  imports Main "HOL-Library.Signed_Division" "HOL-Library.Multiset"
begin

text \<open>
  Shared vocabulary of the development: the error monad in which the store's operations are
  written, Go's 64-bit integer arithmetic, and the reading of the SQL statements of
  \<^verbatim>\<open>internal/store\<close> as operations on tables kept as lists in row-id order.
\<close>

section \<open>Collections used by the component proofs\<close>

named_theorems step_defs \<open>definitions of the operations of a component\<close>
named_theorems schema_defs \<open>definitions of the constraints of the tables\<close>
named_theorems wrap_simps \<open>facts that remove the 64-bit wrap-around where the operands are in range\<close>

section \<open>Fallible computations\<close>

text \<open>
  A Go function that returns \<^verbatim>\<open>(T, error)\<close> is a value of a sum type, \<open>Inl\<close> for the error.
  \<open>ebind\<close> is the \<^verbatim>\<open>if err != nil { return ..., err }\<close> that follows a call.
\<close>

definition ebind :: "'e + 'a \<Rightarrow> ('a \<Rightarrow> 'e + 'b) \<Rightarrow> 'e + 'b" where
  "ebind m f = (case m of Inl e \<Rightarrow> Inl e | Inr x \<Rightarrow> f x)"

definition of_option :: "'e \<Rightarrow> 'a option \<Rightarrow> 'e + 'a" where
  "of_option e m = (case m of None \<Rightarrow> Inl e | Some x \<Rightarrow> Inr x)"

definition map_error :: "('e \<Rightarrow> 'f) \<Rightarrow> 'e + 'a \<Rightarrow> 'f + 'a" where
  "map_error h m = (case m of Inl e \<Rightarrow> Inl (h e) | Inr x \<Rightarrow> Inr x)"

lemma ebind_simps [simp]:
  "ebind (Inl e) f = Inl e"
  "ebind (Inr x) f = f x"
  by (simp_all add: ebind_def)

lemma ebind_eq_Inr [simp]:
  "ebind m f = Inr y \<longleftrightarrow> (\<exists>x. m = Inr x \<and> f x = Inr y)"
  by (cases m) auto

lemma ebind_pair_eq_Inr [simp]:
  "ebind m (case_prod f) = Inr y \<longleftrightarrow> (\<exists>a b. m = Inr (a, b) \<and> f a b = Inr y)"
  by (cases m) (auto simp: split_def)

text \<open>Elimination rules that take a successful run of an operation apart, stage by stage.\<close>

lemma ebind_InrE:
  assumes "ebind m f = Inr y"
  obtains x where "m = Inr x" and "f x = Inr y"
  using assms by auto

lemma ebind_pair_InrE:
  assumes "ebind m (case_prod f) = Inr y"
  obtains a b where "m = Inr (a, b)" and "f a b = Inr y"
  using assms by auto

lemma if_Inl_InrE:
  assumes "(if b then Inl e else m) = Inr y"
  obtains "\<not> b" and "m = Inr y"
  using assms by (auto split: if_splits)

lemmas stageE = if_Inl_InrE ebind_pair_InrE ebind_InrE

lemma ebind_eq_Inl:
  "ebind m f = Inl e \<longleftrightarrow> m = Inl e \<or> (\<exists>x. m = Inr x \<and> f x = Inl e)"
  by (cases m) auto

lemma ebind_assoc: "ebind (ebind m f) g = ebind m (\<lambda>x. ebind (f x) g)"
  by (cases m) auto

lemma ebind_cong [fundef_cong]:
  "m = m' \<Longrightarrow> (\<And>x. m' = Inr x \<Longrightarrow> f x = f' x) \<Longrightarrow> ebind m f = ebind m' f'"
  by (cases m) auto

lemma of_option_simps [simp]:
  "of_option e None = Inl e"
  "of_option e (Some x) = Inr x"
  by (simp_all add: of_option_def)

lemma of_option_eq_Inr [simp]: "of_option e m = Inr x \<longleftrightarrow> m = Some x"
  by (cases m) auto

lemma of_option_eq_Inl [simp]: "of_option e m = Inl e' \<longleftrightarrow> m = None \<and> e' = e"
  by (cases m) auto

lemma map_error_simps [simp]:
  "map_error h (Inl e) = Inl (h e)"
  "map_error h (Inr x) = Inr x"
  by (simp_all add: map_error_def)

lemma map_error_eq_Inr [simp]: "map_error h m = Inr x \<longleftrightarrow> m = Inr x"
  by (cases m) auto

lemma if_Inl_eq_Inr [simp]:
  "(if b then Inl e else m) = Inr x \<longleftrightarrow> \<not> b \<and> m = Inr x"
  by simp

fun efold :: "('a \<Rightarrow> 's \<Rightarrow> 'e + 's) \<Rightarrow> 'a list \<Rightarrow> 's \<Rightarrow> 'e + 's" where
  "efold f [] s = Inr s"
| "efold f (x # xs) s = ebind (f x s) (efold f xs)"

text \<open>An invariant of the loop body is an invariant of the loop.\<close>

lemma efold_invariant:
  assumes "efold f xs s = Inr s'" and "P s"
    and "\<And>x s s'. x \<in> set xs \<Longrightarrow> P s \<Longrightarrow> f x s = Inr s' \<Longrightarrow> P s'"
  shows "P s'"
  using assms
proof (induction xs arbitrary: s)
  case Nil
  then show ?case by simp
next
  case (Cons x xs)
  from Cons.prems(1) obtain t where t: "f x s = Inr t" and rest: "efold f xs t = Inr s'"
    by auto
  from Cons.prems(2,3) t have "P t" by auto
  from Cons.IH [OF rest this] Cons.prems(3) show ?case by auto
qed

section \<open>64-bit integers\<close>

text \<open>
  Go's \<^verbatim>\<open>int64\<close> (and \<^verbatim>\<open>int\<close>, which is 64 bits wide on every platform the panel is built for)
  wraps around. A value is an \<open>int\<close>; \<open>i64\<close> is applied to the result of every addition,
  subtraction and multiplication of the source whose operands are not both known small.
  Division truncates towards zero and is \<open>sdiv\<close> of HOL-Library.
\<close>

definition i64 :: "int \<Rightarrow> int" where
  "i64 x = (x + 9223372036854775808) mod 18446744073709551616 - 9223372036854775808"

definition in_i64 :: "int \<Rightarrow> bool" where
  "in_i64 x \<longleftrightarrow> - 9223372036854775808 \<le> x \<and> x \<le> 9223372036854775807"

definition max_i64 :: int where
  "max_i64 = 9223372036854775807"

lemma i64_in_range: "in_i64 (i64 x)"
proof -
  have "0 \<le> (x + 9223372036854775808) mod 18446744073709551616"
    and "(x + 9223372036854775808) mod 18446744073709551616 < 18446744073709551616"
    by simp_all
  then show ?thesis unfolding in_i64_def i64_def by linarith
qed

lemma i64_id [wrap_simps]:
  assumes "- 9223372036854775808 \<le> x" and "x \<le> 9223372036854775807"
  shows "i64 x = x"
proof -
  have "(x + 9223372036854775808) mod 18446744073709551616 = x + 9223372036854775808"
    using assms by (intro mod_pos_pos_trivial) linarith+
  then show ?thesis by (simp add: i64_def)
qed

lemma i64_idem [simp]: "i64 (i64 x) = i64 x"
  using i64_in_range [of x] by (simp add: in_i64_def i64_id)

lemma sdiv_nonneg: "0 \<le> a \<Longrightarrow> 0 < b \<Longrightarrow> a sdiv b = a div (b::int)"
  by (cases "a = 0") (simp_all add: signed_divide_int_def)

lemma smod_nonneg: "0 \<le> a \<Longrightarrow> 0 < b \<Longrightarrow> a smod b = a mod (b::int)"
  by (cases "a = 0") (simp_all add: signed_modulo_int_def)

section \<open>Tables\<close>

text \<open>
  A table is the list of its rows in row-id order. \<open>update_where\<close> is
  \<^verbatim>\<open>UPDATE t SET ... WHERE p\<close>, \<open>count_where\<close> its \<^verbatim>\<open>RowsAffected\<close> and also
  \<^verbatim>\<open>SELECT COUNT(*)\<close>; \<open>List.find\<close> is a query by a unique key, \<open>exists_where\<close> is
  \<^verbatim>\<open>SELECT EXISTS(...)\<close>. \<open>order_by\<close> sorts by one column and keeps the row-id order of equal
  rows, which is \<^verbatim>\<open>ORDER BY c, id\<close>.
\<close>

definition update_where :: "('r \<Rightarrow> bool) \<Rightarrow> ('r \<Rightarrow> 'r) \<Rightarrow> 'r list \<Rightarrow> 'r list" where
  "update_where p f rows = map (\<lambda>r. if p r then f r else r) rows"

definition count_where :: "('r \<Rightarrow> bool) \<Rightarrow> 'r list \<Rightarrow> nat" where
  "count_where p rows = length (filter p rows)"

definition exists_where :: "('r \<Rightarrow> bool) \<Rightarrow> 'r list \<Rightarrow> bool" where
  "exists_where p rows = list_ex p rows"

definition order_by :: "('r \<Rightarrow> int) \<Rightarrow> 'r list \<Rightarrow> 'r list" where
  "order_by c rows = sort_key c rows"

text \<open>\<^verbatim>\<open>COALESCE(MAX(c), k)\<close> over the values of a column.\<close>

definition coalesce_max :: "int \<Rightarrow> int list \<Rightarrow> int" where
  "coalesce_max k xs = (case xs of [] \<Rightarrow> k | x # rest \<Rightarrow> fold max rest x)"

lemma exists_where_iff: "exists_where p rows \<longleftrightarrow> (\<exists>r\<in>set rows. p r)"
  by (simp add: exists_where_def list_ex_iff)

lemma not_exists_where_filter: "\<not> exists_where p rows \<longleftrightarrow> filter p rows = []"
  by (simp add: exists_where_iff filter_empty_conv)

lemma length_update_where [simp]: "length (update_where p f rows) = length rows"
  by (simp add: update_where_def)

lemma update_where_Nil [simp]: "update_where p f [] = []"
  by (simp add: update_where_def)

lemma update_where_Cons [simp]:
  "update_where p f (r # rows) = (if p r then f r else r) # update_where p f rows"
  by (simp add: update_where_def)

lemma update_where_append [simp]:
  "update_where p f (xs @ ys) = update_where p f xs @ update_where p f ys"
  by (simp add: update_where_def)

lemma set_update_where: "set (update_where p f rows) = f ` {r \<in> set rows. p r} \<union> {r \<in> set rows. \<not> p r}"
  by (auto simp: update_where_def)

lemma count_where_simps [simp]:
  "count_where p [] = 0"
  "count_where p (r # rows) = (if p r then Suc (count_where p rows) else count_where p rows)"
  "count_where p (xs @ ys) = count_where p xs + count_where p ys"
  by (simp_all add: count_where_def)

lemma count_where_pos: "0 < count_where p rows \<longleftrightarrow> (\<exists>r\<in>set rows. p r)"
  by (induction rows) auto

lemma count_where_0: "count_where p rows = 0 \<longleftrightarrow> (\<forall>r\<in>set rows. \<not> p r)"
  by (induction rows) auto

lemma count_where_one_unique:
  assumes "count_where p rows = 1" and "x \<in> set rows" "p x" and "y \<in> set rows" "p y"
  shows "x = y"
proof -
  obtain z where "filter p rows = [z]" using assms(1) by (auto simp: count_where_def length_Suc_conv)
  moreover have "x \<in> set (filter p rows)" "y \<in> set (filter p rows)" using assms by auto
  ultimately show ?thesis by simp
qed

lemma count_where_mono:
  "(\<And>r. r \<in> set rows \<Longrightarrow> p r \<Longrightarrow> q r) \<Longrightarrow> count_where p rows \<le> count_where q rows"
  by (induction rows) (auto simp: le_SucI)

lemma map_update_where_inv:
  "(\<And>r. r \<in> set rows \<Longrightarrow> p r \<Longrightarrow> g (f r) = g r) \<Longrightarrow> map g (update_where p f rows) = map g rows"
  by (induction rows) auto

lemma count_where_update_inv:
  "(\<And>r. r \<in> set rows \<Longrightarrow> p r \<Longrightarrow> q (f r) = q r) \<Longrightarrow>
   count_where q (update_where p f rows) = count_where q rows"
  by (induction rows) auto

lemma batch_subset: "set (take n (order_by k (filter p rows))) \<subseteq> {r \<in> set rows. p r}"
  by (auto simp: order_by_def dest: in_set_takeD)

lemma batch_distinct:
  assumes "distinct (map g rows)"
  shows "distinct (map g (take n (order_by k (filter p rows))))"
proof -
  have "distinct (map g (filter p rows))" using assms by (rule distinct_map_filter)
  then have "distinct (map g (order_by k (filter p rows)))" by (simp add: order_by_def distinct_map)
  then show ?thesis by (simp add: take_map [symmetric] distinct_take)
qed

lemma find_eq_Some_set: "List.find p rows = Some r \<Longrightarrow> r \<in> set rows \<and> p r"
  by (induction rows) (auto split: if_splits)

lemma find_eq_None_iff: "List.find p rows = None \<longleftrightarrow> (\<forall>r\<in>set rows. \<not> p r)"
  by (induction rows) auto

lemma find_append:
  "List.find p (xs @ ys) = (case List.find p xs of None \<Rightarrow> List.find p ys | Some r \<Rightarrow> Some r)"
  by (induction xs) auto

lemma set_order_by [simp]: "set (order_by c rows) = set rows"
  by (simp add: order_by_def)

lemma distinct_order_by [simp]: "distinct (map g (order_by c rows)) = distinct (map g rows)"
proof -
  have "mset (map g (order_by c rows)) = mset (map g rows)"
    by (simp add: order_by_def mset_map)
  then show ?thesis by (rule mset_eq_imp_distinct_iff)
qed

text \<open>An update of the one row with a key changes a sum over the rows by the change of that row.\<close>

lemma sum_update_one:
  assumes "distinct (map h rows)" and "w \<in> set rows" and "\<And>r. r \<in> set rows \<Longrightarrow> p r \<longleftrightarrow> h r = h w"
  shows "sum_list (map g (update_where p f rows)) = sum_list (map g rows) - g w + (g (f w) :: int)"
  using assms
proof (induction rows)
  case (Cons r rows)
  show ?case
  proof (cases "h r = h w")
    case True
    then have "r = w" using Cons.prems(1,2) by (auto simp: image_iff)
    moreover have "update_where p f rows = rows"
    proof -
      have "\<not> p x" if "x \<in> set rows" for x using Cons.prems(1) Cons.prems(3) [of x] True that by (auto simp: image_iff)
      then show ?thesis by (simp add: update_where_def map_idI)
    qed
    ultimately show ?thesis using Cons.prems(3) [of r] by simp
  next
    case False
    then have "w \<in> set rows" using Cons.prems(2) by auto
    then show ?thesis using Cons False by simp
  qed
qed simp

end
