(* ===== verification/Go_Time.thy ===== *)
theory Go_Time
  imports Prelude
begin

text \<open>
  The parts of Go's \<^verbatim>\<open>time\<close> package that the store uses. An instant (\<^verbatim>\<open>time.Time\<close>) is the number
  of nanoseconds since 1970-01-01 UTC; \<open>unix\<close> is \<^verbatim>\<open>Time.Unix\<close>. A \<^verbatim>\<open>*time.Location\<close> is the function
  that gives the offset from UTC, in seconds, in force at a Unix time: the zone database is data
  that is not part of the repository, so the location is an argument of every definition that
  uses it. The calendar is the proleptic Gregorian calendar of the package.
\<close>

type_synonym instant = int
type_synonym location = "int \<Rightarrow> int"
type_synonym civil_date = "int \<times> int \<times> int"

section \<open>Instants\<close>

definition unix :: "instant \<Rightarrow> int" where
  "unix t = t div 1000000000"

definition from_unix :: "int \<Rightarrow> instant" where
  "from_unix s = s * 1000000000"

definition seconds :: "int \<Rightarrow> int" where
  "seconds s = s * 1000000000"

lemma unix_from_unix [simp]: "unix (from_unix s) = s"
  by (simp add: unix_def from_unix_def)

lemma from_unix_less_iff: "from_unix s < t \<longleftrightarrow> s * 1000000000 < t"
  by (simp add: from_unix_def)

lemma from_unix_after_iff: "t < from_unix s \<longleftrightarrow> unix t < s"
  unfolding unix_def from_unix_def by (auto simp: div_less_iff_less_mult)

lemma unix_add_seconds [simp]: "unix (t + seconds s) = unix t + s"
  by (simp add: unix_def seconds_def)

lemma unix_diff_seconds [simp]: "unix (t - seconds s) = unix t - s"
  using unix_add_seconds [of t "- s"] by (simp add: seconds_def)

section \<open>The Gregorian calendar\<close>

definition leap :: "int \<Rightarrow> bool" where
  "leap y \<longleftrightarrow> y mod 4 = 0 \<and> (y mod 100 \<noteq> 0 \<or> y mod 400 = 0)"

definition days_in_month :: "int \<Rightarrow> int \<Rightarrow> int" where
  "days_in_month y m =
     (if m = 2 then (if leap y then 29 else 28)
      else if m = 4 \<or> m = 6 \<or> m = 9 \<or> m = 11 then 30 else 31)"

text \<open>Days of a year before the first of a month, and before a year of a 400-year cycle.\<close>

definition days_before_month :: "bool \<Rightarrow> int \<Rightarrow> int" where
  "days_before_month lp m =
     (if m \<le> 1 then 0 else if m = 2 then 31
      else (if m = 3 then 59 else if m = 4 then 90 else if m = 5 then 120 else if m = 6 then 151
            else if m = 7 then 181 else if m = 8 then 212 else if m = 9 then 243
            else if m = 10 then 273 else if m = 11 then 304 else 334) + (if lp then 1 else 0))"

definition cycle_days :: "int \<Rightarrow> int" where
  "cycle_days k = 365 * k + k div 4 - k div 100 + k div 400"

definition days_from_civil :: "int \<Rightarrow> int \<Rightarrow> int \<Rightarrow> int" where
  "days_from_civil y m d = cycle_days (y - 1) + days_before_month (leap y) m + d - 719163"

definition month_of_day :: "bool \<Rightarrow> int \<Rightarrow> int" where
  "month_of_day lp n =
     (if n < 31 then 1
      else (let k = (if lp then n - 1 else n) in
        if k < 59 then 2 else if k < 90 then 3 else if k < 120 then 4 else if k < 151 then 5
        else if k < 181 then 6 else if k < 212 then 7 else if k < 243 then 8 else if k < 273 then 9
        else if k < 304 then 10 else if k < 334 then 11 else 12))"

definition civil_from_days :: "int \<Rightarrow> civil_date" where
  "civil_from_days z =
     (let n = z + 719162; c = n div 146097; r = n mod 146097; g = r div 366;
          k = (if cycle_days (g + 1) \<le> r then g + 1 else g);
          y = 400 * c + k + 1; doy = r - cycle_days k; m = month_of_day (leap y) doy
      in (y, m, doy - days_before_month (leap y) m + 1))"

lemma div_add_one:
  assumes "0 < (n::int)"
  shows "(k + 1) div n = k div n + (if (k + 1) mod n = 0 then 1 else 0)"
proof -
  have k: "k = n * (k div n) + k mod n" by simp
  have r: "0 \<le> k mod n" "k mod n < n" using assms by simp_all
  show ?thesis
  proof (cases "k mod n = n - 1")
    case True
    with k have "k + 1 = n * (k div n + 1)" by (simp add: algebra_simps)
    then show ?thesis using assms by (metis mod_mult_self1_is_0 nonzero_mult_div_cancel_left less_irrefl)
  next
    case False
    with r have "k mod n + 1 < n" by linarith
    moreover have "k + 1 = n * (k div n) + (k mod n + 1)" using k by linarith
    ultimately have "(k + 1) div n = k div n" "(k + 1) mod n = k mod n + 1"
      using r int_div_pos_eq [of "k + 1" n "k div n" "k mod n + 1"]
        int_mod_pos_eq [of "k + 1" n "k div n" "k mod n + 1"] by simp_all
    then show ?thesis using r by simp
  qed
qed

lemma mod_400_100: "(y::int) mod 400 = 0 \<Longrightarrow> y mod 100 = 0"
  using dvd_trans [of 100 400 y] by (simp add: dvd_eq_mod_eq_0 [symmetric])

lemma mod_100_4: "(y::int) mod 100 = 0 \<Longrightarrow> y mod 4 = 0"
  by presburger

lemma cycle_days_Suc:
  "cycle_days (k + 1) = cycle_days k + (if leap (k + 1) then 366 else 365)"
proof -
  have a: "(k + 1) mod 400 = 0 \<Longrightarrow> (k + 1) mod 100 = 0" by (rule mod_400_100)
  have b: "(k + 1) mod 100 = 0 \<Longrightarrow> (k + 1) mod 4 = 0" by (rule mod_100_4)
  have d4: "(k + 1) div 4 = k div 4 + (if (k + 1) mod 4 = 0 then 1 else 0)"
    and d100: "(k + 1) div 100 = k div 100 + (if (k + 1) mod 100 = 0 then 1 else 0)"
    and d400: "(k + 1) div 400 = k div 400 + (if (k + 1) mod 400 = 0 then 1 else 0)"
    by (rule div_add_one; simp)+
  show ?thesis
    unfolding cycle_days_def leap_def d4 d100 d400 using a b
    by (cases "(k + 1) mod 4 = 0"; cases "(k + 1) mod 100 = 0"; cases "(k + 1) mod 400 = 0"; simp)
qed

lemma cycle_days_cycle: "cycle_days (400 * c + k) = 146097 * c + cycle_days k"
proof -
  have "(400 * c + k) div 4 = (k + (100 * c) * 4) div 4"
    "(400 * c + k) div 100 = (k + (4 * c) * 100) div 100"
    "(400 * c + k) div 400 = (k + c * 400) div 400"
    by (simp_all add: algebra_simps)
  then show ?thesis
    unfolding cycle_days_def by (simp only: div_mult_self1 zero_neq_numeral [symmetric] not_False_eq_True simp_thms) simp
qed

lemma leap_cycle [simp]: "leap (400 * c + k) = leap k"
proof -
  have "(400 * c + k) mod 4 = (k + (100 * c) * 4) mod 4"
    "(400 * c + k) mod 100 = (k + (4 * c) * 100) mod 100"
    "(400 * c + k) mod 400 = (k + c * 400) mod 400"
    by (simp_all add: algebra_simps)
  then show ?thesis unfolding leap_def by (simp only: mod_mult_self1)
qed

lemma cycle_days_le:
  assumes "0 \<le> k" "k \<le> 400"
  shows "cycle_days k \<le> 366 * k"
proof -
  have "k div 4 \<le> k" "k div 400 \<le> k div 100" using assms by linarith+
  then show ?thesis unfolding cycle_days_def by linarith
qed

lemma cycle_days_gt:
  assumes "0 \<le> g" "g \<le> 399"
  shows "366 * g + 365 < cycle_days (g + 2)"
proof -
  have arith: "g - 365 < a - b + c \<Longrightarrow> 366 * g + 365 < 365 * (g + 2) + a - b + c" for a b c :: int
    by (simp add: algebra_simps)
  have "g - 365 < (g + 2) div 4 - (g + 2) div 100 + (g + 2) div 400"
  proof (cases "g \<le> 364")
    case True
    have "(g + 2) div 100 \<le> (g + 2) div 4" "0 \<le> (g + 2) div 400" using assms by linarith+
    with True show ?thesis by simp
  next
    case False
    then have "91 \<le> (g + 2) div 4" "(g + 2) div 100 \<le> 4" "0 \<le> (g + 2) div 400"
      using assms by linarith+
    with assms show ?thesis by simp
  qed
  then show ?thesis unfolding cycle_days_def by (rule arith)
qed

lemma month_cases:
  assumes "1 \<le> (m::int)" and "m \<le> 12"
  shows "m = 1 \<or> m = 2 \<or> m = 3 \<or> m = 4 \<or> m = 5 \<or> m = 6 \<or> m = 7 \<or> m = 8 \<or> m = 9 \<or> m = 10 \<or> m = 11 \<or> m = 12"
  using assms by presburger

lemma days_before_month_Suc:
  "1 \<le> m \<Longrightarrow> m \<le> 11 \<Longrightarrow>
   days_before_month (leap y) (m + 1) = days_before_month (leap y) m + days_in_month y m"
proof -
  assume "1 \<le> m" "m \<le> 11"
  with month_cases [of m] show ?thesis
    by (auto simp: days_before_month_def days_in_month_def)
qed

lemma month_of_day_range: "1 \<le> month_of_day lp n \<and> month_of_day lp n \<le> 12"
  unfolding month_of_day_def Let_def by simp

lemma month_of_day_correct:
  assumes "0 \<le> n" and "n < (if leap y then 366 else 365)"
  shows "days_before_month (leap y) (month_of_day (leap y) n) \<le> n"
    and "n < days_before_month (leap y) (month_of_day (leap y) n) + days_in_month y (month_of_day (leap y) n)"
  using assms unfolding month_of_day_def days_before_month_def days_in_month_def Let_def
  by (cases "leap y"; simp)+

lemma month_of_day_unique:
  assumes "1 \<le> m" "m \<le> 12" and "days_before_month (leap y) m \<le> n"
    and "n < days_before_month (leap y) m + days_in_month y m"
  shows "month_of_day (leap y) n = m"
  using month_cases [OF assms(1,2)] assms(3,4)
  by (elim disjE) (simp_all add: days_before_month_def days_in_month_def month_of_day_def Let_def split: if_splits)

text \<open>The year within a 400-year cycle is found by one guess and one correction.\<close>

definition cycle_year :: "int \<Rightarrow> int" where
  "cycle_year r = (if cycle_days (r div 366 + 1) \<le> r then r div 366 + 1 else r div 366)"

lemma cycle_year_correct:
  assumes "0 \<le> r" "r < 146097"
  shows "cycle_days (cycle_year r) \<le> r" and "r < cycle_days (cycle_year r + 1)"
    and "0 \<le> cycle_year r" and "cycle_year r \<le> 400"
proof -
  have g: "0 \<le> r div 366" "r div 366 \<le> 399" using assms by linarith+
  have r: "366 * (r div 366) \<le> r" "r \<le> 366 * (r div 366) + 365"
    using mult_div_mod_eq [of 366 r] pos_mod_bound [of 366 r] pos_mod_sign [of 366 r] by linarith+
  show "cycle_days (cycle_year r) \<le> r"
    unfolding cycle_year_def using cycle_days_le [of "r div 366"] g r by auto
  have "r < cycle_days (r div 366 + 1 + 1)"
    using cycle_days_gt [OF g] r by (simp add: add.assoc)
  then show "r < cycle_days (cycle_year r + 1)" unfolding cycle_year_def by auto
  show "0 \<le> cycle_year r" "cycle_year r \<le> 400" unfolding cycle_year_def using g by auto
qed

text \<open>A day number and its calendar date determine each other.\<close>

lemma civil_from_days_correct:
  assumes "civil_from_days z = (y, m, d)"
  shows "days_from_civil y m d = z" and "1 \<le> m" and "m \<le> 12" and "1 \<le> d" and "d \<le> days_in_month y m"
proof -
  define n c r where ncr: "n = z + 719162" "c = n div 146097" "r = n mod 146097"
  have r: "0 \<le> r" "r < 146097" and n: "n = 146097 * c + r" by (simp_all add: ncr)
  define k where "k = cycle_year r"
  note k = cycle_year_correct [OF r, folded k_def]
  define doy where "doy = r - cycle_days k"
  have y: "y = 400 * c + k + 1" and m: "m = month_of_day (leap y) doy"
    and d: "d = doy - days_before_month (leap y) m + 1"
    using assms unfolding civil_from_days_def Let_def ncr [symmetric] cycle_year_def [symmetric]
      k_def [symmetric] doy_def [symmetric] by auto
  have lp: "leap y = leap (k + 1)" using leap_cycle [of c "k + 1"] y by (simp add: add.assoc)
  have doy: "0 \<le> doy" "doy < (if leap y then 366 else 365)"
    using k cycle_days_Suc [of k] lp unfolding doy_def by (auto split: if_splits)
  have "cycle_days (y - 1) = 146097 * c + cycle_days k"
    using cycle_days_cycle [of c k] y by simp
  then show "days_from_civil y m d = z"
    unfolding days_from_civil_def d doy_def using n ncr(1) by linarith
  show "1 \<le> m" "m \<le> 12" using month_of_day_range m by auto
  show "1 \<le> d" "d \<le> days_in_month y m"
    using month_of_day_correct [OF doy] unfolding d m by simp_all
qed

lemma days_in_month_bounds: "28 \<le> days_in_month y m \<and> days_in_month y m \<le> 31"
  by (simp add: days_in_month_def)

lemma days_from_civil_day: "days_from_civil y m d = days_from_civil y m 1 + (d - 1)"
  by (simp add: days_from_civil_def)

section \<open>Dates in a location\<close>

text \<open>
  \<^verbatim>\<open>Time.Date\<close> and \<^verbatim>\<open>Time.Clock\<close> (the latter as the second of the day) of a Unix time in a
  location, and \<^verbatim>\<open>time.Date\<close>, which normalises the month, lets the day run over the end of the
  month, and looks the offset up twice: once as if the wall clock were UTC, and again at the
  instant that offset gives.
\<close>

definition civil_date :: "location \<Rightarrow> int \<Rightarrow> civil_date" where
  "civil_date loc u = civil_from_days ((u + loc u) div 86400)"

definition clock_seconds :: "location \<Rightarrow> int \<Rightarrow> int" where
  "clock_seconds loc u = (u + loc u) mod 86400"

definition month_start :: "int \<Rightarrow> int" where
  "month_start k = days_from_civil (k div 12) (k mod 12 + 1) 1"

definition go_date :: "location \<Rightarrow> int \<Rightarrow> int \<Rightarrow> int \<Rightarrow> int \<Rightarrow> int" where
  "go_date loc y m d secs =
     (let w = (month_start (12 * y + (m - 1)) + (d - 1)) * 86400 + secs
      in w - loc (w - loc w))"

text \<open>The zone data that the panel relies on: from some instant on, the offset is fixed.\<close>

definition fixed_from :: "int \<Rightarrow> int \<Rightarrow> location \<Rightarrow> bool" where
  "fixed_from t0 off loc \<longleftrightarrow> 0 \<le> off \<and> off < 86400 \<and> (\<forall>t\<ge>t0. loc t = off)"

lemma month_start_civil:
  "1 \<le> m \<Longrightarrow> m \<le> 12 \<Longrightarrow> month_start (12 * y + (m - 1)) = days_from_civil y m 1"
proof -
  assume "1 \<le> m" "m \<le> 12"
  then have "(12 * y + (m - 1)) div 12 = y" "(12 * y + (m - 1)) mod 12 = m - 1"
    by (simp_all add: int_div_pos_eq int_mod_pos_eq)
  then show ?thesis by (simp add: month_start_def)
qed

lemma month_start_Suc:
  "month_start (k + 1) = month_start k + days_in_month (k div 12) (k mod 12 + 1)"
proof -
  define y m where ym: "y = k div 12" "m = k mod 12 + 1"
  have k: "k = 12 * y + (m - 1)" and m: "1 \<le> m" "m \<le> 12" by (simp_all add: ym)
  show ?thesis
  proof (cases "m = 12")
    case True
    then have "k + 1 = 12 * (y + 1) + (1 - 1)" using k by simp
    then have "month_start (k + 1) = days_from_civil (y + 1) 1 1"
      using month_start_civil [of 1 "y + 1"] by (simp add: algebra_simps)
    moreover have "month_start k = days_from_civil y 12 1"
      using month_start_civil [of 12 y] True k by simp
    moreover have "days_from_civil (y + 1) 1 1 = days_from_civil y 12 1 + 31"
      using cycle_days_Suc [of "y - 1"]
      by (simp add: days_from_civil_def days_before_month_def)
    ultimately show ?thesis using True ym by (simp add: days_in_month_def)
  next
    case False
    then have "month_start (k + 1) = days_from_civil y (m + 1) 1"
      using month_start_civil [of "m + 1" y] k m by (simp add: algebra_simps)
    moreover have "month_start k = days_from_civil y m 1"
      using month_start_civil [OF m] k by simp
    ultimately show ?thesis
      using days_before_month_Suc [of m y] m False ym by (simp add: days_from_civil_def)
  qed
qed

text \<open>\<open>n\<close> months are between \<open>28 * n\<close> and \<open>31 * n\<close> days long.\<close>

lemma month_start_add:
  "month_start k + 28 * int n \<le> month_start (k + int n) \<and>
   month_start (k + int n) \<le> month_start k + 31 * int n"
proof (induction n)
  case 0
  then show ?case by simp
next
  case (Suc n)
  have "month_start (k + int (Suc n)) = month_start (k + int n)
      + days_in_month ((k + int n) div 12) ((k + int n) mod 12 + 1)"
    using month_start_Suc [of "k + int n"] by (simp add: algebra_simps)
  then show ?case
    using Suc.IH days_in_month_bounds [of "(k + int n) div 12" "(k + int n) mod 12 + 1"] by simp
qed

lemma month_start_diff:
  assumes "k \<le> l"
  shows "month_start k + 28 * (l - k) \<le> month_start l" and "month_start l \<le> month_start k + 31 * (l - k)"
  using month_start_add [of k "nat (l - k)"] assms by simp_all

lemma month_start_strict_mono: "k < l \<Longrightarrow> month_start k < month_start l"
  using month_start_add [of k "nat (l - k)"] by simp

lemma month_start_mono: "k \<le> l \<Longrightarrow> month_start k \<le> month_start l"
  using month_start_strict_mono [of k l] by (cases "k = l") auto

lemma civil_date_decomp:
  assumes "civil_date loc u = (y, m, d)"
  shows "u + loc u = (month_start (12 * y + (m - 1)) + (d - 1)) * 86400 + clock_seconds loc u"
    and "1 \<le> m" and "m \<le> 12" and "1 \<le> d" and "d \<le> days_in_month y m"
proof -
  note c = civil_from_days_correct [OF assms [unfolded civil_date_def]]
  show "1 \<le> m" "m \<le> 12" "1 \<le> d" "d \<le> days_in_month y m" using c by simp_all
  have "month_start (12 * y + (m - 1)) + (d - 1) = (u + loc u) div 86400"
    using c(1) month_start_civil [OF c(2,3)] days_from_civil_day [of y m d] by simp
  then show "u + loc u = (month_start (12 * y + (m - 1)) + (d - 1)) * 86400 + clock_seconds loc u"
    by (simp add: clock_seconds_def)
qed

lemma clock_seconds_range: "0 \<le> clock_seconds loc u \<and> clock_seconds loc u < 86400"
  by (simp add: clock_seconds_def)

lemma go_date_fixed:
  assumes "fixed_from t0 off loc"
    and "t0 + off \<le> (month_start (12 * y + (m - 1)) + (d - 1)) * 86400 + secs"
  shows "go_date loc y m d secs = (month_start (12 * y + (m - 1)) + (d - 1)) * 86400 + secs - off"
  using assms by (simp add: go_date_def Let_def fixed_from_def)

section \<open>Adding months to an order's expiry\<close>

definition addOrderMonths :: "location \<Rightarrow> int \<Rightarrow> int \<Rightarrow> int" where
  "addOrderMonths loc u months =
     (case civil_date loc u of (y, m, d) \<Rightarrow> go_date loc y (m + months) d (clock_seconds loc u))"

lemma addOrderMonths_bounds:
  assumes "fixed_from t0 off loc" and "t0 \<le> u" and "0 \<le> n"
  shows "u + 28 * n * 86400 \<le> addOrderMonths loc u n \<and> addOrderMonths loc u n \<le> u + 31 * n * 86400"
proof -
  obtain y m d where c: "civil_date loc u = (y, m, d)" by (metis prod_cases3)
  define k where "k = 12 * y + (m - 1)"
  have u: "u + off = (month_start k + (d - 1)) * 86400 + clock_seconds loc u"
    using civil_date_decomp(1) [OF c] assms(1,2) by (simp add: k_def fixed_from_def)
  have kn: "12 * y + (m + n - 1) = k + n" by (simp add: k_def)
  have b: "month_start k + 28 * n \<le> month_start (k + n)" "month_start (k + n) \<le> month_start k + 31 * n"
    using month_start_add [of k "nat n"] assms(3) by simp_all
  have "t0 + off \<le> (month_start (k + n) + (d - 1)) * 86400 + clock_seconds loc u"
    using u b(1) assms(2,3) by (simp add: algebra_simps)
  then have "addOrderMonths loc u n = (month_start (k + n) + (d - 1)) * 86400 + clock_seconds loc u - off"
    using go_date_fixed [OF assms(1), of y "m + n" d] unfolding addOrderMonths_def c by (simp add: kn)
  then show ?thesis using u b by (simp add: algebra_simps)
qed

end
