(* ===== verification/Traffic_Reset.thy ===== *)
theory Traffic_Reset
  imports Go_Time
begin

text \<open>
  The calendar rules of the monthly and yearly traffic reset
  (\<^verbatim>\<open>CalculateNextTrafficReset\<close> and its helpers in \<^verbatim>\<open>internal/store/plans.go\<close>). The location is
  the Asia/Shanghai zone, an argument here; expiry and result are Unix times, and \<^verbatim>\<open>nil\<close> is
  \<open>None\<close>. The lemmas show that a reset that is scheduled is always in the future and at most
  a little more than a year away.
\<close>

section \<open>Definitions\<close>

definition daysInMonth :: "location \<Rightarrow> int \<Rightarrow> int \<Rightarrow> int" where
  "daysInMonth loc year month =
     (case civil_date loc (go_date loc year (month + 1) 0 0) of (_, _, d) \<Rightarrow> d)"

definition calendarAnchor :: "location \<Rightarrow> int \<Rightarrow> int \<Rightarrow> int \<Rightarrow> int" where
  "calendarAnchor loc year month expiry =
     (case civil_date loc expiry of (_, _, expiryDay) \<Rightarrow>
        let maximum = daysInMonth loc year month;
            day = (if expiryDay > maximum then maximum else expiryDay)
        in go_date loc year month day (clock_seconds loc expiry))"

definition annualAnchor :: "location \<Rightarrow> int \<Rightarrow> int \<Rightarrow> int" where
  "annualAnchor loc year expiry =
     (case civil_date loc expiry of (_, expiryMonth, expiryDay) \<Rightarrow>
        let maximum = daysInMonth loc year expiryMonth;
            day = (if expiryDay > maximum then maximum else expiryDay)
        in go_date loc year expiryMonth day (clock_seconds loc expiry))"

definition CalculateNextTrafficReset ::
    "location \<Rightarrow> int option \<Rightarrow> int \<Rightarrow> int option \<Rightarrow> instant \<Rightarrow> int option" where
  "CalculateNextTrafficReset loc planMethod systemMethod expiresAt now =
     (case expiresAt of None \<Rightarrow> None
      | Some expiry \<Rightarrow>
          let method = (case planMethod of None \<Rightarrow> systemMethod | Some m \<Rightarrow> m) in
          if method < 0 \<or> method > 4 \<or> method = 2 then None
          else
            (case civil_date loc (unix now) of (year, month, _) \<Rightarrow>
               if method = 0 then Some (go_date loc year (month + 1) 1 0)
               else if method = 1 then
                 (let anchor = calendarAnchor loc year month expiry in
                  if \<not> now < from_unix anchor then
                    (case civil_date loc (go_date loc year (month + 1) 1 0) of (ny, nm, _) \<Rightarrow>
                       Some (calendarAnchor loc ny nm expiry))
                  else Some anchor)
               else if method = 3 then Some (go_date loc (year + 1) 1 1 0)
               else
                 (let anchor = annualAnchor loc year expiry in
                  if \<not> now < from_unix anchor then Some (annualAnchor loc (year + 1) expiry)
                  else Some anchor)))"

section \<open>Dates round trip\<close>

lemma civil_from_days_unique:
  assumes "1 \<le> d" and "d \<le> days_in_month (k div 12) (k mod 12 + 1)"
  shows "civil_from_days (month_start k + (d - 1)) = (k div 12, k mod 12 + 1, d)"
proof -
  obtain y m e where c: "civil_from_days (month_start k + (d - 1)) = (y, m, e)" by (metis prod_cases3)
  note cc = civil_from_days_correct [OF c]
  define l where "l = 12 * y + (m - 1)"
  have l: "l div 12 = y" "l mod 12 = m - 1"
    using cc(2,3) by (simp_all add: l_def int_div_pos_eq int_mod_pos_eq)
  have eq: "month_start l + (e - 1) = month_start k + (d - 1)"
    using cc(1) month_start_civil [OF cc(2,3)] days_from_civil_day [of y m e] by (simp add: l_def)
  have e: "e \<le> days_in_month (l div 12) (l mod 12 + 1)" using cc(5) l by simp
  have "\<not> l < k"
  proof
    assume "l < k"
    then have "month_start (l + 1) \<le> month_start k" by (intro month_start_mono) simp
    then show False using eq e month_start_Suc [of l] assms(1) by simp
  qed
  moreover have "\<not> k < l"
  proof
    assume "k < l"
    then have "month_start (k + 1) \<le> month_start l" by (intro month_start_mono) simp
    then show False using eq assms month_start_Suc [of k] cc(4) by simp
  qed
  ultimately have "k = l" by simp
  then show ?thesis using c eq l by simp
qed

lemma civil_date_go_date:
  assumes fz: "fixed_from t0 off loc" and k: "k = 12 * y + (m - 1)"
    and d: "1 \<le> d" "d \<le> days_in_month (k div 12) (k mod 12 + 1)"
    and s: "0 \<le> secs" "secs < 86400"
    and ge: "t0 + off \<le> (month_start k + (d - 1)) * 86400 + secs"
  shows "civil_date loc (go_date loc y m d secs) = (k div 12, k mod 12 + 1, d)"
proof -
  have g: "go_date loc y m d secs = (month_start k + (d - 1)) * 86400 + secs - off"
    using go_date_fixed [OF fz] ge k by simp
  then have "go_date loc y m d secs + loc (go_date loc y m d secs) = (month_start k + (d - 1)) * 86400 + secs"
    using fz ge by (simp add: fixed_from_def)
  then have "civil_date loc (go_date loc y m d secs) = civil_from_days (month_start k + (d - 1))"
    using s by (simp add: civil_date_def div_add1_eq [of _ secs] del: distrib_right_numeral left_diff_distrib_numeral)
  then show ?thesis using civil_from_days_unique [OF d] by simp
qed

lemma daysInMonth_eq:
  assumes fz: "fixed_from t0 off loc" and k: "k = 12 * y + (m - 1)"
    and ge: "t0 + off \<le> month_start k * 86400"
  shows "daysInMonth loc y m = days_in_month (k div 12) (k mod 12 + 1)"
proof -
  define dm where "dm = days_in_month (k div 12) (k mod 12 + 1)"
  have dm: "28 \<le> dm" using days_in_month_bounds by (simp add: dm_def)
  have "month_start (12 * y + (m + 1 - 1)) = month_start k + dm"
    using month_start_Suc [of k] unfolding k dm_def by (simp add: add.commute)
  then have "(month_start (12 * y + (m + 1 - 1)) + (0 - 1)) * 86400 + 0
      = (month_start (12 * y + (m - 1)) + (dm - 1)) * 86400 + 0"
    by (simp add: k)
  then have "go_date loc y (m + 1) 0 0 = go_date loc y m dm 0"
    by (simp only: go_date_def)
  moreover have "civil_date loc (go_date loc y m dm 0) = (k div 12, k mod 12 + 1, dm)"
    by (rule civil_date_go_date [OF fz k]) (use dm ge in \<open>simp_all add: dm_def\<close>)
  ultimately show ?thesis by (simp add: daysInMonth_def dm_def)
qed

text \<open>Both anchors lie inside the month they are computed for.\<close>

lemma calendarAnchor_in_month:
  assumes fz: "fixed_from t0 off loc" and k: "k = 12 * y + (m - 1)"
    and ge: "t0 + off \<le> month_start k * 86400"
  shows "month_start k * 86400 \<le> calendarAnchor loc y m e + off \<and>
         calendarAnchor loc y m e + off < month_start (k + 1) * 86400"
proof -
  obtain ey em ed where c: "civil_date loc e = (ey, em, ed)" by (metis prod_cases3)
  have ed: "1 \<le> ed" using civil_date_decomp [OF c] by simp
  define dm where "dm = days_in_month (k div 12) (k mod 12 + 1)"
  define day where "day = min ed dm"
  have dm: "28 \<le> dm" using days_in_month_bounds by (simp add: dm_def)
  have day: "1 \<le> day" "day \<le> dm" using ed dm by (simp_all add: day_def)
  have cl: "0 \<le> clock_seconds loc e" "clock_seconds loc e < 86400" using clock_seconds_range by auto
  have w: "month_start k * 86400 \<le> (month_start k + (day - 1)) * 86400 + clock_seconds loc e"
    using day cl by simp
  have "calendarAnchor loc y m e = go_date loc y m day (clock_seconds loc e)"
    unfolding calendarAnchor_def c Let_def using daysInMonth_eq [OF fz k ge]
    by (simp add: dm_def day_def min_def not_less)
  also have "\<dots> = (month_start k + (day - 1)) * 86400 + clock_seconds loc e - off"
    using go_date_fixed [OF fz, of y m day "clock_seconds loc e"] w ge k by simp
  finally have a: "calendarAnchor loc y m e + off = (month_start k + (day - 1)) * 86400 + clock_seconds loc e"
    by simp
  have "month_start (k + 1) = month_start k + dm" using month_start_Suc [of k] by (simp add: dm_def)
  then show ?thesis using a w day cl by (simp add: algebra_simps)
qed

lemma annualAnchor_is_calendarAnchor:
  "annualAnchor loc year e = calendarAnchor loc year (fst (snd (civil_date loc e))) e"
  by (simp add: annualAnchor_def calendarAnchor_def split: prod.splits)

section \<open>A scheduled reset is in the future\<close>

text \<open>Where the current month lies, in the arithmetic of months.\<close>

lemma current_month:
  assumes fz: "fixed_from t0 off loc" and u: "t0 \<le> u" and c: "civil_date loc u = (y, m, d)"
  defines "k \<equiv> 12 * y + (m - 1)"
  shows "month_start k * 86400 \<le> u + off" and "u + off < month_start (k + 1) * 86400"
    and "12 * y \<le> k" and "k \<le> 12 * y + 11"
proof -
  note cd = civil_date_decomp [OF c]
  have "loc u = off" using fz u by (simp add: fixed_from_def)
  with cd(1) have eq: "u + off = (month_start k + (d - 1)) * 86400 + clock_seconds loc u"
    by (simp add: k_def)
  have "k div 12 = y" "k mod 12 + 1 = m"
    using cd(2,3) by (simp_all add: k_def int_div_pos_eq int_mod_pos_eq)
  then have "month_start (k + 1) = month_start k + days_in_month y m"
    using month_start_Suc [of k] by simp
  then show "month_start k * 86400 \<le> u + off" and "u + off < month_start (k + 1) * 86400"
    using eq cd(4,5) clock_seconds_range [of loc u] by (simp_all add: algebra_simps)
  show "12 * y \<le> k" "k \<le> 12 * y + 11" using cd(2,3) by (simp_all add: k_def)
qed

text \<open>
  The lemmas below share their first three assumptions: the zone's offset is fixed, for at least
  34560000 seconds (400 days) when the reset is computed, and the current date is known.
\<close>

lemma far_month:
  assumes fz: "fixed_from t0 off loc" and t0: "t0 + 34560000 \<le> u" and c: "civil_date loc u = (y, m, d)"
    and l: "12 * y \<le> l"
  shows "t0 + off \<le> month_start l * 86400"
proof -
  define k where "k = 12 * y + (m - 1)"
  have off: "0 \<le> off" "off < 86400" using fz by (simp_all add: fixed_from_def)
  have "t0 \<le> u" using t0 by simp
  note cm = current_month [OF fz this c, folded k_def]
  have "month_start (k + 1) \<le> month_start (12 * y) + 372"
    using month_start_diff(2) [of "12 * y" "k + 1"] cm(3,4) by simp
  then show ?thesis using month_start_mono [OF l] cm(2) t0 off by linarith
qed

lemma anchor_in_month:
  assumes "fixed_from t0 off loc" and "t0 + 34560000 \<le> u" and "civil_date loc u = (y, m, d)"
    and "12 * y \<le> 12 * a + (b - 1)"
  shows "month_start (12 * a + (b - 1)) * 86400 \<le> calendarAnchor loc a b e + off"
    and "calendarAnchor loc a b e + off < month_start (12 * a + (b - 1) + 1) * 86400"
  using calendarAnchor_in_month [OF assms(1) refl far_month [OF assms]] by auto

text \<open>A time inside one of the next 23 months is in the future and not too far.\<close>

lemma later_month_in_reach:
  assumes "fixed_from t0 off loc" and "t0 + 34560000 \<le> u" and c: "civil_date loc u = (y, m, d)"
    and x: "month_start l * 86400 \<le> x + off" "x + off < month_start (l + 1) * 86400"
    and l: "12 * y + (m - 1) < l" "l \<le> 12 * y + (m - 1) + 23"
  shows "u < x \<and> x \<le> u + 64281600"
proof -
  define k where "k = 12 * y + (m - 1)"
  have "t0 \<le> u" using assms(2) by simp
  note cm = current_month [OF assms(1) this c, folded k_def]
  have "month_start (k + 1) \<le> month_start l" "month_start (l + 1) \<le> month_start k + 31 * 24"
    using month_start_mono [of "k + 1" l] month_start_diff(2) [of k "l + 1"] l by (simp_all add: k_def)
  then show ?thesis using x cm(1,2) by linarith
qed

lemma same_year_in_reach:
  assumes "fixed_from t0 off loc" and "t0 + 34560000 \<le> u" and c: "civil_date loc u = (y, m, d)"
    and x: "x + off < month_start (l + 1) * 86400" and l: "l \<le> 12 * y + 11"
  shows "x \<le> u + 64281600"
proof -
  define k where "k = 12 * y + (m - 1)"
  have "t0 \<le> u" using assms(2) by simp
  note cm = current_month [OF assms(1) this c, folded k_def]
  have "month_start (l + 1) \<le> month_start (12 * y + 12)" "month_start (12 * y + 12) \<le> month_start k + 31 * 12"
    using month_start_mono [of "l + 1" "12 * y + 12"] month_start_diff(2) [of k "12 * y + 12"] l cm(3,4)
    by simp_all
  then show ?thesis using x cm(1) by linarith
qed

text \<open>The first of a month is in it.\<close>

lemma first_of_month:
  assumes "fixed_from t0 off loc" and "t0 + 34560000 \<le> u" and "civil_date loc u = (y, m, d)"
    and l: "l = 12 * a + (b - 1)" "12 * y \<le> l"
  shows "month_start l * 86400 \<le> go_date loc a b 1 0 + off" and "go_date loc a b 1 0 + off < month_start (l + 1) * 86400"
    and "civil_date loc (go_date loc a b 1 0) = (l div 12, l mod 12 + 1, 1)"
proof -
  note far = far_month [OF assms(1-3) l(2)]
  have g: "go_date loc a b 1 0 = month_start l * 86400 - off"
    using go_date_fixed [OF assms(1), of a b 1 0] far l(1) by simp
  show "month_start l * 86400 \<le> go_date loc a b 1 0 + off" using g by simp
  show "go_date loc a b 1 0 + off < month_start (l + 1) * 86400" using g month_start_strict_mono [of l "l + 1"] by simp
  show "civil_date loc (go_date loc a b 1 0) = (l div 12, l mod 12 + 1, 1)"
    by (rule civil_date_go_date [OF assms(1)]) (use far days_in_month_bounds l(1)
      in \<open>simp_all add: order_trans [of 1 28]\<close>)
qed

lemma civil_month_range: "1 \<le> fst (snd (civil_date loc e)) \<and> fst (snd (civil_date loc e)) \<le> 12"
  using civil_date_decomp(2,3) [of loc e] by (metis prod.collapse)

lemma monthly_reset_in_reach:
  assumes h: "fixed_from t0 off loc" "t0 + 34560000 \<le> unix now" "civil_date loc (unix now) = (y, m, d)"
    and r: "CalculateNextTrafficReset loc pm sm (Some e) now = Some n" and how: "(case pm of None \<Rightarrow> sm | Some x \<Rightarrow> x) = 1"
  shows "unix now < n \<and> n \<le> unix now + 64281600"
proof -
  define k where "k = 12 * y + (m - 1)"
  have "t0 \<le> unix now" using h(2) by simp
  note cm = current_month [OF h(1) this h(3), folded k_def]
  define a where "a = calendarAnchor loc y m e"
  show ?thesis
  proof (cases "unix now < a")
    case True
    with r how have "n = a"
      by (simp add: CalculateNextTrafficReset_def h(3) from_unix_after_iff a_def [symmetric])
    then show ?thesis
      using True anchor_in_month(2) [OF h, of y m e] same_year_in_reach [OF h, of n k] cm(3,4) by (simp add: a_def k_def)
  next
    case False
    have k1: "12 * ((k + 1) div 12) + ((k + 1) mod 12 + 1 - 1) = k + 1" by simp
    have nm: "civil_date loc (go_date loc y (m + 1) 1 0) = ((k + 1) div 12, (k + 1) mod 12 + 1, 1)"
      by (rule first_of_month(3) [OF h]) (use cm(3) in \<open>simp_all add: k_def\<close>)
    from False r how have "n = calendarAnchor loc ((k + 1) div 12) ((k + 1) mod 12 + 1) e"
      by (simp add: CalculateNextTrafficReset_def h(3) from_unix_after_iff a_def [symmetric] nm)
    then show ?thesis
      using anchor_in_month [OF h, of "(k + 1) div 12" "(k + 1) mod 12 + 1" e] later_month_in_reach [OF h, of "k + 1" n] cm(3)
      by (simp add: k1 k_def [symmetric])
  qed
qed

lemma annual_reset_in_reach:
  assumes h: "fixed_from t0 off loc" "t0 + 34560000 \<le> unix now" "civil_date loc (unix now) = (y, m, d)"
    and r: "CalculateNextTrafficReset loc pm sm (Some e) now = Some n" and how: "(case pm of None \<Rightarrow> sm | Some x \<Rightarrow> x) = 4"
  shows "unix now < n \<and> n \<le> unix now + 64281600"
proof -
  define eb where "eb = fst (snd (civil_date loc e))"
  note eb = civil_month_range [of loc e, folded eb_def]
  have "t0 \<le> unix now" using h(2) by simp
  note cm = current_month [OF h(1) this h(3)]
  define a where "a = calendarAnchor loc y eb e"
  show ?thesis
  proof (cases "unix now < a")
    case True
    with r how have "n = a"
      by (simp add: CalculateNextTrafficReset_def h(3) from_unix_after_iff
          annualAnchor_is_calendarAnchor eb_def [symmetric] a_def [symmetric])
    then show ?thesis
      using True anchor_in_month(2) [OF h, of y eb e] same_year_in_reach [OF h, of n "12 * y + (eb - 1)"] eb by (simp add: a_def)
  next
    case False
    with r how have "n = calendarAnchor loc (y + 1) eb e"
      by (simp add: CalculateNextTrafficReset_def h(3) from_unix_after_iff
          annualAnchor_is_calendarAnchor eb_def [symmetric] a_def [symmetric])
    then show ?thesis
      using anchor_in_month [OF h, of "y + 1" eb e] later_month_in_reach [OF h, of "12 * (y + 1) + (eb - 1)" n] eb cm(3,4)
      by simp
  qed
qed

lemma reset_in_future_aux:
  assumes fz: "fixed_from t0 off loc" and t0: "t0 + 34560000 \<le> unix now"
    and r: "CalculateNextTrafficReset loc pm sm (Some e) now = Some n"
  shows "unix now < n \<and> n \<le> unix now + 64281600"
proof -
  obtain y m d where c: "civil_date loc (unix now) = (y, m, d)" by (metis prod_cases3)
  note h = fz t0 c
  have "t0 \<le> unix now" using t0 by simp
  note cm = current_month [OF fz this c]
  define how where "how = (case pm of None \<Rightarrow> sm | Some x \<Rightarrow> x)"
  have "\<not> (how < 0 \<or> how > 4 \<or> how = 2)"
    using r unfolding CalculateNextTrafficReset_def by (auto simp: how_def Let_def split: if_splits)
  then consider "how = 0" | "how = 1" | "how = 3" | "how = 4" by linarith
  then show ?thesis
  proof cases
    case 1
    with r have n: "n = go_date loc y (m + 1) 1 0" by (simp add: CalculateNextTrafficReset_def how_def c)
    show ?thesis unfolding n
      by (rule later_month_in_reach [OF h first_of_month(1,2) [OF h refl]]) (use cm(3) in simp_all)
  next
    case 2
    then show ?thesis using monthly_reset_in_reach [OF h r] by (simp add: how_def)
  next
    case 3
    with r have n: "n = go_date loc (y + 1) 1 1 0" by (simp add: CalculateNextTrafficReset_def how_def c)
    show ?thesis unfolding n
      by (rule later_month_in_reach [OF h first_of_month(1,2) [OF h refl]]) (use cm(3,4) in simp_all)
  next
    case 4
    then show ?thesis using annual_reset_in_reach [OF h r] by (simp add: how_def)
  qed
qed

end
