(* ===== verification/Go_Strings.thy ===== *)
theory Go_Strings
  imports Go_Time
begin

text \<open>
  Go strings are byte sequences, here \<open>string\<close> with one \<open>char\<close> per byte, so that \<open>length\<close> is
  Go's \<^verbatim>\<open>len\<close>. The functions are those of the packages \<^verbatim>\<open>strings\<close>, \<^verbatim>\<open>unicode\<close>, \<^verbatim>\<open>unicode/utf8\<close> and
  \<^verbatim>\<open>fmt\<close> that the store calls, followed by the store's own order numbers.
\<close>

section \<open>Bytes\<close>

definition byte :: "char \<Rightarrow> nat" where
  "byte c = of_char c"

definition is_digit :: "char \<Rightarrow> bool" where
  "is_digit c \<longleftrightarrow> 48 \<le> byte c \<and> byte c \<le> 57"

definition is_lower_hex :: "char \<Rightarrow> bool" where
  "is_lower_hex c \<longleftrightarrow> is_digit c \<or> 97 \<le> byte c \<and> byte c \<le> 102"

section \<open>White space\<close>

text \<open>
  The UTF-8 encodings of the runes of \<^verbatim>\<open>unicode.IsSpace\<close>. No encoding is a prefix or a suffix of
  another one, so removing them at either end is what decoding a rune and testing it does.
\<close>

definition space_encodings :: "nat list list" where
  "space_encodings =
     [[9], [10], [11], [12], [13], [32], [194, 133], [194, 160], [225, 154, 128],
      [226, 128, 128], [226, 128, 129], [226, 128, 130], [226, 128, 131], [226, 128, 132],
      [226, 128, 133], [226, 128, 134], [226, 128, 135], [226, 128, 136], [226, 128, 137],
      [226, 128, 138], [226, 128, 168], [226, 128, 169], [226, 128, 175], [226, 129, 159],
      [227, 128, 128]]"

definition leading_space :: "string \<Rightarrow> nat option" where
  "leading_space s =
     map_option length (List.find (\<lambda>e. take (length e) (map byte s) = e) space_encodings)"

definition trailing_space :: "string \<Rightarrow> nat option" where
  "trailing_space s =
     map_option length (List.find (\<lambda>e. take (length e) (rev (map byte s)) = rev e) space_encodings)"

lemma leading_space_pos:
  assumes "leading_space s = Some n"
  shows "0 < n" and "n \<le> length s"
proof -
  from assms obtain e where e: "e \<in> set space_encodings" "take (length e) (map byte s) = e" "n = length e"
    unfolding leading_space_def by (auto dest: find_eq_Some_set)
  then show "0 < n" by (auto simp: space_encodings_def)
  have "length (take (length e) (map byte s)) = length e" using e(2) by simp
  then show "n \<le> length s" using e(3) by simp
qed

lemma trailing_space_pos:
  assumes "trailing_space s = Some n"
  shows "0 < n" and "n \<le> length s"
proof -
  from assms obtain e where e: "e \<in> set space_encodings" "take (length e) (rev (map byte s)) = rev e" "n = length e"
    unfolding trailing_space_def by (auto dest: find_eq_Some_set)
  then show "0 < n" by (auto simp: space_encodings_def)
  have "length (take (length e) (rev (map byte s))) = length (rev e)" using e(2) by simp
  then show "n \<le> length s" using e(3) by simp
qed

function trim_left :: "string \<Rightarrow> string" where
  "trim_left s = (case leading_space s of None \<Rightarrow> s | Some n \<Rightarrow> trim_left (drop n s))"
  by pat_completeness auto
termination
proof (relation "measure length", simp, goal_cases)
  case (1 s n)
  then show ?case using leading_space_pos [of s n] by simp
qed

function trim_right :: "string \<Rightarrow> string" where
  "trim_right s = (case trailing_space s of None \<Rightarrow> s | Some n \<Rightarrow> trim_right (take (length s - n) s))"
  by pat_completeness auto
termination
proof (relation "measure length", simp, goal_cases)
  case (1 s n)
  then show ?case using trailing_space_pos [of s n] by simp
qed

declare trim_left.simps [simp del] trim_right.simps [simp del]

definition TrimSpace :: "string \<Rightarrow> string" where
  "TrimSpace s = trim_right (trim_left s)"

lemma trim_left_no_space: "leading_space s = None \<Longrightarrow> trim_left s = s"
  by (simp add: trim_left.simps)

lemma trim_right_no_space: "trailing_space s = None \<Longrightarrow> trim_right s = s"
  by (simp add: trim_right.simps)

lemma trailing_space_trim_right: "trailing_space (trim_right s) = None"
proof (induction s rule: trim_right.induct)
  case (1 s)
  then show ?case by (subst trim_right.simps) (auto split: option.splits)
qed

lemma leading_space_take:
  assumes "leading_space s = None"
  shows "leading_space (take n s) = None"
proof -
  have "take (length e) (map byte (take n s)) \<noteq> e" if "e \<in> set space_encodings" for e
  proof
    assume eq: "take (length e) (map byte (take n s)) = e"
    have "length (take (length e) (map byte (take n s))) = length e" using eq by simp
    then have "length e \<le> n" by simp
    then have "take (length e) (map byte s) = e" using eq by (simp add: take_map min_def)
    then show False using assms that by (auto simp: leading_space_def find_eq_None_iff)
  qed
  then show ?thesis by (auto simp: leading_space_def find_eq_None_iff)
qed

lemma leading_space_trim_left: "leading_space (trim_left s) = None"
proof (induction s rule: trim_left.induct)
  case (1 s)
  then show ?case by (subst trim_left.simps) (auto split: option.splits)
qed

lemma leading_space_trim_right: "leading_space s = None \<Longrightarrow> leading_space (trim_right s) = None"
proof (induction s rule: trim_right.induct)
  case (1 s)
  then show ?case by (subst trim_right.simps) (auto split: option.splits simp: leading_space_take)
qed

text \<open>Trimming twice is trimming once.\<close>

lemma TrimSpace_idem: "TrimSpace (TrimSpace s) = TrimSpace s"
proof -
  have "leading_space (TrimSpace s) = None"
    unfolding TrimSpace_def by (rule leading_space_trim_right, rule leading_space_trim_left)
  moreover have "trailing_space (TrimSpace s) = None"
    unfolding TrimSpace_def by (rule trailing_space_trim_right)
  ultimately show ?thesis
    unfolding TrimSpace_def [of "TrimSpace s"] by (simp add: trim_left_no_space trim_right_no_space)
qed

section \<open>UTF-8\<close>

fun utf8_bytes_valid :: "nat list \<Rightarrow> bool" where
  "utf8_bytes_valid [] = True"
| "utf8_bytes_valid (a # bs) =
     (if a < 128 then utf8_bytes_valid bs
      else if 194 \<le> a \<and> a \<le> 223 then
        (case bs of b # r \<Rightarrow> 128 \<le> b \<and> b \<le> 191 \<and> utf8_bytes_valid r | [] \<Rightarrow> False)
      else if 224 \<le> a \<and> a \<le> 239 then
        (case bs of b # c # r \<Rightarrow>
             (if a = 224 then 160 else 128) \<le> b \<and> b \<le> (if a = 237 then 159 else 191)
             \<and> 128 \<le> c \<and> c \<le> 191 \<and> utf8_bytes_valid r
         | _ \<Rightarrow> False)
      else if 240 \<le> a \<and> a \<le> 244 then
        (case bs of b # c # d # r \<Rightarrow>
             (if a = 240 then 144 else 128) \<le> b \<and> b \<le> (if a = 244 then 143 else 191)
             \<and> 128 \<le> c \<and> c \<le> 191 \<and> 128 \<le> d \<and> d \<le> 191 \<and> utf8_bytes_valid r
         | _ \<Rightarrow> False)
      else False)"

definition ValidString :: "string \<Rightarrow> bool" where
  "ValidString s = utf8_bytes_valid (map byte s)"

text \<open>
  \<^verbatim>\<open>strings.IndexFunc(s, unicode.IsControl) >= 0\<close> on valid UTF-8: a control rune is an ASCII
  control, DEL, or one of U+0080..U+009F, which are encoded with the lead byte 194.
\<close>

fun has_control_bytes :: "nat list \<Rightarrow> bool" where
  "has_control_bytes [] = False"
| "has_control_bytes (a # bs) =
     (a < 32 \<or> a = 127 \<or> (a = 194 \<and> (case bs of b # _ \<Rightarrow> 128 \<le> b \<and> b \<le> 159 | [] \<Rightarrow> False))
      \<or> has_control_bytes bs)"

definition has_control :: "string \<Rightarrow> bool" where
  "has_control s = has_control_bytes (map byte s)"

section \<open>Letter case\<close>

text \<open>
  \<^verbatim>\<open>strings.ToUpper\<close> and \<^verbatim>\<open>strings.ToLower\<close> map the letters of an ASCII string; on other strings
  they follow the Unicode tables, which are the argument \<open>uni\<close>. \<open>nocase_eq\<close> is the
  \<^verbatim>\<open>NOCASE\<close> collation, which folds ASCII letters only.
\<close>

definition ascii_upper :: "char \<Rightarrow> char" where
  "ascii_upper ch = (if 97 \<le> byte ch \<and> byte ch \<le> 122 then char_of (byte ch - 32) else ch)"

definition ascii_lower :: "char \<Rightarrow> char" where
  "ascii_lower ch = (if 65 \<le> byte ch \<and> byte ch \<le> 90 then char_of (byte ch + 32) else ch)"

definition ToUpper :: "(string \<Rightarrow> string) \<Rightarrow> string \<Rightarrow> string" where
  "ToUpper uni s = (if list_all (\<lambda>ch. byte ch < 128) s then map ascii_upper s else uni s)"

definition ToLower :: "(string \<Rightarrow> string) \<Rightarrow> string \<Rightarrow> string" where
  "ToLower uni s = (if list_all (\<lambda>ch. byte ch < 128) s then map ascii_lower s else uni s)"

definition nocase_eq :: "string \<Rightarrow> string \<Rightarrow> bool" where
  "nocase_eq a b \<longleftrightarrow> map ascii_lower a = map ascii_lower b"

section \<open>Decimal output\<close>

fun dec_digits :: "nat \<Rightarrow> nat \<Rightarrow> string" where
  "dec_digits 0 n = []"
| "dec_digits (Suc w) n = dec_digits w (n div 10) @ [char_of (48 + n mod 10)]"

fun decimal :: "nat \<Rightarrow> string" where
  "decimal n = (if n < 10 then [char_of (48 + n)] else decimal (n div 10) @ [char_of (48 + n mod 10)])"

declare decimal.simps [simp del]

text \<open>\<^verbatim>\<open>%0wd\<close>: at least \<open>w\<close> digits, and more when the number needs them.\<close>

definition zero_pad :: "nat \<Rightarrow> nat \<Rightarrow> string" where
  "zero_pad w n = (if n < 10 ^ w then dec_digits w n else decimal n)"

lemma length_dec_digits [simp]: "length (dec_digits w n) = w"
  by (induction w arbitrary: n) auto

lemma is_digit_char_of: "(d::nat) < 10 \<Longrightarrow> is_digit (char_of (48 + d))"
  by (simp add: is_digit_def byte_def)

lemma dec_digits_are_digits: "list_all is_digit (dec_digits w n)"
  by (induction w arbitrary: n) (auto simp: is_digit_char_of)

lemma length_zero_pad: "n < 10 ^ w \<Longrightarrow> length (zero_pad w n) = w"
  by (simp add: zero_pad_def)

lemma decimal_are_digits: "list_all is_digit (decimal n)"
proof (induction n rule: decimal.induct)
  case (1 n)
  then show ?case by (subst decimal.simps) (auto simp: is_digit_char_of)
qed

lemma zero_pad_are_digits: "list_all is_digit (zero_pad w n)"
  by (simp add: zero_pad_def dec_digits_are_digits decimal_are_digits)

fun parse_digits :: "nat \<Rightarrow> string \<Rightarrow> nat" where
  "parse_digits acc [] = acc"
| "parse_digits acc (c # cs) = parse_digits (10 * acc + (byte c - 48)) cs"

lemma parse_digits_append: "parse_digits acc (xs @ ys) = parse_digits (parse_digits acc xs) ys"
  by (induction xs arbitrary: acc) auto

text \<open>Reading a zero-padded number back gives the number: nothing is lost in the width.\<close>

lemma parse_dec_digits: "n < 10 ^ w \<Longrightarrow> parse_digits 0 (dec_digits w n) = n"
proof (induction w arbitrary: n)
  case 0
  then show ?case by simp
next
  case (Suc w)
  have "n div 10 < 10 ^ w" using Suc.prems by (simp add: less_mult_imp_div_less mult.commute)
  moreover have "byte (char_of (48 + n mod 10)) - 48 = n mod 10" by (simp add: byte_def)
  ultimately show ?case using Suc.IH [of "n div 10"] by (simp add: parse_digits_append)
qed

section \<open>Order numbers\<close>

definition validTradeNo :: "string \<Rightarrow> bool" where
  "validTradeNo value =
     (if length value = 25 then list_all is_digit value
      else if length value = 32 then list_all is_lower_hex value
      else False)"

definition newOrderTradeNo :: "location \<Rightarrow> instant \<Rightarrow> nat \<Rightarrow> string" where
  "newOrderTradeNo loc now random =
     (case civil_date loc (unix now) of (y, m, d) \<Rightarrow>
        let s = clock_seconds loc (unix now) in
        zero_pad 4 (nat y) @ zero_pad 2 (nat m) @ zero_pad 2 (nat d)
        @ zero_pad 2 (nat (s div 3600)) @ zero_pad 2 (nat (s div 60 mod 60)) @ zero_pad 2 (nat (s mod 60))
        @ zero_pad 11 random)"

definition hex_digit :: "nat \<Rightarrow> char" where
  "hex_digit n = (if n < 10 then char_of (48 + n) else char_of (87 + n))"

definition EncodeToString :: "nat list \<Rightarrow> string" where
  "EncodeToString bytes = concat (map (\<lambda>b. [hex_digit (b div 16), hex_digit (b mod 16)]) bytes)"

definition newAssignedOrderTradeNo :: "nat list \<Rightarrow> string" where
  "newAssignedOrderTradeNo value = EncodeToString value"

lemma newOrderTradeNo_digits:
  assumes "civil_date loc (unix now) = (y, m, d)" and "y < 10000" and "random < 10 ^ 11"
  shows "length (newOrderTradeNo loc now random) = 25"
    and "list_all is_digit (newOrderTradeNo loc now random)"
proof -
  note c = civil_date_decomp [OF assms(1)]
  define s where "s = clock_seconds loc (unix now)"
  have s: "0 \<le> s" "s < 86400" using clock_seconds_range [of loc "unix now"] by (simp_all add: s_def)
  have d: "d \<le> 31" using c(5) days_in_month_bounds [of y m] by linarith
  have "nat y < 10 ^ 4" "nat m < 10 ^ 2" "nat d < 10 ^ 2" "nat (s div 3600) < 10 ^ 2"
    "nat (s div 60 mod 60) < 10 ^ 2" "nat (s mod 60) < 10 ^ 2"
    using assms(2) c(3) d s pos_mod_bound [of 60 "s div 60"] pos_mod_bound [of 60 s] by simp_all
  then show "length (newOrderTradeNo loc now random) = 25"
    using assms(3) unfolding newOrderTradeNo_def assms(1) prod.case Let_def s_def [symmetric]
    by (simp only: length_append length_zero_pad)
  show "list_all is_digit (newOrderTradeNo loc now random)"
    unfolding newOrderTradeNo_def assms(1) prod.case Let_def by (simp add: zero_pad_are_digits)
qed

lemma newOrderTradeNo_valid:
  assumes "civil_date loc (unix now) = (y, m, d)" and "y < 10000" and "random < 10 ^ 11"
  shows "validTradeNo (newOrderTradeNo loc now random)"
  unfolding validTradeNo_def using newOrderTradeNo_digits [OF assms] by simp

lemma hex_digit_lower: "n < 16 \<Longrightarrow> is_lower_hex (hex_digit n)"
  by (auto simp: is_lower_hex_def is_digit_def hex_digit_def byte_def)

lemma length_EncodeToString [simp]: "length (EncodeToString bs) = 2 * length bs"
  by (induction bs) (auto simp: EncodeToString_def)

lemma EncodeToString_hex: "list_all (\<lambda>b. b < 256) bs \<Longrightarrow> list_all is_lower_hex (EncodeToString bs)"
  by (induction bs) (auto simp: EncodeToString_def intro: hex_digit_lower)

lemma newAssignedOrderTradeNo_valid:
  "length value = 16 \<Longrightarrow> list_all (\<lambda>b. b < 256) value \<Longrightarrow> validTradeNo (newAssignedOrderTradeNo value)"
  by (simp add: newAssignedOrderTradeNo_def validTradeNo_def EncodeToString_hex)

end
