(* ===== verification/Gift_Rows.thy ===== *)
theory Gift_Rows
  imports Go_Strings
begin

text \<open>
  The data of gift cards (\<^verbatim>\<open>internal/store/gift_cards.go\<close>, \<^verbatim>\<open>gift_card_purchase.go\<close>): rewards, conditions,
  limits, the rows of the three tables, and the JSON text of the columns that hold them. The
  columns hold the decoded values; the text is needed for the bounds on its length.
\<close>

section \<open>Rewards and rules\<close>

datatype gift_card_type = GiftCardTypeGeneral | GiftCardTypePlan | GiftCardTypeMystery | GiftCardTypePurchase

datatype gift_code_status = GiftCardCodeActive | GiftCardCodeUsed | GiftCardCodeDisabled | GiftCardCodeExpired

record gift_purchase_snapshot =
  gs_plan_id :: int
  gs_plan_name :: string
  gs_period :: string
  gs_transfer_enable :: int
  gs_group_id :: "int option"
  gs_speed_limit :: int
  gs_device_limit :: int
  gs_reset_method :: int

text \<open>A reward may hold a pool of weighted rewards (\<^verbatim>\<open>GiftCardRandomReward\<close>), so it is a datatype.\<close>

datatype gift_reward = GiftReward
  (gr_purchase_period: string)
  (gr_purchase_snapshot: "gift_purchase_snapshot option")
  (gr_balance: int)
  (gr_transfer_enable: int)
  (gr_expire_days: int)
  (gr_device_limit: int)
  (gr_reset_traffic: bool)
  (gr_plan_id: "int option")
  (gr_plan_validity_days: int)
  (gr_random_rewards: "(int \<times> gift_reward) list")

definition no_reward :: gift_reward where
  "no_reward = GiftReward [] None 0 0 0 0 False None 0 []"

record gift_conditions =
  gcd_new_user_max_days :: "int option"
  gcd_new_user_only :: bool
  gcd_paid_user_only :: bool
  gcd_require_invite :: bool
  gcd_allowed_plan_ids :: "int list"
  gcd_disallowed_plan_ids :: "int list"

record gift_limits =
  gl_max_use_per_user :: int
  gl_cooldown_hours :: int
  gl_invite_reward_basis_points :: int

record gift_special =
  gsp_started_at :: "instant option"
  gsp_ended_at :: "instant option"
  gsp_festival_multiplier :: int

section \<open>Rows\<close>

record gift_template =
  gt_id :: int
  gt_name :: string
  gt_description :: string
  gt_type :: gift_card_type
  gt_status :: bool
  gt_conditions :: gift_conditions
  gt_rewards :: gift_reward
  gt_limits :: gift_limits
  gt_special :: gift_special
  gt_icon :: string
  gt_background_image :: string
  gt_theme :: string
  gt_sort_position :: int
  gt_admin_id :: int
  gt_revision :: int
  gt_created_at :: int
  gt_updated_at :: int

record gift_code =
  gc_id :: int
  gc_template_id :: int
  gc_code :: string
  gc_batch_no :: string
  gc_status :: gift_code_status
  gc_user_id :: "int option"
  gc_used_at :: "int option"
  gc_expires_at :: "int option"
  gc_actual_rewards :: "gift_reward option"
  gc_usage_count :: int
  gc_max_usage :: int
  gc_purchase_snapshot :: "gift_purchase_snapshot option"
  gc_created_at :: int
  gc_updated_at :: int

record gift_usage =
  gu_id :: int
  gu_code_id :: int
  gu_template_id :: int
  gu_user_id :: int
  gu_inviter_id :: "int option"
  gu_rewards :: gift_reward
  gu_inviter_rewards :: gift_reward
  gu_user_level_at_use :: "int option"
  gu_user_plan_id :: "int option"
  gu_multiplier :: int
  gu_ip_address :: string
  gu_user_agent :: string
  gu_traffic_reset_upload_before :: "int option"
  gu_traffic_reset_download_before :: "int option"
  gu_used_at :: int

section \<open>JSON text\<close>

fun json_join :: "string list \<Rightarrow> string" where
  "json_join [] = []"
| "json_join [x] = x"
| "json_join (x # xs) = x @ '','' @ json_join xs"

definition json_int :: "int \<Rightarrow> string" where
  "json_int x = (if x < 0 then ''-'' @ decimal (nat (- x)) else decimal (nat x))"

text \<open>The text \<^verbatim>\<open>json.Marshal\<close> gives for a list of integers.\<close>

definition json_ints :: "int list \<Rightarrow> string" where
  "json_ints xs = ''['' @ json_join (map json_int xs) @ '']''"

text \<open>
  A string that is valid UTF-8: quotes, backslashes, control characters, the three characters
  that matter in HTML, and the runes U+2028 and U+2029 are escaped.
\<close>

definition json_u :: "nat \<Rightarrow> string" where
  "json_u b = [CHR 0x5C, CHR ''u'', CHR ''0'', CHR ''0'', hex_digit (b div 16), hex_digit (b mod 16)]"

fun json_escape :: "nat list \<Rightarrow> string" where
  "json_escape [] = []"
| "json_escape (b # bs) =
     (if b = 226 \<and> (take 2 bs = [128, 168] \<or> take 2 bs = [128, 169])
      then [CHR 0x5C, CHR ''u'', CHR ''2'', CHR ''0'', CHR ''2'', if take 2 bs = [128, 168] then CHR ''8'' else CHR ''9'']
           @ json_escape (drop 2 bs)
      else if b = 34 \<or> b = 92 then [CHR 0x5C, char_of b] @ json_escape bs
      else if b = 8 then [CHR 0x5C, CHR ''b''] @ json_escape bs
      else if b = 9 then [CHR 0x5C, CHR ''t''] @ json_escape bs
      else if b = 10 then [CHR 0x5C, CHR ''n''] @ json_escape bs
      else if b = 12 then [CHR 0x5C, CHR ''f''] @ json_escape bs
      else if b = 13 then [CHR 0x5C, CHR ''r''] @ json_escape bs
      else if b < 32 \<or> b = 38 \<or> b = 60 \<or> b = 62 then json_u b @ json_escape bs
      else char_of b # json_escape bs)"

definition json_string :: "string \<Rightarrow> string" where
  "json_string s = [CHR 0x22] @ json_escape (map byte s) @ [CHR 0x22]"

definition json_opt :: "int option \<Rightarrow> string" where
  "json_opt m = (case m of None \<Rightarrow> ''null'' | Some x \<Rightarrow> json_int x)"

text \<open>An object from its fields in order; a field that \<^verbatim>\<open>omitempty\<close> drops is absent.\<close>

definition json_object :: "(string \<times> string) option list \<Rightarrow> string" where
  "json_object fs =
     [CHR ''{''] @ json_join (map (\<lambda>(k, v). json_string k @ '':'' @ v) (map the (filter (\<lambda>x. x \<noteq> None) fs))) @ [CHR ''}'']"

definition field :: "string \<Rightarrow> string \<Rightarrow> (string \<times> string) option" where
  "field k v = Some (k, v)"

definition int_field :: "string \<Rightarrow> int \<Rightarrow> (string \<times> string) option" where
  "int_field k x = (if x = 0 then None else Some (k, json_int x))"

definition bool_field :: "string \<Rightarrow> bool \<Rightarrow> (string \<times> string) option" where
  "bool_field k b = (if b then Some (k, ''true'') else None)"

definition opt_field :: "string \<Rightarrow> ('a \<Rightarrow> string) \<Rightarrow> 'a option \<Rightarrow> (string \<times> string) option" where
  "opt_field k enc m = map_option (\<lambda>x. (k, enc x)) m"

definition list_field :: "string \<Rightarrow> string list \<Rightarrow> (string \<times> string) option" where
  "list_field k xs = (if xs = [] then None else Some (k, ''['' @ json_join xs @ '']''))"

definition json_snapshot :: "gift_purchase_snapshot \<Rightarrow> string" where
  "json_snapshot s = json_object
     [field ''plan_id'' (json_int (gs_plan_id s)), field ''plan_name'' (json_string (gs_plan_name s)),
      field ''period'' (json_string (gs_period s)), field ''transfer_enable'' (json_int (gs_transfer_enable s)),
      field ''group_id'' (json_opt (gs_group_id s)), field ''speed_limit'' (json_int (gs_speed_limit s)),
      field ''device_limit'' (json_int (gs_device_limit s)), field ''reset_method'' (json_int (gs_reset_method s))]"

primrec json_reward :: "gift_reward \<Rightarrow> string" where
  "json_reward (GiftReward period snapshot balance transfer days devices reset plan validity pool) = json_object
     [if period = [] then None else field ''purchase_period'' (json_string period),
      opt_field ''purchase_snapshot'' json_snapshot snapshot, int_field ''balance'' balance,
      int_field ''transfer_enable'' transfer, int_field ''expire_days'' days, int_field ''device_limit'' devices,
      bool_field ''reset_package'' reset, opt_field ''plan_id'' json_int plan, int_field ''plan_validity_days'' validity,
      list_field ''random_rewards'' (map (\<lambda>(w, text). json_object [field ''weight'' (json_int w), field ''rewards'' text])
        (map (map_prod id json_reward) pool))]"

definition json_conditions :: "gift_conditions \<Rightarrow> string" where
  "json_conditions c = json_object
     [opt_field ''new_user_max_days'' json_int (gcd_new_user_max_days c), bool_field ''new_user_only'' (gcd_new_user_only c),
      bool_field ''paid_user_only'' (gcd_paid_user_only c), bool_field ''require_invite'' (gcd_require_invite c),
      list_field ''allowed_plans'' (map json_int (gcd_allowed_plan_ids c)),
      list_field ''disallowed_plans'' (map json_int (gcd_disallowed_plan_ids c))]"

definition json_limits :: "gift_limits \<Rightarrow> string" where
  "json_limits l = json_object
     [int_field ''max_use_per_user'' (gl_max_use_per_user l), int_field ''cooldown_hours'' (gl_cooldown_hours l),
      int_field ''invite_reward_basis_points'' (gl_invite_reward_basis_points l)]"

text \<open>\<^verbatim>\<open>Time.MarshalJSON\<close> of a time in UTC: RFC 3339 with the fraction its digits need; years beyond 9999 fail.\<close>

definition json_fraction :: "nat \<Rightarrow> string" where
  "json_fraction ns = (if ns = 0 then [] else ''.'' @ rev (dropWhile (\<lambda>ch. ch = CHR ''0'') (rev (zero_pad 9 ns))))"

definition json_time :: "instant \<Rightarrow> string option" where
  "json_time t =
     (case civil_date (\<lambda>_. 0) (unix t) of (y, m, d) \<Rightarrow>
        let s = clock_seconds (\<lambda>_. 0) (unix t) in
        if y < 0 \<or> y > 9999 then None else
        Some ([CHR 0x22] @ zero_pad 4 (nat y) @ ''-'' @ zero_pad 2 (nat m) @ ''-'' @ zero_pad 2 (nat d) @ ''T''
          @ zero_pad 2 (nat (s div 3600)) @ '':'' @ zero_pad 2 (nat (s div 60 mod 60)) @ '':'' @ zero_pad 2 (nat (s mod 60))
          @ json_fraction (nat (t mod 1000000000)) @ ''Z'' @ [CHR 0x22]))"

definition json_special :: "gift_special \<Rightarrow> string option" where
  "json_special s =
     (let time = (\<lambda>m. case m of None \<Rightarrow> Some None | Some t \<Rightarrow> map_option Some (json_time t)) in
      case time (gsp_started_at s) of None \<Rightarrow> None
      | Some started \<Rightarrow> (case time (gsp_ended_at s) of None \<Rightarrow> None
         | Some ended \<Rightarrow> Some (json_object
             [opt_field ''started_at'' id started, opt_field ''ended_at'' id ended,
              int_field ''festival_multiplier_basis_points'' (gsp_festival_multiplier s)])))"

end
