(* ===== verification/Store_Schema.thy ===== *)
theory Store_Schema
  imports Gift_Rows
begin

text \<open>
  The database of \<^verbatim>\<open>internal/store\<close>: the rows of the tables the modelled operations use
  (\<^verbatim>\<open>sqlite.go\<close>, \<^verbatim>\<open>models.go\<close>), the \<^verbatim>\<open>CHECK\<close>, \<^verbatim>\<open>UNIQUE\<close>, foreign-key and trigger constraints of
  their schema, and the statements that write them. A statement whose result breaks a
  constraint fails with \<open>ErrDatabase\<close>; that is the only way a statement fails here, and a
  transaction whose value is an error leaves the database as it was. Times in rows are Unix
  seconds, as the columns hold them; JSON columns hold the decoded value.
\<close>

section \<open>Errors\<close>

datatype store_error =
    ErrInvalidInput | ErrNotFound | ErrConflict | ErrRevisionConflict
  | ErrActiveOrderExists | ErrOrderState | ErrPlanUnavailable
  | ErrCouponInvalid | ErrCouponNotStarted | ErrCouponExpired | ErrCouponExhausted
  | ErrCouponPlanRestricted | ErrCouponPeriodRestricted | ErrCouponUserLimit | ErrCouponReferenced
  | ErrPaymentUnavailable | ErrPaymentInProgress | ErrPaymentMismatch
  | ErrGiftPurchaseConversion | ErrRefundBalanceLimit
  | ErrInsufficientCommission | ErrCommissionCycle | ErrCommissionBalanceLimit
  | ErrCommissionWithdrawalState | ErrCommissionWithdrawalReplay
  | ErrGiftCardReferenced | ErrGiftCardUnavailable | ErrGiftCardExpired | ErrGiftCardExhausted
  | ErrGiftCardCondition | ErrGiftCardActivePlan | ErrGiftCardUserLimit | ErrGiftCardCooldown
  | ErrGiftPurchasePlan | ErrGiftPurchaseMode | ErrGiftPurchasePending
  | ErrOpenTicketExists | ErrTicketClosed | ErrTicketReplyPending | ErrTicketMessageLimit
  | ErrCommissionWithdrawalDisabled | ErrCommissionWithdrawalMethodUnsupported | ErrCommissionWithdrawalBelowLimit
  | ErrNodeNotLinked | ErrSurplusOverflow | ErrInternal | ErrDatabase

section \<open>Rows\<close>

datatype account_kind = AccountKindHuman | AccountKindInternalSubscription

record user =
  u_id :: int
  u_email :: string
  u_uuid :: "string option"
  u_is_admin :: bool
  u_is_distributor :: bool
  u_banned :: bool
  u_account_kind :: account_kind
  u_plan_id :: "int option"
  u_group_id :: "int option"
  u_expired_at :: "int option"
  u_balance :: int
  u_discount :: "int option"
  u_invite_user_id :: "int option"
  u_transfer_enable :: int
  u_traffic_u :: int
  u_traffic_d :: int
  u_speed_limit :: int
  u_device_limit :: int
  u_next_reset_at :: "int option"
  u_last_reset_at :: "int option"
  u_reset_count :: int
  u_commission_type :: int
  u_commission_rate :: "int option"
  u_commission_balance :: int
  u_admin_revision :: int
  u_created_at :: int
  u_updated_at :: int

record plan =
  p_id :: int
  p_group_id :: "int option"
  p_transfer_enable_gib :: int
  p_name :: string
  p_speed_limit :: "int option"
  p_show :: bool
  p_sort_position :: int
  p_renew :: bool
  p_content :: string
  p_reset_traffic_method :: "int option"
  p_capacity_limit :: "int option"
  p_prices :: "(string \<times> int) list"
  p_sell :: bool
  p_device_limit :: "int option"
  p_tags :: "string list"
  p_distributor_hwid_limit :: int
  p_revision :: int
  p_created_at :: int
  p_updated_at :: int
  p_customer_visibility :: string
  p_distributor_visibility :: string

datatype order_status =
  OrderStatusPending | OrderStatusProcessing | OrderStatusCancelled | OrderStatusCompleted | OrderStatusDiscounted

datatype order_type =
  OrderTypeNew | OrderTypeRenewal | OrderTypeUpgrade | OrderTypeResetTraffic

record order =
  o_id :: int
  o_user_id :: int
  o_plan_id :: int
  o_payment_id :: "int option"
  o_period :: string
  o_trade_no :: string
  o_original_amount :: int
  o_total_amount :: int
  o_handling_amount :: "int option"
  o_balance_amount :: int
  o_surplus_credit :: int
  o_surplus_amount :: int
  o_type :: order_type
  o_status :: order_status
  o_surplus_order_ids :: "int list"
  o_coupon_id :: "int option"
  o_commission_status :: int
  o_invite_user_id :: "int option"
  o_actual_commission_balance :: "int option"
  o_commission_rate :: "int option"
  o_commission_balance :: int
  o_discount_amount :: int
  o_paid_at :: "int option"
  o_callback_no :: "string option"
  o_entitlement_before :: "int option"
  o_entitlement_after :: "int option"
  o_source :: string
  o_gift_card_code_id :: "int option"
  o_purchase_snapshot :: "gift_purchase_snapshot option"
  o_created_at :: int
  o_updated_at :: int

datatype coupon_type = CouponTypeFixed | CouponTypePercentage

record coupon =
  c_id :: int
  c_code :: string
  c_name :: string
  c_type :: coupon_type
  c_value :: int
  c_show :: bool
  c_limit_use :: "int option"
  c_limit_use_with_user :: "int option"
  c_limit_plan_ids :: "int list"
  c_limit_periods :: "string list"
  c_started_at :: int
  c_ended_at :: int
  c_created_at :: int
  c_updated_at :: int

record payment =
  pay_id :: int
  pay_provider :: string
  pay_name :: string
  pay_enabled :: bool
  pay_handling_fee_fixed :: int
  pay_handling_fee_basis_points :: int

datatype checkout_status = PaymentCheckoutCreating | PaymentCheckoutCreated | PaymentCheckoutFailed

record attempt =
  a_id :: int
  a_order_id :: int
  a_payment_id :: int
  a_idempotency_key :: string
  a_expected_amount :: int
  a_currency :: string
  a_status :: checkout_status
  a_external_id :: "string option"
  a_response_type :: "int option"
  a_response_data :: "string option"
  a_error_code :: "string option"
  a_created_at :: int
  a_updated_at :: int

record receipt =
  rc_payment_id :: int
  rc_order_id :: int
  rc_provider :: string
  rc_external_id :: string
  rc_trade_no :: string
  rc_amount :: int
  rc_currency :: string
  rc_payload_sha256 :: string
  rc_received_at :: int

record settings =
  s_traffic_reset_method :: int
  s_plan_change_enable :: bool
  s_surplus_enable :: bool
  s_new_order_event_id :: int
  s_renew_order_event_id :: int
  s_change_order_event_id :: int
  s_commission_first_time_enable :: bool
  s_invite_commission :: int
  s_coupon_enabled :: bool
  s_commission_auto_check_enable :: bool
  s_withdraw_close_enable :: bool
  s_commission_distribution_enable :: bool
  s_commission_distribution_l1 :: int
  s_commission_distribution_l2 :: int
  s_commission_distribution_l3 :: int
  s_try_out_plan_id :: int

text \<open>The twelve facts of a user's entitlement that \<^verbatim>\<open>marshalEntitlementSnapshot\<close> records.\<close>

record snapshot =
  sn_plan_id :: "int option"
  sn_group_id :: "int option"
  sn_transfer_enable :: int
  sn_traffic_u :: int
  sn_traffic_d :: int
  sn_expired_at :: "int option"
  sn_speed_limit :: int
  sn_device_limit :: int
  sn_next_reset_at :: "int option"
  sn_last_reset_at :: "int option"
  sn_reset_count :: int
  sn_balance :: int

record entitlement_event =
  ev_order_id :: int
  ev_user_id :: int
  ev_type :: string
  ev_before :: snapshot
  ev_after :: snapshot
  ev_applied_at :: int

record quarantine =
  q_kind :: string
  q_entity_id :: int
  q_reason :: string
  q_attempts :: int
  q_first_failed_at :: int
  q_last_failed_at :: int
  q_retry_after :: int

record commission_log =
  cl_order_id :: int
  cl_invite_user_id :: int
  cl_user_id :: int
  cl_trade_no :: string
  cl_order_amount :: int
  cl_get_amount :: int
  cl_created_at :: int

record reset_log =
  rl_user_id :: int
  rl_plan_id :: "int option"
  rl_scheduled_for :: int
  rl_reset_at :: int
  rl_upload_before :: int
  rl_download_before :: int
  rl_reset_count :: int
  rl_reset_method :: int

record db =
  db_users :: "user list"
  db_plans :: "plan list"
  db_orders :: "order list"
  db_coupons :: "coupon list"
  db_payments :: "payment list"
  db_attempts :: "attempt list"
  db_receipts :: "receipt list"
  db_settings :: settings
  db_plugins :: "(string \<times> bool) list"
  db_groups :: "int list"
  db_visibility :: "(int \<times> string \<times> int) list"
  db_events :: "entitlement_event list"
  db_quarantine :: "quarantine list"
  db_commission_logs :: "commission_log list"
  db_reset_logs :: "reset_log list"
  db_gift_templates :: "gift_template list"
  db_gift_codes :: "gift_code list"
  db_gift_usages :: "gift_usage list"
  db_deactivated :: "int list"
  db_order_seq :: int
  db_plan_seq :: int
  db_coupon_seq :: int
  db_attempt_seq :: int
  db_gift_template_seq :: int
  db_gift_code_seq :: int
  db_gift_usage_seq :: int


section \<open>Constraints\<close>

text \<open>The bound of every amount of money, in cents (\<^verbatim>\<open>maxOrderMoneyCents\<close>, orders.go).\<close>

definition maxOrderMoneyCents :: int where
  "maxOrderMoneyCents = 9000000000000000"

definition money :: "int \<Rightarrow> bool" where
  "money x \<longleftrightarrow> 0 \<le> x \<and> x \<le> maxOrderMoneyCents"

definition opt_all :: "('a \<Rightarrow> bool) \<Rightarrow> 'a option \<Rightarrow> bool" where
  "opt_all p m = (case m of None \<Rightarrow> True | Some x \<Rightarrow> p x)"

lemma opt_all_simps [simp]: "opt_all p None" "opt_all p (Some x) = p x"
  by (simp_all add: opt_all_def)

definition user_ok :: "user \<Rightarrow> bool" where
  "user_ok u \<longleftrightarrow>
     0 \<le> u_transfer_enable u \<and> 0 \<le> u_traffic_u u \<and> 0 \<le> u_traffic_d u \<and>
     u_traffic_u u \<le> max_i64 - u_traffic_d u \<and>
     0 \<le> u_speed_limit u \<and> 0 \<le> u_device_limit u \<and> 0 \<le> u_reset_count u \<and>
     opt_all (\<lambda>t. 0 \<le> t) (u_next_reset_at u) \<and> opt_all (\<lambda>t. 0 \<le> t) (u_last_reset_at u) \<and>
     money (u_balance u) \<and> money (u_commission_balance u) \<and>
     opt_all (\<lambda>r. 0 \<le> r \<and> r \<le> 100) (u_discount u) \<and>
     0 \<le> u_commission_type u \<and> u_commission_type u \<le> 2 \<and>
     opt_all (\<lambda>r. 0 \<le> r \<and> r \<le> 100) (u_commission_rate u) \<and> 0 < u_admin_revision u"

definition user_refs :: "db \<Rightarrow> user \<Rightarrow> bool" where
  "user_refs d u \<longleftrightarrow>
     opt_all (\<lambda>p. p \<in> set (map p_id (db_plans d))) (u_plan_id u) \<and>
     opt_all (\<lambda>g. g \<in> set (db_groups d)) (u_group_id u)"

definition orderPeriods :: "string list" where
  "orderPeriods = [''monthly'', ''quarterly'', ''half_yearly'', ''yearly'', ''two_yearly'',
                   ''three_yearly'', ''onetime'', ''reset_traffic'']"

definition order_active :: "order \<Rightarrow> bool" where
  "order_active ord \<longleftrightarrow> o_status ord \<in> {OrderStatusPending, OrderStatusProcessing}"

definition order_ok :: "order \<Rightarrow> bool" where
  "order_ok ord \<longleftrightarrow>
     opt_all (\<lambda>i. 0 < i) (o_payment_id ord) \<and> o_period ord \<in> set orderPeriods \<and>
     validTradeNo (o_trade_no ord) \<and>
     money (o_original_amount ord) \<and> money (o_total_amount ord) \<and>
     opt_all money (o_handling_amount ord) \<and> money (o_balance_amount ord) \<and>
     money (o_surplus_credit ord) \<and> money (o_surplus_amount ord) \<and>
     length (json_ints (o_surplus_order_ids ord)) \<le> 262144 \<and>
     opt_all (\<lambda>i. 0 < i) (o_coupon_id ord) \<and>
     0 \<le> o_commission_status ord \<and> o_commission_status ord \<le> 3 \<and>
     opt_all money (o_actual_commission_balance ord) \<and>
     opt_all (\<lambda>r. 0 \<le> r \<and> r \<le> 100) (o_commission_rate ord) \<and>
     money (o_commission_balance ord) \<and> money (o_discount_amount ord) \<and>
     opt_all (\<lambda>t. 0 \<le> t) (o_paid_at ord) \<and>
     opt_all (\<lambda>c. 1 \<le> length c \<and> length c \<le> 255) (o_callback_no ord) \<and>
     opt_all (\<lambda>t. 0 \<le> t) (o_entitlement_before ord) \<and>
     opt_all (\<lambda>t. 0 \<le> t) (o_entitlement_after ord) \<and>
     0 \<le> o_created_at ord \<and> o_created_at ord \<le> o_updated_at ord \<and>
     o_source ord \<in> {''online'', ''gift_card_purchase''}"

definition order_refs :: "db \<Rightarrow> order \<Rightarrow> bool" where
  "order_refs d ord \<longleftrightarrow>
     o_user_id ord \<in> set (map u_id (db_users d)) \<and>
     o_plan_id ord \<in> set (map p_id (db_plans d)) \<and>
     opt_all (\<lambda>i. i \<in> set (map u_id (db_users d))) (o_invite_user_id ord) \<and>
     opt_all (\<lambda>i. i \<in> set (map c_id (db_coupons d))) (o_coupon_id ord) \<and>
     opt_all (\<lambda>i. i \<in> set (map pay_id (db_payments d))) (o_payment_id ord) \<and>
     opt_all (\<lambda>i. i \<in> set (map gc_id (db_gift_codes d))) (o_gift_card_code_id ord)"

text \<open>
  Unique keys of \<^verbatim>\<open>orders\<close>: the id, the trade number, by the partial index
  \<^verbatim>\<open>idx_orders_user_active\<close> the user among the pending and processing orders, and by
  \<^verbatim>\<open>idx_orders_gift_purchase\<close> the gift card of the orders that have one. The trigger
  \<^verbatim>\<open>gift_purchase_order_guard\<close> checks an order of a purchase card when it is inserted.
\<close>

definition orders_unique :: "order list \<Rightarrow> bool" where
  "orders_unique rows \<longleftrightarrow>
     distinct (map o_id rows) \<and> distinct (map o_trade_no rows) \<and>
     distinct (map o_user_id (filter order_active rows)) \<and>
     distinct (map o_gift_card_code_id (filter (\<lambda>r. o_gift_card_code_id r \<noteq> None) rows))"

definition gift_purchase_order_guard :: "order \<Rightarrow> bool" where
  "gift_purchase_order_guard ord \<longleftrightarrow>
     o_source ord \<noteq> ''gift_card_purchase'' \<or>
     o_gift_card_code_id ord \<noteq> None \<and> o_purchase_snapshot ord \<noteq> None \<and> o_status ord = OrderStatusCompleted \<and>
     o_total_amount ord = 0 \<and> o_original_amount ord = 0 \<and> o_balance_amount ord = 0 \<and>
     o_commission_balance ord = 0 \<and> o_payment_id ord = None \<and> o_paid_at ord = None"

definition coupon_ok :: "coupon \<Rightarrow> bool" where
  "coupon_ok c \<longleftrightarrow>
     1 \<le> length (c_code c) \<and> length (c_code c) \<le> 64 \<and>
     1 \<le> length (c_name c) \<and> length (c_name c) \<le> 200 \<and>
     1 \<le> c_value c \<and>
     (case c_type c of CouponTypeFixed \<Rightarrow> c_value c \<le> maxOrderMoneyCents
                     | CouponTypePercentage \<Rightarrow> c_value c \<le> 100) \<and>
     opt_all (\<lambda>n. 0 \<le> n \<and> n \<le> 1000000000) (c_limit_use c) \<and>
     opt_all (\<lambda>n. 0 \<le> n \<and> n \<le> 1000000000) (c_limit_use_with_user c) \<and>
     length (json_ints (c_limit_plan_ids c)) \<le> 65536 \<and>
     0 \<le> c_started_at c \<and> c_started_at c < c_ended_at c \<and>
     0 \<le> c_created_at c \<and> c_created_at c \<le> c_updated_at c"

definition coupons_unique :: "coupon list \<Rightarrow> bool" where
  "coupons_unique rows \<longleftrightarrow> distinct (map c_id rows) \<and> distinct (map c_code rows)"

definition plan_ok :: "plan \<Rightarrow> bool" where
  "plan_ok p \<longleftrightarrow>
     1 \<le> p_transfer_enable_gib p \<and> p_transfer_enable_gib p \<le> 8388607 \<and>
     opt_all (\<lambda>x. 0 \<le> x \<and> x \<le> 1000000000) (p_speed_limit p) \<and>
     0 \<le> p_sort_position p \<and>
     length (p_content p) \<le> 262144 \<and>
     1 \<le> p_distributor_hwid_limit p \<and> p_distributor_hwid_limit p \<le> 100 \<and>
     p_customer_visibility p \<in> {''all'', ''selected''} \<and>
     p_distributor_visibility p \<in> {''all'', ''selected'', ''none''} \<and>
     opt_all (\<lambda>x. 0 \<le> x \<and> x \<le> 4) (p_reset_traffic_method p) \<and>
     opt_all (\<lambda>x. 0 \<le> x \<and> x \<le> 1000000000) (p_capacity_limit p) \<and>
     opt_all (\<lambda>x. 0 \<le> x \<and> x \<le> 1000) (p_device_limit p) \<and>
     0 < p_revision p \<and> 0 \<le> p_created_at p \<and> p_created_at p \<le> p_updated_at p"

definition plan_refs :: "db \<Rightarrow> plan \<Rightarrow> bool" where
  "plan_refs d p \<longleftrightarrow> opt_all (\<lambda>g. g \<in> set (db_groups d)) (p_group_id p)"

definition attempt_ok :: "attempt \<Rightarrow> bool" where
  "attempt_ok a \<longleftrightarrow>
     32 \<le> length (a_idempotency_key a) \<and> length (a_idempotency_key a) \<le> 128 \<and>
     1 \<le> a_expected_amount a \<and> a_expected_amount a \<le> maxOrderMoneyCents \<and>
     length (a_currency a) = 3 \<and> list_all (\<lambda>ch. ch \<in> set ''ABCDEFGHIJKLMNOPQRSTUVWXYZ'') (a_currency a) \<and>
     opt_all (\<lambda>e. 1 \<le> length e \<and> length e \<le> 255) (a_external_id a) \<and>
     opt_all (\<lambda>t. t \<in> {0, 1}) (a_response_type a) \<and>
     opt_all (\<lambda>e. 1 \<le> length e \<and> length e \<le> 4096) (a_response_data a) \<and>
     opt_all (\<lambda>e. 1 \<le> length e \<and> length e \<le> 64) (a_error_code a) \<and>
     0 \<le> a_created_at a \<and> a_created_at a \<le> a_updated_at a"

definition attempt_refs :: "db \<Rightarrow> attempt \<Rightarrow> bool" where
  "attempt_refs d a \<longleftrightarrow>
     a_order_id a \<in> set (map o_id (db_orders d)) \<and> a_payment_id a \<in> set (map pay_id (db_payments d))"

definition attempts_unique :: "attempt list \<Rightarrow> bool" where
  "attempts_unique rows \<longleftrightarrow>
     distinct (map a_id rows) \<and> distinct (map a_idempotency_key rows) \<and>
     distinct (map (\<lambda>a. (a_order_id a, a_payment_id a)) rows)"

definition paymentProviders :: "string list" where
  "paymentProviders = [''AlipayF2F'', ''BTCPay'', ''CoinPayments'', ''Coinbase'', ''EPay'', ''MGate'']"

definition receipt_ok :: "receipt \<Rightarrow> bool" where
  "receipt_ok r \<longleftrightarrow>
     rc_provider r \<in> set paymentProviders \<and>
     1 \<le> length (rc_external_id r) \<and> length (rc_external_id r) \<le> 255 \<and>
     1 \<le> length (rc_trade_no r) \<and> length (rc_trade_no r) \<le> 64 \<and>
     1 \<le> rc_amount r \<and> rc_amount r \<le> maxOrderMoneyCents \<and>
     length (rc_currency r) = 3 \<and> list_all (\<lambda>ch. ch \<in> set ''ABCDEFGHIJKLMNOPQRSTUVWXYZ'') (rc_currency r) \<and>
     length (rc_payload_sha256 r) = 64 \<and> list_all is_lower_hex (rc_payload_sha256 r) \<and>
     0 \<le> rc_received_at r"

definition receipt_refs :: "db \<Rightarrow> receipt \<Rightarrow> bool" where
  "receipt_refs d r \<longleftrightarrow>
     rc_order_id r \<in> set (map o_id (db_orders d)) \<and> rc_payment_id r \<in> set (map pay_id (db_payments d))"

definition receipts_unique :: "receipt list \<Rightarrow> bool" where
  "receipts_unique rows \<longleftrightarrow> distinct (map (\<lambda>r. (rc_payment_id r, rc_external_id r)) rows)"

definition event_ok :: "entitlement_event \<Rightarrow> bool" where
  "event_ok e \<longleftrightarrow>
     ev_type e \<in> {''new'', ''renewal'', ''upgrade'', ''reset_traffic''} \<and> 0 \<le> ev_applied_at e"

definition event_refs :: "db \<Rightarrow> entitlement_event \<Rightarrow> bool" where
  "event_refs d e \<longleftrightarrow>
     ev_order_id e \<in> set (map o_id (db_orders d)) \<and> ev_user_id e \<in> set (map u_id (db_users d))"

text \<open>The \<^verbatim>\<open>CHECK\<close> constraints of the columns of \<^verbatim>\<open>app_settings\<close> that the model reads.\<close>

definition settings_ok :: "settings \<Rightarrow> bool" where
  "settings_ok st \<longleftrightarrow>
     0 \<le> s_traffic_reset_method st \<and> s_traffic_reset_method st \<le> 4 \<and>
     s_new_order_event_id st \<in> {0, 1} \<and> s_renew_order_event_id st \<in> {0, 1} \<and>
     s_change_order_event_id st \<in> {0, 1} \<and>
     0 \<le> s_invite_commission st \<and> s_invite_commission st \<le> 100 \<and>
     0 \<le> s_commission_distribution_l1 st \<and> s_commission_distribution_l1 st \<le> 100 \<and>
     0 \<le> s_commission_distribution_l2 st \<and> s_commission_distribution_l2 st \<le> 100 \<and>
     0 \<le> s_commission_distribution_l3 st \<and> s_commission_distribution_l3 st \<le> 100 \<and>
     0 \<le> s_try_out_plan_id st"

definition commission_log_ok :: "commission_log \<Rightarrow> bool" where
  "commission_log_ok l \<longleftrightarrow>
     validTradeNo (cl_trade_no l) \<and> money (cl_order_amount l) \<and>
     1 \<le> cl_get_amount l \<and> cl_get_amount l \<le> maxOrderMoneyCents \<and> 0 \<le> cl_created_at l"

definition commission_log_refs :: "db \<Rightarrow> commission_log \<Rightarrow> bool" where
  "commission_log_refs d l \<longleftrightarrow>
     cl_order_id l \<in> set (map o_id (db_orders d)) \<and>
     cl_invite_user_id l \<in> set (map u_id (db_users d)) \<and> cl_user_id l \<in> set (map u_id (db_users d))"

definition commission_logs_unique :: "commission_log list \<Rightarrow> bool" where
  "commission_logs_unique rows \<longleftrightarrow> distinct (map (\<lambda>l. (cl_order_id l, cl_invite_user_id l)) rows)"

definition reset_log_ok :: "reset_log \<Rightarrow> bool" where
  "reset_log_ok l \<longleftrightarrow>
     0 \<le> rl_scheduled_for l \<and> rl_scheduled_for l \<le> rl_reset_at l \<and>
     0 \<le> rl_upload_before l \<and> 0 \<le> rl_download_before l \<and> 0 < rl_reset_count l \<and>
     0 \<le> rl_reset_method l \<and> rl_reset_method l \<le> 4"

definition reset_logs_unique :: "reset_log list \<Rightarrow> bool" where
  "reset_logs_unique rows \<longleftrightarrow> distinct (map (\<lambda>l. (rl_user_id l, rl_scheduled_for l)) rows)"

definition quarantine_ok :: "quarantine \<Rightarrow> bool" where
  "quarantine_ok q \<longleftrightarrow>
     q_kind q \<in> {''commission'', ''stale_order''} \<and>
     1 \<le> length (q_reason q) \<and> length (q_reason q) \<le> 512 \<and> 1 \<le> q_attempts q \<and>
     0 \<le> q_first_failed_at q \<and> q_first_failed_at q \<le> q_last_failed_at q \<and>
     q_last_failed_at q \<le> q_retry_after q"

definition quarantines_unique :: "quarantine list \<Rightarrow> bool" where
  "quarantines_unique rows \<longleftrightarrow> distinct (map (\<lambda>q. (q_kind q, q_entity_id q)) rows)"

section \<open>Gift cards\<close>

definition is_upper_alnum :: "char \<Rightarrow> bool" where
  "is_upper_alnum ch \<longleftrightarrow> is_digit ch \<or> 65 \<le> byte ch \<and> byte ch \<le> 90"

definition is_batch_char :: "char \<Rightarrow> bool" where
  "is_batch_char ch \<longleftrightarrow> is_upper_alnum ch \<or> 97 \<le> byte ch \<and> byte ch \<le> 122 \<or> ch = CHR ''_'' \<or> ch = CHR ''-''"

definition gift_template_ok :: "gift_template \<Rightarrow> bool" where
  "gift_template_ok t \<longleftrightarrow>
     1 \<le> length (gt_name t) \<and> length (gt_name t) \<le> 255 \<and> length (gt_description t) \<le> 4096 \<and>
     length (json_conditions (gt_conditions t)) \<le> 16384 \<and> length (json_reward (gt_rewards t)) \<le> 65536 \<and>
     length (json_limits (gt_limits t)) \<le> 8192 \<and>
     (case json_special (gt_special t) of None \<Rightarrow> False | Some text \<Rightarrow> length text \<le> 8192) \<and>
     length (gt_icon t) \<le> 255 \<and> length (gt_background_image t) \<le> 255 \<and> length (gt_theme t) = 7 \<and>
     0 \<le> gt_sort_position t \<and> gt_sort_position t \<le> 1000000000 \<and> 0 < gt_revision t \<and>
     0 \<le> gt_created_at t \<and> gt_created_at t \<le> gt_updated_at t"

definition gift_code_ok :: "gift_code \<Rightarrow> bool" where
  "gift_code_ok c \<longleftrightarrow>
     8 \<le> length (gc_code c) \<and> length (gc_code c) \<le> 32 \<and> list_all is_upper_alnum (gc_code c) \<and>
     16 \<le> length (gc_batch_no c) \<and> length (gc_batch_no c) \<le> 40 \<and> list_all is_batch_char (gc_batch_no c) \<and>
     opt_all (\<lambda>t. 0 \<le> t) (gc_used_at c) \<and> opt_all (\<lambda>t. 0 \<le> t) (gc_expires_at c) \<and>
     opt_all (\<lambda>r. length (json_reward r) \<le> 65536) (gc_actual_rewards c) \<and>
     0 \<le> gc_usage_count c \<and> 1 \<le> gc_max_usage c \<and> gc_max_usage c \<le> 1000000000 \<and>
     opt_all (\<lambda>s. length (json_object [field ''purchase_snapshot'' (json_snapshot s)]) \<le> 8192) (gc_purchase_snapshot c) \<and>
     0 \<le> gc_created_at c \<and> gc_created_at c \<le> gc_updated_at c \<and> gc_usage_count c \<le> gc_max_usage c"

definition gift_usage_ok :: "gift_usage \<Rightarrow> bool" where
  "gift_usage_ok g \<longleftrightarrow>
     length (json_reward (gu_rewards g)) \<le> 65536 \<and> length (json_reward (gu_inviter_rewards g)) \<le> 65536 \<and>
     0 \<le> gu_multiplier g \<and> gu_multiplier g \<le> 1000000 \<and> length (gu_ip_address g) \<le> 45 \<and>
     length (gu_user_agent g) \<le> 1024 \<and>
     opt_all (\<lambda>b. 0 \<le> b) (gu_traffic_reset_upload_before g) \<and> opt_all (\<lambda>b. 0 \<le> b) (gu_traffic_reset_download_before g) \<and>
     0 \<le> gu_used_at g \<and>
     (gu_traffic_reset_upload_before g = None \<longleftrightarrow> gu_traffic_reset_download_before g = None)"

definition gift_template_refs :: "db \<Rightarrow> gift_template \<Rightarrow> bool" where
  "gift_template_refs d t \<longleftrightarrow> gt_admin_id t \<in> set (map u_id (db_users d))"

definition gift_code_refs :: "db \<Rightarrow> gift_code \<Rightarrow> bool" where
  "gift_code_refs d c \<longleftrightarrow>
     gc_template_id c \<in> set (map gt_id (db_gift_templates d)) \<and>
     opt_all (\<lambda>i. i \<in> set (map u_id (db_users d))) (gc_user_id c)"

definition gift_usage_refs :: "db \<Rightarrow> gift_usage \<Rightarrow> bool" where
  "gift_usage_refs d g \<longleftrightarrow>
     gu_code_id g \<in> set (map gc_id (db_gift_codes d)) \<and> gu_template_id g \<in> set (map gt_id (db_gift_templates d)) \<and>
     gu_user_id g \<in> set (map u_id (db_users d)) \<and>
     opt_all (\<lambda>i. i \<in> set (map u_id (db_users d))) (gu_inviter_id g) \<and>
     opt_all (\<lambda>i. i \<in> set (map p_id (db_plans d))) (gu_user_plan_id g)"

definition gift_templates_unique :: "gift_template list \<Rightarrow> bool" where
  "gift_templates_unique rows \<longleftrightarrow> distinct (map gt_id rows)"

text \<open>Codes hold capital letters and digits only, so the column's \<^verbatim>\<open>NOCASE\<close> collation is equality.\<close>

definition gift_codes_unique :: "gift_code list \<Rightarrow> bool" where
  "gift_codes_unique rows \<longleftrightarrow> distinct (map gc_id rows) \<and> distinct (map gc_code rows)"

definition gift_usages_unique :: "gift_usage list \<Rightarrow> bool" where
  "gift_usages_unique rows \<longleftrightarrow> distinct (map gu_id rows)"

end
