(* ===== verification/Store_Tables.thy ===== *)
theory Store_Tables
  imports Store_Schema
begin

text \<open>
  The statements that write the database, and the interface the operations rely on. A statement
  is checked against the row constraints, the references and the unique keys of its table; the
  locale \<open>db_table\<close> states what a table of the database is (reading, replacing and checking its
  rows) and proves once what every \<^verbatim>\<open>UPDATE\<close> and \<^verbatim>\<open>INSERT\<close> keeps. Each table of the model is an
  interpretation of it.
\<close>

section \<open>Statements\<close>

definition exec_update ::
  "('d \<Rightarrow> 'r list) \<Rightarrow> ('r list \<Rightarrow> 'd \<Rightarrow> 'd) \<Rightarrow> ('d \<Rightarrow> 'r \<Rightarrow> bool) \<Rightarrow> ('r list \<Rightarrow> bool) \<Rightarrow>
   ('r \<Rightarrow> bool) \<Rightarrow> ('r \<Rightarrow> 'r) \<Rightarrow> 'd \<Rightarrow> store_error + 'd" where
  "exec_update rows put check uniq p f d =
     (if list_all (check d) (map f (filter p (rows d))) \<and> uniq (update_where p f (rows d))
      then Inr (put (update_where p f (rows d)) d)
      else Inl ErrDatabase)"

definition exec_insert ::
  "('d \<Rightarrow> 'r list) \<Rightarrow> ('r list \<Rightarrow> 'd \<Rightarrow> 'd) \<Rightarrow> ('d \<Rightarrow> 'r \<Rightarrow> bool) \<Rightarrow> ('r list \<Rightarrow> bool) \<Rightarrow>
   'r \<Rightarrow> 'd \<Rightarrow> store_error + 'd" where
  "exec_insert rows put check uniq r d =
     (if check d r \<and> uniq (rows d @ [r]) then Inr (put (rows d @ [r]) d) else Inl ErrDatabase)"

locale db_table =
  fixes rows :: "'d \<Rightarrow> 'r list"
    and put :: "'r list \<Rightarrow> 'd \<Rightarrow> 'd"
    and check :: "'d \<Rightarrow> 'r \<Rightarrow> bool"
    and uniq :: "'r list \<Rightarrow> bool"
  assumes rows_put: "rows (put rs d) = rs"
    and put_put: "put rs (put rs' d) = put rs d"
    and put_rows: "put (rows d) d = d"
    and check_put: "check (put rs d) = check d"
    and uniq_Nil: "uniq []"
begin

definition holds :: "'d \<Rightarrow> bool" where
  "holds d \<longleftrightarrow> list_all (check d) (rows d) \<and> uniq (rows d)"

lemma update_Inr:
  "exec_update rows put check uniq p f d = Inr d' \<longleftrightarrow>
     (\<forall>r\<in>set (rows d). p r \<longrightarrow> check d (f r)) \<and> uniq (update_where p f (rows d)) \<and>
     d' = put (update_where p f (rows d)) d"
  by (auto simp: exec_update_def list_all_iff)

lemma insert_Inr:
  "exec_insert rows put check uniq r d = Inr d' \<longleftrightarrow>
     check d r \<and> uniq (rows d @ [r]) \<and> d' = put (rows d @ [r]) d"
  by (auto simp: exec_insert_def)

lemma update_keeps:
  assumes "exec_update rows put check uniq p f d = Inr d'" and "holds d"
  shows "holds d'"
  using assms by (auto simp: update_Inr holds_def rows_put check_put list_all_iff update_where_def)

lemma insert_keeps:
  assumes "exec_insert rows put check uniq r d = Inr d'" and "holds d"
  shows "holds d'"
  using assms by (auto simp: insert_Inr holds_def rows_put check_put list_all_iff)

lemma update_none:
  assumes "holds d" and "\<And>r. r \<in> set (rows d) \<Longrightarrow> \<not> p r"
  shows "exec_update rows put check uniq p f d = Inr d"
proof -
  have "update_where p f (rows d) = rows d"
    using assms(2) by (auto simp: update_where_def intro: map_idI)
  then show ?thesis using assms
    by (auto simp: update_Inr holds_def put_rows)
qed

text \<open>Two updates by the same expression on different rows are one update.\<close>

lemma update_cong:
  assumes "\<And>r. r \<in> set (rows d) \<Longrightarrow> p r = q r" and "\<And>r. r \<in> set (rows d) \<Longrightarrow> p r \<Longrightarrow> f r = g r"
  shows "exec_update rows put check uniq p f d = exec_update rows put check uniq q g d"
proof -
  have "update_where p f (rows d) = update_where q g (rows d)"
    using assms by (simp add: update_where_def)
  moreover have "map f (filter p (rows d)) = map g (filter q (rows d))"
    using assms by (auto intro: map_cong simp: filter_cong [of "rows d" "rows d" p q])
  ultimately show ?thesis by (simp add: exec_update_def)
qed

lemma update_twice:
  assumes "\<And>r. r \<in> set (rows d) \<Longrightarrow> p r \<Longrightarrow> \<not> q (f r)"
    and "\<And>p. uniq (update_where p f (rows d))"
  shows "ebind (exec_update rows put check uniq p f d) (exec_update rows put check uniq q f) =
         exec_update rows put check uniq (\<lambda>r. p r \<or> q r) f d"
proof -
  have two: "update_where q f (update_where p f (rows d)) = update_where (\<lambda>r. p r \<or> q r) f (rows d)"
    using assms(1) by (auto simp: update_where_def)
  have "list_all (check d) (map f (filter q (update_where p f (rows d)))) \<and> list_all (check d) (map f (filter p (rows d)))
      \<longleftrightarrow> list_all (check d) (map f (filter (\<lambda>r. p r \<or> q r) (rows d)))"
    using assms(1) by (fastforce simp: list_all_iff update_where_def)
  then show ?thesis
    using assms(2) by (auto simp: exec_update_def rows_put put_put check_put two)
qed

lemma update_fails_only_by_constraint:
  "exec_update rows put check uniq p f d = Inl e \<Longrightarrow> e = ErrDatabase"
  by (auto simp: exec_update_def split: if_splits)

lemma insert_fails_only_by_constraint:
  "exec_insert rows put check uniq r d = Inl e \<Longrightarrow> e = ErrDatabase"
  by (auto simp: exec_insert_def split: if_splits)

end

section \<open>The tables\<close>

text \<open>
  The trigger \<^verbatim>\<open>users_money_admin_revision\<close>: an update that changes a balance and leaves the
  administrative revision alone raises the revision by one.
\<close>

definition money_trigger :: "user \<Rightarrow> user \<Rightarrow> user" where
  "money_trigger old new =
     (if (u_balance new \<noteq> u_balance old \<or> u_commission_balance new \<noteq> u_commission_balance old) \<and>
         u_admin_revision new = u_admin_revision old
      then new\<lparr>u_admin_revision := u_admin_revision new + 1\<rparr> else new)"

lemma money_trigger_fields [simp]:
  "u_id (money_trigger old new) = u_id new"
  "u_email (money_trigger old new) = u_email new"
  "u_uuid (money_trigger old new) = u_uuid new"
  "u_is_admin (money_trigger old new) = u_is_admin new"
  "u_is_distributor (money_trigger old new) = u_is_distributor new"
  "u_banned (money_trigger old new) = u_banned new"
  "u_account_kind (money_trigger old new) = u_account_kind new"
  "u_plan_id (money_trigger old new) = u_plan_id new"
  "u_group_id (money_trigger old new) = u_group_id new"
  "u_expired_at (money_trigger old new) = u_expired_at new"
  "u_balance (money_trigger old new) = u_balance new"
  "u_discount (money_trigger old new) = u_discount new"
  "u_invite_user_id (money_trigger old new) = u_invite_user_id new"
  "u_transfer_enable (money_trigger old new) = u_transfer_enable new"
  "u_traffic_u (money_trigger old new) = u_traffic_u new"
  "u_traffic_d (money_trigger old new) = u_traffic_d new"
  "u_speed_limit (money_trigger old new) = u_speed_limit new"
  "u_device_limit (money_trigger old new) = u_device_limit new"
  "u_next_reset_at (money_trigger old new) = u_next_reset_at new"
  "u_last_reset_at (money_trigger old new) = u_last_reset_at new"
  "u_reset_count (money_trigger old new) = u_reset_count new"
  "u_commission_type (money_trigger old new) = u_commission_type new"
  "u_commission_rate (money_trigger old new) = u_commission_rate new"
  "u_commission_balance (money_trigger old new) = u_commission_balance new"
  "u_created_at (money_trigger old new) = u_created_at new"
  "u_updated_at (money_trigger old new) = u_updated_at new"
  by (simp_all add: money_trigger_def)

definition put_users :: "user list \<Rightarrow> db \<Rightarrow> db" where
  "put_users rs d = d\<lparr>db_users := rs\<rparr>"

definition put_plans :: "plan list \<Rightarrow> db \<Rightarrow> db" where
  "put_plans rs d = d\<lparr>db_plans := rs\<rparr>"

definition put_orders :: "order list \<Rightarrow> db \<Rightarrow> db" where
  "put_orders rs d = d\<lparr>db_orders := rs\<rparr>"

definition put_coupons :: "coupon list \<Rightarrow> db \<Rightarrow> db" where
  "put_coupons rs d = d\<lparr>db_coupons := rs\<rparr>"

definition put_attempts :: "attempt list \<Rightarrow> db \<Rightarrow> db" where
  "put_attempts rs d = d\<lparr>db_attempts := rs\<rparr>"

definition put_receipts :: "receipt list \<Rightarrow> db \<Rightarrow> db" where
  "put_receipts rs d = d\<lparr>db_receipts := rs\<rparr>"

definition put_events :: "entitlement_event list \<Rightarrow> db \<Rightarrow> db" where
  "put_events rs d = d\<lparr>db_events := rs\<rparr>"

definition put_quarantine :: "quarantine list \<Rightarrow> db \<Rightarrow> db" where
  "put_quarantine rs d = d\<lparr>db_quarantine := rs\<rparr>"

definition put_commission_logs :: "commission_log list \<Rightarrow> db \<Rightarrow> db" where
  "put_commission_logs rs d = d\<lparr>db_commission_logs := rs\<rparr>"

definition put_reset_logs :: "reset_log list \<Rightarrow> db \<Rightarrow> db" where
  "put_reset_logs rs d = d\<lparr>db_reset_logs := rs\<rparr>"

definition put_gift_templates :: "gift_template list \<Rightarrow> db \<Rightarrow> db" where
  "put_gift_templates rs d = d\<lparr>db_gift_templates := rs\<rparr>"

definition put_gift_codes :: "gift_code list \<Rightarrow> db \<Rightarrow> db" where
  "put_gift_codes rs d = d\<lparr>db_gift_codes := rs\<rparr>"

definition put_gift_usages :: "gift_usage list \<Rightarrow> db \<Rightarrow> db" where
  "put_gift_usages rs d = d\<lparr>db_gift_usages := rs\<rparr>"

definition user_check :: "db \<Rightarrow> user \<Rightarrow> bool" where
  "user_check d u \<longleftrightarrow> user_ok u \<and> user_refs d u"

definition plan_check :: "db \<Rightarrow> plan \<Rightarrow> bool" where
  "plan_check d p \<longleftrightarrow> plan_ok p \<and> plan_refs d p"

definition order_check :: "db \<Rightarrow> order \<Rightarrow> bool" where
  "order_check d ord \<longleftrightarrow> order_ok ord \<and> order_refs d ord"

definition coupon_check :: "db \<Rightarrow> coupon \<Rightarrow> bool" where
  "coupon_check d c \<longleftrightarrow> coupon_ok c"

definition attempt_check :: "db \<Rightarrow> attempt \<Rightarrow> bool" where
  "attempt_check d a \<longleftrightarrow> attempt_ok a \<and> attempt_refs d a"

definition receipt_check :: "db \<Rightarrow> receipt \<Rightarrow> bool" where
  "receipt_check d r \<longleftrightarrow> receipt_ok r \<and> receipt_refs d r"

definition event_check :: "db \<Rightarrow> entitlement_event \<Rightarrow> bool" where
  "event_check d e \<longleftrightarrow> event_ok e \<and> event_refs d e"

definition quarantine_check :: "db \<Rightarrow> quarantine \<Rightarrow> bool" where
  "quarantine_check d q \<longleftrightarrow> quarantine_ok q \<and> q_entity_id q \<in> set (map o_id (db_orders d))"

definition commission_log_check :: "db \<Rightarrow> commission_log \<Rightarrow> bool" where
  "commission_log_check d l \<longleftrightarrow> commission_log_ok l \<and> commission_log_refs d l"

definition reset_log_check :: "db \<Rightarrow> reset_log \<Rightarrow> bool" where
  "reset_log_check d l \<longleftrightarrow> reset_log_ok l \<and> rl_user_id l \<in> set (map u_id (db_users d)) \<and>
     opt_all (\<lambda>i. i \<in> set (map p_id (db_plans d))) (rl_plan_id l)"

definition gift_template_check :: "db \<Rightarrow> gift_template \<Rightarrow> bool" where
  "gift_template_check d t \<longleftrightarrow> gift_template_ok t \<and> gift_template_refs d t"

definition gift_code_check :: "db \<Rightarrow> gift_code \<Rightarrow> bool" where
  "gift_code_check d c \<longleftrightarrow> gift_code_ok c \<and> gift_code_refs d c"

definition gift_usage_check :: "db \<Rightarrow> gift_usage \<Rightarrow> bool" where
  "gift_usage_check d g \<longleftrightarrow> gift_usage_ok g \<and> gift_usage_refs d g"

definition users_unique :: "user list \<Rightarrow> bool" where
  "users_unique rows \<longleftrightarrow> distinct (map u_id rows)"

definition plans_unique :: "plan list \<Rightarrow> bool" where
  "plans_unique rows \<longleftrightarrow> distinct (map p_id rows)"

definition events_unique :: "entitlement_event list \<Rightarrow> bool" where
  "events_unique rows \<longleftrightarrow> distinct (map ev_order_id rows)"

lemmas put_defs [schema_defs] = put_users_def put_plans_def put_orders_def put_coupons_def
  put_attempts_def put_receipts_def put_events_def put_quarantine_def put_commission_logs_def
  put_reset_logs_def put_gift_templates_def put_gift_codes_def put_gift_usages_def

lemmas check_defs [schema_defs] = user_check_def plan_check_def order_check_def coupon_check_def
  attempt_check_def receipt_check_def event_check_def quarantine_check_def
  commission_log_check_def reset_log_check_def gift_template_check_def gift_code_check_def gift_usage_check_def

lemmas refs_defs = user_refs_def plan_refs_def order_refs_def attempt_refs_def receipt_refs_def
  event_refs_def commission_log_refs_def gift_template_refs_def gift_code_refs_def gift_usage_refs_def

lemmas unique_defs = users_unique_def plans_unique_def orders_unique_def coupons_unique_def
  attempts_unique_def receipts_unique_def events_unique_def quarantines_unique_def
  commission_logs_unique_def reset_logs_unique_def gift_templates_unique_def gift_codes_unique_def gift_usages_unique_def

interpretation users: db_table db_users put_users user_check users_unique
  by unfold_locales (simp_all add: put_defs check_defs refs_defs unique_defs fun_eq_iff)

interpretation plans: db_table db_plans put_plans plan_check plans_unique
  by unfold_locales (simp_all add: put_defs check_defs refs_defs unique_defs fun_eq_iff)

interpretation orders: db_table db_orders put_orders order_check orders_unique
  by unfold_locales (simp_all add: put_defs check_defs refs_defs unique_defs fun_eq_iff)

interpretation coupons: db_table db_coupons put_coupons coupon_check coupons_unique
  by unfold_locales (simp_all add: put_defs check_defs refs_defs unique_defs fun_eq_iff)

interpretation attempts: db_table db_attempts put_attempts attempt_check attempts_unique
  by unfold_locales (simp_all add: put_defs check_defs refs_defs unique_defs fun_eq_iff)

interpretation receipts: db_table db_receipts put_receipts receipt_check receipts_unique
  by unfold_locales (simp_all add: put_defs check_defs refs_defs unique_defs fun_eq_iff)

interpretation events: db_table db_events put_events event_check events_unique
  by unfold_locales (simp_all add: put_defs check_defs refs_defs unique_defs fun_eq_iff)

interpretation quarantines: db_table db_quarantine put_quarantine quarantine_check quarantines_unique
  by unfold_locales (simp_all add: put_defs check_defs refs_defs unique_defs fun_eq_iff)

interpretation commission_logs: db_table db_commission_logs put_commission_logs commission_log_check commission_logs_unique
  by unfold_locales (simp_all add: put_defs check_defs refs_defs unique_defs fun_eq_iff)

interpretation reset_logs: db_table db_reset_logs put_reset_logs reset_log_check reset_logs_unique
  by unfold_locales (simp_all add: put_defs check_defs refs_defs unique_defs fun_eq_iff)

interpretation gift_templates: db_table db_gift_templates put_gift_templates gift_template_check gift_templates_unique
  by unfold_locales (simp_all add: put_defs check_defs refs_defs unique_defs fun_eq_iff)

interpretation gift_codes: db_table db_gift_codes put_gift_codes gift_code_check gift_codes_unique
  by unfold_locales (simp_all add: put_defs check_defs refs_defs unique_defs fun_eq_iff)

interpretation gift_usages: db_table db_gift_usages put_gift_usages gift_usage_check gift_usages_unique
  by unfold_locales (simp_all add: put_defs check_defs refs_defs unique_defs fun_eq_iff)

section \<open>The statements of the operations\<close>

definition update_users :: "(user \<Rightarrow> bool) \<Rightarrow> (user \<Rightarrow> user) \<Rightarrow> db \<Rightarrow> store_error + db" where
  "update_users p f = exec_update db_users put_users user_check users_unique p (\<lambda>u. money_trigger u (f u))"

definition update_plans :: "(plan \<Rightarrow> bool) \<Rightarrow> (plan \<Rightarrow> plan) \<Rightarrow> db \<Rightarrow> store_error + db" where
  "update_plans = exec_update db_plans put_plans plan_check plans_unique"

definition update_orders :: "(order \<Rightarrow> bool) \<Rightarrow> (order \<Rightarrow> order) \<Rightarrow> db \<Rightarrow> store_error + db" where
  "update_orders = exec_update db_orders put_orders order_check orders_unique"

definition update_coupons :: "(coupon \<Rightarrow> bool) \<Rightarrow> (coupon \<Rightarrow> coupon) \<Rightarrow> db \<Rightarrow> store_error + db" where
  "update_coupons = exec_update db_coupons put_coupons coupon_check coupons_unique"

definition update_attempts :: "(attempt \<Rightarrow> bool) \<Rightarrow> (attempt \<Rightarrow> attempt) \<Rightarrow> db \<Rightarrow> store_error + db" where
  "update_attempts = exec_update db_attempts put_attempts attempt_check attempts_unique"

definition update_quarantine :: "(quarantine \<Rightarrow> bool) \<Rightarrow> (quarantine \<Rightarrow> quarantine) \<Rightarrow> db \<Rightarrow> store_error + db" where
  "update_quarantine = exec_update db_quarantine put_quarantine quarantine_check quarantines_unique"

text \<open>
  An \<^verbatim>\<open>INTEGER PRIMARY KEY AUTOINCREMENT\<close> column takes one more than the largest id the table
  ever held (\<^verbatim>\<open>sqlite_sequence\<close>); the insert fails when that id is the largest integer.
\<close>

definition insert_order :: "order \<Rightarrow> db \<Rightarrow> store_error + int \<times> db" where
  "insert_order ord d =
     (if db_order_seq d = max_i64 \<or> \<not> gift_purchase_order_guard ord then Inl ErrDatabase else
      ebind (exec_insert db_orders put_orders order_check orders_unique (ord\<lparr>o_id := db_order_seq d + 1\<rparr>) d)
        (\<lambda>d'. Inr (db_order_seq d + 1, d'\<lparr>db_order_seq := db_order_seq d + 1\<rparr>)))"

definition insert_plan :: "plan \<Rightarrow> db \<Rightarrow> store_error + int \<times> db" where
  "insert_plan p d =
     (if db_plan_seq d = max_i64 then Inl ErrDatabase else
      ebind (exec_insert db_plans put_plans plan_check plans_unique (p\<lparr>p_id := db_plan_seq d + 1\<rparr>) d)
        (\<lambda>d'. Inr (db_plan_seq d + 1, d'\<lparr>db_plan_seq := db_plan_seq d + 1\<rparr>)))"

definition insert_coupon :: "coupon \<Rightarrow> db \<Rightarrow> store_error + int \<times> db" where
  "insert_coupon c d =
     (if db_coupon_seq d = max_i64 then Inl ErrDatabase else
      ebind (exec_insert db_coupons put_coupons coupon_check coupons_unique (c\<lparr>c_id := db_coupon_seq d + 1\<rparr>) d)
        (\<lambda>d'. Inr (db_coupon_seq d + 1, d'\<lparr>db_coupon_seq := db_coupon_seq d + 1\<rparr>)))"

definition insert_attempt :: "attempt \<Rightarrow> db \<Rightarrow> store_error + int \<times> db" where
  "insert_attempt a d =
     (if db_attempt_seq d = max_i64 then Inl ErrDatabase else
      ebind (exec_insert db_attempts put_attempts attempt_check attempts_unique (a\<lparr>a_id := db_attempt_seq d + 1\<rparr>) d)
        (\<lambda>d'. Inr (db_attempt_seq d + 1, d'\<lparr>db_attempt_seq := db_attempt_seq d + 1\<rparr>)))"

definition insert_receipt :: "receipt \<Rightarrow> db \<Rightarrow> store_error + db" where
  "insert_receipt = exec_insert db_receipts put_receipts receipt_check receipts_unique"

definition insert_event :: "entitlement_event \<Rightarrow> db \<Rightarrow> store_error + db" where
  "insert_event = exec_insert db_events put_events event_check events_unique"

definition insert_quarantine :: "quarantine \<Rightarrow> db \<Rightarrow> store_error + db" where
  "insert_quarantine = exec_insert db_quarantine put_quarantine quarantine_check quarantines_unique"

definition insert_commission_log :: "commission_log \<Rightarrow> db \<Rightarrow> store_error + db" where
  "insert_commission_log = exec_insert db_commission_logs put_commission_logs commission_log_check commission_logs_unique"

definition insert_reset_log :: "reset_log \<Rightarrow> db \<Rightarrow> store_error + db" where
  "insert_reset_log = exec_insert db_reset_logs put_reset_logs reset_log_check reset_logs_unique"

definition update_gift_templates :: "(gift_template \<Rightarrow> bool) \<Rightarrow> (gift_template \<Rightarrow> gift_template) \<Rightarrow> db \<Rightarrow> store_error + db" where
  "update_gift_templates = exec_update db_gift_templates put_gift_templates gift_template_check gift_templates_unique"

definition update_gift_codes :: "(gift_code \<Rightarrow> bool) \<Rightarrow> (gift_code \<Rightarrow> gift_code) \<Rightarrow> db \<Rightarrow> store_error + db" where
  "update_gift_codes = exec_update db_gift_codes put_gift_codes gift_code_check gift_codes_unique"

definition insert_gift_template :: "gift_template \<Rightarrow> db \<Rightarrow> store_error + int \<times> db" where
  "insert_gift_template t d =
     (if db_gift_template_seq d = max_i64 then Inl ErrDatabase else
      ebind (exec_insert db_gift_templates put_gift_templates gift_template_check gift_templates_unique
               (t\<lparr>gt_id := db_gift_template_seq d + 1\<rparr>) d)
        (\<lambda>d'. Inr (db_gift_template_seq d + 1, d'\<lparr>db_gift_template_seq := db_gift_template_seq d + 1\<rparr>)))"

definition insert_gift_code :: "gift_code \<Rightarrow> db \<Rightarrow> store_error + int \<times> db" where
  "insert_gift_code c d =
     (if db_gift_code_seq d = max_i64 then Inl ErrDatabase else
      ebind (exec_insert db_gift_codes put_gift_codes gift_code_check gift_codes_unique
               (c\<lparr>gc_id := db_gift_code_seq d + 1\<rparr>) d)
        (\<lambda>d'. Inr (db_gift_code_seq d + 1, d'\<lparr>db_gift_code_seq := db_gift_code_seq d + 1\<rparr>)))"

definition insert_gift_usage :: "gift_usage \<Rightarrow> db \<Rightarrow> store_error + int \<times> db" where
  "insert_gift_usage g d =
     (if db_gift_usage_seq d = max_i64 then Inl ErrDatabase else
      ebind (exec_insert db_gift_usages put_gift_usages gift_usage_check gift_usages_unique
               (g\<lparr>gu_id := db_gift_usage_seq d + 1\<rparr>) d)
        (\<lambda>d'. Inr (db_gift_usage_seq d + 1, d'\<lparr>db_gift_usage_seq := db_gift_usage_seq d + 1\<rparr>)))"

lemmas statement_defs [schema_defs] = update_users_def update_plans_def update_orders_def update_coupons_def
  update_attempts_def update_quarantine_def insert_order_def insert_plan_def insert_coupon_def
  insert_attempt_def insert_receipt_def insert_event_def insert_quarantine_def
  insert_commission_log_def insert_reset_log_def update_gift_templates_def update_gift_codes_def
  insert_gift_template_def insert_gift_code_def insert_gift_usage_def

text \<open>What a statement that succeeds has done, and what it had to satisfy.\<close>

lemma update_users_Inr:
  "update_users p f d = Inr d' \<longleftrightarrow>
     (\<forall>u\<in>set (db_users d). p u \<longrightarrow> user_check d (money_trigger u (f u))) \<and>
     users_unique (update_where p (\<lambda>u. money_trigger u (f u)) (db_users d)) \<and>
     d' = d\<lparr>db_users := update_where p (\<lambda>u. money_trigger u (f u)) (db_users d)\<rparr>"
  by (simp add: update_users_def users.update_Inr put_users_def)

lemma update_plans_Inr:
  "update_plans p f d = Inr d' \<longleftrightarrow>
     (\<forall>r\<in>set (db_plans d). p r \<longrightarrow> plan_check d (f r)) \<and>
     plans_unique (update_where p f (db_plans d)) \<and> d' = d\<lparr>db_plans := update_where p f (db_plans d)\<rparr>"
  by (simp add: update_plans_def plans.update_Inr put_plans_def)

lemma update_orders_Inr:
  "update_orders p f d = Inr d' \<longleftrightarrow>
     (\<forall>r\<in>set (db_orders d). p r \<longrightarrow> order_check d (f r)) \<and>
     orders_unique (update_where p f (db_orders d)) \<and> d' = d\<lparr>db_orders := update_where p f (db_orders d)\<rparr>"
  by (simp add: update_orders_def orders.update_Inr put_orders_def)

lemma update_coupons_Inr:
  "update_coupons p f d = Inr d' \<longleftrightarrow>
     (\<forall>r\<in>set (db_coupons d). p r \<longrightarrow> coupon_check d (f r)) \<and>
     coupons_unique (update_where p f (db_coupons d)) \<and> d' = d\<lparr>db_coupons := update_where p f (db_coupons d)\<rparr>"
  by (simp add: update_coupons_def coupons.update_Inr put_coupons_def)

lemma update_attempts_Inr:
  "update_attempts p f d = Inr d' \<longleftrightarrow>
     (\<forall>r\<in>set (db_attempts d). p r \<longrightarrow> attempt_check d (f r)) \<and>
     attempts_unique (update_where p f (db_attempts d)) \<and> d' = d\<lparr>db_attempts := update_where p f (db_attempts d)\<rparr>"
  by (simp add: update_attempts_def attempts.update_Inr put_attempts_def)

lemma update_quarantine_Inr:
  "update_quarantine p f d = Inr d' \<longleftrightarrow>
     (\<forall>r\<in>set (db_quarantine d). p r \<longrightarrow> quarantine_check d (f r)) \<and>
     quarantines_unique (update_where p f (db_quarantine d)) \<and>
     d' = d\<lparr>db_quarantine := update_where p f (db_quarantine d)\<rparr>"
  by (simp add: update_quarantine_def quarantines.update_Inr put_quarantine_def)

lemma insert_order_Inr:
  "insert_order ord d = Inr (i, d') \<longleftrightarrow>
     db_order_seq d \<noteq> max_i64 \<and> gift_purchase_order_guard ord \<and> i = db_order_seq d + 1 \<and> order_check d (ord\<lparr>o_id := i\<rparr>) \<and>
     orders_unique (db_orders d @ [ord\<lparr>o_id := i\<rparr>]) \<and>
     d' = d\<lparr>db_orders := db_orders d @ [ord\<lparr>o_id := i\<rparr>], db_order_seq := i\<rparr>"
  by (auto simp: insert_order_def orders.insert_Inr put_orders_def)

lemma insert_plan_Inr:
  "insert_plan p d = Inr (i, d') \<longleftrightarrow>
     db_plan_seq d \<noteq> max_i64 \<and> i = db_plan_seq d + 1 \<and> plan_check d (p\<lparr>p_id := i\<rparr>) \<and>
     plans_unique (db_plans d @ [p\<lparr>p_id := i\<rparr>]) \<and>
     d' = d\<lparr>db_plans := db_plans d @ [p\<lparr>p_id := i\<rparr>], db_plan_seq := i\<rparr>"
  by (auto simp: insert_plan_def plans.insert_Inr put_plans_def)

lemma insert_coupon_Inr:
  "insert_coupon c d = Inr (i, d') \<longleftrightarrow>
     db_coupon_seq d \<noteq> max_i64 \<and> i = db_coupon_seq d + 1 \<and> coupon_check d (c\<lparr>c_id := i\<rparr>) \<and>
     coupons_unique (db_coupons d @ [c\<lparr>c_id := i\<rparr>]) \<and>
     d' = d\<lparr>db_coupons := db_coupons d @ [c\<lparr>c_id := i\<rparr>], db_coupon_seq := i\<rparr>"
  by (auto simp: insert_coupon_def coupons.insert_Inr put_coupons_def)

lemma insert_attempt_Inr:
  "insert_attempt a d = Inr (i, d') \<longleftrightarrow>
     db_attempt_seq d \<noteq> max_i64 \<and> i = db_attempt_seq d + 1 \<and> attempt_check d (a\<lparr>a_id := i\<rparr>) \<and>
     attempts_unique (db_attempts d @ [a\<lparr>a_id := i\<rparr>]) \<and>
     d' = d\<lparr>db_attempts := db_attempts d @ [a\<lparr>a_id := i\<rparr>], db_attempt_seq := i\<rparr>"
  by (auto simp: insert_attempt_def attempts.insert_Inr put_attempts_def)

lemma insert_receipt_Inr:
  "insert_receipt r d = Inr d' \<longleftrightarrow>
     receipt_check d r \<and> receipts_unique (db_receipts d @ [r]) \<and> d' = d\<lparr>db_receipts := db_receipts d @ [r]\<rparr>"
  by (simp add: insert_receipt_def receipts.insert_Inr put_receipts_def)

lemma insert_event_Inr:
  "insert_event e d = Inr d' \<longleftrightarrow>
     event_check d e \<and> events_unique (db_events d @ [e]) \<and> d' = d\<lparr>db_events := db_events d @ [e]\<rparr>"
  by (simp add: insert_event_def events.insert_Inr put_events_def)

lemma insert_quarantine_Inr:
  "insert_quarantine q d = Inr d' \<longleftrightarrow>
     quarantine_check d q \<and> quarantines_unique (db_quarantine d @ [q]) \<and>
     d' = d\<lparr>db_quarantine := db_quarantine d @ [q]\<rparr>"
  by (simp add: insert_quarantine_def quarantines.insert_Inr put_quarantine_def)

lemma insert_commission_log_Inr:
  "insert_commission_log l d = Inr d' \<longleftrightarrow>
     commission_log_check d l \<and> commission_logs_unique (db_commission_logs d @ [l]) \<and>
     d' = d\<lparr>db_commission_logs := db_commission_logs d @ [l]\<rparr>"
  by (simp add: insert_commission_log_def commission_logs.insert_Inr put_commission_logs_def)

lemma insert_reset_log_Inr:
  "insert_reset_log l d = Inr d' \<longleftrightarrow>
     reset_log_check d l \<and> reset_logs_unique (db_reset_logs d @ [l]) \<and>
     d' = d\<lparr>db_reset_logs := db_reset_logs d @ [l]\<rparr>"
  by (simp add: insert_reset_log_def reset_logs.insert_Inr put_reset_logs_def)

lemma update_gift_templates_Inr:
  "update_gift_templates p f d = Inr d' \<longleftrightarrow>
     (\<forall>r\<in>set (db_gift_templates d). p r \<longrightarrow> gift_template_check d (f r)) \<and>
     gift_templates_unique (update_where p f (db_gift_templates d)) \<and>
     d' = d\<lparr>db_gift_templates := update_where p f (db_gift_templates d)\<rparr>"
  by (simp add: update_gift_templates_def gift_templates.update_Inr put_gift_templates_def)

lemma update_gift_codes_Inr:
  "update_gift_codes p f d = Inr d' \<longleftrightarrow>
     (\<forall>r\<in>set (db_gift_codes d). p r \<longrightarrow> gift_code_check d (f r)) \<and>
     gift_codes_unique (update_where p f (db_gift_codes d)) \<and>
     d' = d\<lparr>db_gift_codes := update_where p f (db_gift_codes d)\<rparr>"
  by (simp add: update_gift_codes_def gift_codes.update_Inr put_gift_codes_def)

lemma insert_gift_template_Inr:
  "insert_gift_template t d = Inr (i, d') \<longleftrightarrow>
     db_gift_template_seq d \<noteq> max_i64 \<and> i = db_gift_template_seq d + 1 \<and> gift_template_check d (t\<lparr>gt_id := i\<rparr>) \<and>
     gift_templates_unique (db_gift_templates d @ [t\<lparr>gt_id := i\<rparr>]) \<and>
     d' = d\<lparr>db_gift_templates := db_gift_templates d @ [t\<lparr>gt_id := i\<rparr>], db_gift_template_seq := i\<rparr>"
  by (auto simp: insert_gift_template_def gift_templates.insert_Inr put_gift_templates_def)

lemma insert_gift_code_Inr:
  "insert_gift_code c d = Inr (i, d') \<longleftrightarrow>
     db_gift_code_seq d \<noteq> max_i64 \<and> i = db_gift_code_seq d + 1 \<and> gift_code_check d (c\<lparr>gc_id := i\<rparr>) \<and>
     gift_codes_unique (db_gift_codes d @ [c\<lparr>gc_id := i\<rparr>]) \<and>
     d' = d\<lparr>db_gift_codes := db_gift_codes d @ [c\<lparr>gc_id := i\<rparr>], db_gift_code_seq := i\<rparr>"
  by (auto simp: insert_gift_code_def gift_codes.insert_Inr put_gift_codes_def)

lemma insert_gift_usage_Inr:
  "insert_gift_usage g d = Inr (i, d') \<longleftrightarrow>
     db_gift_usage_seq d \<noteq> max_i64 \<and> i = db_gift_usage_seq d + 1 \<and> gift_usage_check d (g\<lparr>gu_id := i\<rparr>) \<and>
     gift_usages_unique (db_gift_usages d @ [g\<lparr>gu_id := i\<rparr>]) \<and>
     d' = d\<lparr>db_gift_usages := db_gift_usages d @ [g\<lparr>gu_id := i\<rparr>], db_gift_usage_seq := i\<rparr>"
  by (auto simp: insert_gift_usage_def gift_usages.insert_Inr put_gift_usages_def)

lemmas statements_Inr = update_users_Inr update_plans_Inr update_orders_Inr update_coupons_Inr
  update_attempts_Inr update_quarantine_Inr insert_order_Inr insert_plan_Inr insert_coupon_Inr
  insert_attempt_Inr insert_receipt_Inr insert_event_Inr insert_quarantine_Inr
  insert_commission_log_Inr insert_reset_log_Inr update_gift_templates_Inr update_gift_codes_Inr
  insert_gift_template_Inr insert_gift_code_Inr insert_gift_usage_Inr

section \<open>The invariant of the database\<close>

text \<open>
  Every table satisfies its constraints, and no id is above the table's sequence, so that the
  next id is fresh.
\<close>

definition seqs_ok :: "db \<Rightarrow> bool" where
  "seqs_ok d \<longleftrightarrow>
     list_all (\<lambda>u. 0 < u_id u) (db_users d) \<and>
     list_all (\<lambda>r. o_id r \<le> db_order_seq d) (db_orders d) \<and>
     list_all (\<lambda>r. p_id r \<le> db_plan_seq d) (db_plans d) \<and>
     list_all (\<lambda>r. c_id r \<le> db_coupon_seq d) (db_coupons d) \<and>
     list_all (\<lambda>r. a_id r \<le> db_attempt_seq d) (db_attempts d) \<and>
     list_all (\<lambda>r. gt_id r \<le> db_gift_template_seq d) (db_gift_templates d) \<and>
     list_all (\<lambda>r. gc_id r \<le> db_gift_code_seq d) (db_gift_codes d) \<and>
     list_all (\<lambda>r. gu_id r \<le> db_gift_usage_seq d) (db_gift_usages d)"

definition db_ok :: "db \<Rightarrow> bool" where
  "db_ok d \<longleftrightarrow>
     users.holds d \<and> plans.holds d \<and> orders.holds d \<and> coupons.holds d \<and> attempts.holds d \<and>
     receipts.holds d \<and> events.holds d \<and> quarantines.holds d \<and> commission_logs.holds d \<and>
     reset_logs.holds d \<and> gift_templates.holds d \<and> gift_codes.holds d \<and> gift_usages.holds d \<and> settings_ok (db_settings d) \<and> seqs_ok d"

lemmas holds_defs = users.holds_def plans.holds_def orders.holds_def coupons.holds_def
  attempts.holds_def receipts.holds_def events.holds_def quarantines.holds_def
  commission_logs.holds_def reset_logs.holds_def gift_templates.holds_def gift_codes.holds_def gift_usages.holds_def

text \<open>
  What another table's rows refer to is the set of ids: an update that keeps the ids of its
  table keeps the references of every other table.
\<close>

lemma ids_update_where:
  "(\<And>r. g (f r) = g r) \<Longrightarrow> map g (update_where p f rows) = map g rows"
  by (rule map_update_where_inv)

lemma set_ids_update_where:
  "(\<And>r. g (f r) = g r) \<Longrightarrow> g ` set (update_where p f rows) = g ` set rows"
  by (metis list.set_map ids_update_where)

lemma ids_bound:
  "g ` set rs' = g ` set rs \<Longrightarrow> list_all (\<lambda>r. g r \<le> n) rs \<Longrightarrow> list_all (\<lambda>r. g r \<le> n) rs'"
  unfolding list_all_iff by (metis (no_types, lifting) imageE imageI)

lemma ids_positive:
  "g ` set rs' = g ` set rs \<Longrightarrow> list_all (\<lambda>r. (0::int) < g r) rs \<Longrightarrow> list_all (\<lambda>r. 0 < g r) rs'"
  unfolding list_all_iff by (metis (no_types, lifting) imageE imageI)

lemma update_users_keeps:
  assumes "update_users p f d = Inr d'" and "\<And>u. u_id (f u) = u_id u" and ok: "db_ok d"
  shows "db_ok d'"
proof -
  have ids: "u_id ` set (db_users d') = u_id ` set (db_users d)"
    using assms(1,2) by (simp add: update_users_Inr set_ids_update_where)
  then have pos: "list_all (\<lambda>u. 0 < u_id u) (db_users d')"
    using ok by (auto simp: db_ok_def seqs_ok_def intro: ids_positive)
  have "users.holds d'"
    using assms(1) ok by (auto simp: db_ok_def update_users_def intro: users.update_keeps)
  moreover obtain rs where "d' = d\<lparr>db_users := rs\<rparr>"
    using assms(1) by (simp add: update_users_Inr)
  ultimately show ?thesis using ok ids pos
    by (simp add: db_ok_def holds_defs check_defs refs_defs seqs_ok_def list_all_iff)
qed

lemma update_plans_keeps:
  assumes "update_plans p f d = Inr d'" and "\<And>r. p_id (f r) = p_id r" and ok: "db_ok d"
  shows "db_ok d'"
proof -
  have ids: "p_id ` set (db_plans d') = p_id ` set (db_plans d)"
    using assms(1,2) by (simp add: update_plans_Inr set_ids_update_where)
  then have bound: "list_all (\<lambda>r. p_id r \<le> db_plan_seq d) (db_plans d')"
    using ok by (auto simp: db_ok_def seqs_ok_def intro: ids_bound)
  have "plans.holds d'"
    using assms(1) ok by (auto simp: db_ok_def update_plans_def intro: plans.update_keeps)
  moreover obtain rs where "d' = d\<lparr>db_plans := rs\<rparr>"
    using assms(1) by (simp add: update_plans_Inr)
  ultimately show ?thesis using ok ids bound
    by (simp add: db_ok_def holds_defs check_defs refs_defs seqs_ok_def list_all_iff)
qed

lemma update_orders_keeps:
  assumes "update_orders p f d = Inr d'" and "\<And>r. o_id (f r) = o_id r" and ok: "db_ok d"
  shows "db_ok d'"
proof -
  have ids: "o_id ` set (db_orders d') = o_id ` set (db_orders d)"
    using assms(1,2) by (simp add: update_orders_Inr set_ids_update_where)
  then have bound: "list_all (\<lambda>r. o_id r \<le> db_order_seq d) (db_orders d')"
    using ok by (auto simp: db_ok_def seqs_ok_def intro: ids_bound)
  have "orders.holds d'"
    using assms(1) ok by (auto simp: db_ok_def update_orders_def intro: orders.update_keeps)
  moreover obtain rs where "d' = d\<lparr>db_orders := rs\<rparr>"
    using assms(1) by (simp add: update_orders_Inr)
  ultimately show ?thesis using ok ids bound
    by (simp add: db_ok_def holds_defs check_defs refs_defs seqs_ok_def list_all_iff)
qed

lemma update_coupons_keeps:
  assumes "update_coupons p f d = Inr d'" and "\<And>r. c_id (f r) = c_id r" and ok: "db_ok d"
  shows "db_ok d'"
proof -
  have ids: "c_id ` set (db_coupons d') = c_id ` set (db_coupons d)"
    using assms(1,2) by (simp add: update_coupons_Inr set_ids_update_where)
  then have bound: "list_all (\<lambda>r. c_id r \<le> db_coupon_seq d) (db_coupons d')"
    using ok by (auto simp: db_ok_def seqs_ok_def intro: ids_bound)
  have "coupons.holds d'"
    using assms(1) ok by (auto simp: db_ok_def update_coupons_def intro: coupons.update_keeps)
  moreover obtain rs where "d' = d\<lparr>db_coupons := rs\<rparr>"
    using assms(1) by (simp add: update_coupons_Inr)
  ultimately show ?thesis using ok ids bound
    by (simp add: db_ok_def holds_defs check_defs refs_defs seqs_ok_def list_all_iff)
qed

lemma update_attempts_keeps:
  assumes "update_attempts p f d = Inr d'" and "\<And>r. a_id (f r) = a_id r" and ok: "db_ok d"
  shows "db_ok d'"
proof -
  have bound: "list_all (\<lambda>r. a_id r \<le> db_attempt_seq d) (db_attempts d')"
    using assms by (auto simp: update_attempts_Inr db_ok_def seqs_ok_def update_where_def list_all_iff)
  have "attempts.holds d'"
    using assms(1) ok by (auto simp: db_ok_def update_attempts_def intro: attempts.update_keeps)
  moreover obtain rs where "d' = d\<lparr>db_attempts := rs\<rparr>"
    using assms(1) by (simp add: update_attempts_Inr)
  ultimately show ?thesis using ok bound
    by (simp add: db_ok_def holds_defs check_defs refs_defs seqs_ok_def list_all_iff)
qed

lemma update_quarantine_keeps:
  assumes "update_quarantine p f d = Inr d'" and ok: "db_ok d"
  shows "db_ok d'"
proof -
  have "quarantines.holds d'"
    using assms(1) ok by (auto simp: db_ok_def update_quarantine_def intro: quarantines.update_keeps)
  moreover obtain rs where "d' = d\<lparr>db_quarantine := rs\<rparr>"
    using assms(1) by (simp add: update_quarantine_Inr)
  ultimately show ?thesis using ok
    by (simp add: db_ok_def holds_defs check_defs refs_defs seqs_ok_def list_all_iff)
qed

lemma list_all_mono_le: "list_all (\<lambda>r. g r \<le> (a::int)) xs \<Longrightarrow> a \<le> b \<Longrightarrow> list_all (\<lambda>r. g r \<le> b) xs"
  by (auto simp: list_all_iff)

lemma insert_order_keeps:
  assumes ins: "insert_order ord d = Inr (i, d')" and ok: "db_ok d"
  shows "db_ok d'"
proof -
  let ?d = "d\<lparr>db_orders := db_orders d @ [ord\<lparr>o_id := i\<rparr>]\<rparr>"
  from ins have d': "d' = ?d\<lparr>db_order_seq := i\<rparr>" and i: "i = db_order_seq d + 1"
    and "exec_insert db_orders put_orders order_check orders_unique (ord\<lparr>o_id := i\<rparr>) d = Inr ?d"
    by (auto simp: insert_order_Inr orders.insert_Inr put_orders_def)
  then have "orders.holds ?d" using ok orders.insert_keeps by (auto simp: db_ok_def)
  moreover have "list_all (\<lambda>r. o_id r \<le> i) (db_orders d @ [ord\<lparr>o_id := i\<rparr>])"
    using ok i by (auto simp: db_ok_def seqs_ok_def intro: list_all_mono_le)
  ultimately show ?thesis using ok unfolding d'
    by (auto simp: db_ok_def holds_defs check_defs refs_defs seqs_ok_def list_all_iff)
qed

lemma insert_plan_keeps:
  assumes ins: "insert_plan p d = Inr (i, d')" and ok: "db_ok d"
  shows "db_ok d'"
proof -
  let ?d = "d\<lparr>db_plans := db_plans d @ [p\<lparr>p_id := i\<rparr>]\<rparr>"
  from ins have d': "d' = ?d\<lparr>db_plan_seq := i\<rparr>" and i: "i = db_plan_seq d + 1"
    and "exec_insert db_plans put_plans plan_check plans_unique (p\<lparr>p_id := i\<rparr>) d = Inr ?d"
    by (auto simp: insert_plan_Inr plans.insert_Inr put_plans_def)
  then have "plans.holds ?d" using ok plans.insert_keeps by (auto simp: db_ok_def)
  moreover have "list_all (\<lambda>r. p_id r \<le> i) (db_plans d @ [p\<lparr>p_id := i\<rparr>])"
    using ok i by (auto simp: db_ok_def seqs_ok_def intro: list_all_mono_le)
  moreover have "opt_all (\<lambda>q. q \<in> set (map p_id (db_plans d))) x \<Longrightarrow>
      opt_all (\<lambda>q. q = i \<or> q \<in> p_id ` set (db_plans d)) x" for x
    by (cases x) auto
  ultimately show ?thesis using ok unfolding d'
    by (auto simp: db_ok_def holds_defs check_defs refs_defs seqs_ok_def list_all_iff)
qed

lemma insert_coupon_keeps:
  assumes ins: "insert_coupon c d = Inr (i, d')" and ok: "db_ok d"
  shows "db_ok d'"
proof -
  let ?d = "d\<lparr>db_coupons := db_coupons d @ [c\<lparr>c_id := i\<rparr>]\<rparr>"
  from ins have d': "d' = ?d\<lparr>db_coupon_seq := i\<rparr>" and i: "i = db_coupon_seq d + 1"
    and "exec_insert db_coupons put_coupons coupon_check coupons_unique (c\<lparr>c_id := i\<rparr>) d = Inr ?d"
    by (auto simp: insert_coupon_Inr coupons.insert_Inr put_coupons_def)
  then have "coupons.holds ?d" using ok coupons.insert_keeps by (auto simp: db_ok_def)
  moreover have "list_all (\<lambda>r. c_id r \<le> i) (db_coupons d @ [c\<lparr>c_id := i\<rparr>])"
    using ok i by (auto simp: db_ok_def seqs_ok_def intro: list_all_mono_le)
  moreover have "opt_all (\<lambda>q. q \<in> set (map c_id (db_coupons d))) x \<Longrightarrow>
      opt_all (\<lambda>q. q = i \<or> q \<in> c_id ` set (db_coupons d)) x" for x
    by (cases x) auto
  ultimately show ?thesis using ok unfolding d'
    by (auto simp: db_ok_def holds_defs check_defs refs_defs seqs_ok_def list_all_iff)
qed

lemma insert_attempt_keeps:
  assumes ins: "insert_attempt a d = Inr (i, d')" and ok: "db_ok d"
  shows "db_ok d'"
proof -
  let ?d = "d\<lparr>db_attempts := db_attempts d @ [a\<lparr>a_id := i\<rparr>]\<rparr>"
  from ins have d': "d' = ?d\<lparr>db_attempt_seq := i\<rparr>" and i: "i = db_attempt_seq d + 1"
    and "exec_insert db_attempts put_attempts attempt_check attempts_unique (a\<lparr>a_id := i\<rparr>) d = Inr ?d"
    by (auto simp: insert_attempt_Inr attempts.insert_Inr put_attempts_def)
  then have "attempts.holds ?d" using ok attempts.insert_keeps by (auto simp: db_ok_def)
  moreover have "list_all (\<lambda>r. a_id r \<le> i) (db_attempts d @ [a\<lparr>a_id := i\<rparr>])"
    using ok i by (auto simp: db_ok_def seqs_ok_def intro: list_all_mono_le)
  ultimately show ?thesis using ok unfolding d'
    by (auto simp: db_ok_def holds_defs check_defs refs_defs seqs_ok_def list_all_iff)
qed

lemma insert_receipt_keeps:
  assumes "insert_receipt r d = Inr d'" and "db_ok d"
  shows "db_ok d'"
proof -
  have "receipts.holds d'"
    using assms by (auto simp: db_ok_def insert_receipt_def intro: receipts.insert_keeps)
  moreover obtain rs where "d' = d\<lparr>db_receipts := rs\<rparr>"
    using assms(1) by (simp add: insert_receipt_Inr)
  ultimately show ?thesis using assms(2)
    by (simp add: db_ok_def holds_defs check_defs refs_defs seqs_ok_def list_all_iff)
qed

lemma insert_event_keeps:
  assumes "insert_event r d = Inr d'" and "db_ok d"
  shows "db_ok d'"
proof -
  have "events.holds d'"
    using assms by (auto simp: db_ok_def insert_event_def intro: events.insert_keeps)
  moreover obtain rs where "d' = d\<lparr>db_events := rs\<rparr>"
    using assms(1) by (simp add: insert_event_Inr)
  ultimately show ?thesis using assms(2)
    by (simp add: db_ok_def holds_defs check_defs refs_defs seqs_ok_def list_all_iff)
qed

lemma insert_quarantine_keeps:
  assumes "insert_quarantine r d = Inr d'" and "db_ok d"
  shows "db_ok d'"
proof -
  have "quarantines.holds d'"
    using assms by (auto simp: db_ok_def insert_quarantine_def intro: quarantines.insert_keeps)
  moreover obtain rs where "d' = d\<lparr>db_quarantine := rs\<rparr>"
    using assms(1) by (simp add: insert_quarantine_Inr)
  ultimately show ?thesis using assms(2)
    by (simp add: db_ok_def holds_defs check_defs refs_defs seqs_ok_def list_all_iff)
qed

lemma insert_commission_log_keeps:
  assumes "insert_commission_log r d = Inr d'" and "db_ok d"
  shows "db_ok d'"
proof -
  have "commission_logs.holds d'"
    using assms by (auto simp: db_ok_def insert_commission_log_def intro: commission_logs.insert_keeps)
  moreover obtain rs where "d' = d\<lparr>db_commission_logs := rs\<rparr>"
    using assms(1) by (simp add: insert_commission_log_Inr)
  ultimately show ?thesis using assms(2)
    by (simp add: db_ok_def holds_defs check_defs refs_defs seqs_ok_def list_all_iff)
qed

lemma insert_reset_log_keeps:
  assumes "insert_reset_log r d = Inr d'" and "db_ok d"
  shows "db_ok d'"
proof -
  have "reset_logs.holds d'"
    using assms by (auto simp: db_ok_def insert_reset_log_def intro: reset_logs.insert_keeps)
  moreover obtain rs where "d' = d\<lparr>db_reset_logs := rs\<rparr>"
    using assms(1) by (simp add: insert_reset_log_Inr)
  ultimately show ?thesis using assms(2)
    by (simp add: db_ok_def holds_defs check_defs refs_defs seqs_ok_def list_all_iff)
qed

lemma update_gift_templates_keeps:
  assumes "update_gift_templates p f d = Inr d'" and "\<And>r. gt_id (f r) = gt_id r" and ok: "db_ok d"
  shows "db_ok d'"
proof -
  have ids: "gt_id ` set (db_gift_templates d') = gt_id ` set (db_gift_templates d)"
    using assms(1,2) by (simp add: update_gift_templates_Inr set_ids_update_where)
  then have bound: "list_all (\<lambda>r. gt_id r \<le> db_gift_template_seq d) (db_gift_templates d')"
    using ok by (auto simp: db_ok_def seqs_ok_def intro: ids_bound)
  have "gift_templates.holds d'"
    using assms(1) ok by (auto simp: db_ok_def update_gift_templates_def intro: gift_templates.update_keeps)
  moreover obtain rs where "d' = d\<lparr>db_gift_templates := rs\<rparr>"
    using assms(1) by (simp add: update_gift_templates_Inr)
  ultimately show ?thesis using ok ids bound
    by (simp add: db_ok_def holds_defs check_defs refs_defs seqs_ok_def list_all_iff)
qed

lemma update_gift_codes_keeps:
  assumes "update_gift_codes p f d = Inr d'" and "\<And>r. gc_id (f r) = gc_id r" and ok: "db_ok d"
  shows "db_ok d'"
proof -
  have ids: "gc_id ` set (db_gift_codes d') = gc_id ` set (db_gift_codes d)"
    using assms(1,2) by (simp add: update_gift_codes_Inr set_ids_update_where)
  then have bound: "list_all (\<lambda>r. gc_id r \<le> db_gift_code_seq d) (db_gift_codes d')"
    using ok by (auto simp: db_ok_def seqs_ok_def intro: ids_bound)
  have "gift_codes.holds d'"
    using assms(1) ok by (auto simp: db_ok_def update_gift_codes_def intro: gift_codes.update_keeps)
  moreover obtain rs where "d' = d\<lparr>db_gift_codes := rs\<rparr>"
    using assms(1) by (simp add: update_gift_codes_Inr)
  ultimately show ?thesis using ok ids bound
    by (simp add: db_ok_def holds_defs check_defs refs_defs seqs_ok_def list_all_iff)
qed

lemma insert_gift_template_keeps:
  assumes ins: "insert_gift_template t d = Inr (i, d')" and ok: "db_ok d"
  shows "db_ok d'"
proof -
  let ?d = "d\<lparr>db_gift_templates := db_gift_templates d @ [t\<lparr>gt_id := i\<rparr>]\<rparr>"
  from ins have d': "d' = ?d\<lparr>db_gift_template_seq := i\<rparr>" and i: "i = db_gift_template_seq d + 1"
    and "exec_insert db_gift_templates put_gift_templates gift_template_check gift_templates_unique (t\<lparr>gt_id := i\<rparr>) d = Inr ?d"
    by (auto simp: insert_gift_template_Inr gift_templates.insert_Inr put_gift_templates_def)
  then have "gift_templates.holds ?d" using ok gift_templates.insert_keeps by (auto simp: db_ok_def)
  moreover have "list_all (\<lambda>r. gt_id r \<le> i) (db_gift_templates d @ [t\<lparr>gt_id := i\<rparr>])"
    using ok i by (auto simp: db_ok_def seqs_ok_def intro: list_all_mono_le)
  ultimately show ?thesis using ok unfolding d'
    by (auto simp: db_ok_def holds_defs check_defs refs_defs seqs_ok_def list_all_iff)
qed

lemma insert_gift_code_keeps:
  assumes ins: "insert_gift_code c d = Inr (i, d')" and ok: "db_ok d"
  shows "db_ok d'"
proof -
  let ?d = "d\<lparr>db_gift_codes := db_gift_codes d @ [c\<lparr>gc_id := i\<rparr>]\<rparr>"
  from ins have d': "d' = ?d\<lparr>db_gift_code_seq := i\<rparr>" and i: "i = db_gift_code_seq d + 1"
    and "exec_insert db_gift_codes put_gift_codes gift_code_check gift_codes_unique (c\<lparr>gc_id := i\<rparr>) d = Inr ?d"
    by (auto simp: insert_gift_code_Inr gift_codes.insert_Inr put_gift_codes_def)
  then have "gift_codes.holds ?d" using ok gift_codes.insert_keeps by (auto simp: db_ok_def)
  moreover have "list_all (\<lambda>r. gc_id r \<le> i) (db_gift_codes d @ [c\<lparr>gc_id := i\<rparr>])"
    using ok i by (auto simp: db_ok_def seqs_ok_def intro: list_all_mono_le)
  moreover have "opt_all (\<lambda>q. q \<in> set (map gc_id (db_gift_codes d))) x \<Longrightarrow>
      opt_all (\<lambda>q. q = i \<or> q \<in> gc_id ` set (db_gift_codes d)) x" for x
    by (cases x) auto
  ultimately show ?thesis using ok unfolding d'
    by (auto simp: db_ok_def holds_defs check_defs refs_defs seqs_ok_def list_all_iff)
qed

lemma insert_gift_usage_keeps:
  assumes ins: "insert_gift_usage g d = Inr (i, d')" and ok: "db_ok d"
  shows "db_ok d'"
proof -
  let ?d = "d\<lparr>db_gift_usages := db_gift_usages d @ [g\<lparr>gu_id := i\<rparr>]\<rparr>"
  from ins have d': "d' = ?d\<lparr>db_gift_usage_seq := i\<rparr>" and i: "i = db_gift_usage_seq d + 1"
    and "exec_insert db_gift_usages put_gift_usages gift_usage_check gift_usages_unique (g\<lparr>gu_id := i\<rparr>) d = Inr ?d"
    by (auto simp: insert_gift_usage_Inr gift_usages.insert_Inr put_gift_usages_def)
  then have "gift_usages.holds ?d" using ok gift_usages.insert_keeps by (auto simp: db_ok_def)
  moreover have "list_all (\<lambda>r. gu_id r \<le> i) (db_gift_usages d @ [g\<lparr>gu_id := i\<rparr>])"
    using ok i by (auto simp: db_ok_def seqs_ok_def intro: list_all_mono_le)
  ultimately show ?thesis using ok unfolding d'
    by (auto simp: db_ok_def holds_defs check_defs refs_defs seqs_ok_def list_all_iff)
qed

lemmas statements_keep = update_users_keeps update_plans_keeps update_orders_keeps
  update_coupons_keeps update_attempts_keeps update_quarantine_keeps insert_order_keeps
  insert_plan_keeps insert_coupon_keeps insert_attempt_keeps insert_receipt_keeps
  insert_event_keeps insert_quarantine_keeps insert_commission_log_keeps insert_reset_log_keeps
  update_gift_templates_keeps update_gift_codes_keeps insert_gift_template_keeps insert_gift_code_keeps
  insert_gift_usage_keeps

end
