(* ===== verification/Plans.thy ===== *)
theory Plans
  imports Traffic_Reset Store_Tables
begin

text \<open>
  The plan catalogue (\<^verbatim>\<open>internal/store/plans.go\<close>, \<^verbatim>\<open>plan_visibility.go\<close>): creating, editing, hiding,
  reordering and deleting plans under optimistic locking, the offers a guest or a user sees,
  and the scheduled traffic resets of the plan's users.
\<close>

section \<open>Inputs\<close>

record save_plan_input =
  pi_distributor_hwid_limit :: "int option"
  pi_group_id :: "int option"
  pi_transfer_enable_gib :: int
  pi_name :: string
  pi_speed_limit :: "int option"
  pi_content :: string
  pi_reset_traffic_method :: "int option"
  pi_capacity_limit :: "int option"
  pi_prices :: "(string \<times> int) list"
  pi_device_limit :: "int option"
  pi_tags :: "string list"

record plan_state =
  ps_show :: bool
  ps_sell :: bool
  ps_renew :: bool

text \<open>A plan as it is read: the row and the three counts of \<^verbatim>\<open>planSelect\<close>.\<close>

record plan_info =
  pl_row :: plan
  pl_users_count :: int
  pl_active_users_count :: int
  pl_capacity_users_count :: int

record plan_offer =
  po_plan :: plan_info
  po_capacity_remaining :: "int option"
  po_can_purchase :: bool
  po_can_renew :: bool

record save_plan_visibility_input =
  vi_plan_id :: int
  vi_customer_visibility :: string
  vi_distributor_visibility :: string
  vi_customer_user_ids :: "int list"
  vi_distributor_user_ids :: "int list"

section \<open>Periods and input normalization\<close>

definition bytesPerGiB :: int where
  "bytesPerGiB = 1073741824"

definition legacyOrderPeriods :: "(string \<times> string) list" where
  "legacyOrderPeriods =
     [(''month_price'', ''monthly''), (''quarter_price'', ''quarterly''),
      (''half_year_price'', ''half_yearly''), (''year_price'', ''yearly''),
      (''two_year_price'', ''two_yearly''), (''three_year_price'', ''three_yearly''),
      (''onetime_price'', ''onetime''), (''reset_price'', ''reset_traffic'')]"

definition normalizeOrderPeriod :: "string \<Rightarrow> string \<times> bool" where
  "normalizeOrderPeriod period =
     (let p = TrimSpace period;
          q = (case map_of legacyOrderPeriods p of Some converted \<Rightarrow> converted | None \<Rightarrow> p)
      in (q, q \<in> set orderPeriods))"

definition validOptionalPlanInt :: "int option \<Rightarrow> int \<Rightarrow> bool" where
  "validOptionalPlanInt value maximum = (case value of None \<Rightarrow> True | Some v \<Rightarrow> 0 \<le> v \<and> v \<le> maximum)"

definition sameOptionalPlanInt :: "int option \<Rightarrow> int option \<Rightarrow> bool" where
  "sameOptionalPlanInt current nxt =
     (case current of
        None \<Rightarrow> nxt = None
      | Some c \<Rightarrow> (case nxt of None \<Rightarrow> False | Some n \<Rightarrow> c = n))"

fun tags_loop :: "string list \<Rightarrow> string list \<Rightarrow> string list" where
  "tags_loop seen [] = []"
| "tags_loop seen (v # vs) =
     (let t = TrimSpace v in
      if t = [] \<or> t \<in> set seen then tags_loop seen vs else t # tags_loop (t # seen) vs)"

definition normalizePlanTags :: "string list \<Rightarrow> string list" where
  "normalizePlanTags values = tags_loop [] values"

text \<open>A Go map kept as an association list: assigning a key replaces its value.\<close>

fun map_put :: "'k \<Rightarrow> 'v \<Rightarrow> ('k \<times> 'v) list \<Rightarrow> ('k \<times> 'v) list" where
  "map_put k v [] = [(k, v)]"
| "map_put k v ((k', v') # m) = (if k = k' then (k, v) # m else (k', v') # map_put k v m)"

lemma map_of_map_put [simp]: "map_of (map_put k v m) = (map_of m)(k \<mapsto> v)"
  by (induction m) auto

text \<open>The loop over the price map; the list is the order in which the map is iterated.\<close>

fun prices_loop :: "(string \<times> int) list \<Rightarrow> (string \<times> int) list \<Rightarrow> store_error + (string \<times> int) list" where
  "prices_loop acc [] = Inr acc"
| "prices_loop acc ((period, price) # rest) =
     (let p = TrimSpace period in
      if p \<notin> set orderPeriods \<or> price < 0 \<or> price > 9000000000000000 then Inl ErrInvalidInput
      else prices_loop (map_put p price acc) rest)"

text \<open>\<^verbatim>\<open>utf8.RuneCountInString\<close> of a valid string: the bytes that are not continuation bytes.\<close>

definition RuneCountInString :: "string \<Rightarrow> nat" where
  "RuneCountInString s = length (filter (\<lambda>ch. byte ch < 128 \<or> 192 \<le> byte ch) s)"

definition valid_plan_tag :: "string \<Rightarrow> bool" where
  "valid_plan_tag tag \<longleftrightarrow> ValidString tag \<and> RuneCountInString tag \<le> 64 \<and> \<not> has_control tag"

definition normalizePlanInput :: "save_plan_input \<Rightarrow> store_error + save_plan_input" where
  "normalizePlanInput input =
     (if (case pi_distributor_hwid_limit input of None \<Rightarrow> False | Some h \<Rightarrow> h < 1 \<or> h > 100) then Inl ErrInvalidInput
      else
        let name = TrimSpace (pi_name input); content = TrimSpace (pi_content input) in
        if name = [] \<or> \<not> ValidString name \<or> RuneCountInString name > 255 \<or> has_control name
           \<or> \<not> ValidString content \<or> length content > 262144 \<or> CHR 0x00 \<in> set content
           \<or> pi_transfer_enable_gib input < 1 \<or> pi_transfer_enable_gib input > 8388607
           \<or> (case pi_group_id input of None \<Rightarrow> False | Some g \<Rightarrow> g < 1)
           \<or> \<not> validOptionalPlanInt (pi_speed_limit input) 1000000000
           \<or> \<not> validOptionalPlanInt (pi_device_limit input) 1000
           \<or> \<not> validOptionalPlanInt (pi_capacity_limit input) 1000000000
           \<or> (case pi_reset_traffic_method input of None \<Rightarrow> False | Some m \<Rightarrow> m < 0 \<or> m > 4)
        then Inl ErrInvalidInput
        else
          ebind (prices_loop [] (pi_prices input)) (\<lambda>prices.
            let tags = normalizePlanTags (pi_tags input) in
            if length tags > 20 then Inl ErrInvalidInput
            else if \<not> list_all valid_plan_tag tags then Inl ErrInvalidInput
            else Inr (input\<lparr>pi_name := name, pi_content := content, pi_prices := prices, pi_tags := tags\<rparr>)))"

section \<open>Reading plans\<close>

definition plan_info_of :: "db \<Rightarrow> instant \<Rightarrow> plan \<Rightarrow> plan_info" where
  "plan_info_of d now p =
     (let members = filter (\<lambda>u. u_plan_id u = Some (p_id p)) (db_users d) in
      \<lparr>pl_row = p,
       pl_users_count = int (count_where (\<lambda>u. u_account_kind u = AccountKindHuman) members),
       pl_active_users_count = int (count_where (\<lambda>u. u_account_kind u = AccountKindHuman \<and>
          (case u_expired_at u of None \<Rightarrow> True | Some e \<Rightarrow> e > unix now)) members),
       pl_capacity_users_count = int (count_where (\<lambda>u.
          case u_expired_at u of None \<Rightarrow> True | Some e \<Rightarrow> e \<ge> unix now) members)\<rparr>)"

definition getPlan :: "int \<Rightarrow> instant \<Rightarrow> db \<Rightarrow> store_error + plan_info" where
  "getPlan planID now d =
     (case List.find (\<lambda>p. p_id p = planID) (db_plans d) of
        None \<Rightarrow> Inl ErrNotFound
      | Some p \<Rightarrow> Inr (plan_info_of d now p))"

definition listPlans :: "instant \<Rightarrow> (plan_info \<Rightarrow> bool) \<Rightarrow> db \<Rightarrow> plan_info list" where
  "listPlans now p d =
     filter p (map (plan_info_of d now) (order_by p_sort_position (db_plans d)))"

text \<open>\<^verbatim>\<open>strings.NewReplacer(...).Replace\<close>: one left-to-right pass, the first pattern that matches.\<close>

definition strip_prefix :: "string \<Rightarrow> string \<Rightarrow> string option" where
  "strip_prefix pat s = (if take (length pat) s = pat then Some (drop (length pat) s) else None)"

fun first_match :: "(string \<times> string) list \<Rightarrow> string \<Rightarrow> (string \<times> string) option" where
  "first_match [] s = None"
| "first_match ((pat, rep) # rules) s =
     (case strip_prefix pat s of
        Some rest \<Rightarrow> (if pat = [] then first_match rules s else Some (rep, rest))
      | None \<Rightarrow> first_match rules s)"

lemma strip_prefix_Some: "strip_prefix pat s = Some rest \<Longrightarrow> s = pat @ rest"
  unfolding strip_prefix_def by (metis append_take_drop_id option.distinct(1) option.inject)

lemma first_match_shorter: "first_match rules s = Some (rep, rest) \<Longrightarrow> length rest < length s"
  by (induction rules s rule: first_match.induct)
     (auto split: if_splits option.splits dest!: strip_prefix_Some)

function replace_all :: "(string \<times> string) list \<Rightarrow> string \<Rightarrow> string" where
  "replace_all rules [] = []"
| "replace_all rules (ch # s) =
     (case first_match rules (ch # s) of
        Some (rep, rest) \<Rightarrow> rep @ replace_all rules rest
      | None \<Rightarrow> ch # replace_all rules s)"
  by pat_completeness auto
termination
  by (relation "measure (\<lambda>(rules, s). length s)") (auto dest: first_match_shorter)

definition resetLabels :: "string list" where
  "resetLabels = map (map char_of)
     [[230, 175, 143, 230, 156, 136, 49, 229, 143, 183 :: nat],
      [230, 140, 137, 230, 156, 136],
      [228, 184, 141, 233, 135, 141, 231, 189, 174],
      [230, 175, 143, 229, 185, 180, 49, 230, 156, 136, 49, 230, 151, 165],
      [230, 140, 137, 229, 185, 180]]"

definition planContentLimit :: "int option \<Rightarrow> string" where
  "planContentLimit value =
     (case value of
        None \<Rightarrow> map char_of [228, 184, 141, 233, 153, 144, 229, 136, 182 :: nat]
      | Some v \<Rightarrow> (if v < 0 then ''-'' @ decimal (nat (- v)) else decimal (nat v)))"

definition formatPlanContent :: "plan \<Rightarrow> int \<Rightarrow> string" where
  "formatPlanContent p systemResetMethod =
     (let method = (case p_reset_traffic_method p of None \<Rightarrow> systemResetMethod | Some m \<Rightarrow> m);
          resetLabel = (if 0 \<le> method \<and> method < 5 then resetLabels ! nat method else resetLabels ! 1)
      in replace_all
           [(''{{transfer}}'', planContentLimit (Some (p_transfer_enable_gib p))),
            (''{{speed}}'', planContentLimit (p_speed_limit p)),
            (''{{devices}}'', planContentLimit (p_device_limit p)),
            (''{{reset_method}}'', resetLabel)] (p_content p))"

definition plan_offer_of :: "int option \<Rightarrow> int \<Rightarrow> plan_info \<Rightarrow> plan_offer" where
  "plan_offer_of currentPlanID systemResetMethod info =
     (let p = pl_row info;
          remaining = (case p_capacity_limit p of
              None \<Rightarrow> None
            | Some c \<Rightarrow> (if c > 0 then
                           (let value = c - pl_capacity_users_count info in
                            Some (if value < 0 then 0 else value))
                         else None));
          isCurrent = (currentPlanID = Some (p_id p))
      in \<lparr>po_plan = info\<lparr>pl_row := p\<lparr>p_content := formatPlanContent p systemResetMethod\<rparr>\<rparr>,
          po_capacity_remaining = remaining,
          po_can_purchase = (p_show p \<and> p_sell p \<and> (case remaining of None \<Rightarrow> True | Some r \<Rightarrow> r > 0)),
          po_can_renew = (isCurrent \<and> p_renew p)\<rparr>)"

definition planOffers :: "plan_info list \<Rightarrow> int option \<Rightarrow> int \<Rightarrow> plan_offer list" where
  "planOffers ps currentPlanID systemResetMethod = map (plan_offer_of currentPlanID systemResetMethod) ps"

definition has_capacity :: "plan_info \<Rightarrow> bool" where
  "has_capacity info \<longleftrightarrow>
     (case p_capacity_limit (pl_row info) of
        None \<Rightarrow> True | Some c \<Rightarrow> c \<le> 0 \<or> pl_capacity_users_count info < c)"

definition ListGuestPlanOffers :: "instant \<Rightarrow> db \<Rightarrow> plan_offer list" where
  "ListGuestPlanOffers now d =
     planOffers
       (listPlans now (\<lambda>i. p_show (pl_row i) \<and> p_sell (pl_row i) \<and>
          p_customer_visibility (pl_row i) = ''all'' \<and> has_capacity i) d)
       None (s_traffic_reset_method (db_settings d))"

text \<open>The audience condition shared by \<^verbatim>\<open>ListUserPlanOffers\<close> and \<^verbatim>\<open>requirePlanAudience\<close>.\<close>

definition in_audience :: "db \<Rightarrow> bool \<Rightarrow> int \<Rightarrow> plan \<Rightarrow> bool" where
  "in_audience d distributor userID p \<longleftrightarrow>
     (let visibility = (if distributor then p_distributor_visibility p else p_customer_visibility p) in
      visibility = ''all'' \<or>
      (visibility = ''selected'' \<and>
       (p_id p, if distributor then ''distributor'' else ''customer'', userID) \<in> set (db_visibility d)))"

definition ListUserPlanOffers :: "int \<Rightarrow> instant \<Rightarrow> db \<Rightarrow> store_error + plan_offer list" where
  "ListUserPlanOffers userID now d =
     (if userID < 1 then Inl ErrInvalidInput else
      case List.find (\<lambda>u. u_id u = userID \<and> u_account_kind u = AccountKindHuman) (db_users d) of
        None \<Rightarrow> Inl ErrNotFound
      | Some u \<Rightarrow>
          Inr (planOffers
            (listPlans now (\<lambda>i.
               (p_show (pl_row i) \<and> p_sell (pl_row i) \<and> in_audience d (u_is_distributor u) userID (pl_row i) \<and>
                has_capacity i)
               \<or> (\<not> u_is_distributor u \<and> u_plan_id u = Some (p_id (pl_row i)) \<and> p_renew (pl_row i))) d)
            (u_plan_id u) (s_traffic_reset_method (db_settings d))))"

definition requirePlanAudience :: "int \<Rightarrow> int \<Rightarrow> db \<Rightarrow> store_error + unit" where
  "requirePlanAudience planID userID d =
     (if exists_where (\<lambda>u. u_id u = userID \<and> u_account_kind u = AccountKindHuman \<and>
           exists_where (\<lambda>p. p_id p = planID \<and> in_audience d (u_is_distributor u) userID p) (db_plans d))
           (db_users d)
      then Inr () else Inl ErrPlanUnavailable)"

section \<open>Operations on plans\<close>

definition validatePlanGroup :: "int option \<Rightarrow> db \<Rightarrow> store_error + unit" where
  "validatePlanGroup groupID d =
     (case groupID of None \<Rightarrow> Inr ()
      | Some g \<Rightarrow> (if g \<in> set (db_groups d) then Inr () else Inl ErrInvalidInput))"

definition planMutationError :: "int \<Rightarrow> db \<Rightarrow> store_error" where
  "planMutationError planID d =
     (if exists_where (\<lambda>p. p_id p = planID) (db_plans d) then ErrRevisionConflict else ErrNotFound)"

definition next_plan_position :: "plan list \<Rightarrow> int" where
  "next_plan_position ps = coalesce_max (- 1) (map p_sort_position ps) + 1"

text \<open>The row of a new plan: the \<^verbatim>\<open>INSERT\<close> of \<^verbatim>\<open>CreatePlan\<close> with the defaults of the columns it leaves out.\<close>

definition new_plan :: "save_plan_input \<Rightarrow> int \<Rightarrow> instant \<Rightarrow> plan" where
  "new_plan n position now =
     \<lparr>p_id = 0, p_group_id = pi_group_id n, p_transfer_enable_gib = pi_transfer_enable_gib n,
      p_name = pi_name n, p_speed_limit = pi_speed_limit n, p_show = False,
      p_sort_position = position, p_renew = True, p_content = pi_content n,
      p_reset_traffic_method = pi_reset_traffic_method n, p_capacity_limit = pi_capacity_limit n,
      p_prices = pi_prices n, p_sell = False, p_device_limit = pi_device_limit n, p_tags = pi_tags n,
      p_distributor_hwid_limit = (case pi_distributor_hwid_limit n of None \<Rightarrow> 1 | Some h \<Rightarrow> h),
      p_revision = 1, p_created_at = unix now, p_updated_at = unix now,
      p_customer_visibility = ''all'', p_distributor_visibility = ''none''\<rparr>"

definition CreatePlan :: "save_plan_input \<Rightarrow> instant \<Rightarrow> db \<Rightarrow> store_error + plan_info \<times> db" where
  "CreatePlan input now d =
     ebind (normalizePlanInput input) (\<lambda>n.
     ebind (validatePlanGroup (pi_group_id n) d) (\<lambda>_.
     ebind (insert_plan (new_plan n (next_plan_position (db_plans d)) now) d) (\<lambda>(i, d1).
     ebind (getPlan i now d1) (\<lambda>info. Inr (info, d1)))))"

text \<open>
  The users whose next reset is recomputed, 500 at a time in id order. \<open>sel\<close> is the
  \<^verbatim>\<open>WHERE\<close> of the query and \<open>w\<close> the extra condition of the prepared \<^verbatim>\<open>UPDATE\<close>.
\<close>

definition reschedule_user ::
  "location \<Rightarrow> int option \<Rightarrow> int \<Rightarrow> instant \<Rightarrow> (user \<Rightarrow> bool) \<Rightarrow> user \<Rightarrow> db \<Rightarrow> store_error + db" where
  "reschedule_user loc planMethod systemMethod now w u d =
     update_users (\<lambda>v. u_id v = u_id u \<and> w v)
       (\<lambda>v. v\<lparr>u_next_reset_at := CalculateNextTrafficReset loc planMethod systemMethod (u_expired_at u) now,
              u_updated_at := unix now\<rparr>) d"

definition reschedule_batch :: "(db \<Rightarrow> user \<Rightarrow> bool) \<Rightarrow> int \<Rightarrow> db \<Rightarrow> user list" where
  "reschedule_batch sel lastID d =
     take 500 (order_by u_id (filter (\<lambda>u. sel d u \<and> u_id u > lastID) (db_users d)))"

lemma reschedule_user_ids:
  "reschedule_user loc pm sm now w u d = Inr d' \<Longrightarrow> map u_id (db_users d') = map u_id (db_users d)"
  by (auto simp: reschedule_user_def update_users_Inr map_update_where_inv)

lemma efold_reschedule_ids:
  "efold (reschedule_user loc pm sm now w) us d = Inr d' \<Longrightarrow> map u_id (db_users d') = map u_id (db_users d)"
  by (rule efold_invariant [where P = "\<lambda>s. map u_id (db_users s) = map u_id (db_users d)"])
     (auto dest: reschedule_user_ids)

lemma set_reschedule_batch:
  "u \<in> set (reschedule_batch sel lastID d) \<Longrightarrow> u \<in> set (db_users d) \<and> sel d u \<and> u_id u > lastID"
  by (auto simp: reschedule_batch_def dest!: in_set_takeD)

definition users_above :: "int \<Rightarrow> db \<Rightarrow> nat" where
  "users_above lastID d = count_where (\<lambda>i. i > lastID) (map u_id (db_users d))"

lemma users_above_decreases:
  assumes "u \<in> set (db_users d)" and "u_id u > lastID"
  shows "users_above (u_id u) d < users_above lastID d"
proof -
  have "count_where (\<lambda>i. i > u_id u) xs < count_where (\<lambda>i. i > lastID) xs" if "u_id u \<in> set xs" for xs
    using that
  proof (induction xs)
    case (Cons x xs)
    have "count_where (\<lambda>i. i > u_id u) xs \<le> count_where (\<lambda>i. i > lastID) xs"
      using assms(2) by (intro count_where_mono) auto
    then show ?case using Cons assms(2) by (auto split: if_splits)
  qed simp
  then show ?thesis using assms(1) by (simp add: users_above_def)
qed

function reschedule_batches ::
  "location \<Rightarrow> int option \<Rightarrow> int \<Rightarrow> instant \<Rightarrow> (db \<Rightarrow> user \<Rightarrow> bool) \<Rightarrow> (user \<Rightarrow> bool) \<Rightarrow> int \<Rightarrow> db \<Rightarrow>
   store_error + db" where
  "reschedule_batches loc pm sm now sel w lastID d =
     (let us = reschedule_batch sel lastID d in
      ebind (efold (reschedule_user loc pm sm now w) us d) (\<lambda>d'.
        if length us < 500 then Inr d'
        else reschedule_batches loc pm sm now sel w (u_id (last us)) d'))"
  by pat_completeness auto
termination
proof (relation "measure (\<lambda>(loc, pm, sm, now, sel, w, lastID, d). users_above lastID d)", goal_cases)
  case (2 loc pm sm now sel w lastID d us d')
  then have "us \<noteq> []" by auto
  then have "last us \<in> set (db_users d)" and "u_id (last us) > lastID"
    using set_reschedule_batch [of "last us" sel lastID d] 2(1) by auto
  moreover have "users_above (u_id (last us)) d' = users_above (u_id (last us)) d"
    using efold_reschedule_ids 2(2) by (simp add: users_above_def)
  ultimately show ?case by (simp add: users_above_decreases)
qed simp

declare reschedule_batches.simps [simp del]

definition reschedulePlanUsers :: "location \<Rightarrow> int \<Rightarrow> int option \<Rightarrow> instant \<Rightarrow> db \<Rightarrow> store_error + db" where
  "reschedulePlanUsers loc planID planMethod now d =
     reschedule_batches loc planMethod
       (if planMethod = None then s_traffic_reset_method (db_settings d) else 1) now
       (\<lambda>_ u. u_account_kind u = AccountKindHuman \<and> u_plan_id u = Some planID \<and> \<not> u_banned u \<and>
          (case u_expired_at u of None \<Rightarrow> True | Some e \<Rightarrow> e > unix now))
       (\<lambda>v. u_plan_id v = Some planID) 0 d"

definition rescheduleSystemTrafficResetUsers :: "location \<Rightarrow> int \<Rightarrow> instant \<Rightarrow> db \<Rightarrow> store_error + db" where
  "rescheduleSystemTrafficResetUsers loc systemMethod now d =
     reschedule_batches loc None systemMethod now
       (\<lambda>d u. u_account_kind u = AccountKindHuman \<and> \<not> u_banned u \<and>
          exists_where (\<lambda>p. u_plan_id u = Some (p_id p) \<and> p_reset_traffic_method p = None) (db_plans d) \<and>
          (case u_expired_at u of None \<Rightarrow> True | Some e \<Rightarrow> e > unix now))
       (\<lambda>v. u_account_kind v = AccountKindHuman) 0 d"

text \<open>The \<^verbatim>\<open>SET\<close> clauses of \<^verbatim>\<open>UpdatePlan\<close>: on the plan, and on its users when the change is forced on them.\<close>

definition set_plan_columns :: "save_plan_input \<Rightarrow> instant \<Rightarrow> plan \<Rightarrow> plan" where
  "set_plan_columns n now p =
     p\<lparr>p_group_id := pi_group_id n, p_transfer_enable_gib := pi_transfer_enable_gib n,
       p_name := pi_name n, p_speed_limit := pi_speed_limit n, p_content := pi_content n,
       p_reset_traffic_method := pi_reset_traffic_method n,
       p_capacity_limit := pi_capacity_limit n, p_prices := pi_prices n,
       p_device_limit := pi_device_limit n, p_tags := pi_tags n,
       p_distributor_hwid_limit :=
       (case pi_distributor_hwid_limit n of None \<Rightarrow> p_distributor_hwid_limit p | Some h \<Rightarrow> h),
       p_revision := p_revision p + 1, p_updated_at := unix now\<rparr>"

definition push_plan_columns :: "save_plan_input \<Rightarrow> instant \<Rightarrow> user \<Rightarrow> user" where
  "push_plan_columns n now u =
     u\<lparr>u_group_id := pi_group_id n,
       u_transfer_enable := i64 (pi_transfer_enable_gib n * bytesPerGiB),
       u_speed_limit := (case pi_speed_limit n of None \<Rightarrow> 0 | Some s \<Rightarrow> s),
       u_device_limit := (case pi_device_limit n of None \<Rightarrow> 0 | Some s \<Rightarrow> s),
       u_admin_revision := u_admin_revision u + 1, u_updated_at := unix now\<rparr>"

definition UpdatePlan ::
  "location \<Rightarrow> int \<Rightarrow> int \<Rightarrow> save_plan_input \<Rightarrow> bool \<Rightarrow> instant \<Rightarrow> db \<Rightarrow> store_error + plan_info \<times> db" where
  "UpdatePlan loc planID revision input forceUpdateUsers now d =
     (if planID < 1 \<or> revision < 1 then Inl ErrInvalidInput else
      ebind (normalizePlanInput input) (\<lambda>n.
      ebind (validatePlanGroup (pi_group_id n) d) (\<lambda>_.
      case List.find (\<lambda>p. p_id p = planID \<and> p_revision p = revision) (db_plans d) of
        None \<Rightarrow> Inl (planMutationError planID d)
      | Some current \<Rightarrow>
          ebind (update_plans (\<lambda>p. p_id p = planID \<and> p_revision p = revision)
            (set_plan_columns n now) d) (\<lambda>d1.
          if count_where (\<lambda>p. p_id p = planID \<and> p_revision p = revision) (db_plans d) \<noteq> 1
          then Inl (planMutationError planID d1) else
          ebind (if sameOptionalPlanInt (p_reset_traffic_method current) (pi_reset_traffic_method n) then Inr d1
                 else reschedulePlanUsers loc planID (pi_reset_traffic_method n) now d1) (\<lambda>d2.
          ebind (if \<not> forceUpdateUsers then Inr d2 else
                 update_users (\<lambda>u. u_plan_id u = Some planID \<and> u_account_kind u = AccountKindHuman)
                   (push_plan_columns n now) d2) (\<lambda>d3.
          ebind (getPlan planID now d3) (\<lambda>info. Inr (info, d3))))))))"

definition SetPlanState :: "int \<Rightarrow> int \<Rightarrow> plan_state \<Rightarrow> instant \<Rightarrow> db \<Rightarrow> store_error + plan_info \<times> db" where
  "SetPlanState planID revision state now d =
     (if planID < 1 \<or> revision < 1 then Inl ErrInvalidInput else
      ebind (update_plans (\<lambda>p. p_id p = planID \<and> p_revision p = revision)
        (\<lambda>p. p\<lparr>p_show := ps_show state, p_sell := ps_sell state, p_renew := ps_renew state,
               p_revision := p_revision p + 1, p_updated_at := unix now\<rparr>) d) (\<lambda>d1.
      if count_where (\<lambda>p. p_id p = planID \<and> p_revision p = revision) (db_plans d) \<noteq> 1
      then Inl (planMutationError planID d1) else
      ebind (getPlan planID now d1) (\<lambda>info. Inr (info, d1))))"

text \<open>
  Deleting a plan: the guard of the code covers users, orders, the trial plan and issued gift
  cards; the foreign key of \<^verbatim>\<open>gift_card_usages\<close> is only met by the statement itself. The audience rows
  go with the plan and the reset log keeps its rows without the plan.
\<close>

definition DeletePlan :: "int \<Rightarrow> db \<Rightarrow> store_error + db" where
  "DeletePlan planID d =
     (if planID < 1 then Inl ErrInvalidInput
      else if \<not> exists_where (\<lambda>p. p_id p = planID) (db_plans d) then Inl ErrNotFound
      else if exists_where (\<lambda>u. u_plan_id u = Some planID) (db_users d) \<or>
              exists_where (\<lambda>ord. o_plan_id ord = planID) (db_orders d) \<or>
              s_try_out_plan_id (db_settings d) = planID \<or> exists_where (\<lambda>c. map_option gs_plan_id (gc_purchase_snapshot c) = Some planID) (db_gift_codes d)
           then Inl ErrConflict
      else if exists_where (\<lambda>g. gu_user_plan_id g = Some planID) (db_gift_usages d) then Inl ErrDatabase
      else Inr (d\<lparr>db_plans := filter (\<lambda>p. p_id p \<noteq> planID) (db_plans d),
                  db_visibility := filter (\<lambda>(p, _, _). p \<noteq> planID) (db_visibility d),
                  db_reset_logs := update_where (\<lambda>l. rl_plan_id l = Some planID)
                    (\<lambda>l. l\<lparr>rl_plan_id := None\<rparr>) (db_reset_logs d)\<rparr>))"

definition reorder_step :: "instant \<Rightarrow> nat \<times> int \<Rightarrow> db \<Rightarrow> store_error + db" where
  "reorder_step now = (\<lambda>(position, i) d.
     ebind (update_plans (\<lambda>p. p_id p = i)
       (\<lambda>p. p\<lparr>p_sort_position := int position, p_revision := p_revision p + 1, p_updated_at := unix now\<rparr>) d)
       (\<lambda>d1. if count_where (\<lambda>p. p_id p = i) (db_plans d) \<noteq> 1 then Inl ErrInvalidInput else Inr d1))"

definition ReorderPlans :: "int list \<Rightarrow> instant \<Rightarrow> db \<Rightarrow> store_error + plan_info list \<times> db" where
  "ReorderPlans ids now d =
     (if ids = [] \<or> length ids > 10000 then Inl ErrInvalidInput
      else if list_ex (\<lambda>i. i < 1) ids \<or> \<not> distinct ids then Inl ErrInvalidInput
      else if length (db_plans d) \<noteq> length ids then Inl ErrInvalidInput
      else ebind (efold (reorder_step now) (List.enumerate 0 ids) d) (\<lambda>d1.
           Inr (listPlans now (\<lambda>_. True) d1, d1)))"

section \<open>Audiences\<close>

definition validatePlanVisibilityInput :: "save_plan_visibility_input \<Rightarrow> store_error + unit" where
  "validatePlanVisibilityInput input =
     (if vi_plan_id input < 1 \<or> vi_customer_visibility input \<notin> {''all'', ''selected''} \<or>
         vi_distributor_visibility input \<notin> {''all'', ''selected'', ''none''} then Inl ErrInvalidInput
      else if list_ex (\<lambda>ids. length ids > 5000 \<or> list_ex (\<lambda>i. i < 1) ids \<or> \<not> distinct ids)
                [vi_customer_user_ids input, vi_distributor_user_ids input] then Inl ErrInvalidInput
      else Inr ())"

definition audience_member :: "db \<Rightarrow> bool \<Rightarrow> int \<Rightarrow> bool" where
  "audience_member d distributor i \<longleftrightarrow>
     exists_where (\<lambda>u. u_id u = i \<and> u_account_kind u = AccountKindHuman \<and>
       u_is_distributor u = distributor \<and> i \<notin> set (db_deactivated d)) (db_users d)"

definition SavePlanVisibility :: "save_plan_visibility_input \<Rightarrow> instant \<Rightarrow> db \<Rightarrow> store_error + db" where
  "SavePlanVisibility input now d =
     ebind (validatePlanVisibilityInput input) (\<lambda>_.
     if \<not> list_all (audience_member d False) (vi_customer_user_ids input) \<or>
        \<not> list_all (audience_member d True) (vi_distributor_user_ids input) then Inl ErrInvalidInput else
     ebind (update_plans (\<lambda>p. p_id p = vi_plan_id input)
       (\<lambda>p. p\<lparr>p_customer_visibility := vi_customer_visibility input,
              p_distributor_visibility := vi_distributor_visibility input,
              p_revision := p_revision p + 1, p_updated_at := unix now\<rparr>) d) (\<lambda>d1.
     if count_where (\<lambda>p. p_id p = vi_plan_id input) (db_plans d) = 0 then Inl ErrNotFound else
     Inr (d1\<lparr>db_visibility :=
       filter (\<lambda>(p, _, _). p \<noteq> vi_plan_id input) (db_visibility d1) @
       map (\<lambda>i. (vi_plan_id input, ''customer'', i)) (vi_customer_user_ids input) @
       map (\<lambda>i. (vi_plan_id input, ''distributor'', i)) (vi_distributor_user_ids input)\<rparr>)))"

section \<open>Due traffic resets\<close>

definition reset_due :: "instant \<Rightarrow> user \<Rightarrow> bool" where
  "reset_due now u \<longleftrightarrow>
     u_account_kind u = AccountKindHuman \<and> \<not> u_banned u \<and>
     (case u_expired_at u of None \<Rightarrow> False | Some e \<Rightarrow> e > unix now) \<and> u_plan_id u \<noteq> None \<and>
     (case u_next_reset_at u of None \<Rightarrow> False | Some n \<Rightarrow> n \<le> unix now)"

definition next_reset_key :: "user \<Rightarrow> int" where
  "next_reset_key u = (case u_next_reset_at u of None \<Rightarrow> 0 | Some n \<Rightarrow> n)"

definition due_resets :: "instant \<Rightarrow> int \<Rightarrow> db \<Rightarrow> user list" where
  "due_resets now limit d =
     take (nat limit) (order_by next_reset_key
       (filter (\<lambda>u. reset_due now u \<and>
          exists_where (\<lambda>p. u_plan_id u = Some (p_id p)) (db_plans d)) (db_users d)))"

definition reset_step :: "location \<Rightarrow> instant \<Rightarrow> user \<Rightarrow> int \<times> db \<Rightarrow> store_error + int \<times> db" where
  "reset_step loc now item = (\<lambda>(processed, d).
     let systemMethod = s_traffic_reset_method (db_settings d);
         method = (case List.find (\<lambda>p. u_plan_id item = Some (p_id p)) (db_plans d) of
                     None \<Rightarrow> None | Some p \<Rightarrow> p_reset_traffic_method p);
         resetMethod = (case method of None \<Rightarrow> systemMethod | Some m \<Rightarrow> m);
         nxt = CalculateNextTrafficReset loc method systemMethod (u_expired_at item) now;
         matches = (\<lambda>u. u_id u = u_id item \<and> u_plan_id u = u_plan_id item \<and>
                        u_next_reset_at u = u_next_reset_at item \<and> reset_due now u)
     in ebind (update_users matches
          (\<lambda>u. u\<lparr>u_traffic_u := 0, u_traffic_d := 0, u_last_reset_at := Some (unix now),
                 u_reset_count := u_reset_count u + 1, u_next_reset_at := nxt, u_updated_at := unix now\<rparr>) d)
        (\<lambda>d1. if count_where matches (db_users d) = 0 then Inr (processed, d1) else
          ebind (insert_reset_log
            \<lparr>rl_user_id = u_id item, rl_plan_id = u_plan_id item,
             rl_scheduled_for = next_reset_key item, rl_reset_at = unix now,
             rl_upload_before = u_traffic_u item, rl_download_before = u_traffic_d item,
             rl_reset_count = u_reset_count item + 1, rl_reset_method = resetMethod\<rparr> d1)
          (\<lambda>d2. Inr (processed + 1, d2))))"

definition ProcessDueTrafficResets ::
  "location \<Rightarrow> instant \<Rightarrow> int \<Rightarrow> db \<Rightarrow> store_error + (int \<times> int) \<times> db" where
  "ProcessDueTrafficResets loc now limit d =
     (if limit < 1 \<or> limit > 1000 then Inl ErrInvalidInput else
      ebind (efold (reset_step loc now) (due_resets now limit d) (0, d)) (\<lambda>(processed, d1).
      Inr ((processed, int (count_where (reset_due now) (db_users d1))), d1)))"

end
