(* ===== verification/Coupons.thy ===== *)
theory Coupons
  imports Plans
begin

text \<open>
  Coupons (\<^verbatim>\<open>internal/store/coupons.go\<close>): the validation of an administrator's input, creating
  coupons one by one and in batches of random codes, editing and deleting them, the checks a
  code goes through when a user applies it, and the discount it gives.
\<close>

section \<open>Inputs\<close>

record save_coupon_input =
  ci_code :: string
  ci_name :: string
  ci_type :: int
  ci_value :: int
  ci_show :: bool
  ci_limit_use :: "int option"
  ci_limit_use_with_user :: "int option"
  ci_limit_plan_ids :: "int list"
  ci_limit_periods :: "string list"
  ci_started_at :: instant
  ci_ended_at :: instant

record coupon_check_input =
  cc_user_id :: int
  cc_plan_id :: int
  cc_period :: string
  cc_code :: string

record coupon_quote =
  cq_coupon :: coupon
  cq_original_amount :: int
  cq_coupon_discount_amount :: int
  cq_total_after_coupon :: int

section \<open>Discounts\<close>

definition minInt64 :: "int \<Rightarrow> int \<Rightarrow> int" where
  "minInt64 a b = (if a < b then a else b)"

definition percentageCents :: "int \<Rightarrow> int \<Rightarrow> int" where
  "percentageCents amount percent = i64 (i64 (amount * percent) + 50) sdiv 100"

definition couponDiscount :: "int \<Rightarrow> coupon \<Rightarrow> int" where
  "couponDiscount amount c =
     minInt64 amount
       (case c_type c of CouponTypePercentage \<Rightarrow> percentageCents amount (c_value c)
                       | CouponTypeFixed \<Rightarrow> c_value c)"

section \<open>Validation of the input\<close>

definition validCouponCode :: "string \<Rightarrow> bool" where
  "validCouponCode value \<longleftrightarrow>
     ValidString value \<and> 1 \<le> length value \<and> length value \<le> 64 \<and> \<not> has_control value"

fun coupon_plan_ids_loop :: "int list \<Rightarrow> int list \<Rightarrow> int list option" where
  "coupon_plan_ids_loop seen [] = Some []"
| "coupon_plan_ids_loop seen (v # vs) =
     (if v < 1 then None
      else if v \<in> set seen then coupon_plan_ids_loop seen vs
      else map_option (Cons v) (coupon_plan_ids_loop (v # seen) vs))"

definition normalizeCouponPlanIDs :: "int list \<Rightarrow> int list" where
  "normalizeCouponPlanIDs values = (case coupon_plan_ids_loop [] values of None \<Rightarrow> [0] | Some ids \<Rightarrow> ids)"

fun coupon_periods_loop :: "string list \<Rightarrow> string list \<Rightarrow> store_error + string list" where
  "coupon_periods_loop seen [] = Inr []"
| "coupon_periods_loop seen (v # vs) =
     (case normalizeOrderPeriod v of (period, valid) \<Rightarrow>
        if \<not> valid then Inl ErrInvalidInput
        else if period \<in> set seen then coupon_periods_loop seen vs
        else ebind (coupon_periods_loop (period # seen) vs) (\<lambda>ps. Inr (period # ps)))"

definition limit_out_of_range :: "int option \<Rightarrow> bool" where
  "limit_out_of_range l = (case l of None \<Rightarrow> False | Some n \<Rightarrow> n < 0 \<or> n > 1000000000)"

definition normalizeCouponInput :: "save_coupon_input \<Rightarrow> instant \<Rightarrow> store_error + save_coupon_input" where
  "normalizeCouponInput input now =
     (let code = TrimSpace (ci_code input); name = TrimSpace (ci_name input) in
      if \<not> validCouponCode code \<or> \<not> ValidString name \<or> length name < 1 \<or> length name > 200 \<or>
         has_control name \<or> unix now < 0 \<or> unix (ci_started_at input) < 0 \<or>
         \<not> ci_ended_at input > ci_started_at input then Inl ErrInvalidInput
      else if ci_type input \<noteq> 1 \<and> ci_type input \<noteq> 2 then Inl ErrInvalidInput
      else if (ci_type input = 1 \<and> (ci_value input < 1 \<or> ci_value input > maxOrderMoneyCents)) \<or>
              (ci_type input = 2 \<and> (ci_value input < 1 \<or> ci_value input > 100)) then Inl ErrInvalidInput
      else if limit_out_of_range (ci_limit_use input) \<or> limit_out_of_range (ci_limit_use_with_user input)
           then Inl ErrInvalidInput
      else
        let planIDs = normalizeCouponPlanIDs (ci_limit_plan_ids input) in
        if length planIDs > 100 then Inl ErrInvalidInput else
        ebind (coupon_periods_loop [] (ci_limit_periods input)) (\<lambda>periods.
        Inr (input\<lparr>ci_code := code, ci_name := name, ci_limit_plan_ids := planIDs,
                   ci_limit_periods := periods\<rparr>)))"

definition validateCouponPlans :: "int list \<Rightarrow> db \<Rightarrow> store_error + unit" where
  "validateCouponPlans planIDs d =
     (if list_all (\<lambda>i. i \<ge> 1 \<and> exists_where (\<lambda>p. p_id p = i) (db_plans d)) planIDs
      then Inr () else Inl ErrInvalidInput)"

definition coupon_type_of :: "int \<Rightarrow> coupon_type" where
  "coupon_type_of t = (if t = 1 then CouponTypeFixed else CouponTypePercentage)"

text \<open>
  The row of a normalized input. \<^verbatim>\<open>couponFromInput\<close> builds the value a batch returns from the
  same fields; its times keep the fraction of a second that the columns drop.
\<close>

definition couponFromInput :: "int \<Rightarrow> save_coupon_input \<Rightarrow> instant \<Rightarrow> coupon" where
  "couponFromInput i input now =
     \<lparr>c_id = i, c_code = ci_code input, c_name = ci_name input, c_type = coupon_type_of (ci_type input),
      c_value = ci_value input, c_show = ci_show input, c_limit_use = ci_limit_use input,
      c_limit_use_with_user = ci_limit_use_with_user input, c_limit_plan_ids = ci_limit_plan_ids input,
      c_limit_periods = ci_limit_periods input, c_started_at = unix (ci_started_at input),
      c_ended_at = unix (ci_ended_at input), c_created_at = unix now, c_updated_at = unix now\<rparr>"

section \<open>Operations\<close>

definition couponCodeAlphabet :: string where
  "couponCodeAlphabet = ''ABCDEFGHJKLMNPQRSTUVWXYZ23456789''"

definition newCouponCode :: "nat list \<Rightarrow> string" where
  "newCouponCode random = map (\<lambda>b. couponCodeAlphabet ! (b mod 32)) random"

definition couponCodeExists :: "string \<Rightarrow> int \<Rightarrow> db \<Rightarrow> bool" where
  "couponCodeExists code exceptID d = exists_where (\<lambda>c. c_code c = code \<and> c_id c \<noteq> exceptID) (db_coupons d)"

definition getCoupon :: "int \<Rightarrow> db \<Rightarrow> store_error + coupon" where
  "getCoupon couponID d = of_option ErrNotFound (List.find (\<lambda>c. c_id c = couponID) (db_coupons d))"

definition GetCoupon :: "int \<Rightarrow> db \<Rightarrow> store_error + coupon" where
  "GetCoupon couponID d = (if couponID < 1 then Inl ErrInvalidInput else getCoupon couponID d)"

text \<open>
  One coupon of a batch: up to eight codes, a new one after each collision. \<open>draw attempt\<close> are
  the random bytes of that attempt; the first coupon's first code was drawn before.
\<close>

fun batch_insert ::
  "(nat \<Rightarrow> nat list) \<Rightarrow> nat \<Rightarrow> save_coupon_input \<Rightarrow> instant \<Rightarrow> db \<Rightarrow> store_error + coupon \<times> db" where
  "batch_insert draw 0 input now d = Inl ErrConflict"
| "batch_insert draw (Suc left) input now d =
     (let attempt = 8 - Suc left;
          n = input\<lparr>ci_code := newCouponCode (draw attempt)\<rparr> in
      case insert_coupon (couponFromInput 0 n now) d of
        Inr (i, d1) \<Rightarrow> Inr (couponFromInput i n now, d1)
      | Inl e \<Rightarrow> (if couponCodeExists (ci_code n) 0 d then batch_insert draw left input now d else Inl e))"

fun batch_loop ::
  "(nat \<Rightarrow> nat \<Rightarrow> nat list) \<Rightarrow> nat \<Rightarrow> nat \<Rightarrow> save_coupon_input \<Rightarrow> instant \<Rightarrow> db \<Rightarrow>
   store_error + coupon list \<times> db" where
  "batch_loop draw index 0 input now d = Inr ([], d)"
| "batch_loop draw index (Suc left) input now d =
     ebind (batch_insert (draw index) 8 input now d) (\<lambda>(c, d1).
     ebind (batch_loop draw (Suc index) left input now d1) (\<lambda>(cs, d2). Inr (c # cs, d2)))"

definition CreateCouponBatch ::
  "(nat \<Rightarrow> nat \<Rightarrow> nat list) \<Rightarrow> save_coupon_input \<Rightarrow> int \<Rightarrow> instant \<Rightarrow> db \<Rightarrow> store_error + coupon list \<times> db" where
  "CreateCouponBatch draw input cnt now d =
     (if cnt < 1 \<or> cnt > 500 \<or> TrimSpace (ci_code input) \<noteq> [] then Inl ErrInvalidInput else
      ebind (normalizeCouponInput (input\<lparr>ci_code := newCouponCode (draw 0 0)\<rparr>) now) (\<lambda>n.
      ebind (validateCouponPlans (ci_limit_plan_ids n) d) (\<lambda>_.
      batch_loop draw 0 (nat cnt) n now d)))"

definition CreateCoupon ::
  "(nat \<Rightarrow> nat \<Rightarrow> nat list) \<Rightarrow> save_coupon_input \<Rightarrow> instant \<Rightarrow> db \<Rightarrow> store_error + coupon \<times> db" where
  "CreateCoupon draw input now d =
     (if TrimSpace (ci_code input) = [] then
        ebind (CreateCouponBatch draw input 1 now d) (\<lambda>(cs, d1). Inr (cs ! 0, d1))
      else
        ebind (normalizeCouponInput input now) (\<lambda>n.
        ebind (validateCouponPlans (ci_limit_plan_ids n) d) (\<lambda>_.
        case insert_coupon (couponFromInput 0 n now) d of
          Inl e \<Rightarrow> Inl (if couponCodeExists (ci_code n) 0 d then ErrConflict else e)
        | Inr (i, d1) \<Rightarrow> ebind (getCoupon i d1) (\<lambda>c. Inr (c, d1)))))"

definition UpdateCoupon :: "int \<Rightarrow> save_coupon_input \<Rightarrow> instant \<Rightarrow> db \<Rightarrow> store_error + coupon \<times> db" where
  "UpdateCoupon couponID input now d =
     (if couponID < 1 then Inl ErrInvalidInput else
      ebind (normalizeCouponInput input now) (\<lambda>n.
      ebind (validateCouponPlans (ci_limit_plan_ids n) d) (\<lambda>_.
      if couponCodeExists (ci_code n) couponID d then Inl ErrConflict else
      ebind (update_coupons (\<lambda>c. c_id c = couponID)
        (\<lambda>c. c\<lparr>c_code := ci_code n, c_name := ci_name n, c_type := coupon_type_of (ci_type n),
               c_value := ci_value n, c_show := ci_show n, c_limit_use := ci_limit_use n,
               c_limit_use_with_user := ci_limit_use_with_user n,
               c_limit_plan_ids := ci_limit_plan_ids n, c_limit_periods := ci_limit_periods n,
               c_started_at := unix (ci_started_at n), c_ended_at := unix (ci_ended_at n),
               c_updated_at := unix now\<rparr>) d) (\<lambda>d1.
      if count_where (\<lambda>c. c_id c = couponID) (db_coupons d) \<noteq> 1 then Inl ErrNotFound else
      ebind (getCoupon couponID d1) (\<lambda>c. Inr (c, d1))))))"

definition SetCouponVisibility :: "int \<Rightarrow> bool \<Rightarrow> instant \<Rightarrow> db \<Rightarrow> store_error + coupon \<times> db" where
  "SetCouponVisibility couponID show now d =
     (if couponID < 1 \<or> unix now < 0 then Inl ErrInvalidInput else
      ebind (update_coupons (\<lambda>c. c_id c = couponID) (\<lambda>c. c\<lparr>c_show := show, c_updated_at := unix now\<rparr>) d) (\<lambda>d1.
      if count_where (\<lambda>c. c_id c = couponID) (db_coupons d) \<noteq> 1 then Inl ErrNotFound else
      ebind (GetCoupon couponID d1) (\<lambda>c. Inr (c, d1))))"

definition DeleteCoupon :: "int \<Rightarrow> db \<Rightarrow> store_error + db" where
  "DeleteCoupon couponID d =
     (if couponID < 1 then Inl ErrInvalidInput
      else if exists_where (\<lambda>ord. o_coupon_id ord = Some couponID) (db_orders d) then Inl ErrCouponReferenced
      else if count_where (\<lambda>c. c_id c = couponID) (db_coupons d) \<noteq> 1 then Inl ErrNotFound
      else Inr (d\<lparr>db_coupons := filter (\<lambda>c. c_id c \<noteq> couponID) (db_coupons d)\<rparr>))"

section \<open>Applying a coupon\<close>

text \<open>Orders that count against a user's limit: every status but pending and cancelled.\<close>

definition coupon_uses :: "int \<Rightarrow> int \<Rightarrow> db \<Rightarrow> nat" where
  "coupon_uses couponID userID d =
     count_where (\<lambda>ord. o_coupon_id ord = Some couponID \<and> o_user_id ord = userID \<and>
       o_status ord \<notin> {OrderStatusPending, OrderStatusCancelled}) (db_orders d)"

definition validateCoupon ::
  "int \<Rightarrow> int \<Rightarrow> string \<Rightarrow> string \<Rightarrow> instant \<Rightarrow> db \<Rightarrow> store_error + coupon" where
  "validateCoupon userID planID period code now d =
     (if \<not> s_coupon_enabled (db_settings d) then Inl ErrCouponInvalid else
      case List.find (\<lambda>c. c_code c = code) (db_coupons d) of
        None \<Rightarrow> Inl ErrCouponInvalid
      | Some c \<Rightarrow>
          if \<not> c_show c then Inl ErrCouponInvalid
          else if now < from_unix (c_started_at c) then Inl ErrCouponNotStarted
          else if from_unix (c_ended_at c) < now then Inl ErrCouponExpired
          else if (case c_limit_use c of None \<Rightarrow> False | Some n \<Rightarrow> n \<le> 0) then Inl ErrCouponExhausted
          else if c_limit_plan_ids c \<noteq> [] \<and> planID \<notin> set (c_limit_plan_ids c) then Inl ErrCouponPlanRestricted
          else if c_limit_periods c \<noteq> [] \<and> period \<notin> set (c_limit_periods c) then Inl ErrCouponPeriodRestricted
          else if (case c_limit_use_with_user c of None \<Rightarrow> False
                   | Some n \<Rightarrow> int (coupon_uses (c_id c) userID d) \<ge> n) then Inl ErrCouponUserLimit
          else Inr c)"

definition CheckCoupon :: "coupon_check_input \<Rightarrow> instant \<Rightarrow> db \<Rightarrow> store_error + coupon_quote" where
  "CheckCoupon input now d =
     (case normalizeOrderPeriod (cc_period input) of (period, valid) \<Rightarrow>
      let code = TrimSpace (cc_code input) in
      if cc_user_id input < 1 \<or> cc_plan_id input < 1 \<or> \<not> valid \<or> \<not> validCouponCode code \<or> unix now < 0
      then Inl ErrInvalidInput else
      ebind (of_option ErrNotFound (List.find (\<lambda>u. u_id u = cc_user_id input) (db_users d))) (\<lambda>u.
      if u_banned u \<or> u_account_kind u \<noteq> AccountKindHuman then Inl ErrCouponInvalid else
      ebind (getPlan (cc_plan_id input) now d) (\<lambda>info.
      case map_of (p_prices (pl_row info)) period of
        None \<Rightarrow> Inl ErrPlanUnavailable
      | Some price \<Rightarrow>
          ebind (validateCoupon (u_id u) (p_id (pl_row info)) period code now d) (\<lambda>c.
          let discount = couponDiscount price c in
          Inr \<lparr>cq_coupon = c, cq_original_amount = price, cq_coupon_discount_amount = discount,
               cq_total_after_coupon = i64 (price - discount)\<rparr>))))"

end
