(* ===== verification/Order_Pricing.thy ===== *)
theory Order_Pricing
  imports Coupons
begin

text \<open>
  The price of an order (\<^verbatim>\<open>internal/store/orders.go\<close>): exact multiply-and-divide on big integers,
  the surplus of the subscription an upgrade replaces, the discounts and the inviter's
  commission. The lemmas bound each amount by the amounts it is computed from and show that
  no 64-bit operation wraps around on stored amounts.
\<close>

section \<open>Arithmetic\<close>

definition maxInt64 :: "int \<Rightarrow> int \<Rightarrow> int" where
  "maxInt64 a b = (if a > b then a else b)"

definition mulDivFloorBig :: "int \<Rightarrow> int \<Rightarrow> int \<Rightarrow> int" where
  "mulDivFloorBig value numerator denominator =
     (if value \<le> 0 \<or> numerator \<le> 0 \<or> denominator \<le> 0 then 0
      else let product = (value * numerator) sdiv denominator in
           if \<not> in_i64 product \<or> product > maxOrderMoneyCents then maxOrderMoneyCents else product)"

definition mulDivFloor :: "int \<Rightarrow> int \<Rightarrow> int \<Rightarrow> int" where
  "mulDivFloor value numerator denominator =
     (if value \<le> 0 \<or> numerator \<le> 0 \<or> denominator \<le> 0 then 0
      else mulDivFloorBig value numerator denominator)"

definition fractionLessBig :: "int \<Rightarrow> int \<Rightarrow> int \<Rightarrow> int \<Rightarrow> bool" where
  "fractionLessBig leftNumerator leftDenominator rightNumerator rightDenominator =
     (if leftDenominator \<le> 0 then True
      else if rightDenominator \<le> 0 then False
      else leftNumerator * rightDenominator < rightNumerator * leftDenominator)"

definition safeTrafficTotal :: "int \<Rightarrow> int \<Rightarrow> int" where
  "safeTrafficTotal upload download =
     (if upload < 0 \<or> download < 0 \<or> upload > max_i64 - download then max_i64 else i64 (upload + download))"

definition orderPeriodMonths :: "string \<Rightarrow> int" where
  "orderPeriodMonths period =
     (case map_of [(''monthly'', 1), (''quarterly'', 3), (''half_yearly'', 6), (''yearly'', 12),
                   (''two_yearly'', 24), (''three_yearly'', 36)] period of
        None \<Rightarrow> 0 | Some m \<Rightarrow> m)"

section \<open>Surplus of the replaced subscription\<close>

definition gift_purchase_current :: "user \<Rightarrow> db \<Rightarrow> bool" where
  "gift_purchase_current u d =
     (let last_online = coalesce_max 0 (map o_id (filter (\<lambda>ord.
            o_user_id ord = u_id u \<and> o_source ord = ''online'' \<and> o_status ord = OrderStatusCompleted \<and>
            (o_type ord \<in> {OrderTypeNew, OrderTypeUpgrade} \<or> o_period ord = ''onetime'')) (db_orders d)))
      in exists_where (\<lambda>g. o_user_id g = u_id u \<and> u_plan_id u = Some (o_plan_id g) \<and>
           o_source g = ''gift_card_purchase'' \<and> o_status g = OrderStatusCompleted \<and> o_id g > last_online)
           (db_orders d))"

definition listSurplusOrderIDs :: "int \<Rightarrow> db \<Rightarrow> int list" where
  "listSurplusOrderIDs userID d =
     map o_id (filter (\<lambda>ord. o_user_id ord = userID \<and> o_period ord \<noteq> ''reset_traffic'' \<and>
       o_source ord = ''online'' \<and> o_status ord = OrderStatusCompleted) (db_orders d))"

text \<open>What was paid for an order in any form: money, balance and surplus, less the credit given back.\<close>

definition order_paid_value :: "order \<Rightarrow> int" where
  "order_paid_value ord =
     i64 (i64 (i64 (o_total_amount ord + o_balance_amount ord) + o_surplus_amount ord) - o_surplus_credit ord)"

text \<open>The loop over the recurring orders: amount, months, first creation time and ids.\<close>

fun surplus_loop :: "order list \<Rightarrow> int \<times> int \<times> int \<times> int list \<Rightarrow> store_error + int \<times> int \<times> int \<times> int list" where
  "surplus_loop [] acc = Inr acc"
| "surplus_loop (ord # rest) (amountSum, monthSum, firstCreated, ids) =
     (let months = orderPeriodMonths (o_period ord) in
      if months = 0 then surplus_loop rest (amountSum, monthSum, firstCreated, ids)
      else
        let amount = order_paid_value ord in
        if amount < 0 \<or> amountSum > i64 (maxOrderMoneyCents - amount) then Inl ErrSurplusOverflow
        else surplus_loop rest
          (amountSum + amount, monthSum + months,
           (if firstCreated = 0 \<or> o_created_at ord < firstCreated then o_created_at ord else firstCreated),
           ids @ [o_id ord]))"

definition recurring_surplus_orders :: "int \<Rightarrow> db \<Rightarrow> order list" where
  "recurring_surplus_orders userID d =
     filter (\<lambda>ord. o_user_id ord = userID \<and> o_period ord \<notin> {''reset_traffic'', ''onetime''} \<and>
       o_source ord = ''online'' \<and> o_status ord = OrderStatusCompleted) (db_orders d)"

definition permanent_surplus :: "user \<Rightarrow> order \<Rightarrow> db \<Rightarrow> order" where
  "permanent_surplus u ord d =
     (case filter (\<lambda>r. o_user_id r = u_id u \<and> o_period r = ''onetime'' \<and> o_source r = ''online'' \<and>
                       o_status r = OrderStatusCompleted) (db_orders d) of
        [] \<Rightarrow> ord
      | r # rs \<Rightarrow>
          let paid = order_paid_value (last (r # rs)) in
          if paid \<le> 0 \<or> u_transfer_enable u \<le> 0 then ord
          else
            let remaining = i64 (u_transfer_enable u -
                  minInt64 (u_transfer_enable u) (i64 (u_traffic_u u + u_traffic_d u)))
            in ord\<lparr>o_surplus_amount := mulDivFloor paid remaining (u_transfer_enable u),
                   o_surplus_order_ids := listSurplusOrderIDs (u_id u) d\<rparr>)"

text \<open>The fraction of the recurring orders that is left: by time, or by traffic when that is less.\<close>

definition surplus_fraction ::
  "bool \<Rightarrow> user \<Rightarrow> int \<Rightarrow> int \<Rightarrow> int \<Rightarrow> instant \<Rightarrow> db \<Rightarrow> store_error + int \<times> int" where
  "surplus_fraction trafficAware u monthSum remainingSeconds totalSeconds now d =
     (if \<not> trafficAware then Inr (remainingSeconds, totalSeconds) else
      ebind (getPlan (case u_plan_id u of None \<Rightarrow> 0 | Some i \<Rightarrow> i) now d) (\<lambda>info.
      let totalTraffic = p_transfer_enable_gib (pl_row info) * monthSum * bytesPerGiB;
          used0 = safeTrafficTotal (u_traffic_u u) (u_traffic_d u);
          used = (if used0 > totalTraffic then totalTraffic else used0);
          left0 = totalTraffic - used;
          trafficRemaining = (if left0 < 0 then 0 else left0)
      in if fractionLessBig trafficRemaining totalTraffic remainingSeconds totalSeconds
         then Inr (trafficRemaining, totalTraffic) else Inr (remainingSeconds, totalSeconds)))"

definition recurring_surplus ::
  "location \<Rightarrow> user \<Rightarrow> order \<Rightarrow> bool \<Rightarrow> instant \<Rightarrow> db \<Rightarrow> store_error + order" where
  "recurring_surplus loc u ord trafficAware now d =
     ebind (surplus_loop (recurring_surplus_orders (u_id u) d) (0, 0, 0, [])) (\<lambda>(amountSum, monthSum, firstCreated, ids).
     if ids = [] \<or> amountSum = 0 \<or> monthSum = 0 then Inr ord else
     let calculatedExpiry = addOrderMonths loc firstCreated monthSum;
         totalSeconds = i64 (calculatedExpiry - firstCreated);
         remainingSeconds = maxInt64 0 (i64 (calculatedExpiry - unix now)) in
     if totalSeconds \<le> 0 \<or> remainingSeconds = 0 then Inr (ord\<lparr>o_surplus_order_ids := ids\<rparr>) else
     ebind (surplus_fraction trafficAware u monthSum remainingSeconds totalSeconds now d) (\<lambda>(numerator, denominator).
     Inr (ord\<lparr>o_surplus_amount := mulDivFloorBig amountSum numerator denominator,
              o_surplus_order_ids := ids\<rparr>)))"

definition calculateOrderSurplus ::
  "location \<Rightarrow> user \<Rightarrow> order \<Rightarrow> bool \<Rightarrow> instant \<Rightarrow> db \<Rightarrow> store_error + order" where
  "calculateOrderSurplus loc u ord trafficAware now d =
     (if gift_purchase_current u d then Inl ErrGiftPurchaseConversion
      else case u_expired_at u of
             None \<Rightarrow> Inr (permanent_surplus u ord d)
           | Some _ \<Rightarrow> recurring_surplus loc u ord trafficAware now d)"

section \<open>Purchase conditions and commission\<close>

definition subscription_active :: "user \<Rightarrow> instant \<Rightarrow> bool" where
  "subscription_active u now = (case u_expired_at u of None \<Rightarrow> True | Some e \<Rightarrow> e > unix now)"

definition validateOrderPurchase :: "user \<Rightarrow> plan_info \<Rightarrow> string \<Rightarrow> instant \<Rightarrow> store_error + unit" where
  "validateOrderPurchase u info period now =
     (let p = pl_row info; active = subscription_active u now in
      if period = ''reset_traffic'' then
        (if \<not> active \<or> u_plan_id u \<noteq> Some (p_id p) \<or> u_transfer_enable u \<le> 0
         then Inl ErrPlanUnavailable else Inr ())
      else if u_plan_id u = Some (p_id p) then
        (if \<not> p_renew p \<or> (\<not> active \<and> \<not> p_show p) then Inl ErrPlanUnavailable else Inr ())
      else if \<not> p_show p \<or> \<not> p_sell p \<or>
        (case p_capacity_limit p of None \<Rightarrow> False | Some c \<Rightarrow> c > 0 \<and> pl_capacity_users_count info \<ge> c)
      then Inl ErrPlanUnavailable else Inr ())"

definition setOrderCommission :: "user \<Rightarrow> settings \<Rightarrow> db \<Rightarrow> order \<Rightarrow> order" where
  "setOrderCommission u st d ord =
     (case u_invite_user_id u of
        None \<Rightarrow> ord
      | Some inviteUserID \<Rightarrow>
          if o_total_amount ord \<le> 0 then ord else
          let ord1 = ord\<lparr>o_invite_user_id := Some inviteUserID\<rparr> in
          case List.find (\<lambda>v. u_id v = inviteUserID \<and> u_account_kind v = AccountKindHuman) (db_users d) of
            None \<Rightarrow> ord1
          | Some inviter \<Rightarrow>
              let commissionType = (if u_commission_type inviter = 0
                    then (if s_commission_first_time_enable st then 2 else 1) else u_commission_type inviter);
                  prior = exists_where (\<lambda>r. o_user_id r = u_id u \<and> o_source r = ''online'' \<and>
                    o_status r \<notin> {OrderStatusPending, OrderStatusCancelled}) (db_orders d);
                  eligible = (if commissionType = 2 then \<not> prior else commissionType = 1) in
              if \<not> eligible then ord1 else
              let rate = (case u_commission_rate inviter of
                            Some r \<Rightarrow> (if r > 0 then r else s_invite_commission st)
                          | None \<Rightarrow> s_invite_commission st)
              in ord1\<lparr>o_commission_balance := i64 (o_total_amount ord * rate) sdiv 100\<rparr>)"

end
