(* ===== verification/Orders.thy ===== *)
theory Orders
  imports Order_Pricing
begin

text \<open>
  Orders (\<^verbatim>\<open>internal/store/orders.go\<close>): a user's purchase, an administrator's assignment, the
  cancellation with its refund, the completion that grants the entitlement, and the sweep over
  stale orders. An operation is a function of the database; its random choices, the time zone
  and the current instant are arguments.
\<close>

section \<open>Creating an order\<close>

record create_order_input =
  oi_user_id :: int
  oi_plan_id :: int
  oi_period :: string
  oi_coupon_code :: string

record assign_order_input =
  ai_user_id :: "int option"
  ai_email :: string
  ai_plan_id :: int
  ai_period :: string
  ai_total_amount :: int

definition readOrderUser :: "int \<Rightarrow> db \<Rightarrow> store_error + user" where
  "readOrderUser userID d = of_option ErrNotFound (List.find (\<lambda>u. u_id u = userID) (db_users d))"

definition has_active_order :: "int \<Rightarrow> db \<Rightarrow> bool" where
  "has_active_order userID d = exists_where (\<lambda>ord. o_user_id ord = userID \<and> order_active ord) (db_orders d)"

text \<open>The order as \<^verbatim>\<open>CreateOrder\<close> and \<^verbatim>\<open>AssignOrder\<close> start it; the row's source column has its default.\<close>

definition new_order :: "int \<Rightarrow> int \<Rightarrow> string \<Rightarrow> string \<Rightarrow> int \<Rightarrow> instant \<Rightarrow> order" where
  "new_order userID planID period tradeNo amount now =
     \<lparr>o_id = 0, o_user_id = userID, o_plan_id = planID, o_payment_id = None, o_period = period,
      o_trade_no = tradeNo, o_original_amount = amount, o_total_amount = amount, o_handling_amount = None,
      o_balance_amount = 0, o_surplus_credit = 0, o_surplus_amount = 0, o_type = OrderTypeNew,
      o_status = OrderStatusPending, o_surplus_order_ids = [], o_coupon_id = None, o_commission_status = 0,
      o_invite_user_id = None, o_actual_commission_balance = None, o_commission_rate = None,
      o_commission_balance = 0, o_discount_amount = 0, o_paid_at = None, o_callback_no = None,
      o_entitlement_before = None, o_entitlement_after = None, o_source = ''online'', o_gift_card_code_id = None, o_purchase_snapshot = None,
      o_created_at = unix now, o_updated_at = unix now\<rparr>"

text \<open>Lines 128 to 145: the coupon, then the user's own discount, capped at the price.\<close>

definition apply_discounts :: "user \<Rightarrow> coupon option \<Rightarrow> order \<Rightarrow> order" where
  "apply_discounts u applied ord =
     (let base = (case applied of None \<Rightarrow> 0 | Some c \<Rightarrow> couponDiscount (o_original_amount ord) c);
          summed = (case u_discount u of
                      Some r \<Rightarrow> (if r > 0 then i64 (base + percentageCents (o_original_amount ord) r) else base)
                    | None \<Rightarrow> base);
          discount = (if summed > o_original_amount ord then o_original_amount ord else summed)
      in ord\<lparr>o_coupon_id := map_option c_id applied, o_discount_amount := discount,
             o_total_amount := i64 (o_original_amount ord - discount)\<rparr>)"

text \<open>Lines 146 to 170: the type of the order, and the surplus an upgrade deducts.\<close>

definition deduct_surplus :: "order \<Rightarrow> order" where
  "deduct_surplus ord =
     (if o_surplus_amount ord \<ge> o_total_amount ord
      then ord\<lparr>o_surplus_credit := i64 (o_surplus_amount ord - o_total_amount ord), o_total_amount := 0\<rparr>
      else ord\<lparr>o_total_amount := i64 (o_total_amount ord - o_surplus_amount ord)\<rparr>)"

definition classify_order ::
  "location \<Rightarrow> user \<Rightarrow> settings \<Rightarrow> order \<Rightarrow> instant \<Rightarrow> db \<Rightarrow> store_error + order" where
  "classify_order loc u st ord now d =
     (if o_period ord = ''reset_traffic'' then Inr (ord\<lparr>o_type := OrderTypeResetTraffic\<rparr>)
      else if u_plan_id u \<noteq> None \<and> u_plan_id u \<noteq> Some (o_plan_id ord) \<and> subscription_active u now then
        (if \<not> s_plan_change_enable st then Inl ErrPlanUnavailable else
         ebind (if s_surplus_enable st
                then calculateOrderSurplus loc u (ord\<lparr>o_type := OrderTypeUpgrade\<rparr>) (s_change_order_event_id st = 1) now d
                else Inr (ord\<lparr>o_type := OrderTypeUpgrade\<rparr>)) (\<lambda>ord1.
         Inr (deduct_surplus ord1)))
      else if u_plan_id u = Some (o_plan_id ord) \<and> subscription_active u now
        then Inr (ord\<lparr>o_type := OrderTypeRenewal\<rparr>)
      else Inr (ord\<lparr>o_type := OrderTypeNew\<rparr>))"

text \<open>Lines 174 to 181: the user's balance pays what it can.\<close>

definition pay_from_balance :: "user \<Rightarrow> order \<Rightarrow> instant \<Rightarrow> db \<Rightarrow> store_error + order \<times> db" where
  "pay_from_balance u ord now d =
     (if u_balance u > 0 \<and> o_total_amount ord > 0 then
        let amount = minInt64 (u_balance u) (o_total_amount ord) in
        ebind (update_users (\<lambda>v. u_id v = u_id u)
          (\<lambda>v. v\<lparr>u_balance := i64 (u_balance u - amount), u_updated_at := unix now\<rparr>) d) (\<lambda>d1.
        Inr (ord\<lparr>o_balance_amount := amount, o_total_amount := i64 (o_total_amount ord - amount)\<rparr>, d1))
      else Inr (ord, d))"

text \<open>Lines 182 to 197: one use of a limited coupon.\<close>

definition consume_coupon :: "coupon option \<Rightarrow> instant \<Rightarrow> db \<Rightarrow> store_error + db" where
  "consume_coupon applied now d =
     (case applied of
        None \<Rightarrow> Inr d
      | Some c \<Rightarrow>
          (case c_limit_use c of
             None \<Rightarrow> Inr d
           | Some _ \<Rightarrow>
               let usable = (\<lambda>r. c_id r = c_id c \<and> (case c_limit_use r of None \<Rightarrow> False | Some n \<Rightarrow> n > 0)) in
               ebind (update_coupons usable
                 (\<lambda>r. r\<lparr>c_limit_use := map_option (\<lambda>n. n - 1) (c_limit_use r), c_updated_at := unix now\<rparr>) d) (\<lambda>d1.
               if count_where usable (db_coupons d) \<noteq> 1 then Inl ErrCouponExhausted else Inr d1)))"

definition insert_new_order :: "order \<Rightarrow> db \<Rightarrow> store_error + order \<times> db" where
  "insert_new_order ord d =
     (case insert_order ord d of
        Inl e \<Rightarrow> Inl (if has_active_order (o_user_id ord) d then ErrActiveOrderExists else e)
      | Inr (i, d1) \<Rightarrow> Inr (ord\<lparr>o_id := i\<rparr>, d1))"

definition CreateOrder ::
  "location \<Rightarrow> nat \<Rightarrow> create_order_input \<Rightarrow> instant \<Rightarrow> db \<Rightarrow> store_error + order \<times> db" where
  "CreateOrder loc random input now d =
     (if oi_user_id input < 1 \<or> oi_plan_id input < 1 \<or> unix now < 0 then Inl ErrInvalidInput else
      case normalizeOrderPeriod (oi_period input) of (period, valid) \<Rightarrow>
      if \<not> valid then Inl ErrInvalidInput else
      let tradeNo = newOrderTradeNo loc now random in
      ebind (readOrderUser (oi_user_id input) d) (\<lambda>u.
      if u_banned u \<or> u_account_kind u \<noteq> AccountKindHuman then Inl ErrPlanUnavailable else
      if has_active_order (oi_user_id input) d then Inl ErrActiveOrderExists else
      ebind (getPlan (oi_plan_id input) now d) (\<lambda>info.
      ebind (of_option ErrPlanUnavailable (map_of (p_prices (pl_row info)) period)) (\<lambda>price.
      ebind (if period \<noteq> ''reset_traffic'' \<and> u_plan_id u \<noteq> Some (p_id (pl_row info))
             then requirePlanAudience (p_id (pl_row info)) (u_id u) d else Inr ()) (\<lambda>_.
      ebind (validateOrderPurchase u info period now) (\<lambda>_.
      let st = db_settings d;
          ord0 = new_order (oi_user_id input) (oi_plan_id input) period tradeNo price now;
          couponCode = TrimSpace (oi_coupon_code input) in
      ebind (if couponCode = [] then Inr None
             else ebind (validateCoupon (u_id u) (p_id (pl_row info)) period couponCode now d)
                    (\<lambda>c. Inr (Some c))) (\<lambda>applied.
      ebind (classify_order loc u st (apply_discounts u applied ord0) now d) (\<lambda>ord1.
      let ord2 = setOrderCommission u st d ord1 in
      ebind (pay_from_balance u ord2 now d) (\<lambda>(ord3, d1).
      ebind (consume_coupon applied now d1) (\<lambda>d2.
      insert_new_order ord3 d2))))))))))"

text \<open>
  \<^verbatim>\<open>AssignOrder\<close>: the administrator names the user by id or by email address, which the
  \<^verbatim>\<open>NOCASE\<close> column compares without regard to the case of ASCII letters. \<open>uni\<close> is the Unicode
  part of \<^verbatim>\<open>strings.ToLower\<close>.
\<close>

definition AssignOrder ::
  "(string \<Rightarrow> string) \<Rightarrow> nat list \<Rightarrow> assign_order_input \<Rightarrow> instant \<Rightarrow> db \<Rightarrow>
   store_error + order \<times> db" where
  "AssignOrder uni random input now d =
     (let email = ToLower uni (TrimSpace (ai_email input)) in
      case normalizeOrderPeriod (ai_period input) of (period, valid) \<Rightarrow>
      if (ai_user_id input \<noteq> None) = (email \<noteq> []) \<or>
         (case ai_user_id input of None \<Rightarrow> False | Some i \<Rightarrow> i < 1) \<or> ai_plan_id input < 1 \<or> \<not> valid \<or>
         ai_total_amount input < 0 \<or> ai_total_amount input > maxOrderMoneyCents then Inl ErrInvalidInput else
      let tradeNo = newAssignedOrderTradeNo random in
      ebind (of_option ErrNotFound (case ai_user_id input of
          Some i \<Rightarrow> List.find (\<lambda>u. u_id u = i \<and> u_account_kind u = AccountKindHuman) (db_users d)
        | None \<Rightarrow> List.find (\<lambda>u. nocase_eq (u_email u) email \<and> u_account_kind u = AccountKindHuman) (db_users d)))
        (\<lambda>found.
      ebind (readOrderUser (u_id found) d) (\<lambda>u.
      ebind (of_option ErrNotFound (List.find (\<lambda>p. p_id p = ai_plan_id input) (db_plans d))) (\<lambda>_.
      if has_active_order (u_id found) d then Inl ErrActiveOrderExists else
      let ord0 = new_order (u_id found) (ai_plan_id input) period tradeNo (ai_total_amount input) now;
          ord1 = ord0\<lparr>o_type :=
            (if period = ''reset_traffic'' then OrderTypeResetTraffic
             else if u_plan_id u \<noteq> None \<and> u_plan_id u \<noteq> Some (ai_plan_id input) \<and> subscription_active u now
               then OrderTypeUpgrade
             else if u_plan_id u = Some (ai_plan_id input) \<and>
                     (case u_expired_at u of None \<Rightarrow> False | Some e \<Rightarrow> e > unix now) then OrderTypeRenewal
             else OrderTypeNew)\<rparr>
      in insert_new_order (setOrderCommission u (db_settings d) d ord1) d))))"

section \<open>Cancelling\<close>

definition find_order :: "(order \<Rightarrow> bool) \<Rightarrow> db \<Rightarrow> store_error + order" where
  "find_order p d = of_option ErrNotFound (List.find p (db_orders d))"

definition hasActivePaymentCheckout :: "int \<Rightarrow> db \<Rightarrow> bool" where
  "hasActivePaymentCheckout orderID d =
     exists_where (\<lambda>a. a_order_id a = orderID \<and>
       a_status a \<in> {PaymentCheckoutCreating, PaymentCheckoutCreated}) (db_attempts d)"

definition cancelOrderTx :: "order \<Rightarrow> instant \<Rightarrow> db \<Rightarrow> store_error + order \<times> db" where
  "cancelOrderTx ord now d =
     (let pending = (\<lambda>r. o_id r = o_id ord \<and> o_status r = OrderStatusPending) in
      ebind (update_orders pending
        (\<lambda>r. r\<lparr>o_status := OrderStatusCancelled, o_updated_at := unix now\<rparr>) d) (\<lambda>d1.
      if count_where pending (db_orders d) \<noteq> 1 then Inl ErrOrderState else
      ebind (if o_balance_amount ord > 0 then
               (case List.find (\<lambda>u. u_id u = o_user_id ord) (db_users d1) of
                  None \<Rightarrow> Inl ErrDatabase
                | Some u \<Rightarrow>
                    if o_balance_amount ord > i64 (maxOrderMoneyCents - u_balance u) then Inl ErrRefundBalanceLimit
                    else update_users (\<lambda>v. u_id v = o_user_id ord)
                      (\<lambda>v. v\<lparr>u_balance := u_balance v + o_balance_amount ord, u_updated_at := unix now\<rparr>) d1)
             else Inr d1) (\<lambda>d2.
      Inr (ord\<lparr>o_status := OrderStatusCancelled, o_updated_at := unix now\<rparr>, d2))))"

definition cancel_found :: "order \<Rightarrow> instant \<Rightarrow> db \<Rightarrow> store_error + order \<times> db" where
  "cancel_found ord now d =
     (if o_status ord \<noteq> OrderStatusPending then Inl ErrOrderState
      else if hasActivePaymentCheckout (o_id ord) d then Inl ErrPaymentInProgress
      else cancelOrderTx ord now d)"

definition CancelAdminOrder :: "string \<Rightarrow> instant \<Rightarrow> db \<Rightarrow> store_error + order \<times> db" where
  "CancelAdminOrder tradeNo now d =
     (if \<not> validTradeNo tradeNo then Inl ErrInvalidInput else
      ebind (find_order (\<lambda>r. o_trade_no r = tradeNo) d) (\<lambda>ord. cancel_found ord now d))"

definition CancelOrder :: "int \<Rightarrow> string \<Rightarrow> instant \<Rightarrow> db \<Rightarrow> store_error + order \<times> db" where
  "CancelOrder userID tradeNo now d =
     (if userID < 1 \<or> \<not> validTradeNo tradeNo \<or> unix now < 0 then Inl ErrInvalidInput else
      ebind (find_order (\<lambda>r. o_user_id r = userID \<and> o_trade_no r = tradeNo) d) (\<lambda>ord. cancel_found ord now d))"

definition UpdateAdminOrderCommissionStatus ::
  "string \<Rightarrow> int \<Rightarrow> instant \<Rightarrow> db \<Rightarrow> store_error + order \<times> db" where
  "UpdateAdminOrderCommissionStatus tradeNo nxt now d =
     (if \<not> validTradeNo tradeNo \<or> unix now < 0 \<or> nxt \<notin> {0, 1, 3} then Inl ErrInvalidInput else
      ebind (find_order (\<lambda>r. o_trade_no r = tradeNo) d) (\<lambda>ord.
      if o_status ord \<noteq> OrderStatusCompleted \<or> o_commission_status ord = 2 \<or>
         o_invite_user_id ord = None \<or> o_commission_balance ord \<le> 0 then Inl ErrOrderState else
      let current = (\<lambda>r. o_id r = o_id ord \<and> o_status r = OrderStatusCompleted \<and>
                         o_commission_status r = o_commission_status ord) in
      ebind (update_orders current
        (\<lambda>r. r\<lparr>o_commission_status := nxt, o_updated_at := unix now\<rparr>) d) (\<lambda>d1.
      if count_where current (db_orders d) \<noteq> 1 then Inl ErrOrderState else
      Inr (ord\<lparr>o_commission_status := nxt, o_updated_at := unix now\<rparr>, d1))))"

section \<open>Completing\<close>

record entitlement_change =
  ch_user_id :: int
  ch_previous_uuid :: "string option"
  ch_old_group_id :: "int option"
  ch_new_group_id :: "int option"

definition marshalEntitlementSnapshot :: "user \<Rightarrow> snapshot" where
  "marshalEntitlementSnapshot u =
     \<lparr>sn_plan_id = u_plan_id u, sn_group_id = u_group_id u, sn_transfer_enable = u_transfer_enable u,
      sn_traffic_u = u_traffic_u u, sn_traffic_d = u_traffic_d u, sn_expired_at = u_expired_at u,
      sn_speed_limit = u_speed_limit u, sn_device_limit = u_device_limit u,
      sn_next_reset_at = u_next_reset_at u, sn_last_reset_at = u_last_reset_at u,
      sn_reset_count = u_reset_count u, sn_balance = u_balance u\<rparr>"

definition orderTypeEventName :: "order_type \<Rightarrow> string" where
  "orderTypeEventName value =
     (case value of OrderTypeRenewal \<Rightarrow> ''renewal'' | OrderTypeUpgrade \<Rightarrow> ''upgrade''
      | OrderTypeResetTraffic \<Rightarrow> ''reset_traffic'' | OrderTypeNew \<Rightarrow> ''new'')"

definition optionalPlanInt :: "int option \<Rightarrow> int" where
  "optionalPlanInt value = (case value of None \<Rightarrow> 0 | Some v \<Rightarrow> v)"

text \<open>
  Lines 1060 to 1090 of \<^verbatim>\<open>completeOrderTx\<close>: what the period grants, and whether it resets the
  traffic. A stored period outside the known ones is an error.
\<close>

definition grant_period :: "location \<Rightarrow> order \<Rightarrow> plan \<Rightarrow> user \<Rightarrow> instant \<Rightarrow> store_error + user \<times> bool" where
  "grant_period loc ord p u now =
     (if o_period ord = ''reset_traffic'' then Inr (u, True)
      else
        let granted = (\<lambda>v. v\<lparr>u_plan_id := Some (p_id p), u_group_id := p_group_id p,
              u_transfer_enable := i64 (p_transfer_enable_gib p * bytesPerGiB)\<rparr>) in
        if o_period ord = ''onetime'' then Inr ((granted u)\<lparr>u_expired_at := None\<rparr>, True)
        else
          let months = orderPeriodMonths (o_period ord) in
          if months = 0 then Inl ErrInvalidInput else
          let expired = (if o_type ord = OrderTypeUpgrade then Some (unix now) else u_expired_at u);
              reset = (expired = None \<or> o_type ord = OrderTypeNew);
              base = (case expired of
                        Some e \<Rightarrow> (if e \<ge> unix now then e else unix now)
                      | None \<Rightarrow> unix now)
          in Inr ((granted u)\<lparr>u_expired_at := Some (addOrderMonths loc base months)\<rparr>, reset))"

definition event_resets :: "settings \<Rightarrow> order_type \<Rightarrow> bool" where
  "event_resets st t =
     (case t of OrderTypeNew \<Rightarrow> s_new_order_event_id st = 1
      | OrderTypeRenewal \<Rightarrow> s_renew_order_event_id st = 1
      | OrderTypeUpgrade \<Rightarrow> s_change_order_event_id st = 1
      | OrderTypeResetTraffic \<Rightarrow> False)"

text \<open>Lines 1091 to 1121: limits, traffic reset and the next scheduled reset.\<close>

definition finish_user :: "location \<Rightarrow> order \<Rightarrow> plan \<Rightarrow> settings \<Rightarrow> user \<times> bool \<Rightarrow> instant \<Rightarrow> user" where
  "finish_user loc ord p st = (\<lambda>(u, reset) now.
     let u1 = u\<lparr>u_speed_limit := optionalPlanInt (p_speed_limit p),
                u_device_limit := optionalPlanInt (p_device_limit p)\<rparr>;
         u2 = (if reset \<or> event_resets st (o_type ord)
               then u1\<lparr>u_traffic_u := 0, u_traffic_d := 0, u_last_reset_at := Some (unix now),
                       u_reset_count := i64 (u_reset_count u1 + 1)\<rparr> else u1)
     in u2\<lparr>u_next_reset_at := CalculateNextTrafficReset loc (p_reset_traffic_method p)
             (s_traffic_reset_method st) (u_expired_at u2) now\<rparr>)"

definition discount_surplus_order :: "order \<Rightarrow> instant \<Rightarrow> int \<Rightarrow> db \<Rightarrow> store_error + db" where
  "discount_surplus_order ord now orderID d =
     (if orderID < 1 then Inl ErrInternal else
      update_orders (\<lambda>r. o_id r = orderID \<and> o_user_id r = o_user_id ord \<and>
          o_status r = OrderStatusCompleted \<and> o_period r \<noteq> ''reset_traffic'')
        (\<lambda>r. r\<lparr>o_status := OrderStatusDiscounted, o_updated_at := unix now\<rparr>) d)"

definition mark_processing :: "order \<Rightarrow> int \<Rightarrow> string \<Rightarrow> instant \<Rightarrow> db \<Rightarrow> store_error + db" where
  "mark_processing ord paidAt callback now d =
     (let active = (\<lambda>r. o_id r = o_id ord \<and> order_active r) in
      ebind (update_orders active
        (\<lambda>r. r\<lparr>o_status := OrderStatusProcessing,
               o_paid_at := (case o_paid_at r of None \<Rightarrow> Some paidAt | Some t \<Rightarrow> Some t),
               o_callback_no := (case o_callback_no r of None \<Rightarrow> Some callback | Some c \<Rightarrow> Some c),
               o_updated_at := unix now\<rparr>) d) (\<lambda>d1.
      if count_where active (db_orders d) \<noteq> 1 then Inl ErrOrderState else Inr d1))"

definition apply_entitlement :: "user \<Rightarrow> instant \<Rightarrow> db \<Rightarrow> store_error + db" where
  "apply_entitlement u now d =
     update_users (\<lambda>v. u_id v = u_id u \<and> u_account_kind v = AccountKindHuman)
       (\<lambda>v. v\<lparr>u_plan_id := u_plan_id u, u_group_id := u_group_id u, u_transfer_enable := u_transfer_enable u,
              u_traffic_u := u_traffic_u u, u_traffic_d := u_traffic_d u, u_expired_at := u_expired_at u,
              u_speed_limit := u_speed_limit u, u_device_limit := u_device_limit u,
              u_next_reset_at := u_next_reset_at u, u_last_reset_at := u_last_reset_at u,
              u_reset_count := u_reset_count u, u_balance := u_balance u,
              u_admin_revision := u_admin_revision v + 1, u_updated_at := unix now\<rparr>) d"

definition mark_completed :: "order \<Rightarrow> int option \<Rightarrow> int option \<Rightarrow> instant \<Rightarrow> db \<Rightarrow> store_error + db" where
  "mark_completed ord expiryBefore expiryAfter now d =
     (let processing = (\<lambda>r. o_id r = o_id ord \<and> o_status r = OrderStatusProcessing) in
      ebind (update_orders processing
        (\<lambda>r. r\<lparr>o_status := OrderStatusCompleted, o_entitlement_before := expiryBefore,
               o_entitlement_after := expiryAfter, o_updated_at := unix now\<rparr>) d) (\<lambda>d1.
      if count_where processing (db_orders d) \<noteq> 1 then Inl ErrOrderState else Inr d1))"

definition completeOrderTx ::
  "location \<Rightarrow> order \<Rightarrow> string \<Rightarrow> instant \<Rightarrow> db \<Rightarrow> store_error + (order \<times> entitlement_change) \<times> db" where
  "completeOrderTx loc ord callbackNo now d =
     (if \<not> order_active ord then Inl ErrOrderState else
      ebind (readOrderUser (o_user_id ord) d) (\<lambda>u.
      ebind (getPlan (o_plan_id ord) now d) (\<lambda>info.
      let st = db_settings d; p = pl_row info;
          paidAt = (case o_paid_at ord of None \<Rightarrow> unix now | Some t \<Rightarrow> t);
          callback = (case o_callback_no ord of None \<Rightarrow> callbackNo | Some c \<Rightarrow> c) in
      ebind (mark_processing ord paidAt callback now d) (\<lambda>d1.
      let u1 = (if o_surplus_credit ord > 0
                then u\<lparr>u_balance := i64 (u_balance u + o_surplus_credit ord)\<rparr> else u) in
      ebind (efold (discount_surplus_order ord now) (o_surplus_order_ids ord) d1) (\<lambda>d2.
      ebind (grant_period loc ord p u1 now) (\<lambda>granted.
      let u2 = finish_user loc ord p st granted now in
      ebind (apply_entitlement u2 now d2) (\<lambda>d3.
      ebind (insert_event
        \<lparr>ev_order_id = o_id ord, ev_user_id = o_user_id ord, ev_type = orderTypeEventName (o_type ord),
         ev_before = marshalEntitlementSnapshot u, ev_after = marshalEntitlementSnapshot u2,
         ev_applied_at = unix now\<rparr> d3) (\<lambda>d4.
      ebind (mark_completed ord (u_expired_at u) (u_expired_at u2) now d4) (\<lambda>d5.
      Inr ((ord\<lparr>o_status := OrderStatusCompleted, o_paid_at := Some paidAt, o_callback_no := Some callback,
                o_entitlement_before := u_expired_at u, o_entitlement_after := u_expired_at u2,
                o_updated_at := unix now\<rparr>,
            \<lparr>ch_user_id = u_id u, ch_previous_uuid = u_uuid u, ch_old_group_id = u_group_id u,
             ch_new_group_id = u_group_id u2\<rparr>), d5))))))))))"

definition CompleteOrder ::
  "location \<Rightarrow> string \<Rightarrow> string \<Rightarrow> instant \<Rightarrow> db \<Rightarrow> store_error + (order \<times> entitlement_change option) \<times> db" where
  "CompleteOrder loc tradeNo callbackNo now d =
     (if \<not> validTradeNo tradeNo \<or> length callbackNo < 1 \<or> length callbackNo > 255 \<or> unix now < 0
      then Inl ErrInvalidInput else
      ebind (find_order (\<lambda>r. o_trade_no r = tradeNo) d) (\<lambda>ord.
      if o_status ord = OrderStatusCompleted then Inr ((ord, None), d) else
      ebind (completeOrderTx loc ord callbackNo now d) (\<lambda>((ord1, change), d1).
      Inr ((ord1, Some change), d1))))"

definition CompletePendingOrder ::
  "location \<Rightarrow> string \<Rightarrow> string \<Rightarrow> instant \<Rightarrow> db \<Rightarrow> store_error + (order \<times> entitlement_change option) \<times> db" where
  "CompletePendingOrder loc tradeNo callbackNo now d =
     (if \<not> validTradeNo tradeNo \<or> length callbackNo < 1 \<or> length callbackNo > 255 \<or> unix now < 0
      then Inl ErrInvalidInput else
      ebind (find_order (\<lambda>r. o_trade_no r = tradeNo) d) (\<lambda>ord.
      if o_status ord \<noteq> OrderStatusPending then Inl ErrOrderState else
      ebind (completeOrderTx loc ord callbackNo now d) (\<lambda>((ord1, change), d1).
      Inr ((ord1, Some change), d1))))"

section \<open>Stale orders\<close>

definition quarantined_until :: "string \<Rightarrow> int \<Rightarrow> int \<Rightarrow> db \<Rightarrow> bool" where
  "quarantined_until kind i t d =
     exists_where (\<lambda>q. q_kind q = kind \<and> q_entity_id q = i \<and> q_retry_after q > t) (db_quarantine d)"

definition staleOrderPredicate :: "instant \<Rightarrow> db \<Rightarrow> order \<Rightarrow> bool" where
  "staleOrderPredicate now d ord \<longleftrightarrow>
     (o_status ord = OrderStatusProcessing \<or>
      (o_status ord = OrderStatusPending \<and> o_created_at ord \<le> unix (now - seconds 7200) \<and>
       (o_created_at ord \<le> unix (now - seconds 9000) \<or>
        \<not> exists_where (\<lambda>a. a_order_id a = o_id ord \<and>
            ((a_status a = PaymentCheckoutCreating \<and> a_updated_at a > unix (now - seconds 120)) \<or>
             (a_status a = PaymentCheckoutCreated \<and> a_updated_at a > unix (now - seconds 1800)))) (db_attempts d)))) \<and>
     \<not> quarantined_until ''stale_order'' (o_id ord) (unix now) d"

definition quarantine_upsert :: "string \<Rightarrow> int \<Rightarrow> string \<Rightarrow> int \<Rightarrow> int \<Rightarrow> db \<Rightarrow> store_error + db" where
  "quarantine_upsert kind i reason t retryAfter d =
     (let same = (\<lambda>q. q_kind q = kind \<and> q_entity_id q = i) in
      if exists_where same (db_quarantine d) then
        update_quarantine same
          (\<lambda>q. q\<lparr>q_reason := reason, q_attempts := q_attempts q + 1, q_last_failed_at := t,
                 q_retry_after := retryAfter\<rparr>) d
      else insert_quarantine
        \<lparr>q_kind = kind, q_entity_id = i, q_reason = reason, q_attempts = 1, q_first_failed_at = t,
         q_last_failed_at = t, q_retry_after = retryAfter\<rparr> d)"

definition quarantine_clear :: "string \<Rightarrow> int \<Rightarrow> db \<Rightarrow> db" where
  "quarantine_clear kind i d =
     d\<lparr>db_quarantine := filter (\<lambda>q. \<not> (q_kind q = kind \<and> q_entity_id q = i)) (db_quarantine d)\<rparr>"

record stale_result =
  sr_cancelled :: int
  sr_completed :: int
  sr_quarantined :: int
  sr_remaining :: int

definition stale_step :: "location \<Rightarrow> instant \<Rightarrow> order \<Rightarrow> stale_result \<times> db \<Rightarrow> store_error + stale_result \<times> db" where
  "stale_step loc now ord = (\<lambda>(res, d).
     if o_status ord = OrderStatusPending then
       (case cancelOrderTx ord now d of
          Inr (_, d1) \<Rightarrow>
            Inr (res\<lparr>sr_cancelled := sr_cancelled res + 1\<rparr>, quarantine_clear ''stale_order'' (o_id ord) d1)
        | Inl e \<Rightarrow>
            if e \<noteq> ErrRefundBalanceLimit then Inl e else
            ebind (quarantine_upsert ''stale_order'' (o_id ord) ''refund_balance_limit_exceeded''
                     (unix now) (unix (now + seconds 3600)) d) (\<lambda>d1.
            Inr (res\<lparr>sr_quarantined := sr_quarantined res + 1\<rparr>, d1)))
     else
       ebind (completeOrderTx loc ord
                (case o_callback_no ord of None \<Rightarrow> o_trade_no ord | Some c \<Rightarrow> c) now d) (\<lambda>(_, d1).
       Inr (res\<lparr>sr_completed := sr_completed res + 1\<rparr>, d1)))"

definition ProcessStaleOrders :: "location \<Rightarrow> instant \<Rightarrow> int \<Rightarrow> db \<Rightarrow> store_error + stale_result \<times> db" where
  "ProcessStaleOrders loc now limit d =
     (if limit < 1 \<or> limit > 1000 \<or> unix now < 0 then Inl ErrInvalidInput else
      ebind (efold (stale_step loc now)
        (take (nat limit) (order_by o_created_at (filter (staleOrderPredicate now d) (db_orders d))))
        (\<lparr>sr_cancelled = 0, sr_completed = 0, sr_quarantined = 0, sr_remaining = 0\<rparr>, d)) (\<lambda>(res, d1).
      Inr (res\<lparr>sr_remaining := int (count_where (staleOrderPredicate now d1) (db_orders d1))\<rparr>, d1)))"

end
