(* ===== verification/Checkout.thy ===== *)
theory Checkout
  imports Orders
begin

text \<open>
  Payment checkout (\<^verbatim>\<open>internal/store/payment_checkout.go\<close>, \<^verbatim>\<open>PaymentHandlingFee\<close> of \<^verbatim>\<open>payments.go\<close>,
  \<^verbatim>\<open>trusted_plugins.go\<close>): starting an attempt with a provider under a two-minute lease, recording
  its outcome, and settling the provider's webhook exactly once. The Telegram notification the
  webhook enqueues is an argument that may fail; its outbox is not part of the model.
\<close>

section \<open>Inputs and validation\<close>

record start_checkout_input =
  si_user_id :: int
  si_trade_no :: string
  si_payment_id :: int

record checkout_start =
  cs_attempt :: attempt
  cs_payment :: payment
  cs_order :: order
  cs_cached :: bool

record webhook_input =
  wi_payment_id :: int
  wi_provider :: string
  wi_external_id :: string
  wi_trade_no :: string
  wi_amount :: int
  wi_currency :: string
  wi_payload_sha256 :: string

definition PaymentHandlingFee :: "int \<Rightarrow> int \<Rightarrow> int \<Rightarrow> store_error + int" where
  "PaymentHandlingFee amount fixed basisPoints =
     (if amount < 0 \<or> amount > maxOrderMoneyCents \<or> fixed < 0 \<or> fixed > maxOrderMoneyCents \<or>
         basisPoints < 0 \<or> basisPoints > 10000 then Inl ErrInvalidInput else
      let percentage = i64 (i64 ((amount sdiv 10000) * basisPoints) +
            i64 (i64 ((amount smod 10000) * basisPoints) + 5000) sdiv 10000) in
      if percentage > i64 (maxOrderMoneyCents - fixed) then Inl ErrInvalidInput
      else Inr (i64 (percentage + fixed)))"

definition TrustedPluginCodeForPaymentProvider :: "string \<Rightarrow> string option" where
  "TrustedPluginCodeForPaymentProvider provider =
     map_of [(''AlipayF2F'', ''alipay_f2f''), (''BTCPay'', ''btcpay''), (''CoinPayments'', ''coin_payments''),
             (''Coinbase'', ''coinbase''), (''EPay'', ''epay''), (''MGate'', ''mgate'')] provider"

definition validLowerHex :: "string \<Rightarrow> nat \<Rightarrow> bool" where
  "validLowerHex value len \<longleftrightarrow> length value = len \<and> list_all is_lower_hex value"

definition validPaymentIdempotencyKey :: "string \<Rightarrow> bool" where
  "validPaymentIdempotencyKey value = validLowerHex value 64"

definition validPaymentResponseData :: "string \<Rightarrow> bool" where
  "validPaymentResponseData value \<longleftrightarrow>
     ValidString value \<and> 1 \<le> length value \<and> length value \<le> 4096 \<and> \<not> has_control value"

definition validExternalPaymentID :: "string \<Rightarrow> bool" where
  "validExternalPaymentID value \<longleftrightarrow>
     ValidString value \<and> 1 \<le> length value \<and> length value \<le> 255 \<and> \<not> has_control value"

definition validOptionalExternalPaymentID :: "string \<Rightarrow> bool" where
  "validOptionalExternalPaymentID value \<longleftrightarrow> value = [] \<or> validExternalPaymentID value"

definition validPaymentCurrency :: "string \<Rightarrow> bool" where
  "validPaymentCurrency value \<longleftrightarrow> length value = 3 \<and> list_all (\<lambda>ch. 65 \<le> byte ch \<and> byte ch \<le> 90) value"

definition newPaymentIdempotencyKey :: "nat list \<Rightarrow> string" where
  "newPaymentIdempotencyKey random = EncodeToString random"

definition nullablePositiveMoney :: "int \<Rightarrow> int option" where
  "nullablePositiveMoney value = (if value = 0 then None else Some value)"

definition nullableText :: "string \<Rightarrow> string option" where
  "nullableText value = (if value = [] then None else Some value)"

definition getPayment :: "int \<Rightarrow> db \<Rightarrow> store_error + payment" where
  "getPayment paymentID d = of_option ErrNotFound (List.find (\<lambda>p. pay_id p = paymentID) (db_payments d))"

section \<open>Starting an attempt\<close>

text \<open>Lines 60 to 118: reuse, restart or create the attempt of this order with this method.\<close>

definition find_attempt :: "int \<Rightarrow> int \<Rightarrow> db \<Rightarrow> attempt option" where
  "find_attempt orderID paymentID d =
     List.find (\<lambda>a. a_order_id a = orderID \<and> a_payment_id a = paymentID) (db_attempts d)"

definition restart_attempt :: "int \<Rightarrow> instant \<Rightarrow> attempt \<Rightarrow> attempt" where
  "restart_attempt expectedAmount now a =
     a\<lparr>a_expected_amount := expectedAmount, a_currency := ''CNY'', a_status := PaymentCheckoutCreating,
       a_external_id := None, a_response_type := None, a_response_data := None, a_error_code := None,
       a_updated_at := unix now\<rparr>"

definition obtain_attempt ::
  "nat list \<Rightarrow> int \<Rightarrow> int \<Rightarrow> int \<Rightarrow> instant \<Rightarrow> db \<Rightarrow> store_error + (attempt \<times> bool) \<times> db" where
  "obtain_attempt random orderID paymentID expectedAmount now d =
     (case find_attempt orderID paymentID d of
        Some a \<Rightarrow>
          if a_status a = PaymentCheckoutCreated then Inr ((a, True), d)
          else if a_status a = PaymentCheckoutCreating \<and> from_unix (a_updated_at a) + seconds 120 > now
            then Inl ErrPaymentInProgress
          else ebind (update_attempts (\<lambda>r. a_id r = a_id a) (restart_attempt expectedAmount now) d) (\<lambda>d1.
               if count_where (\<lambda>r. a_id r = a_id a) (db_attempts d) \<noteq> 1 then Inl ErrInternal
               else Inr ((restart_attempt expectedAmount now a, False), d1))
      | None \<Rightarrow>
          let a = \<lparr>a_id = 0, a_order_id = orderID, a_payment_id = paymentID,
                   a_idempotency_key = newPaymentIdempotencyKey random, a_expected_amount = expectedAmount,
                   a_currency = ''CNY'', a_status = PaymentCheckoutCreating, a_external_id = None,
                   a_response_type = None, a_response_data = None, a_error_code = None,
                   a_created_at = unix now, a_updated_at = unix now\<rparr> in
          ebind (insert_attempt a d) (\<lambda>(i, d1). Inr ((a\<lparr>a_id := i\<rparr>, False), d1)))"

definition StartPaymentCheckout ::
  "nat list \<Rightarrow> start_checkout_input \<Rightarrow> instant \<Rightarrow> db \<Rightarrow> store_error + checkout_start \<times> db" where
  "StartPaymentCheckout random input now d =
     (if si_user_id input < 1 \<or> si_payment_id input < 1 \<or> \<not> validTradeNo (si_trade_no input) \<or> unix now < 0
      then Inl ErrInvalidInput else
      ebind (find_order (\<lambda>r. o_user_id r = si_user_id input \<and> o_trade_no r = si_trade_no input) d) (\<lambda>ord.
      if o_status ord \<noteq> OrderStatusPending \<or> o_total_amount ord \<le> 0 \<or>
         \<not> now < from_unix (o_created_at ord) + seconds 7200 then Inl ErrOrderState else
      ebind (map_error (\<lambda>_. ErrPaymentUnavailable) (getPayment (si_payment_id input) d)) (\<lambda>meth.
      if \<not> pay_enabled meth then Inl ErrPaymentUnavailable else
      case TrustedPluginCodeForPaymentProvider (pay_provider meth) of
        None \<Rightarrow> Inl ErrPaymentUnavailable
      | Some code \<Rightarrow>
          if map_of (db_plugins d) code \<noteq> Some True then Inl ErrPaymentUnavailable else
          ebind (PaymentHandlingFee (o_total_amount ord) (pay_handling_fee_fixed meth)
                   (pay_handling_fee_basis_points meth)) (\<lambda>fee.
          if o_total_amount ord > i64 (maxOrderMoneyCents - fee) then Inl ErrInvalidInput else
          ebind (obtain_attempt random (o_id ord) (pay_id meth) (i64 (o_total_amount ord + fee)) now d)
            (\<lambda>((a, cached), d1).
          if cached \<and> a_expected_amount a < o_total_amount ord then Inl ErrConflict else
          let fee' = (if cached then i64 (a_expected_amount a - o_total_amount ord) else fee);
              pending = (\<lambda>r. o_id r = o_id ord \<and> o_status r = OrderStatusPending) in
          ebind (update_orders pending
            (\<lambda>r. r\<lparr>o_payment_id := Some (pay_id meth), o_handling_amount := nullablePositiveMoney fee',
                   o_updated_at := unix now\<rparr>) d1) (\<lambda>d2.
          if count_where pending (db_orders d1) \<noteq> 1 then Inl ErrOrderState else
          Inr (\<lparr>cs_attempt = a, cs_payment = meth,
                cs_order = ord\<lparr>o_payment_id := Some (pay_id meth),
                  o_handling_amount := (if fee' > 0 then Some fee' else None), o_updated_at := unix now\<rparr>,
                cs_cached = cached\<rparr>, d2)))))))"

section \<open>Outcome of an attempt\<close>

definition CompletePaymentCheckout ::
  "int \<Rightarrow> string \<Rightarrow> int \<Rightarrow> string \<Rightarrow> string \<Rightarrow> instant \<Rightarrow> db \<Rightarrow> store_error + attempt \<times> db" where
  "CompletePaymentCheckout attemptID idempotencyKey responseType responseData externalID now d =
     (if attemptID < 1 \<or> \<not> validPaymentIdempotencyKey idempotencyKey \<or> responseType \<notin> {0, 1} \<or>
         \<not> validPaymentResponseData responseData \<or> \<not> validOptionalExternalPaymentID externalID \<or> unix now < 0
      then Inl ErrInvalidInput else
      ebind (of_option ErrNotFound (List.find (\<lambda>a. a_id a = attemptID) (db_attempts d))) (\<lambda>a.
      if a_idempotency_key a \<noteq> idempotencyKey then Inl ErrNotFound else
      if a_status a = PaymentCheckoutCreated then
        (if a_response_type a \<noteq> Some responseType \<or> a_response_data a \<noteq> Some responseData \<or>
            a_external_id a \<noteq> nullableText externalID then Inl ErrConflict else Inr (a, d))
      else
        let creating = (\<lambda>r. a_id r = a_id a \<and> a_status r = PaymentCheckoutCreating);
            created = (\<lambda>r. r\<lparr>a_status := PaymentCheckoutCreated, a_external_id := nullableText externalID,
              a_response_type := Some responseType, a_response_data := Some responseData,
              a_error_code := None, a_updated_at := unix now\<rparr>) in
        ebind (update_attempts creating created d) (\<lambda>d1.
        if count_where creating (db_attempts d) \<noteq> 1 then Inl ErrConflict else Inr (created a, d1))))"

definition FailPaymentCheckout :: "int \<Rightarrow> string \<Rightarrow> string \<Rightarrow> instant \<Rightarrow> db \<Rightarrow> store_error + db" where
  "FailPaymentCheckout attemptID idempotencyKey errorCode now d =
     (let code = TrimSpace errorCode;
          creating = (\<lambda>r. a_id r = attemptID \<and> a_idempotency_key r = idempotencyKey \<and>
                          a_status r = PaymentCheckoutCreating) in
      if attemptID < 1 \<or> \<not> validPaymentIdempotencyKey idempotencyKey \<or> length code < 1 \<or> length code > 64 \<or>
         has_control code \<or> unix now < 0 then Inl ErrInvalidInput else
      ebind (update_attempts creating
        (\<lambda>r. r\<lparr>a_status := PaymentCheckoutFailed, a_external_id := None, a_response_type := None,
               a_response_data := None, a_error_code := Some code, a_updated_at := unix now\<rparr>) d) (\<lambda>d1.
      if count_where creating (db_attempts d) \<noteq> 1 then Inl ErrConflict else Inr d1))"

section \<open>The provider's webhook\<close>

definition getPaymentReceipt :: "int \<Rightarrow> string \<Rightarrow> db \<Rightarrow> receipt option" where
  "getPaymentReceipt paymentID externalID d =
     List.find (\<lambda>r. rc_payment_id r = paymentID \<and> rc_external_id r = externalID) (db_receipts d)"

definition settle_webhook ::
  "location \<Rightarrow> (order \<Rightarrow> payment \<Rightarrow> instant \<Rightarrow> store_error + unit) \<Rightarrow> payment \<Rightarrow> order \<Rightarrow> webhook_input \<Rightarrow> instant \<Rightarrow> db \<Rightarrow>
   store_error + order \<times> db" where
  "settle_webhook loc notify meth ord input now d =
     ebind (insert_receipt
       \<lparr>rc_payment_id = wi_payment_id input, rc_order_id = o_id ord, rc_provider = wi_provider input,
        rc_external_id = wi_external_id input, rc_trade_no = wi_trade_no input, rc_amount = wi_amount input,
        rc_currency = wi_currency input, rc_payload_sha256 = wi_payload_sha256 input,
        rc_received_at = unix now\<rparr> d) (\<lambda>d1.
     if o_status ord = OrderStatusCompleted then Inr (ord, d1) else
     let handlingAmount = i64 (wi_amount input - o_total_amount ord);
         active = (\<lambda>r. o_id r = o_id ord \<and> order_active r) in
     ebind (update_orders active
       (\<lambda>r. r\<lparr>o_payment_id := Some (wi_payment_id input),
              o_handling_amount := nullablePositiveMoney handlingAmount, o_updated_at := unix now\<rparr>) d1) (\<lambda>d2.
     if count_where active (db_orders d1) \<noteq> 1 then Inl ErrOrderState else
     let ord1 = ord\<lparr>o_payment_id := Some (wi_payment_id input),
           o_handling_amount := (if handlingAmount > 0 then Some handlingAmount else None),
           o_updated_at := unix now\<rparr> in
     ebind (completeOrderTx loc ord1 (wi_external_id input) now d2) (\<lambda>((ord2, _), d3).
     ebind (notify ord2 meth now) (\<lambda>_. Inr (ord2, d3)))))"

definition CompletePaymentWebhook ::
  "location \<Rightarrow> (string \<Rightarrow> string) \<Rightarrow> (string \<Rightarrow> string) \<Rightarrow>
   (order \<Rightarrow> payment \<Rightarrow> instant \<Rightarrow> store_error + unit) \<Rightarrow> webhook_input \<Rightarrow> instant \<Rightarrow> db \<Rightarrow>
   store_error + order \<times> db" where
  "CompletePaymentWebhook loc upper lower notify raw now d =
     (let input = raw\<lparr>wi_external_id := TrimSpace (wi_external_id raw),
            wi_currency := ToUpper upper (TrimSpace (wi_currency raw)),
            wi_payload_sha256 := ToLower lower (TrimSpace (wi_payload_sha256 raw))\<rparr> in
      if wi_payment_id input < 1 \<or> wi_provider input \<notin> set paymentProviders \<or>
         \<not> validExternalPaymentID (wi_external_id input) \<or> \<not> validTradeNo (wi_trade_no input) \<or>
         wi_amount input < 1 \<or> wi_amount input > maxOrderMoneyCents \<or>
         \<not> validPaymentCurrency (wi_currency input) \<or> \<not> validLowerHex (wi_payload_sha256 input) 64 \<or> unix now < 0
      then Inl ErrInvalidInput else
      ebind (getPayment (wi_payment_id input) d) (\<lambda>meth.
      if pay_provider meth \<noteq> wi_provider input then Inl ErrPaymentMismatch else
      ebind (find_order (\<lambda>r. o_trade_no r = wi_trade_no input) d) (\<lambda>ord.
      if wi_currency input \<noteq> ''CNY'' then Inl ErrPaymentMismatch else
      case List.find (\<lambda>a. a_order_id a = o_id ord \<and> a_payment_id a = wi_payment_id input \<and>
                          a_currency a = wi_currency input) (db_attempts d) of
        None \<Rightarrow> Inl ErrPaymentMismatch
      | Some a \<Rightarrow>
          if a_expected_amount a \<noteq> wi_amount input \<or> wi_amount input < o_total_amount ord
          then Inl ErrPaymentMismatch else
          case getPaymentReceipt (wi_payment_id input) (wi_external_id input) d of
            Some r \<Rightarrow>
              if rc_order_id r \<noteq> o_id ord \<or> rc_provider r \<noteq> wi_provider input \<or>
                 rc_trade_no r \<noteq> wi_trade_no input \<or> rc_amount r \<noteq> wi_amount input \<or>
                 rc_currency r \<noteq> wi_currency input then Inl ErrPaymentMismatch else Inr (ord, d)
          | None \<Rightarrow> settle_webhook loc notify meth ord input now d)))"

end
