(* ===== verification/Evolution.thy ===== *)
theory Evolution
  imports Store_Tables
begin

text \<open>
  How the database may change over time. The locale \<open>evolution\<close> is the interface of a relation
  between an earlier and a later database that composes: its clients prove that a statement
  respects it and get that loops and whole operations do. It is interpreted on the constraints
  (\<open>keeps_ok\<close>), on the life of orders (\<open>orders_evolve\<close>), on the life of checkout attempts
  (\<open>attempts_evolve\<close>) and on the append-only ledgers (\<open>ledgers_grow\<close>).
\<close>

section \<open>The interface\<close>

locale evolution =
  fixes R :: "'d \<Rightarrow> 'd \<Rightarrow> bool"
  assumes refl: "R d d"
    and trans: "R d1 d2 \<Longrightarrow> R d2 d3 \<Longrightarrow> R d1 d3"
begin

lemma fold_respects:
  assumes "efold f xs d = Inr d'" and "\<And>x d d'. x \<in> set xs \<Longrightarrow> f x d = Inr d' \<Longrightarrow> R d d'"
  shows "R d d'"
  by (rule efold_invariant [OF assms(1), where P = "R d"]) (auto intro: refl trans assms(2))

lemma fold_with_counter_respects:
  assumes "efold f xs (c, d) = Inr (c', d')"
    and "\<And>x c d c' d'. x \<in> set xs \<Longrightarrow> f x (c, d) = Inr (c', d') \<Longrightarrow> R d d'"
  shows "R d d'"
proof -
  have "(\<lambda>s. R d (snd s)) (c', d')"
  proof (rule efold_invariant [OF assms(1), where P = "\<lambda>s. R d (snd s)"])
    fix x s s'
    assume "x \<in> set xs" and "R d (snd s)" and "f x s = Inr s'"
    then show "R d (snd s')"
      using assms(2) [of x "fst s" "snd s" "fst s'" "snd s'"] by (auto intro: trans)
  qed (simp add: refl)
  then show ?thesis by simp
qed

end

text \<open>An update relates each row to the row that takes its place.\<close>

lemma update_where_related:
  assumes "\<And>r. r \<in> set rows \<Longrightarrow> p r \<Longrightarrow> Q r (f r)" and "\<And>r. Q r r"
  shows "\<forall>r\<in>set rows. \<exists>r'\<in>set (update_where p f rows). Q r r'"
proof
  fix r assume "r \<in> set rows"
  then have "(if p r then f r else r) \<in> set (update_where p f rows)" by (simp add: update_where_def)
  moreover have "Q r (if p r then f r else r)" using assms \<open>r \<in> set rows\<close> by simp
  ultimately show "\<exists>r'\<in>set (update_where p f rows). Q r r'" by blast
qed

section \<open>Constraints are kept\<close>

definition keeps_ok :: "db \<Rightarrow> db \<Rightarrow> bool" where
  "keeps_ok d d' \<longleftrightarrow> (db_ok d \<longrightarrow> db_ok d')"

interpretation keeps_ok: evolution keeps_ok
  by unfold_locales (auto simp: keeps_ok_def)

section \<open>The life of an order\<close>

text \<open>
  The transitions of \<^verbatim>\<open>OrderStatus\<close>: pending, then processing or cancelled; processing, then
  completed; a completed order may be consumed as the surplus of an upgrade.
\<close>

inductive status_step :: "order_status \<Rightarrow> order_status \<Rightarrow> bool" where
  pay: "status_step OrderStatusPending OrderStatusProcessing"
| cancel: "status_step OrderStatusPending OrderStatusCancelled"
| complete: "status_step OrderStatusProcessing OrderStatusCompleted"
| discount: "status_step OrderStatusCompleted OrderStatusDiscounted"

inductive_cases status_step_from_cancelledE: "status_step OrderStatusCancelled s"
inductive_cases status_step_from_discountedE: "status_step OrderStatusDiscounted s"
inductive_cases status_step_from_completedE: "status_step OrderStatusCompleted s"

definition status_reach :: "order_status \<Rightarrow> order_status \<Rightarrow> bool" where
  "status_reach = status_step\<^sup>*\<^sup>*"

lemma status_reach_refl [simp, intro]: "status_reach s s"
  by (simp add: status_reach_def)

lemma status_reach_trans: "status_reach a b \<Longrightarrow> status_reach b c \<Longrightarrow> status_reach a c"
  unfolding status_reach_def by (rule rtranclp_trans)

lemma status_reach_steps [intro]:
  "status_reach OrderStatusPending OrderStatusProcessing"
  "status_reach OrderStatusPending OrderStatusCancelled"
  "status_reach OrderStatusProcessing OrderStatusCompleted"
  "status_reach OrderStatusCompleted OrderStatusDiscounted"
  unfolding status_reach_def by (auto intro: status_step.intros)

lemma status_reach_final:
  "status_reach OrderStatusCancelled s \<longleftrightarrow> s = OrderStatusCancelled"
  "status_reach OrderStatusDiscounted s \<longleftrightarrow> s = OrderStatusDiscounted"
  unfolding status_reach_def
  by (auto elim: converse_rtranclpE status_step_from_cancelledE status_step_from_discountedE)

lemma status_reach_completed:
  "status_reach OrderStatusCompleted s \<longleftrightarrow> s \<in> {OrderStatusCompleted, OrderStatusDiscounted}"
  unfolding status_reach_def
  by (auto elim!: converse_rtranclpE status_step_from_completedE status_step_from_discountedE
      intro: status_step.intros)

text \<open>
  What an order keeps for ever: who bought what for how much, and how it was to be paid. Its
  status moves along the transitions, and a recorded payment or a paid commission stays.
\<close>

definition order_terms :: "order \<Rightarrow> order" where
  "order_terms ord = ord\<lparr>o_payment_id := None, o_handling_amount := None, o_status := OrderStatusPending,
     o_commission_status := 0, o_actual_commission_balance := None, o_paid_at := None, o_callback_no := None,
     o_entitlement_before := None, o_entitlement_after := None, o_updated_at := 0\<rparr>"

definition order_evolves :: "order \<Rightarrow> order \<Rightarrow> bool" where
  "order_evolves ord ord' \<longleftrightarrow>
     order_terms ord' = order_terms ord \<and> status_reach (o_status ord) (o_status ord') \<and>
     (o_paid_at ord \<noteq> None \<longrightarrow> o_paid_at ord' = o_paid_at ord) \<and>
     (o_callback_no ord \<noteq> None \<longrightarrow> o_callback_no ord' = o_callback_no ord) \<and>
     (o_commission_status ord = 2 \<longrightarrow> o_commission_status ord' = 2 \<and>
        o_actual_commission_balance ord' = o_actual_commission_balance ord)"

lemma order_terms_fields:
  assumes "order_terms ord' = order_terms ord"
  shows "o_id ord' = o_id ord" "o_user_id ord' = o_user_id ord" "o_trade_no ord' = o_trade_no ord"
    "o_total_amount ord' = o_total_amount ord" "o_balance_amount ord' = o_balance_amount ord"
    "o_commission_balance ord' = o_commission_balance ord" "o_coupon_id ord' = o_coupon_id ord"
    "o_created_at ord' = o_created_at ord"
proof -
  have "f (order_terms ord') = f (order_terms ord)" for f :: "order \<Rightarrow> 'a" using assms by simp
  from this [of o_id] this [of o_user_id] this [of o_total_amount] this [of o_balance_amount]
    this [of o_commission_balance] this [of o_created_at]
  show "o_id ord' = o_id ord" "o_user_id ord' = o_user_id ord"
    "o_total_amount ord' = o_total_amount ord" "o_balance_amount ord' = o_balance_amount ord"
    "o_commission_balance ord' = o_commission_balance ord" "o_created_at ord' = o_created_at ord"
    by (simp_all add: order_terms_def)
  have "f (order_terms ord') = f (order_terms ord)" for f :: "order \<Rightarrow> string" using assms by simp
  from this [of o_trade_no] show "o_trade_no ord' = o_trade_no ord" by (simp add: order_terms_def)
  have "f (order_terms ord') = f (order_terms ord)" for f :: "order \<Rightarrow> int option" using assms by simp
  from this [of o_coupon_id] show "o_coupon_id ord' = o_coupon_id ord" by (simp add: order_terms_def)
qed

lemma order_evolves_fields:
  assumes "order_evolves ord ord'"
  shows "o_id ord' = o_id ord" "o_user_id ord' = o_user_id ord" "o_trade_no ord' = o_trade_no ord"
    "o_total_amount ord' = o_total_amount ord" "o_balance_amount ord' = o_balance_amount ord"
    "o_commission_balance ord' = o_commission_balance ord" "o_coupon_id ord' = o_coupon_id ord"
    "o_created_at ord' = o_created_at ord"
  using order_terms_fields [of ord' ord] assms by (auto simp: order_evolves_def)

lemma order_evolves_refl [simp, intro]: "order_evolves ord ord"
  by (simp add: order_evolves_def)

lemma order_evolves_trans: "order_evolves a b \<Longrightarrow> order_evolves b c \<Longrightarrow> order_evolves a c"
  by (auto simp: order_evolves_def intro: status_reach_trans)

definition orders_evolve :: "db \<Rightarrow> db \<Rightarrow> bool" where
  "orders_evolve d d' \<longleftrightarrow> (\<forall>r\<in>set (db_orders d). \<exists>r'\<in>set (db_orders d'). order_evolves r r')"

interpretation orders_evolve: evolution orders_evolve
  by unfold_locales (auto simp: orders_evolve_def, meson order_evolves_trans)

lemma orders_evolve_same: "db_orders d' = db_orders d \<Longrightarrow> orders_evolve d d'"
  by (auto simp: orders_evolve_def)

lemma orders_evolve_append: "db_orders d' = db_orders d @ rs \<Longrightarrow> orders_evolve d d'"
  by (auto simp: orders_evolve_def)

lemma orders_evolve_update:
  assumes "update_orders p f d = Inr d'" and "\<And>r. r \<in> set (db_orders d) \<Longrightarrow> p r \<Longrightarrow> order_evolves r (f r)"
  shows "orders_evolve d d'"
  using assms update_where_related [of "db_orders d" p order_evolves f]
  by (auto simp: orders_evolve_def update_orders_Inr)

section \<open>The life of a checkout attempt\<close>

text \<open>
  An attempt belongs to its order and method for ever and keeps its idempotency key; once the
  provider's response is recorded it is final.
\<close>

definition attempt_evolves :: "attempt \<Rightarrow> attempt \<Rightarrow> bool" where
  "attempt_evolves a a' \<longleftrightarrow>
     a_id a' = a_id a \<and> a_order_id a' = a_order_id a \<and> a_payment_id a' = a_payment_id a \<and>
     a_idempotency_key a' = a_idempotency_key a \<and> a_created_at a' = a_created_at a \<and>
     (a_status a = PaymentCheckoutCreated \<longrightarrow> a' = a)"

definition attempts_evolve :: "db \<Rightarrow> db \<Rightarrow> bool" where
  "attempts_evolve d d' \<longleftrightarrow> (\<forall>a\<in>set (db_attempts d). \<exists>a'\<in>set (db_attempts d'). attempt_evolves a a')"

lemma attempt_evolves_trans: "attempt_evolves a b \<Longrightarrow> attempt_evolves b c \<Longrightarrow> attempt_evolves a c"
  by (auto simp: attempt_evolves_def)

interpretation attempts_evolve: evolution attempts_evolve
proof
  show "attempts_evolve d d" for d by (auto simp: attempts_evolve_def attempt_evolves_def)
  show "attempts_evolve d1 d2 \<Longrightarrow> attempts_evolve d2 d3 \<Longrightarrow> attempts_evolve d1 d3" for d1 d2 d3
    unfolding attempts_evolve_def by (meson attempt_evolves_trans)
qed

lemma attempts_evolve_same: "db_attempts d' = db_attempts d \<Longrightarrow> attempts_evolve d d'"
  by (auto simp: attempts_evolve_def attempt_evolves_def)

lemma attempts_evolve_update:
  assumes "update_attempts p f d = Inr d'" and "\<And>r. r \<in> set (db_attempts d) \<Longrightarrow> p r \<Longrightarrow> attempt_evolves r (f r)"
  shows "attempts_evolve d d'"
  using assms update_where_related [of "db_attempts d" p attempt_evolves f]
  by (auto simp: attempts_evolve_def update_attempts_Inr attempt_evolves_def)

section \<open>Ledgers only grow\<close>

definition ledgers_grow :: "db \<Rightarrow> db \<Rightarrow> bool" where
  "ledgers_grow d d' \<longleftrightarrow>
     (\<exists>rs. db_receipts d' = db_receipts d @ rs) \<and> (\<exists>es. db_events d' = db_events d @ es) \<and>
     (\<exists>ls. db_commission_logs d' = db_commission_logs d @ ls) \<and> (\<exists>gs. db_gift_usages d' = db_gift_usages d @ gs)"

interpretation ledgers_grow: evolution ledgers_grow
  by unfold_locales (auto simp: ledgers_grow_def)

lemma ledgers_grow_same:
  "db_receipts d' = db_receipts d \<Longrightarrow> db_events d' = db_events d \<Longrightarrow>
   db_commission_logs d' = db_commission_logs d \<Longrightarrow> db_gift_usages d' = db_gift_usages d \<Longrightarrow> ledgers_grow d d'"
  by (auto simp: ledgers_grow_def)

section \<open>Users stay\<close>

definition users_stay :: "db \<Rightarrow> db \<Rightarrow> bool" where
  "users_stay d d' \<longleftrightarrow> map u_id (db_users d') = map u_id (db_users d)"

interpretation users_stay: evolution users_stay
  by unfold_locales (auto simp: users_stay_def)

lemma users_stay_same: "db_users d' = db_users d \<Longrightarrow> users_stay d d'"
  by (simp add: users_stay_def)

section \<open>The books\<close>

text \<open>
  Two facts tie the ledgers to the orders. The commission of an order is paid out at most once and
  its logs add up to the amount the order records, never more than it earned; and the order a
  payment receipt names has been completed.
\<close>

definition paid_out :: "int \<Rightarrow> commission_log list \<Rightarrow> int" where
  "paid_out i ls = sum_list (map cl_get_amount (filter (\<lambda>l. cl_order_id l = i) ls))"

definition commission_booked :: "commission_log list \<Rightarrow> order \<Rightarrow> bool" where
  "commission_booked ls ord \<longleftrightarrow>
     (if o_commission_status ord = 2
      then o_actual_commission_balance ord = Some (paid_out (o_id ord) ls) \<and>
           paid_out (o_id ord) ls \<le> o_commission_balance ord
      else \<not> exists_where (\<lambda>l. cl_order_id l = o_id ord) ls)"

definition receipt_settled :: "order list \<Rightarrow> receipt \<Rightarrow> bool" where
  "receipt_settled os rc \<longleftrightarrow>
     exists_where (\<lambda>r. o_id r = rc_order_id rc \<and> o_status r \<in> {OrderStatusCompleted, OrderStatusDiscounted}) os"

definition commissions_booked :: "db \<Rightarrow> bool" where
  "commissions_booked d \<longleftrightarrow> list_all (commission_booked (db_commission_logs d)) (db_orders d)"

definition receipts_settled :: "db \<Rightarrow> bool" where
  "receipts_settled d \<longleftrightarrow> list_all (receipt_settled (db_orders d)) (db_receipts d)"

text \<open>The counter of a gift card is the number of its redemptions.\<close>

definition gift_counted :: "gift_usage list \<Rightarrow> gift_code \<Rightarrow> bool" where
  "gift_counted gs c \<longleftrightarrow> gc_usage_count c = int (count_where (\<lambda>g. gu_code_id g = gc_id c) gs)"

definition gifts_counted :: "db \<Rightarrow> bool" where
  "gifts_counted d \<longleftrightarrow> list_all (gift_counted (db_gift_usages d)) (db_gift_codes d)"

definition keeps_settled :: "db \<Rightarrow> db \<Rightarrow> bool" where
  "keeps_settled d d' \<longleftrightarrow>
     (db_ok d \<longrightarrow> db_ok d' \<and> (commissions_booked d \<longrightarrow> commissions_booked d') \<and>
        (receipts_settled d \<longrightarrow> receipts_settled d') \<and> (gifts_counted d \<longrightarrow> gifts_counted d'))"

interpretation keeps_settled: evolution keeps_settled
  by unfold_locales (auto simp: keeps_settled_def)

lemma receipt_settled_evolves:
  assumes "orders_evolve d d'" and "receipt_settled (db_orders d) rc"
  shows "receipt_settled (db_orders d') rc"
proof -
  obtain r where r: "r \<in> set (db_orders d)" "o_id r = rc_order_id rc"
    "o_status r \<in> {OrderStatusCompleted, OrderStatusDiscounted}"
    using assms(2) by (auto simp: receipt_settled_def exists_where_iff)
  then obtain r' where "r' \<in> set (db_orders d')" "order_evolves r r'"
    using assms(1) by (auto simp: orders_evolve_def)
  then show ?thesis using r order_evolves_fields(1) [of r r']
    by (auto simp: receipt_settled_def exists_where_iff order_evolves_def status_reach_final status_reach_completed)
qed

text \<open>A change of an order that pays no commission.\<close>

definition order_moves :: "order \<Rightarrow> order \<Rightarrow> bool" where
  "order_moves ord ord' \<longleftrightarrow> order_evolves ord ord' \<and> (o_commission_status ord' = 2 \<longrightarrow> o_commission_status ord = 2)"

lemma commission_booked_moves:
  assumes "order_moves r r'" and "commission_booked ls r"
  shows "commission_booked ls r'"
  using assms order_evolves_fields(1,6) [of r r']
  by (auto simp: commission_booked_def order_moves_def order_evolves_def split: if_splits)

section \<open>The history of the store\<close>

text \<open>
  The relations at once: \<open>history_core\<close> is what every statement of the store does to the database,
  \<open>history\<close> what every operation does, which leaves the books settled as well.
\<close>

definition history_core :: "db \<Rightarrow> db \<Rightarrow> bool" where
  "history_core d d' \<longleftrightarrow> keeps_ok d d' \<and> orders_evolve d d' \<and> attempts_evolve d d' \<and> ledgers_grow d d' \<and> users_stay d d'"

interpretation history_core: evolution history_core
  by unfold_locales
     (auto simp: history_core_def intro: keeps_ok.refl orders_evolve.refl attempts_evolve.refl ledgers_grow.refl
       users_stay.refl keeps_ok.trans orders_evolve.trans attempts_evolve.trans ledgers_grow.trans users_stay.trans)

definition history :: "db \<Rightarrow> db \<Rightarrow> bool" where
  "history d d' \<longleftrightarrow> history_core d d' \<and> keeps_settled d d'"

interpretation history: evolution history
  by unfold_locales
     (auto simp: history_def intro: history_core.refl keeps_settled.refl history_core.trans keeps_settled.trans)

declare history_core.trans [trans]
declare history.trans [trans]

lemma history_coreD: "history d d' \<Longrightarrow> history_core d d'"
  by (simp add: history_def)

text \<open>A change that writes no ledger keeps the books when the orders do.\<close>

lemma historyI:
  assumes core: "history_core d d'" and "db_receipts d' = db_receipts d"
    and "db_commission_logs d' = db_commission_logs d"
    and "db_gift_codes d' = db_gift_codes d" and "db_gift_usages d' = db_gift_usages d"
    and "\<And>r'. db_ok d \<Longrightarrow> commissions_booked d \<Longrightarrow> r' \<in> set (db_orders d') \<Longrightarrow>
           commission_booked (db_commission_logs d) r'"
  shows "history d d'"
  using assms receipt_settled_evolves [of d d']
  by (auto simp: history_def keeps_settled_def history_core_def keeps_ok_def commissions_booked_def
      receipts_settled_def gifts_counted_def list_all_iff)

text \<open>Statements on the tables that none of the relations watches.\<close>

lemma history_frame:
  assumes "keeps_ok d d'" and "map u_id (db_users d') = map u_id (db_users d)"
    and "db_orders d' = db_orders d" and "db_attempts d' = db_attempts d"
    and "db_receipts d' = db_receipts d" and "db_events d' = db_events d"
    and "db_commission_logs d' = db_commission_logs d"
    and "db_gift_codes d' = db_gift_codes d" and "db_gift_usages d' = db_gift_usages d"
  shows "history d d'"
proof (rule historyI)
  show "history_core d d'"
    using assms by (auto simp: history_core_def users_stay_def intro: orders_evolve_same attempts_evolve_same ledgers_grow_same users_stay_same)
qed (use assms in \<open>auto simp: commissions_booked_def list_all_iff\<close>)

lemma update_users_history:
  assumes "update_users p f d = Inr d'" and "\<And>u. u_id (f u) = u_id u"
  shows "history d d'"
  using assms update_users_keeps [OF assms(1)]
  by (auto simp: update_users_Inr keeps_ok_def ids_update_where intro!: history_frame)

lemma update_plans_history:
  assumes "update_plans p f d = Inr d'" and "\<And>r. p_id (f r) = p_id r"
  shows "history d d'"
  using assms update_plans_keeps [OF assms(1)] by (auto simp: update_plans_Inr keeps_ok_def intro!: history_frame)

lemma update_coupons_history:
  assumes "update_coupons p f d = Inr d'" and "\<And>r. c_id (f r) = c_id r"
  shows "history d d'"
  using assms update_coupons_keeps [OF assms(1)] by (auto simp: update_coupons_Inr keeps_ok_def intro!: history_frame)

lemma update_quarantine_history:
  assumes "update_quarantine p f d = Inr d'"
  shows "history d d'"
  using assms update_quarantine_keeps [OF assms] by (auto simp: update_quarantine_Inr keeps_ok_def intro!: history_frame)

lemma insert_plan_history: "insert_plan p d = Inr (i, d') \<Longrightarrow> history d d'"
  using insert_plan_keeps by (auto simp: insert_plan_Inr keeps_ok_def intro!: history_frame)

lemma insert_coupon_history: "insert_coupon c d = Inr (i, d') \<Longrightarrow> history d d'"
  using insert_coupon_keeps by (auto simp: insert_coupon_Inr keeps_ok_def intro!: history_frame)

lemma insert_quarantine_history: "insert_quarantine q d = Inr d' \<Longrightarrow> history d d'"
  using insert_quarantine_keeps by (auto simp: insert_quarantine_Inr keeps_ok_def intro!: history_frame)

lemma insert_reset_log_history: "insert_reset_log l d = Inr d' \<Longrightarrow> history d d'"
  using insert_reset_log_keeps by (auto simp: insert_reset_log_Inr keeps_ok_def intro!: history_frame)

text \<open>Statements on the watched tables.\<close>

lemma update_orders_core:
  assumes up: "update_orders p f d = Inr d'" and ev: "\<And>r. r \<in> set (db_orders d) \<Longrightarrow> p r \<Longrightarrow> order_evolves r (f r)"
    and ids: "\<And>r. o_id (f r) = o_id r"
  shows "history_core d d'"
  using orders_evolve_update [OF up ev] update_orders_keeps [OF up ids] up
  by (auto simp: history_core_def keeps_ok_def update_orders_Inr intro: attempts_evolve_same ledgers_grow_same users_stay_same)

lemma update_orders_history:
  assumes up: "update_orders p f d = Inr d'" and mv: "\<And>r. r \<in> set (db_orders d) \<Longrightarrow> p r \<Longrightarrow> order_moves r (f r)"
    and ids: "\<And>r. o_id (f r) = o_id r"
  shows "history d d'"
proof (rule historyI)
  show "history_core d d'"
    by (rule update_orders_core [OF up _ ids]) (use mv in \<open>auto simp: order_moves_def\<close>)
  fix r' assume s: "commissions_booked d" and r': "r' \<in> set (db_orders d')"
  then obtain r where "r \<in> set (db_orders d)" "r' = r \<or> (p r \<and> r' = f r)"
    using up by (auto simp: update_orders_Inr update_where_def split: if_splits)
  then show "commission_booked (db_commission_logs d) r'"
    using s mv by (auto simp: commissions_booked_def list_all_iff intro: commission_booked_moves)
qed (use up in \<open>simp_all add: update_orders_Inr\<close>)

lemma update_attempts_history:
  assumes up: "update_attempts p f d = Inr d'" and ev: "\<And>r. r \<in> set (db_attempts d) \<Longrightarrow> p r \<Longrightarrow> attempt_evolves r (f r)"
    and ids: "\<And>r. a_id (f r) = a_id r"
  shows "history d d'"
proof (rule historyI)
  show "history_core d d'"
    using attempts_evolve_update [OF up ev] update_attempts_keeps [OF up ids] up
    by (auto simp: history_core_def keeps_ok_def update_attempts_Inr intro: orders_evolve_same ledgers_grow_same users_stay_same)
qed (use up in \<open>auto simp: update_attempts_Inr commissions_booked_def list_all_iff\<close>)

lemma insert_order_history:
  assumes ins: "insert_order ord d = Inr (i, d')" and unpaid: "o_commission_status ord \<noteq> 2"
  shows "history d d'"
proof (rule historyI)
  show "history_core d d'"
    using ins insert_order_keeps
    by (auto simp: insert_order_Inr history_core_def keeps_ok_def
        intro: orders_evolve_append attempts_evolve_same ledgers_grow_same users_stay_same)
  fix r' assume ok: "db_ok d" and s: "commissions_booked d" and r': "r' \<in> set (db_orders d')"
  have fresh: "\<not> exists_where (\<lambda>l. cl_order_id l = i) (db_commission_logs d)"
  proof -
    have "cl_order_id l \<le> db_order_seq d" if "l \<in> set (db_commission_logs d)" for l
      using ok that
      by (auto simp: db_ok_def seqs_ok_def commission_logs.holds_def commission_log_check_def commission_log_refs_def list_all_iff)
    then show ?thesis using ins by (fastforce simp: insert_order_Inr exists_where_iff)
  qed
  show "commission_booked (db_commission_logs d) r'"
    using ins r' s fresh unpaid
    by (auto simp: insert_order_Inr commissions_booked_def list_all_iff commission_booked_def)
qed (use ins in \<open>auto simp: insert_order_Inr\<close>)

lemma insert_attempt_history:
  assumes ins: "insert_attempt a d = Inr (i, d')"
  shows "history d d'"
proof (rule historyI)
  show "history_core d d'"
    using ins insert_attempt_keeps
    by (auto simp: insert_attempt_Inr history_core_def keeps_ok_def attempts_evolve_def attempt_evolves_def
        intro: orders_evolve_same ledgers_grow_same users_stay_same)
qed (use ins in \<open>auto simp: insert_attempt_Inr commissions_booked_def list_all_iff\<close>)

lemma insert_event_history:
  assumes ins: "insert_event e d = Inr d'"
  shows "history d d'"
proof (rule historyI)
  show "history_core d d'"
    using ins insert_event_keeps
    by (auto simp: insert_event_Inr history_core_def keeps_ok_def ledgers_grow_def
        intro: orders_evolve_same attempts_evolve_same users_stay_same)
qed (use ins in \<open>auto simp: insert_event_Inr commissions_booked_def list_all_iff\<close>)

lemma insert_receipt_core: "insert_receipt e d = Inr d' \<Longrightarrow> history_core d d'"
  using insert_receipt_keeps
  by (auto simp: insert_receipt_Inr history_core_def keeps_ok_def ledgers_grow_def intro: orders_evolve_same attempts_evolve_same users_stay_same)

lemma insert_commission_log_core: "insert_commission_log e d = Inr d' \<Longrightarrow> history_core d d'"
  using insert_commission_log_keeps
  by (auto simp: insert_commission_log_Inr history_core_def keeps_ok_def ledgers_grow_def
      intro: orders_evolve_same attempts_evolve_same users_stay_same)

lemma history_core_ok: "history_core d d' \<Longrightarrow> db_ok d \<Longrightarrow> db_ok d'"
  by (simp add: history_core_def keeps_ok_def)

lemma history_ok: "history d d' \<Longrightarrow> db_ok d \<Longrightarrow> db_ok d'"
  by (auto simp: history_def intro: history_core_ok)

lemma history_settled:
  "history d d' \<Longrightarrow> db_ok d \<Longrightarrow> commissions_booked d \<Longrightarrow> commissions_booked d'"
  "history d d' \<Longrightarrow> db_ok d \<Longrightarrow> receipts_settled d \<Longrightarrow> receipts_settled d'"
  "history d d' \<Longrightarrow> db_ok d \<Longrightarrow> gifts_counted d \<Longrightarrow> gifts_counted d'"
  by (simp_all add: history_def keeps_settled_def)

text \<open>
  Statements on gift cards. A redemption counts a use and records it in two statements, which keep
  the counters only together.
\<close>

lemma update_gift_templates_history:
  assumes "update_gift_templates p f d = Inr d'" and "\<And>r. gt_id (f r) = gt_id r"
  shows "history d d'"
  using assms update_gift_templates_keeps [OF assms(1)]
  by (auto simp: update_gift_templates_Inr keeps_ok_def intro!: history_frame)

lemma insert_gift_template_history: "insert_gift_template t d = Inr (i, d') \<Longrightarrow> history d d'"
  using insert_gift_template_keeps by (auto simp: insert_gift_template_Inr keeps_ok_def intro!: history_frame)

lemma history_core_frame:
  assumes "keeps_ok d d'" and "db_users d' = db_users d" and "db_orders d' = db_orders d"
    and "db_attempts d' = db_attempts d" and "ledgers_grow d d'"
  shows "history_core d d'"
  using assms by (auto simp: history_core_def intro: orders_evolve_same attempts_evolve_same users_stay_same)

lemma historyI_gifts:
  assumes "history_core d d'" and "db_orders d' = db_orders d" and "db_receipts d' = db_receipts d"
    and "db_commission_logs d' = db_commission_logs d" and "db_ok d \<Longrightarrow> gifts_counted d \<Longrightarrow> gifts_counted d'"
  shows "history d d'"
  using assms by (auto simp: history_def keeps_settled_def history_core_def keeps_ok_def commissions_booked_def
      receipts_settled_def)

lemma update_gift_codes_core:
  assumes "update_gift_codes p f d = Inr d'" and "\<And>r. gc_id (f r) = gc_id r"
  shows "history_core d d'"
  using assms update_gift_codes_keeps [OF assms(1)]
  by (intro history_core_frame) (auto simp: update_gift_codes_Inr keeps_ok_def intro: ledgers_grow_same)

lemma update_gift_codes_history:
  assumes up: "update_gift_codes p f d = Inr d'" and keep: "\<And>r. gc_id (f r) = gc_id r \<and> gc_usage_count (f r) = gc_usage_count r"
  shows "history d d'"
  by (rule historyI_gifts [OF update_gift_codes_core [OF up]])
     (use up keep in \<open>auto simp: update_gift_codes_Inr gifts_counted_def gift_counted_def list_all_iff update_where_def\<close>)

lemma insert_gift_usage_core: "insert_gift_usage g d = Inr (i, d') \<Longrightarrow> history_core d d'"
  using insert_gift_usage_keeps
  by (intro history_core_frame) (auto simp: insert_gift_usage_Inr keeps_ok_def ledgers_grow_def)

lemma insert_gift_code_history:
  assumes ins: "insert_gift_code c d = Inr (i, d')" and unused: "gc_usage_count c = 0"
  shows "history d d'"
proof (rule historyI_gifts)
  show "history_core d d'"
    using ins insert_gift_code_keeps
    by (intro history_core_frame) (auto simp: insert_gift_code_Inr keeps_ok_def intro: ledgers_grow_same)
  assume ok: "db_ok d" and "gifts_counted d"
  moreover have "count_where (\<lambda>g. gu_code_id g = i) (db_gift_usages d) = 0"
  proof -
    have "gu_code_id g \<le> db_gift_code_seq d" if "g \<in> set (db_gift_usages d)" for g
      using ok that
      by (auto simp: db_ok_def seqs_ok_def gift_usages.holds_def gift_usage_check_def gift_usage_refs_def list_all_iff)
    then show ?thesis using ins by (fastforce simp: insert_gift_code_Inr count_where_0)
  qed
  ultimately show "gifts_counted d'"
    using ins unused by (auto simp: insert_gift_code_Inr gifts_counted_def gift_counted_def list_all_iff)
qed (use ins in \<open>auto simp: insert_gift_code_Inr\<close>)

lemma history_users: "history d d' \<Longrightarrow> map u_id (db_users d') = map u_id (db_users d)"
  by (simp add: history_def history_core_def users_stay_def)

lemma history_order:
  assumes "history d d'" and "r \<in> set (db_orders d)"
  obtains r' where "r' \<in> set (db_orders d')" and "order_evolves r r'"
  using assms by (auto simp: history_def history_core_def orders_evolve_def)

end
