(* ===== verification/Coupons_Correct.thy ===== *)
theory Coupons_Correct
  imports Coupons Evolution
begin

text \<open>
  What the coupon operations guarantee: discounts are rounded exactly and never exceed the
  price, an input the code accepts satisfies the table's constraints, a batch yields as many
  distinct stored coupons as were asked for, and deleting a coupon leaves no dangling order.
\<close>

section \<open>Discounts\<close>

lemma percentageCents_exact:
  assumes "money amount" and "0 \<le> percent" and "percent \<le> 100"
  shows "percentageCents amount percent = (amount * percent + 50) div 100"
proof -
  have a: "0 \<le> amount" "amount \<le> 9000000000000000"
    using assms(1) by (simp_all add: money_def maxOrderMoneyCents_def)
  have lo: "0 \<le> amount * percent" using a assms(2) by simp
  have hi: "amount * percent \<le> 9000000000000000 * 100"
    using a assms(2,3) by (intro mult_mono) auto
  have "i64 (amount * percent) = amount * percent" using lo hi by (simp add: wrap_simps)
  moreover have "i64 (amount * percent + 50) = amount * percent + 50" using lo hi by (simp add: wrap_simps)
  ultimately show ?thesis using lo by (simp add: percentageCents_def sdiv_nonneg)
qed

lemma percentageCents_le:
  assumes "money amount" and "0 \<le> percent" and "percent \<le> 100"
  shows "0 \<le> percentageCents amount percent" and "percentageCents amount percent \<le> amount"
proof -
  have a: "0 \<le> amount" using assms(1) by (simp add: money_def)
  then have lo: "0 \<le> amount * percent" using assms(2) by simp
  have "amount * percent \<le> amount * 100" using a assms(3) by (intro mult_left_mono) auto
  then have "(amount * percent + 50) div 100 \<le> amount" by linarith
  then show "percentageCents amount percent \<le> amount"
    by (simp add: percentageCents_exact [OF assms])
  show "0 \<le> percentageCents amount percent"
    using lo by (simp add: percentageCents_exact [OF assms] pos_imp_zdiv_nonneg_iff)
qed

lemma couponDiscount_le:
  assumes "money amount" and "coupon_ok c"
  shows "0 \<le> couponDiscount amount c" and "couponDiscount amount c \<le> amount"
proof -
  have "1 \<le> c_value c" and "c_type c = CouponTypePercentage \<Longrightarrow> c_value c \<le> 100"
    using assms(2) by (auto simp: coupon_ok_def split: coupon_type.splits)
  then show "0 \<le> couponDiscount amount c" and "couponDiscount amount c \<le> amount"
    using assms(1) percentageCents_le [of amount "c_value c"]
    by (auto simp: couponDiscount_def minInt64_def money_def split: coupon_type.splits)
qed

section \<open>The stored row of an accepted input\<close>

lemma length_json_join: "length (json_join xs) \<le> sum_list (map length xs) + length xs"
  by (induction xs rule: json_join.induct) auto

lemma length_decimal: "n < 10 ^ k \<Longrightarrow> 0 < k \<Longrightarrow> length (decimal n) \<le> k"
proof (induction k arbitrary: n)
  case (Suc k)
  show ?case
  proof (cases "n < 10")
    case True
    then show ?thesis by (subst decimal.simps) simp
  next
    case False
    then have "0 < k" using Suc.prems(1) by (cases k) auto
    moreover have "n div 10 < 10 ^ k" using Suc.prems(1) by (simp add: less_mult_imp_div_less mult.commute)
    ultimately show ?thesis using Suc.IH [of "n div 10"] False by (subst decimal.simps) simp
  qed
qed simp

lemma json_ints_short:
  assumes "list_all (\<lambda>x. 0 \<le> x \<and> in_i64 x) xs" and "length xs \<le> 100"
  shows "length (json_ints xs) \<le> 65536"
proof -
  let ?s = json_int
  have "length (?s x) \<le> 19" if "x \<in> set xs" for x
  proof -
    have "0 \<le> x" "x \<le> 9223372036854775807" using that assms(1) by (auto simp: list_all_iff in_i64_def)
    then have "nat x < 10 ^ 19" by simp
    then show ?thesis using \<open>0 \<le> x\<close> length_decimal [of "nat x" 19] by (simp add: json_int_def)
  qed
  then have "sum_list (map length (map ?s xs)) \<le> sum_list (map (\<lambda>_. 19) xs)"
    by (simp add: comp_def sum_list_mono)
  also have "\<dots> = 19 * length xs" by (simp add: sum_list_triv)
  finally have "length (json_join (map ?s xs)) \<le> 20 * length xs"
    using length_json_join [of "map ?s xs"] by simp
  then show ?thesis using assms(2) unfolding json_ints_def length_append by simp
qed

lemma coupon_plan_ids_loop_range:
  "coupon_plan_ids_loop seen xs = Some ids \<Longrightarrow> set ids \<subseteq> set xs \<and> list_all (\<lambda>i. 0 \<le> i) ids"
  by (induction seen xs arbitrary: ids rule: coupon_plan_ids_loop.induct)
     (fastforce split: if_splits)+

lemma normalizeCouponPlanIDs_range:
  "list_all in_i64 xs \<Longrightarrow> list_all (\<lambda>i. 0 \<le> i \<and> in_i64 i) (normalizeCouponPlanIDs xs)"
  unfolding normalizeCouponPlanIDs_def
  by (cases "coupon_plan_ids_loop [] xs")
     (auto simp: list_all_iff in_i64_def dest!: coupon_plan_ids_loop_range)

lemma normalizeCouponInput_accepts:
  assumes n: "normalizeCouponInput input now = Inr n"
    and ids: "list_all in_i64 (ci_limit_plan_ids input)"
    and window: "unix (ci_started_at input) < unix (ci_ended_at input)"
  shows "coupon_ok (couponFromInput i n now)"
proof -
  have "length (json_ints (ci_limit_plan_ids n)) \<le> 65536"
    using n by (auto simp: normalizeCouponInput_def Let_def
        intro!: json_ints_short normalizeCouponPlanIDs_range [OF ids])
  moreover have "opt_all (\<lambda>n. 0 \<le> n \<and> n \<le> 1000000000) l" if "\<not> limit_out_of_range l" for l
    using that by (cases l) (auto simp: limit_out_of_range_def)
  ultimately show ?thesis using n window
    by (auto simp: normalizeCouponInput_def Let_def coupon_ok_def couponFromInput_def
        validCouponCode_def coupon_type_of_def Suc_le_eq)
qed

section \<open>Batches\<close>

lemma couponFromInput_id [simp]:
  "c_id (couponFromInput i n now) = i"
  "(couponFromInput j n now)\<lparr>c_id := i\<rparr> = couponFromInput i n now"
  by (simp_all add: couponFromInput_def)

lemma batch_insert_row:
  "batch_insert draw k input now d = Inr (c, d1) \<Longrightarrow>
   \<exists>i n. c = couponFromInput i n now \<and> insert_coupon (couponFromInput 0 n now) d = Inr (i, d1)"
  by (induction draw k input now d rule: batch_insert.induct)
     (auto simp: Let_def split: sum.splits if_splits)

lemma batch_insert_Inr:
  assumes "batch_insert draw k input now d = Inr (c, d1)"
  shows "coupons_unique (db_coupons d @ [c])" and "coupon_check d c" and "c_id c = db_coupon_seq d + 1"
    and "d1 = d\<lparr>db_coupons := db_coupons d @ [c], db_coupon_seq := c_id c\<rparr>"
    and "insert_coupon c d = Inr (c_id c, d1)"
proof -
  from batch_insert_row [OF assms] obtain i n where "c = couponFromInput i n now"
    and "insert_coupon (couponFromInput 0 n now) d = Inr (i, d1)" by blast
  then show "coupons_unique (db_coupons d @ [c])" and "coupon_check d c"
    and "c_id c = db_coupon_seq d + 1"
    and "d1 = d\<lparr>db_coupons := db_coupons d @ [c], db_coupon_seq := c_id c\<rparr>"
    and "insert_coupon c d = Inr (c_id c, d1)"
    by (auto simp: insert_coupon_Inr)
qed

lemma batch_loop_Inr:
  "batch_loop draw index k input now d = Inr (cs, d') \<Longrightarrow> db_ok d \<Longrightarrow>
   db_ok d' \<and> length cs = k \<and> db_coupons d' = db_coupons d @ cs"
proof (induction draw index k input now d arbitrary: cs rule: batch_loop.induct)
  case (2 draw index left input now d)
  from "2.prems"(1) obtain c d1 cs' where c: "batch_insert (draw index) 8 input now d = Inr (c, d1)"
    and rest: "batch_loop draw (Suc index) left input now d1 = Inr (cs', d')" and cs: "cs = c # cs'"
    by (auto split: prod.splits)
  have "db_ok d1" using insert_coupon_keeps [OF batch_insert_Inr(5) [OF c] "2.prems"(2)] .
  from "2.IH" [OF c refl rest this] batch_insert_Inr(4) [OF c] show ?case
    by (simp add: cs)
qed simp

lemma CreateCouponBatch_Inr:
  assumes "CreateCouponBatch draw input cnt now d = Inr (cs, d')" and "db_ok d"
  shows "db_ok d' \<and> length cs = nat cnt \<and> db_coupons d' = db_coupons d @ cs"
  using assms unfolding CreateCouponBatch_def by (auto dest!: batch_loop_Inr)

section \<open>Deleting\<close>

lemma DeleteCoupon_keeps:
  assumes "DeleteCoupon couponID d = Inr d'" and "db_ok d"
  shows "db_ok d'"
proof -
  have d': "d' = d\<lparr>db_coupons := filter (\<lambda>c. c_id c \<noteq> couponID) (db_coupons d)\<rparr>"
    and free: "\<forall>ord\<in>set (db_orders d). o_coupon_id ord \<noteq> Some couponID"
    using assms(1) by (auto simp: DeleteCoupon_def exists_where_iff split: if_splits)
  have "opt_all (\<lambda>i. i \<in> c_id ` {c \<in> set (db_coupons d). c_id c \<noteq> couponID}) (o_coupon_id ord)"
    if "ord \<in> set (db_orders d)" and "opt_all (\<lambda>i. i \<in> c_id ` set (db_coupons d)) (o_coupon_id ord)" for ord
    using that free by (cases "o_coupon_id ord") auto
  moreover have "distinct (map f (filter p xs))" if "distinct (map f xs)" for f :: "coupon \<Rightarrow> 'a" and p xs
    using that by (rule distinct_map_filter)
  ultimately show ?thesis using assms(2) unfolding d'
    by (auto simp: db_ok_def holds_defs check_defs refs_defs seqs_ok_def list_all_iff coupons_unique_def
        distinct_map_filter)
qed

section \<open>Every operation is a history\<close>

lemma batch_loop_history: "batch_loop draw index k input now d = Inr (cs, d') \<Longrightarrow> history d d'"
proof (induction draw index k input now d arbitrary: cs rule: batch_loop.induct)
  case (2 draw index left input now d)
  from "2.prems" obtain c d1 cs' where c: "batch_insert (draw index) 8 input now d = Inr (c, d1)"
    and rest: "batch_loop draw (Suc index) left input now d1 = Inr (cs', d')"
    by (auto split: prod.splits)
  show ?case
    by (rule history.trans [OF insert_coupon_history [OF batch_insert_Inr(5) [OF c]] "2.IH" [OF c refl rest]])
qed (simp add: history.refl)

lemma CreateCouponBatch_history: "CreateCouponBatch draw input cnt now d = Inr (cs, d') \<Longrightarrow> history d d'"
  unfolding CreateCouponBatch_def by (auto elim: batch_loop_history)

lemma case_sum_eq_Inr:
  "(case m of Inl e \<Rightarrow> Inl (g e) | Inr (i, d) \<Rightarrow> f i d) = Inr y \<longleftrightarrow> (\<exists>i d. m = Inr (i, d) \<and> f i d = Inr y)"
  by (auto split: sum.splits)

lemma CreateCoupon_history: "CreateCoupon draw input now d = Inr (c, d') \<Longrightarrow> history d d'"
  unfolding CreateCoupon_def
  by (auto simp: case_sum_eq_Inr split: if_splits elim: CreateCouponBatch_history insert_coupon_history)

lemma UpdateCoupon_history: "UpdateCoupon couponID input now d = Inr (c, d') \<Longrightarrow> history d d'"
  unfolding UpdateCoupon_def by (auto elim!: update_coupons_history)

lemma SetCouponVisibility_history: "SetCouponVisibility couponID show now d = Inr (c, d') \<Longrightarrow> history d d'"
  unfolding SetCouponVisibility_def by (auto elim!: update_coupons_history)

lemma DeleteCoupon_history: "DeleteCoupon couponID d = Inr d' \<Longrightarrow> history d d'"
  using DeleteCoupon_keeps [of couponID d d']
  by (intro history_frame) (auto simp: keeps_ok_def DeleteCoupon_def split: if_splits)

end
