(* ===== verification/Orders_Correct.thy ===== *)
theory Orders_Correct
  imports Orders Coupons_Correct
begin

text \<open>
  Creating and cancelling orders: every cent of an order's price is accounted for, the balance
  is debited by exactly the amount the order records, a limited coupon loses exactly one use, a
  user never has two active orders, and cancelling gives back what creating took.
\<close>

section \<open>Bounds of the surplus\<close>

lemma mulDivFloorBig_bounds:
  "0 \<le> mulDivFloorBig v n m \<and> mulDivFloorBig v n m \<le> maxOrderMoneyCents"
proof (cases "v \<le> 0 \<or> n \<le> 0 \<or> m \<le> 0")
  case True
  then show ?thesis by (simp add: mulDivFloorBig_def maxOrderMoneyCents_def)
next
  case False
  then have "0 \<le> (v * n) sdiv m"
    by (simp add: sdiv_nonneg pos_imp_zdiv_nonneg_iff)
  then show ?thesis using False
    by (auto simp: mulDivFloorBig_def Let_def maxOrderMoneyCents_def)
qed

lemma mulDivFloorBig_fraction:
  assumes "0 \<le> v" and "n \<le> m"
  shows "mulDivFloorBig v n m \<le> v"
proof (cases "v \<le> 0 \<or> n \<le> 0 \<or> m \<le> 0")
  case True
  then show ?thesis using assms by (auto simp: mulDivFloorBig_def)
next
  case False
  then have "v * n \<le> v * m" using assms by (intro mult_left_mono) auto
  then have "(v * n) div m \<le> (v * m) div m" using False by (intro zdiv_mono1) auto
  then have "(v * n) sdiv m \<le> v" using False by (simp add: sdiv_nonneg)
  moreover have "0 \<le> (v * n) sdiv m" using False by (simp add: sdiv_nonneg pos_imp_zdiv_nonneg_iff)
  moreover have "in_i64 ((v * n) sdiv m) \<or> maxOrderMoneyCents \<le> (v * n) sdiv m"
    using \<open>0 \<le> (v * n) sdiv m\<close> by (auto simp: in_i64_def maxOrderMoneyCents_def)
  ultimately show ?thesis using False
    by (auto simp: mulDivFloorBig_def Let_def)
qed

lemma mulDivFloor_eq: "mulDivFloor v n m = mulDivFloorBig v n m"
  by (auto simp: mulDivFloor_def mulDivFloorBig_def)

text \<open>The surplus calculation changes the surplus amount and its order ids only.\<close>

definition surplus_outcome :: "order \<Rightarrow> order \<Rightarrow> bool" where
  "surplus_outcome ord ord' \<longleftrightarrow>
     ord' = ord\<lparr>o_surplus_amount := o_surplus_amount ord', o_surplus_order_ids := o_surplus_order_ids ord'\<rparr> \<and>
     money (o_surplus_amount ord')"

lemma surplus_outcome_intros [intro]:
  "o_surplus_amount ord = 0 \<Longrightarrow> surplus_outcome ord ord"
  "o_surplus_amount ord = 0 \<Longrightarrow> surplus_outcome ord (ord\<lparr>o_surplus_order_ids := ids\<rparr>)"
  "surplus_outcome ord (ord\<lparr>o_surplus_amount := mulDivFloorBig v n m, o_surplus_order_ids := ids\<rparr>)"
  using mulDivFloorBig_bounds by (auto simp: surplus_outcome_def money_def maxOrderMoneyCents_def)

lemma calculateOrderSurplus_Inr:
  assumes "calculateOrderSurplus loc u ord aware now d = Inr ord'" and "o_surplus_amount ord = 0"
  shows "surplus_outcome ord ord'"
proof (cases "u_expired_at u")
  case None
  then have "ord' = permanent_surplus u ord d"
    using assms(1) by (auto simp: calculateOrderSurplus_def split: if_splits)
  then show ?thesis using assms(2)
    by (auto simp: permanent_surplus_def mulDivFloor_eq Let_def split: list.splits)
next
  case (Some e)
  then have "recurring_surplus loc u ord aware now d = Inr ord'"
    using assms(1) by (auto simp: calculateOrderSurplus_def split: if_splits)
  then show ?thesis using assms(2)
    by (auto simp: recurring_surplus_def Let_def split: if_splits)
qed

section \<open>Accounts of an order\<close>

text \<open>
  The price is what the discount, the surplus put in (less the credit given back), the balance
  and the amount to pay add up to.
\<close>

definition order_accounts :: "order \<Rightarrow> bool" where
  "order_accounts ord \<longleftrightarrow>
     o_original_amount ord =
       o_discount_amount ord + (o_surplus_amount ord - o_surplus_credit ord) + o_balance_amount ord + o_total_amount ord \<and>
     0 \<le> o_discount_amount ord \<and> 0 \<le> o_surplus_credit ord \<and> o_surplus_credit ord \<le> o_surplus_amount ord \<and>
     0 \<le> o_balance_amount ord \<and> 0 \<le> o_total_amount ord"

lemma apply_discounts_accounts:
  assumes p: "money (o_original_amount ord)" and u: "user_ok u" and c: "\<And>c. applied = Some c \<Longrightarrow> coupon_ok c"
    and z: "o_surplus_amount ord = 0" "o_surplus_credit ord = 0" "o_balance_amount ord = 0"
  shows "order_accounts (apply_discounts u applied ord)"
proof -
  define base where "base = (case applied of None \<Rightarrow> 0 | Some c \<Rightarrow> couponDiscount (o_original_amount ord) c)"
  have base: "0 \<le> base" "base \<le> o_original_amount ord"
    using c couponDiscount_le [OF p] p by (auto simp: base_def money_def split: option.splits)
  define summed where "summed = (case u_discount u of
      Some r \<Rightarrow> (if r > 0 then i64 (base + percentageCents (o_original_amount ord) r) else base) | None \<Rightarrow> base)"
  have "0 \<le> summed"
  proof (cases "u_discount u")
    case (Some r)
    then have "r \<le> 100" using u by (simp add: user_ok_def)
    then have "r > 0 \<Longrightarrow> 0 \<le> percentageCents (o_original_amount ord) r \<and>
        percentageCents (o_original_amount ord) r \<le> o_original_amount ord"
      using percentageCents_le [OF p, of r] by auto
    then show ?thesis using base p Some
      by (auto simp: summed_def money_def maxOrderMoneyCents_def wrap_simps)
  qed (use base in \<open>simp add: summed_def\<close>)
  then show ?thesis using p z
    unfolding order_accounts_def apply_discounts_def base_def [symmetric] Let_def summed_def [symmetric]
    by (auto simp: money_def maxOrderMoneyCents_def wrap_simps)
qed

lemma deduct_surplus_accounts:
  assumes "order_accounts ord" and "o_surplus_amount ord = 0" and "o_surplus_credit ord = 0"
    and "o_original_amount ord \<le> maxOrderMoneyCents" and "money a"
  shows "order_accounts (deduct_surplus (ord\<lparr>o_surplus_amount := a, o_surplus_order_ids := ids\<rparr>))"
  using assms
  by (auto simp: order_accounts_def deduct_surplus_def money_def maxOrderMoneyCents_def wrap_simps)

lemma classify_order_accounts:
  assumes r: "classify_order loc u st ord now d = Inr ord'" and a: "order_accounts ord"
    and z: "o_surplus_amount ord = 0" "o_surplus_credit ord = 0" and m: "o_original_amount ord \<le> maxOrderMoneyCents"
  shows "order_accounts ord'"
proof -
  have t: "order_accounts (ord\<lparr>o_type := t\<rparr>)" for t using a by (simp add: order_accounts_def)
  have "order_accounts (deduct_surplus ord1)"
    if "calculateOrderSurplus loc u (ord\<lparr>o_type := OrderTypeUpgrade\<rparr>) aware now d = Inr ord1" for ord1 aware
  proof -
    from calculateOrderSurplus_Inr [OF that] z have o1: "ord1 = (ord\<lparr>o_type := OrderTypeUpgrade\<rparr>)
        \<lparr>o_surplus_amount := o_surplus_amount ord1, o_surplus_order_ids := o_surplus_order_ids ord1\<rparr>"
      and m1: "money (o_surplus_amount ord1)" by (auto simp: surplus_outcome_def)
    show ?thesis
      by (subst o1, rule deduct_surplus_accounts [OF t _ _ _ m1]) (use z m in simp_all)
  qed
  moreover have "order_accounts (deduct_surplus (ord\<lparr>o_type := OrderTypeUpgrade\<rparr>))"
    using a z m by (auto simp: order_accounts_def deduct_surplus_def maxOrderMoneyCents_def wrap_simps)
  ultimately show ?thesis using r t
    by (auto simp: classify_order_def split: if_splits)
qed

section \<open>What creating an order does\<close>

text \<open>The fields every stage of \<^verbatim>\<open>CreateOrder\<close> leaves alone.\<close>

definition order_frame :: "order \<Rightarrow> order \<Rightarrow> bool" where
  "order_frame ord ord' \<longleftrightarrow>
     o_user_id ord' = o_user_id ord \<and> o_plan_id ord' = o_plan_id ord \<and> o_period ord' = o_period ord \<and>
     o_trade_no ord' = o_trade_no ord \<and> o_original_amount ord' = o_original_amount ord \<and>
     o_status ord' = o_status ord \<and> o_created_at ord' = o_created_at ord \<and> o_updated_at ord' = o_updated_at ord \<and>
     o_commission_status ord' = o_commission_status ord"

lemma order_frame_refl [simp]: "order_frame ord ord"
  by (simp add: order_frame_def)

lemma apply_discounts_frame: "order_frame ord (apply_discounts u applied ord)"
  and apply_discounts_coupon: "o_coupon_id (apply_discounts u applied ord) = map_option c_id applied"
  and apply_discounts_rest:
    "o_surplus_amount (apply_discounts u applied ord) = o_surplus_amount ord"
    "o_surplus_credit (apply_discounts u applied ord) = o_surplus_credit ord"
    "o_balance_amount (apply_discounts u applied ord) = o_balance_amount ord"
  by (simp_all add: apply_discounts_def order_frame_def Let_def)

lemma deduct_surplus_frame:
  "order_frame ord (deduct_surplus ord)" "o_coupon_id (deduct_surplus ord) = o_coupon_id ord"
  "o_balance_amount (deduct_surplus ord) = o_balance_amount ord"
  by (simp_all add: deduct_surplus_def order_frame_def)

lemma surplus_outcome_frame:
  "surplus_outcome ord ord' \<Longrightarrow> order_frame ord ord' \<and> o_coupon_id ord' = o_coupon_id ord \<and>
     o_balance_amount ord' = o_balance_amount ord"
proof -
  assume "surplus_outcome ord ord'"
  then obtain a ids where "ord' = ord\<lparr>o_surplus_amount := a, o_surplus_order_ids := ids\<rparr>"
    unfolding surplus_outcome_def by blast
  then show ?thesis by (simp add: order_frame_def)
qed

lemma classify_order_frame:
  assumes "classify_order loc u st ord now d = Inr ord'" and "o_surplus_amount ord = 0"
  shows "order_frame ord ord'" and "o_coupon_id ord' = o_coupon_id ord"
    and "o_balance_amount ord' = o_balance_amount ord"
proof -
  have t: "order_frame ord (ord\<lparr>o_type := t\<rparr>)" for t by (simp add: order_frame_def)
  have "order_frame ord (deduct_surplus ord1) \<and> o_coupon_id (deduct_surplus ord1) = o_coupon_id ord \<and>
      o_balance_amount (deduct_surplus ord1) = o_balance_amount ord"
    if "calculateOrderSurplus loc u (ord\<lparr>o_type := OrderTypeUpgrade\<rparr>) aware now d = Inr ord1" for ord1 aware
    using surplus_outcome_frame [OF calculateOrderSurplus_Inr [OF that]] assms(2) deduct_surplus_frame [of ord1]
    by (simp add: order_frame_def)
  moreover have "order_frame ord (deduct_surplus (ord\<lparr>o_type := OrderTypeUpgrade\<rparr>))"
    by (simp add: order_frame_def deduct_surplus_def)
  ultimately show "order_frame ord ord'" and "o_coupon_id ord' = o_coupon_id ord"
    and "o_balance_amount ord' = o_balance_amount ord"
    using assms(1) t deduct_surplus_frame
    by (auto simp: classify_order_def split: if_splits)
qed

lemma classify_order_discount:
  assumes "classify_order loc u st ord now d = Inr ord'" and "o_surplus_amount ord = 0"
  shows "o_discount_amount ord' = o_discount_amount ord"
proof -
  have "o_discount_amount (deduct_surplus x) = o_discount_amount x" for x by (simp add: deduct_surplus_def)
  moreover have "o_discount_amount ord1 = o_discount_amount ord"
    if r: "calculateOrderSurplus loc u (ord\<lparr>o_type := OrderTypeUpgrade\<rparr>) aware now d = Inr ord1" for ord1 aware
  proof -
    obtain a ids where "ord1 = ord\<lparr>o_type := OrderTypeUpgrade, o_surplus_amount := a, o_surplus_order_ids := ids\<rparr>"
      using calculateOrderSurplus_Inr [OF r] assms(2) unfolding surplus_outcome_def by auto
    then show ?thesis by simp
  qed
  ultimately show ?thesis
    using assms(1) by (auto simp: classify_order_def split: if_splits)
qed

lemma setOrderCommission_frame:
  "order_frame ord (setOrderCommission u st d ord)"
  "o_coupon_id (setOrderCommission u st d ord) = o_coupon_id ord"
  "o_balance_amount (setOrderCommission u st d ord) = o_balance_amount ord"
  "order_accounts (setOrderCommission u st d ord) = order_accounts ord"
  "o_total_amount (setOrderCommission u st d ord) = o_total_amount ord"
  by (simp_all add: setOrderCommission_def order_frame_def order_accounts_def Let_def split: option.splits)

text \<open>The balances of the users, and the debit of one of them.\<close>

definition balances :: "db \<Rightarrow> (int \<times> int) list" where
  "balances d = map (\<lambda>u. (u_id u, u_balance u)) (db_users d)"

definition debit :: "int \<Rightarrow> int \<Rightarrow> (int \<times> int) list \<Rightarrow> (int \<times> int) list" where
  "debit i a bs = map (\<lambda>(j, b). (j, if j = i then b - a else b)) bs"

lemma debit_0 [simp]: "debit i 0 bs = bs"
  by (induction bs) (auto simp: debit_def)

lemma debit_debit: "debit i a (debit i b bs) = debit i (a + b) bs"
  by (auto simp: debit_def)

lemma balances_update_users:
  assumes "update_users p f d = Inr d'" and "\<And>u. u_id (f u) = u_id u"
    and "\<And>u. u \<in> set (db_users d) \<Longrightarrow> (if p u then u_balance (f u) else u_balance u) = (if u_id u = i then u_balance u - a else u_balance u)"
  shows "balances d' = debit i a (balances d)"
proof -
  have d': "db_users d' = map (\<lambda>u. if p u then money_trigger u (f u) else u) (db_users d)"
    using assms(1) by (simp add: update_users_Inr update_where_def)
  have "(u_id (if p u then money_trigger u (f u) else u), u_balance (if p u then money_trigger u (f u) else u)) =
      (u_id u, if u_id u = i then u_balance u - a else u_balance u)" if "u \<in> set (db_users d)" for u
    using assms(2) assms(3) [OF that] by auto
  then show ?thesis unfolding balances_def debit_def d' by (simp add: comp_def)
qed

lemma pay_from_balance_Inr:
  assumes r: "pay_from_balance u ord now d = Inr (ord', d')" and u: "u \<in> set (db_users d)"
    and ok: "db_ok d" and a: "order_accounts ord" and z: "o_balance_amount ord = 0"
    and t: "o_total_amount ord \<le> maxOrderMoneyCents"
  shows "order_accounts ord'" and "order_frame ord ord'" and "o_coupon_id ord' = o_coupon_id ord"
    and "balances d' = debit (u_id u) (o_balance_amount ord') (balances d)" and "db_ok d'"
    and "d' = d\<lparr>db_users := db_users d'\<rparr>" and "u_balance u > 0 \<longrightarrow> o_total_amount ord > 0 \<longrightarrow> o_balance_amount ord' > 0"
    and "o_balance_amount ord' \<le> u_balance u"
proof -
  have uniq: "v \<in> set (db_users d) \<Longrightarrow> u_id v = u_id u \<Longrightarrow> v = u" for v
    using ok u by (auto simp: db_ok_def users.holds_def users_unique_def distinct_map dest: inj_onD)
  have m: "money (u_balance u)"
    using ok u by (auto simp: db_ok_def users.holds_def list_all_iff user_check_def user_ok_def)
  define amount where "amount = minInt64 (u_balance u) (o_total_amount ord)"
  show "order_accounts ord'" and "order_frame ord ord'" and "o_coupon_id ord' = o_coupon_id ord"
    and "u_balance u > 0 \<longrightarrow> o_total_amount ord > 0 \<longrightarrow> o_balance_amount ord' > 0"
    and "o_balance_amount ord' \<le> u_balance u"
    using r a z t m
    by (auto simp: pay_from_balance_def order_accounts_def order_frame_def minInt64_def money_def
        maxOrderMoneyCents_def wrap_simps Let_def split: if_splits)
  show "d' = d\<lparr>db_users := db_users d'\<rparr>"
    using r by (auto simp: pay_from_balance_def Let_def update_users_Inr split: if_splits)
  show "db_ok d'"
    using r ok by (auto simp: pay_from_balance_def Let_def split: if_splits intro: update_users_keeps)
  show "balances d' = debit (u_id u) (o_balance_amount ord') (balances d)"
  proof (cases "u_balance u > 0 \<and> o_total_amount ord > 0")
    case True
    with r have up: "update_users (\<lambda>v. u_id v = u_id u)
        (\<lambda>v. v\<lparr>u_balance := i64 (u_balance u - amount), u_updated_at := unix now\<rparr>) d = Inr d'"
      and o': "o_balance_amount ord' = amount"
      by (auto simp: pay_from_balance_def amount_def Let_def)
    have "i64 (u_balance u - amount) = u_balance u - amount"
      using True m by (auto simp: amount_def minInt64_def money_def maxOrderMoneyCents_def wrap_simps)
    then show ?thesis unfolding o' by (intro balances_update_users [OF up]) (auto dest: uniq)
  next
    case False
    with r z have "o_balance_amount ord' = 0" and "d' = d" by (auto simp: pay_from_balance_def split: if_splits)
    then show ?thesis by simp
  qed
qed

lemma CreateOrder_stages:
  assumes "CreateOrder loc random input now d = Inr (ord, d')"
  obtains u info price period applied code ord1 ord3 d1 d2 where
    "u \<in> set (db_users d)" "u_id u = oi_user_id input" "\<not> u_banned u" "u_account_kind u = AccountKindHuman"
    "\<not> has_active_order (oi_user_id input) d" "getPlan (oi_plan_id input) now d = Inr info"
    "map_of (p_prices (pl_row info)) period = Some price" "validateOrderPurchase u info period now = Inr ()"
    "0 \<le> unix now"
    "\<forall>c. applied = Some c \<longrightarrow> validateCoupon (oi_user_id input) (p_id (pl_row info)) period code now d = Inr c"
    "classify_order loc u (db_settings d) (apply_discounts u applied
       (new_order (oi_user_id input) (oi_plan_id input) period (newOrderTradeNo loc now random) price now)) now d = Inr ord1"
    "pay_from_balance u (setOrderCommission u (db_settings d) d ord1) now d = Inr (ord3, d1)"
    "consume_coupon applied now d1 = Inr d2" "insert_order ord3 d2 = Inr (o_id ord, d')"
    "ord = ord3\<lparr>o_id := o_id ord\<rparr>"
    "normalizeOrderPeriod (oi_period input) = (period, True)" "code = TrimSpace (oi_coupon_code input)"
    "applied = None \<longleftrightarrow> code = []"
proof -
  obtain period valid where p: "normalizeOrderPeriod (oi_period input) = (period, valid)" by fastforce
  let ?code = "TrimSpace (oi_coupon_code input)"
  from assms obtain u info price x applied ord1 ord3 d1 d2 where
    t: "\<not> (oi_user_id input < 1 \<or> oi_plan_id input < 1 \<or> unix now < 0)" and valid: "\<not> \<not> valid"
    and u: "readOrderUser (oi_user_id input) d = Inr u" and b: "\<not> (u_banned u \<or> u_account_kind u \<noteq> AccountKindHuman)"
    and act: "\<not> has_active_order (oi_user_id input) d" and pl: "getPlan (oi_plan_id input) now d = Inr info"
    and pr: "of_option ErrPlanUnavailable (map_of (p_prices (pl_row info)) period) = Inr price"
    and v: "validateOrderPurchase u info period now = Inr x"
    and c: "(if ?code = [] then Inr None
       else ebind (validateCoupon (u_id u) (p_id (pl_row info)) period ?code now d) (\<lambda>c. Inr (Some c))) = Inr applied"
    and cl: "classify_order loc u (db_settings d) (apply_discounts u applied
       (new_order (oi_user_id input) (oi_plan_id input) period (newOrderTradeNo loc now random) price now)) now d = Inr ord1"
    and pay: "pay_from_balance u (setOrderCommission u (db_settings d) d ord1) now d = Inr (ord3, d1)"
    and con: "consume_coupon applied now d1 = Inr d2" and ins: "insert_new_order ord3 d2 = Inr (ord, d')"
    unfolding CreateOrder_def p Let_def prod.case by (elim stageE) (rule that; assumption)
  have f: "u \<in> set (db_users d)" "u_id u = oi_user_id input"
    using u by (auto simp: readOrderUser_def dest!: find_eq_Some_set)
  have i: "insert_order ord3 d2 = Inr (o_id ord, d')" "ord = ord3\<lparr>o_id := o_id ord\<rparr>"
    using ins by (auto simp: insert_new_order_def split: sum.splits)
  have k: "\<forall>c. applied = Some c \<longrightarrow> validateCoupon (oi_user_id input) (p_id (pl_row info)) period ?code now d = Inr c"
    and none: "applied = None \<longleftrightarrow> ?code = []"
    using c f(2) by (auto split: if_splits)
  show thesis
    by (rule that [OF f _ _ act pl _ _ _ k cl pay con i _ refl none]) (use b pr v t p valid in simp_all)
qed

lemma validateCoupon_Inr:
  assumes "validateCoupon userID planID period code now d = Inr c"
  shows "c \<in> set (db_coupons d)" and "c_limit_use c = Some n \<Longrightarrow> 0 < n"
    and "c_limit_use_with_user c = Some n \<Longrightarrow> int (coupon_uses (c_id c) userID d) < n"
    and "c_code c = code" and "from_unix (c_started_at c) \<le> now" and "now \<le> from_unix (c_ended_at c)"
proof -
  have f: "List.find (\<lambda>c. c_code c = code) (db_coupons d) = Some c"
    using assms by (auto simp: validateCoupon_def split: if_splits option.splits)
  then show "c \<in> set (db_coupons d)" and "c_code c = code" by (auto dest: find_eq_Some_set)
  show "c_limit_use c = Some n \<Longrightarrow> 0 < n"
    and "c_limit_use_with_user c = Some n \<Longrightarrow> int (coupon_uses (c_id c) userID d) < n"
    and "from_unix (c_started_at c) \<le> now" and "now \<le> from_unix (c_ended_at c)"
    using assms f by (auto simp: validateCoupon_def split: if_splits)
qed

lemma consume_coupon_frame:
  assumes "consume_coupon applied now d = Inr d'"
  shows "d' = d\<lparr>db_coupons := db_coupons d'\<rparr>" and "db_ok d \<Longrightarrow> db_ok d'"
proof -
  show "d' = d\<lparr>db_coupons := db_coupons d'\<rparr>"
    using assms by (auto simp: consume_coupon_def Let_def update_coupons_Inr split: option.splits)
  show "db_ok d'" if "db_ok d"
    using assms that by (auto simp: consume_coupon_def Let_def split: option.splits intro: update_coupons_keeps)
qed

lemma user_ok_member: "db_ok d \<Longrightarrow> u \<in> set (db_users d) \<Longrightarrow> user_ok u"
  by (auto simp: db_ok_def users.holds_def list_all_iff user_check_def)

lemma coupon_ok_member: "db_ok d \<Longrightarrow> c \<in> set (db_coupons d) \<Longrightarrow> coupon_ok c"
  by (auto simp: db_ok_def coupons.holds_def list_all_iff coupon_check_def)

lemma new_order_fields [simp]:
  "o_surplus_amount (new_order i p per t a now) = 0" "o_surplus_credit (new_order i p per t a now) = 0"
  "o_balance_amount (new_order i p per t a now) = 0" "o_original_amount (new_order i p per t a now) = a"
  "o_user_id (new_order i p per t a now) = i" "o_plan_id (new_order i p per t a now) = p"
  "o_period (new_order i p per t a now) = per" "o_trade_no (new_order i p per t a now) = t"
  "o_status (new_order i p per t a now) = OrderStatusPending"
  "o_created_at (new_order i p per t a now) = unix now" "o_updated_at (new_order i p per t a now) = unix now"
  "o_commission_status (new_order i p per t a now) = 0"
  by (simp_all add: new_order_def)

lemma order_frame_id [simp]: "order_frame ord (ord'\<lparr>o_id := i\<rparr>) = order_frame ord ord'"
  by (simp add: order_frame_def)

lemma created_order_frame:
  assumes "classify_order loc u st (apply_discounts u applied ord) now d = Inr ord1"
    and "pay_from_balance u (setOrderCommission u st' d' ord1) now d'' = Inr (ord3, d1)"
    and "o_surplus_amount ord = 0"
  shows "order_frame ord ord3"
proof -
  have "order_frame ord1 ord3"
    using assms(2) setOrderCommission_frame(1) [of ord1 u st' d']
    by (auto simp: pay_from_balance_def order_frame_def Let_def split: if_splits)
  then show ?thesis
    using classify_order_frame(1) [OF assms(1), unfolded apply_discounts_rest, OF assms(3)]
      apply_discounts_frame [of ord u applied] by (simp add: order_frame_def)
qed

text \<open>
  The whole effect of a purchase that succeeds: the accounts of the order, the debit, the new
  row, and the rows of the other tables.
\<close>

lemma CreateOrder_effect:
  assumes r: "CreateOrder loc random input now d = Inr (ord, d')" and ok: "db_ok d"
  shows "order_accounts ord" and "balances d' = debit (oi_user_id input) (o_balance_amount ord) (balances d)"
    and "db_orders d' = db_orders d @ [ord]" and "db_ok d'" and "o_id ord = db_order_seq d + 1"
    and "o_user_id ord = oi_user_id input" and "o_plan_id ord = oi_plan_id input"
    and "o_status ord = OrderStatusPending" and "o_created_at ord = unix now" and "db_attempts d' = db_attempts d"
    and "\<not> has_active_order (oi_user_id input) d" and "order_ok ord"
    and "d' = d\<lparr>db_users := db_users d', db_coupons := db_coupons d', db_orders := db_orders d', db_order_seq := db_order_seq d'\<rparr>"
proof -
  obtain u info price period applied code ord1 ord3 d1 d2 where
    s: "u \<in> set (db_users d)" "u_id u = oi_user_id input"
    and "\<not> u_banned u" and "u_account_kind u = AccountKindHuman"
    and act: "\<not> has_active_order (oi_user_id input) d" and "getPlan (oi_plan_id input) now d = Inr info"
    and "map_of (p_prices (pl_row info)) period = Some price" and "validateOrderPurchase u info period now = Inr ()"
    and "0 \<le> unix now"
    and cp: "\<forall>c. applied = Some c \<longrightarrow> validateCoupon (oi_user_id input) (p_id (pl_row info)) period code now d = Inr c"
    and cl: "classify_order loc u (db_settings d) (apply_discounts u applied
       (new_order (oi_user_id input) (oi_plan_id input) period (newOrderTradeNo loc now random) price now)) now d = Inr ord1"
    and pay: "pay_from_balance u (setOrderCommission u (db_settings d) d ord1) now d = Inr (ord3, d1)"
    and con: "consume_coupon applied now d1 = Inr d2" and ins: "insert_order ord3 d2 = Inr (o_id ord, d')"
    and o3: "ord = ord3\<lparr>o_id := o_id ord\<rparr>" by (rule CreateOrder_stages [OF r]) (rule that; assumption)
  let ?new = "new_order (oi_user_id input) (oi_plan_id input) period (newOrderTradeNo loc now random) price now"
  note fr1 = classify_order_frame [OF cl, unfolded apply_discounts_rest, simplified]
  note d2 = consume_coupon_frame [OF con]
  have ins': "o_id ord = db_order_seq d2 + 1" "order_check d2 (ord3\<lparr>o_id := o_id ord\<rparr>)"
    "d' = d2\<lparr>db_orders := db_orders d2 @ [ord3\<lparr>o_id := o_id ord\<rparr>], db_order_seq := o_id ord\<rparr>"
    using ins by (auto simp only: insert_order_Inr)
  have ordok: "order_ok ord" using ins'(2) o3 by (simp add: order_check_def)
  have fr3: "order_frame ?new ord3 \<and> o_original_amount ord = price"
    using created_order_frame [OF cl pay] by (subst o3) (simp add: order_frame_def)
  have price: "money price" using ordok fr3 by (simp add: order_ok_def)
  have "order_accounts (apply_discounts u applied ?new)"
    using cp validateCoupon_Inr(1) coupon_ok_member [OF ok]
    by (intro apply_discounts_accounts user_ok_member [OF ok s(1)]) (auto simp: price)
  then have a1: "order_accounts ord1"
    using price apply_discounts_frame [of ?new u applied]
    by (intro classify_order_accounts [OF cl]) (simp_all add: apply_discounts_rest money_def order_frame_def)
  have t1: "o_total_amount (setOrderCommission u (db_settings d) d ord1) \<le> maxOrderMoneyCents"
    using a1 price fr1(1) apply_discounts_frame [of ?new u applied]
    by (auto simp: setOrderCommission_frame(5) order_accounts_def order_frame_def money_def)
  note p = pay_from_balance_Inr [OF pay s(1) ok _ _ t1, unfolded setOrderCommission_frame, OF a1 fr1(3)]
  show "order_accounts ord" using p(1) by (subst o3) (simp add: order_accounts_def)
  obtain us where d1': "d1 = d\<lparr>db_users := us\<rparr>" using p(6) by blast
  obtain cs where d2': "d2 = d1\<lparr>db_coupons := cs\<rparr>" using d2(1) by blast
  have d': "d' = d2\<lparr>db_orders := db_orders d @ [ord], db_order_seq := o_id ord\<rparr>"
    using ins'(3) o3 [symmetric] by (simp add: d1' d2')
  show "db_orders d' = db_orders d @ [ord]" and "db_attempts d' = db_attempts d"
    and "d' = d\<lparr>db_users := db_users d', db_coupons := db_coupons d', db_orders := db_orders d', db_order_seq := db_order_seq d'\<rparr>"
    by (simp_all add: d' d2' d1')
  show "o_id ord = db_order_seq d + 1" using ins'(1) by (simp add: d2' d1')
  have "balances d' = balances d1" by (simp add: d' d2' balances_def)
  moreover have "o_balance_amount ord = o_balance_amount ord3" by (subst o3) simp
  ultimately show "balances d' = debit (oi_user_id input) (o_balance_amount ord) (balances d)"
    using p(4) s(2) by simp
  show "db_ok d'" using insert_order_keeps [OF ins] d2(2) p(5) by simp
  show "o_user_id ord = oi_user_id input" and "o_plan_id ord = oi_plan_id input"
    and "o_status ord = OrderStatusPending" and "o_created_at ord = unix now"
    using fr3 by (subst o3, simp add: order_frame_def)+
  show "\<not> has_active_order (oi_user_id input) d" and "order_ok ord" using act ordok by simp_all
qed

section \<open>Cancelling\<close>

lemma order_member_unique:
  "db_ok d \<Longrightarrow> r \<in> set (db_orders d) \<Longrightarrow> r' \<in> set (db_orders d) \<Longrightarrow> o_id r = o_id r' \<Longrightarrow> r = r'"
  by (auto simp: db_ok_def orders.holds_def orders_unique_def distinct_map dest: inj_onD)

lemma user_member_unique:
  "db_ok d \<Longrightarrow> u \<in> set (db_users d) \<Longrightarrow> u' \<in> set (db_users d) \<Longrightarrow> u_id u = u_id u' \<Longrightarrow> u = u'"
  by (auto simp: db_ok_def users.holds_def users_unique_def distinct_map dest: inj_onD)

lemma order_ok_member: "db_ok d \<Longrightarrow> r \<in> set (db_orders d) \<Longrightarrow> order_ok r \<and> order_refs d r"
  by (auto simp: db_ok_def orders.holds_def list_all_iff order_check_def)

lemma count_where_unique:
  assumes "distinct (map g rows)" and "r \<in> set rows"
  shows "count_where (\<lambda>x. g x = g r \<and> q x) rows = (if q r then 1 else 0)"
  using assms
proof (induction rows)
  case (Cons x xs)
  have none: "count_where (\<lambda>y. g y = g r \<and> q y) xs = 0" if "g r \<notin> g ` set xs"
    using that by (auto simp: count_where_0 image_iff)
  from Cons show ?case
  proof (cases "r = x")
    case True
    then show ?thesis using Cons.prems(1) none by auto
  next
    case False
    then have "r \<in> set xs" and "g x \<noteq> g r" using Cons.prems by (auto simp: image_iff)
    then show ?thesis using Cons by simp
  qed
qed simp

lemma count_order:
  "db_ok d \<Longrightarrow> r \<in> set (db_orders d) \<Longrightarrow>
   count_where (\<lambda>x. o_id x = o_id r \<and> q x) (db_orders d) = (if q r then 1 else 0)"
  by (rule count_where_unique) (auto simp: db_ok_def orders.holds_def orders_unique_def)

lemma cancelOrderTx_effect:
  assumes r: "cancelOrderTx ord now d = Inr (ord', d')" and ok: "db_ok d" and o: "ord \<in> set (db_orders d)"
  shows "o_status ord = OrderStatusPending"
    and "ord' = ord\<lparr>o_status := OrderStatusCancelled, o_updated_at := unix now\<rparr>"
    and "balances d' = debit (o_user_id ord) (- o_balance_amount ord) (balances d)" and "db_ok d'"
    and "db_orders d' = update_where (\<lambda>x. o_id x = o_id ord \<and> o_status x = OrderStatusPending)
           (\<lambda>x. x\<lparr>o_status := OrderStatusCancelled, o_updated_at := unix now\<rparr>) (db_orders d)"
    and "d' = d\<lparr>db_users := db_users d', db_orders := db_orders d'\<rparr>"
proof -
  let ?p = "\<lambda>x. o_id x = o_id ord \<and> o_status x = OrderStatusPending"
  let ?f = "\<lambda>x. x\<lparr>o_status := OrderStatusCancelled, o_updated_at := unix now\<rparr>"
  obtain d1 where up: "update_orders ?p ?f d = Inr d1" and one: "\<not> count_where ?p (db_orders d) \<noteq> 1"
    and o': "ord' = ?f ord"
    and refund: "(if o_balance_amount ord > 0 then
               (case List.find (\<lambda>u. u_id u = o_user_id ord) (db_users d1) of
                  None \<Rightarrow> Inl ErrDatabase
                | Some u \<Rightarrow>
                    if o_balance_amount ord > i64 (maxOrderMoneyCents - u_balance u) then Inl ErrRefundBalanceLimit
                    else update_users (\<lambda>v. u_id v = o_user_id ord)
                      (\<lambda>v. v\<lparr>u_balance := u_balance v + o_balance_amount ord, u_updated_at := unix now\<rparr>) d1)
             else Inr d1) = Inr d'"
    using r unfolding cancelOrderTx_def Let_def by (elim stageE) (auto intro: that)
  show "ord' = ord\<lparr>o_status := OrderStatusCancelled, o_updated_at := unix now\<rparr>" by (rule o')
  show "o_status ord = OrderStatusPending" using one count_order [OF ok o] by (auto split: if_splits)
  have ok1: "db_ok d1" using update_orders_keeps [OF up _ ok] by simp
  have d1: "d1 = d\<lparr>db_orders := update_where ?p ?f (db_orders d)\<rparr>" using up by (simp add: update_orders_Inr)
  have "0 \<le> o_balance_amount ord" using order_ok_member [OF ok o] by (simp add: order_ok_def money_def)
  then consider "o_balance_amount ord = 0" "d' = d1"
    | "update_users (\<lambda>v. u_id v = o_user_id ord)
        (\<lambda>v. v\<lparr>u_balance := u_balance v + o_balance_amount ord, u_updated_at := unix now\<rparr>) d1 = Inr d'"
    using refund by (fastforce split: if_splits option.splits)
  then have "balances d' = debit (o_user_id ord) (- o_balance_amount ord) (balances d1) \<and> db_ok d' \<and>
      (\<exists>us. d' = d1\<lparr>db_users := us\<rparr>)"
  proof cases
    case 1
    then show ?thesis using ok1 by (auto intro: exI [of _ "db_users d1"])
  next
    case 2
    have "balances d' = debit (o_user_id ord) (- o_balance_amount ord) (balances d1)"
      by (rule balances_update_users [OF 2]) simp_all
    moreover have "db_ok d'" by (rule update_users_keeps [OF 2 _ ok1]) simp
    ultimately show ?thesis using 2 by (auto simp: update_users_Inr)
  qed
  moreover have "balances d1 = balances d" by (simp add: d1 balances_def)
  ultimately show "balances d' = debit (o_user_id ord) (- o_balance_amount ord) (balances d)" and "db_ok d'"
    and "db_orders d' = update_where ?p ?f (db_orders d)" and "d' = d\<lparr>db_users := db_users d', db_orders := db_orders d'\<rparr>"
    by (auto simp: d1)
qed

lemma filter_update_where_shrinks:
  assumes "\<And>r. r \<in> set rows \<Longrightarrow> p r \<Longrightarrow> \<not> q (f r)"
  shows "filter q (update_where p f rows) = filter (\<lambda>r. q r \<and> \<not> p r) rows"
  using assms by (induction rows) auto

lemma map_filter_update_inv:
  assumes "\<And>r. g (f r) = g r"
  shows "map g (filter (\<lambda>r. g r \<noteq> None) (update_where p f rows)) = map g (filter (\<lambda>r. g r \<noteq> None) rows)"
  using assms by (induction rows) auto

lemma orders_unique_deactivate:
  assumes "orders_unique rows" and "\<And>r. o_id (f r) = o_id r \<and> o_trade_no (f r) = o_trade_no r \<and>
    o_gift_card_code_id (f r) = o_gift_card_code_id r \<and> \<not> order_active (f r)"
  shows "orders_unique (update_where p f rows)"
proof -
  have "distinct (map o_user_id (filter (\<lambda>r. order_active r \<and> \<not> p r) rows))"
    using assms(1) distinct_map_filter [of o_user_id "filter order_active rows" "\<lambda>r. \<not> p r"]
    by (simp add: orders_unique_def conj_commute)
  moreover have "distinct (map o_gift_card_code_id (filter (\<lambda>r. o_gift_card_code_id r \<noteq> None) (update_where p f rows)))"
    using assms by (subst map_filter_update_inv) (auto simp: orders_unique_def)
  ultimately show ?thesis using assms
    by (simp add: orders_unique_def map_update_where_inv filter_update_where_shrinks)
qed

lemma cancelOrderTx_succeeds:
  assumes ok: "db_ok d" and o: "ord \<in> set (db_orders d)" and s: "o_status ord = OrderStatusPending"
    and t: "o_created_at ord \<le> unix now" and u: "u \<in> set (db_users d)" "u_id u = o_user_id ord"
    and room: "u_balance u + o_balance_amount ord \<le> maxOrderMoneyCents"
  shows "\<exists>ord' d'. cancelOrderTx ord now d = Inr (ord', d')"
proof -
  let ?p = "\<lambda>x. o_id x = o_id ord \<and> o_status x = OrderStatusPending"
  let ?f = "\<lambda>x. x\<lparr>o_status := OrderStatusCancelled, o_updated_at := unix now\<rparr>"
  let ?g = "\<lambda>v. v\<lparr>u_balance := u_balance v + o_balance_amount ord, u_updated_at := unix now\<rparr>"
  define d1 where "d1 = d\<lparr>db_orders := update_where ?p ?f (db_orders d)\<rparr>"
  have "order_check d (?f x)" if "x \<in> set (db_orders d)" "?p x" for x
    using order_member_unique [OF ok that(1) o] that(2) order_ok_member [OF ok o] t
    by (simp add: order_check_def order_ok_def order_refs_def)
  moreover have "orders_unique (update_where ?p ?f (db_orders d))"
    using ok by (intro orders_unique_deactivate) (auto simp: db_ok_def orders.holds_def order_active_def)
  ultimately have up: "update_orders ?p ?f d = Inr d1" by (simp add: update_orders_Inr d1_def)
  have one: "count_where ?p (db_orders d) = 1" using count_order [OF ok o, of "\<lambda>x. o_status x = OrderStatusPending"] s by simp
  have ou: "order_ok ord" and m: "user_ok u" using order_ok_member [OF ok o] user_ok_member [OF ok u(1)] by auto
  have f: "List.find (\<lambda>v. u_id v = o_user_id ord) (db_users d1) = Some u"
  proof -
    obtain v where "List.find (\<lambda>v. u_id v = o_user_id ord) (db_users d) = Some v"
      using u find_eq_None_iff [of "\<lambda>v. u_id v = o_user_id ord" "db_users d"] by (cases "List.find (\<lambda>v. u_id v = o_user_id ord) (db_users d)") auto
    then show ?thesis using user_member_unique [OF ok _ u(1)] u(2) by (auto simp: d1_def dest: find_eq_Some_set)
  qed
  have "\<not> o_balance_amount ord > i64 (maxOrderMoneyCents - u_balance u)"
    using room m by (simp add: user_ok_def money_def maxOrderMoneyCents_def wrap_simps)
  moreover have "\<exists>d2. update_users (\<lambda>v. u_id v = o_user_id ord) ?g d1 = Inr d2"
  proof -
    have "user_check d1 (money_trigger v (?g v))" if "v \<in> set (db_users d)" "u_id v = o_user_id ord" for v
    proof -
      have "v = u" using user_member_unique [OF ok that(1) u(1)] that(2) u(2) by simp
      moreover have "user_check d u" using ok u(1) by (auto simp: db_ok_def users.holds_def list_all_iff)
      ultimately show ?thesis using room ou m
        by (auto simp: d1_def user_check_def user_ok_def user_refs_def money_def order_ok_def money_trigger_def)
    qed
    moreover have "users_unique (update_where (\<lambda>v. u_id v = o_user_id ord) (\<lambda>v. money_trigger v (?g v)) (db_users d))"
      using ok by (simp add: db_ok_def users.holds_def users_unique_def map_update_where_inv)
    ultimately show ?thesis by (simp add: update_users_Inr d1_def)
  qed
  ultimately show ?thesis unfolding cancelOrderTx_def Let_def using up one f by auto
qed

lemma cancel_found_effect:
  assumes "cancel_found ord now d = Inr (ord', d')"
  shows "cancelOrderTx ord now d = Inr (ord', d')" and "\<not> hasActivePaymentCheckout (o_id ord) d"
  using assms by (auto simp: cancel_found_def split: if_splits)

lemma find_order_Inr: "find_order p d = Inr ord \<Longrightarrow> ord \<in> set (db_orders d) \<and> p ord"
  by (auto simp: find_order_def dest: find_eq_Some_set)

text \<open>A user who cancels the order just created has the balance of before.\<close>

lemma create_then_cancel:
  assumes r: "CreateOrder loc random input now d = Inr (ord, d1)" and ok: "db_ok d"
    and t: "now \<le> later" "0 \<le> unix later"
  obtains ord' d2 where "CancelOrder (oi_user_id input) (o_trade_no ord) later d1 = Inr (ord', d2)"
    and "balances d2 = balances d" and "o_status ord' = OrderStatusCancelled" and "db_ok d2"
proof -
  note e = CreateOrder_effect [OF r ok]
  let ?p = "\<lambda>r. o_user_id r = oi_user_id input \<and> o_trade_no r = o_trade_no ord"
  have in1: "ord \<in> set (db_orders d1)" by (simp add: e(3))
  have fresh: "o_id r < o_id ord" if "r \<in> set (db_orders d)" for r
    using that ok e(5) by (auto simp: db_ok_def seqs_ok_def list_all_iff)
  have "distinct (map o_trade_no (db_orders d1))"
    using e(4) by (simp add: db_ok_def orders.holds_def orders_unique_def)
  then have "List.find ?p (db_orders d1) = Some ord"
    using e(6) unfolding e(3) find_append
    by (auto simp: find_eq_None_iff split: option.splits dest!: find_eq_Some_set) (metis imageI)
  then have f: "find_order ?p d1 = Inr ord" by (simp add: find_order_def)
  have noattempt: "\<not> hasActivePaymentCheckout (o_id ord) d1"
  proof -
    have "a_order_id a \<in> o_id ` set (db_orders d)" if "a \<in> set (db_attempts d)" for a
      using that ok by (auto simp: db_ok_def attempts.holds_def list_all_iff attempt_check_def attempt_refs_def)
    then show ?thesis using fresh unfolding hasActivePaymentCheckout_def exists_where_iff e(10) by fastforce
  qed
  have in_users: "o_user_id ord \<in> u_id ` set (db_users d1)"
    using order_ok_member [OF e(4) in1] by (auto simp: order_refs_def)
  then obtain u where u: "u \<in> set (db_users d1)" "u_id u = o_user_id ord" by auto
  have "(u_id u, u_balance u) \<in> set (balances d1)" using u(1) by (auto simp: balances_def)
  then obtain b where b: "(u_id u, b) \<in> set (balances d)" "u_balance u = b - o_balance_amount ord"
    using e(2,6) u(2) by (auto simp: debit_def)
  have "b \<le> maxOrderMoneyCents"
    using b(1) user_ok_member [OF ok] by (auto simp: balances_def user_ok_def money_def)
  moreover have "unix now \<le> unix later" using t(1) by (simp add: unix_def zdiv_mono1)
  ultimately obtain ord' d2 where c: "cancelOrderTx ord later d1 = Inr (ord', d2)"
    using cancelOrderTx_succeeds [OF e(4) in1 e(8) _ u] e(9) b(2) by fastforce
  note ce = cancelOrderTx_effect [OF c e(4) in1]
  have "1 \<le> oi_user_id input" using r by (auto simp: CreateOrder_def split: if_splits)
  then have "CancelOrder (oi_user_id input) (o_trade_no ord) later d1 = Inr (ord', d2)"
    using f c noattempt t(2) e(8,12)
    by (simp add: CancelOrder_def cancel_found_def order_ok_def)
  moreover have "balances d2 = balances d"
    using ce(3) e(2,6) by (simp add: debit_debit)
  moreover have "o_status ord' = OrderStatusCancelled" unfolding ce(2) by simp
  ultimately show thesis using ce(4) by (rule that)
qed

end
