(* ===== verification/Completion_Correct.thy ===== *)
theory Completion_Correct
  imports Orders_Correct Evolution
begin

text \<open>
  Completing an order: the entitlement it grants and for how long, that it is granted once, and
  that every operation on orders moves them along the status transitions only.
\<close>

section \<open>Stages of a completion\<close>

lemma completeOrderTx_stages:
  assumes "completeOrderTx loc ord callbackNo now d = Inr ((ord', ch), d')"
  obtains u info d1 d2 granted d3 d4 where
    "order_active ord" "u \<in> set (db_users d)" "u_id u = o_user_id ord" "getPlan (o_plan_id ord) now d = Inr info"
    "mark_processing ord (case o_paid_at ord of None \<Rightarrow> unix now | Some t \<Rightarrow> t)
       (case o_callback_no ord of None \<Rightarrow> callbackNo | Some c \<Rightarrow> c) now d = Inr d1"
    "efold (discount_surplus_order ord now) (o_surplus_order_ids ord) d1 = Inr d2"
    "grant_period loc ord (pl_row info) (if o_surplus_credit ord > 0
       then u\<lparr>u_balance := i64 (u_balance u + o_surplus_credit ord)\<rparr> else u) now = Inr granted"
    "apply_entitlement (finish_user loc ord (pl_row info) (db_settings d) granted now) now d2 = Inr d3"
    "insert_event \<lparr>ev_order_id = o_id ord, ev_user_id = o_user_id ord, ev_type = orderTypeEventName (o_type ord),
         ev_before = marshalEntitlementSnapshot u,
         ev_after = marshalEntitlementSnapshot (finish_user loc ord (pl_row info) (db_settings d) granted now),
         ev_applied_at = unix now\<rparr> d3 = Inr d4"
    "mark_completed ord (u_expired_at u)
       (u_expired_at (finish_user loc ord (pl_row info) (db_settings d) granted now)) now d4 = Inr d'"
    "ord' = ord\<lparr>o_status := OrderStatusCompleted,
         o_paid_at := Some (case o_paid_at ord of None \<Rightarrow> unix now | Some t \<Rightarrow> t),
         o_callback_no := Some (case o_callback_no ord of None \<Rightarrow> callbackNo | Some c \<Rightarrow> c),
         o_entitlement_before := u_expired_at u,
         o_entitlement_after := u_expired_at (finish_user loc ord (pl_row info) (db_settings d) granted now),
         o_updated_at := unix now\<rparr>"
proof -
  from assms obtain u info d1 d2 granted d3 d4 d5 where
    a: "\<not> \<not> order_active ord" and u: "readOrderUser (o_user_id ord) d = Inr u"
    and pl: "getPlan (o_plan_id ord) now d = Inr info"
    and mp: "mark_processing ord (case o_paid_at ord of None \<Rightarrow> unix now | Some t \<Rightarrow> t)
       (case o_callback_no ord of None \<Rightarrow> callbackNo | Some c \<Rightarrow> c) now d = Inr d1"
    and di: "efold (discount_surplus_order ord now) (o_surplus_order_ids ord) d1 = Inr d2"
    and gr: "grant_period loc ord (pl_row info) (if o_surplus_credit ord > 0
       then u\<lparr>u_balance := i64 (u_balance u + o_surplus_credit ord)\<rparr> else u) now = Inr granted"
    and ap: "apply_entitlement (finish_user loc ord (pl_row info) (db_settings d) granted now) now d2 = Inr d3"
    and ev: "insert_event \<lparr>ev_order_id = o_id ord, ev_user_id = o_user_id ord, ev_type = orderTypeEventName (o_type ord),
         ev_before = marshalEntitlementSnapshot u,
         ev_after = marshalEntitlementSnapshot (finish_user loc ord (pl_row info) (db_settings d) granted now),
         ev_applied_at = unix now\<rparr> d3 = Inr d4"
    and mc: "mark_completed ord (u_expired_at u)
       (u_expired_at (finish_user loc ord (pl_row info) (db_settings d) granted now)) now d4 = Inr d5"
    and res: "Inr ((ord\<lparr>o_status := OrderStatusCompleted,
         o_paid_at := Some (case o_paid_at ord of None \<Rightarrow> unix now | Some t \<Rightarrow> t),
         o_callback_no := Some (case o_callback_no ord of None \<Rightarrow> callbackNo | Some c \<Rightarrow> c),
         o_entitlement_before := u_expired_at u,
         o_entitlement_after := u_expired_at (finish_user loc ord (pl_row info) (db_settings d) granted now),
         o_updated_at := unix now\<rparr>, \<lparr>ch_user_id = u_id u, ch_previous_uuid = u_uuid u, ch_old_group_id = u_group_id u,
             ch_new_group_id = u_group_id (finish_user loc ord (pl_row info) (db_settings d) granted now)\<rparr>), d5)
         = (Inr ((ord', ch), d') :: store_error + _)"
    unfolding completeOrderTx_def Let_def by (elim stageE) (rule that; assumption)
  have f: "u \<in> set (db_users d)" "u_id u = o_user_id ord"
    using u by (auto simp: readOrderUser_def dest!: find_eq_Some_set)
  show thesis
    by (rule that [OF _ f pl mp di gr ap ev]) (use a mc res in simp_all)
qed

lemma mark_processing_Inr:
  assumes "mark_processing ord paidAt callback now d = Inr d'"
  shows "history d d'" and "d' = d\<lparr>db_orders := db_orders d'\<rparr>"
proof -
  let ?f = "\<lambda>r. r\<lparr>o_status := OrderStatusProcessing,
               o_paid_at := (case o_paid_at r of None \<Rightarrow> Some paidAt | Some t \<Rightarrow> Some t),
               o_callback_no := (case o_callback_no r of None \<Rightarrow> Some callback | Some c \<Rightarrow> Some c),
               o_updated_at := unix now\<rparr>"
  have up: "update_orders (\<lambda>r. o_id r = o_id ord \<and> order_active r) ?f d = Inr d'"
    using assms by (auto simp: mark_processing_def Let_def)
  then show "history d d'"
    by (rule update_orders_history)
       (auto simp: order_moves_def order_evolves_def order_terms_def order_active_def split: option.splits)
  show "d' = d\<lparr>db_orders := db_orders d'\<rparr>" using up by (auto simp: update_orders_Inr)
qed

lemma discount_surplus_order_Inr:
  assumes "discount_surplus_order ord now i d = Inr d'"
  shows "history d d'" and "db_users d' = db_users d"
proof -
  let ?f = "\<lambda>r. r\<lparr>o_status := OrderStatusDiscounted, o_updated_at := unix now\<rparr>"
  have up: "update_orders (\<lambda>r. o_id r = i \<and> o_user_id r = o_user_id ord \<and>
          o_status r = OrderStatusCompleted \<and> o_period r \<noteq> ''reset_traffic'') ?f d = Inr d'"
    using assms by (auto simp: discount_surplus_order_def split: if_splits)
  then show "history d d'"
    by (rule update_orders_history) (auto simp: order_moves_def order_evolves_def order_terms_def)
  show "db_users d' = db_users d" using up by (auto simp: update_orders_Inr)
qed

lemma mark_completed_Inr:
  assumes "mark_completed ord b a now d = Inr d'"
  shows "history d d'"
    and "d' = d\<lparr>db_orders := update_where (\<lambda>r. o_id r = o_id ord \<and> o_status r = OrderStatusProcessing)
          (\<lambda>r. r\<lparr>o_status := OrderStatusCompleted, o_entitlement_before := b,
               o_entitlement_after := a, o_updated_at := unix now\<rparr>) (db_orders d)\<rparr>"
    and "\<exists>r\<in>set (db_orders d). o_id r = o_id ord \<and> o_status r = OrderStatusProcessing"
proof -
  let ?p = "\<lambda>r. o_id r = o_id ord \<and> o_status r = OrderStatusProcessing"
  let ?f = "\<lambda>r. r\<lparr>o_status := OrderStatusCompleted, o_entitlement_before := b,
               o_entitlement_after := a, o_updated_at := unix now\<rparr>"
  have up: "update_orders ?p ?f d = Inr d'" and one: "count_where ?p (db_orders d) = 1"
    using assms by (auto simp: mark_completed_def Let_def)
  from up show "history d d'"
    by (rule update_orders_history) (auto simp: order_moves_def order_evolves_def order_terms_def)
  show "d' = d\<lparr>db_orders := update_where ?p ?f (db_orders d)\<rparr>" using up by (simp add: update_orders_Inr)
  show "\<exists>r\<in>set (db_orders d). ?p r" using one count_where_pos [of ?p "db_orders d"] by simp
qed

lemma apply_entitlement_history: "apply_entitlement u now d = Inr d' \<Longrightarrow> history d d'"
  unfolding apply_entitlement_def by (erule update_users_history) simp

lemma completeOrderTx_history:
  assumes "completeOrderTx loc ord callbackNo now d = Inr ((ord', ch), d')"
  shows "history d d'"
proof -
  obtain d1 d2 d3 d4 paid cb usr ev b a where
    mp: "mark_processing ord paid cb now d = Inr d1"
    and di: "efold (discount_surplus_order ord now) (o_surplus_order_ids ord) d1 = Inr d2"
    and ap: "apply_entitlement usr now d2 = Inr d3" and ev: "insert_event ev d3 = Inr d4"
    and mc: "mark_completed ord b a now d4 = Inr d'"
    by (rule completeOrderTx_stages [OF assms]) (rule that; assumption)
  note mark_processing_Inr(1) [OF mp]
  also have "history d1 d2"
    by (rule history.fold_respects [OF di]) (erule discount_surplus_order_Inr)
  also note apply_entitlement_history [OF ap]
  also note insert_event_history [OF ev]
  also note mark_completed_Inr(1) [OF mc]
  finally show ?thesis .
qed

text \<open>A completion writes three tables: users, orders and the entitlement events.\<close>

lemma completeOrderTx_frame:
  assumes "completeOrderTx loc ord callbackNo now d = Inr ((ord', ch), d')"
  obtains us os es where "d' = d\<lparr>db_users := us, db_orders := os, db_events := es\<rparr>"
proof -
  obtain d1 d2 d3 d4 paid cb usr ev b a where
    mp: "mark_processing ord paid cb now d = Inr d1"
    and di: "efold (discount_surplus_order ord now) (o_surplus_order_ids ord) d1 = Inr d2"
    and ap: "apply_entitlement usr now d2 = Inr d3" and ev: "insert_event ev d3 = Inr d4"
    and mc: "mark_completed ord b a now d4 = Inr d'"
    by (rule completeOrderTx_stages [OF assms]) (rule that; assumption)
  obtain os1 where d1: "d1 = d\<lparr>db_orders := os1\<rparr>" using mark_processing_Inr(2) [OF mp] by blast
  have "\<exists>os. d2 = d1\<lparr>db_orders := os\<rparr>"
  proof (rule efold_invariant [OF di, where P = "\<lambda>s. \<exists>os. s = d1\<lparr>db_orders := os\<rparr>"])
    show "\<exists>os. d1 = d1\<lparr>db_orders := os\<rparr>" by (rule exI [of _ "db_orders d1"]) simp
  qed (auto simp: discount_surplus_order_def update_orders_Inr split: if_splits)
  then obtain os2 where d2: "d2 = d1\<lparr>db_orders := os2\<rparr>" by blast
  have "\<exists>us. d3 = d2\<lparr>db_users := us\<rparr>" using ap by (auto simp: apply_entitlement_def update_users_Inr)
  then obtain us where d3: "d3 = d2\<lparr>db_users := us\<rparr>" by blast
  obtain es where d4: "d4 = d3\<lparr>db_events := es\<rparr>" using ev by (auto simp: insert_event_Inr)
  obtain os5 where "d' = d4\<lparr>db_orders := os5\<rparr>" using mark_completed_Inr(2) [OF mc] by blast
  then have "d' = d\<lparr>db_users := us, db_orders := os5, db_events := es\<rparr>" by (simp add: d1 d2 d3 d4)
  then show thesis by (rule that)
qed

section \<open>What a completion leaves behind\<close>

lemma completed_row:
  assumes r: "completeOrderTx loc ord callbackNo now d = Inr ((ord', ch), d')" and ok: "db_ok d"
    and o: "ord \<in> set (db_orders d)"
  obtains r' where "r' \<in> set (db_orders d')" and "o_status r' = OrderStatusCompleted" and "order_evolves ord r'"
proof -
  note ok' = history_ok [OF completeOrderTx_history [OF r] ok]
  obtain r' where r': "r' \<in> set (db_orders d')" "order_evolves ord r'"
    by (rule history_order [OF completeOrderTx_history [OF r] o])
  obtain d4 b a where mc: "mark_completed ord b a now d4 = Inr d'"
    by (rule completeOrderTx_stages [OF r]) (rule that; assumption)
  obtain x where x: "x \<in> set (db_orders d4)" "o_id x = o_id ord \<and> o_status x = OrderStatusProcessing"
    using mark_completed_Inr(3) [OF mc] by auto
  have "db_orders d' = update_where (\<lambda>r. o_id r = o_id ord \<and> o_status r = OrderStatusProcessing)
      (\<lambda>r. r\<lparr>o_status := OrderStatusCompleted, o_entitlement_before := b, o_entitlement_after := a, o_updated_at := unix now\<rparr>)
      (db_orders d4)"
    using mark_completed_Inr(2) [OF mc] by simp
  then have "x\<lparr>o_status := OrderStatusCompleted, o_entitlement_before := b, o_entitlement_after := a, o_updated_at := unix now\<rparr>
      \<in> set (db_orders d')"
    using x by (auto simp: update_where_def image_iff intro!: bexI [of _ x])
  then have "r' = x\<lparr>o_status := OrderStatusCompleted, o_entitlement_before := b, o_entitlement_after := a, o_updated_at := unix now\<rparr>"
    by (rule order_member_unique [OF ok' r'(1)])
       (use order_evolves_fields(1) [OF r'(2)] x(2) in simp)
  then show thesis using r' by (intro that) simp_all
qed

lemma completed_user:
  assumes r: "completeOrderTx loc ord callbackNo now d = Inr ((ord', ch), d')" and ok: "db_ok d"
    and u: "u \<in> set (db_users d)" "u_id u = o_user_id ord" "u_account_kind u = AccountKindHuman"
  obtains v info granted where "v \<in> set (db_users d')" and "u_id v = u_id u"
    and "getPlan (o_plan_id ord) now d = Inr info"
    and "grant_period loc ord (pl_row info) (if o_surplus_credit ord > 0
       then u\<lparr>u_balance := i64 (u_balance u + o_surplus_credit ord)\<rparr> else u) now = Inr granted"
    and "marshalEntitlementSnapshot v = marshalEntitlementSnapshot (finish_user loc ord (pl_row info) (db_settings d) granted now)"
proof -
  obtain w info d1 d2 granted d3 d4 paid cb ev b a where w: "w \<in> set (db_users d)" "u_id w = o_user_id ord"
    and pl: "getPlan (o_plan_id ord) now d = Inr info" and mp: "mark_processing ord paid cb now d = Inr d1"
    and di: "efold (discount_surplus_order ord now) (o_surplus_order_ids ord) d1 = Inr d2"
    and gr: "grant_period loc ord (pl_row info) (if o_surplus_credit ord > 0
       then w\<lparr>u_balance := i64 (u_balance w + o_surplus_credit ord)\<rparr> else w) now = Inr granted"
    and ap: "apply_entitlement (finish_user loc ord (pl_row info) (db_settings d) granted now) now d2 = Inr d3"
    and ev: "insert_event ev d3 = Inr d4" and mc: "mark_completed ord b a now d4 = Inr d'"
    by (rule completeOrderTx_stages [OF r]) (rule that; assumption)
  let ?t = "finish_user loc ord (pl_row info) (db_settings d) granted now"
  have wu: "w = u" using user_member_unique [OF ok w(1) u(1)] w(2) u(2) by simp
  have "db_users d2 = db_users d1"
    by (rule efold_invariant [OF di, where P = "\<lambda>s. db_users s = db_users d1"])
       (simp_all add: discount_surplus_order_Inr(2))
  moreover obtain os where "d1 = d\<lparr>db_orders := os\<rparr>" using mark_processing_Inr(2) [OF mp] by blast
  ultimately have users2: "db_users d2 = db_users d" by simp
  have users': "db_users d' = db_users d3"
    using ev by (subst mark_completed_Inr(2) [OF mc]) (simp add: insert_event_Inr)
  have tid: "u_id ?t = u_id u"
    using gr by (auto simp: wu grant_period_def finish_user_def Let_def split: if_splits)
  let ?f = "\<lambda>v. v\<lparr>u_plan_id := u_plan_id ?t, u_group_id := u_group_id ?t, u_transfer_enable := u_transfer_enable ?t,
              u_traffic_u := u_traffic_u ?t, u_traffic_d := u_traffic_d ?t, u_expired_at := u_expired_at ?t,
              u_speed_limit := u_speed_limit ?t, u_device_limit := u_device_limit ?t,
              u_next_reset_at := u_next_reset_at ?t, u_last_reset_at := u_last_reset_at ?t,
              u_reset_count := u_reset_count ?t, u_balance := u_balance ?t,
              u_admin_revision := u_admin_revision v + 1, u_updated_at := unix now\<rparr>"
  have "db_users d3 = update_where (\<lambda>v. u_id v = u_id ?t \<and> u_account_kind v = AccountKindHuman)
      (\<lambda>v. money_trigger v (?f v)) (db_users d)"
    using ap by (simp add: apply_entitlement_def update_users_Inr users2)
  then have "money_trigger u (?f u) \<in> set (db_users d')"
    using u tid by (auto simp: users' update_where_def image_iff intro!: bexI [of _ u])
  then show thesis
    by (rule that [OF _ _ pl gr [unfolded wu]]) (simp_all add: marshalEntitlementSnapshot_def)
qed

definition renewal_base :: "order \<Rightarrow> user \<Rightarrow> instant \<Rightarrow> int" where
  "renewal_base ord u now =
     (if o_type ord = OrderTypeUpgrade then unix now
      else case u_expired_at u of None \<Rightarrow> unix now | Some e \<Rightarrow> max e (unix now))"

lemma completion_grants:
  assumes r: "completeOrderTx loc ord callbackNo now d = Inr ((ord', ch), d')" and ok: "db_ok d"
    and u: "u \<in> set (db_users d)" "u_id u = o_user_id ord" "u_account_kind u = AccountKindHuman"
    and m: "orderPeriodMonths (o_period ord) \<noteq> 0"
  obtains v where "v \<in> set (db_users d')" and "u_id v = u_id u" and "u_plan_id v = Some (o_plan_id ord)"
    and "u_expired_at v = Some (addOrderMonths loc (renewal_base ord u now) (orderPeriodMonths (o_period ord)))"
proof -
  obtain v info granted where v: "v \<in> set (db_users d')" "u_id v = u_id u"
    and pl: "getPlan (o_plan_id ord) now d = Inr info"
    and gr: "grant_period loc ord (pl_row info) (if o_surplus_credit ord > 0
       then u\<lparr>u_balance := i64 (u_balance u + o_surplus_credit ord)\<rparr> else u) now = Inr granted"
    and s: "marshalEntitlementSnapshot v = marshalEntitlementSnapshot (finish_user loc ord (pl_row info) (db_settings d) granted now)"
    by (rule completed_user [OF r ok u])
  have "p_id (pl_row info) = o_plan_id ord"
    using pl by (auto simp: getPlan_def plan_info_of_def Let_def split: option.splits dest!: find_eq_Some_set)
  moreover have "o_period ord \<noteq> ''reset_traffic'' \<and> o_period ord \<noteq> ''onetime''"
    using m by (auto simp: orderPeriodMonths_def)
  ultimately have "u_plan_id v = Some (o_plan_id ord)"
    and "u_expired_at v = Some (addOrderMonths loc (renewal_base ord u now) (orderPeriodMonths (o_period ord)))"
    using gr s m
    by (auto simp: grant_period_def finish_user_def marshalEntitlementSnapshot_def renewal_base_def Let_def max_def
        split: if_splits option.splits)
  then show thesis using v by (intro that)
qed

section \<open>Completing twice\<close>

lemma find_by_trade_no:
  assumes "db_ok d" and "r \<in> set (db_orders d)"
  shows "find_order (\<lambda>x. o_trade_no x = o_trade_no r) d = Inr r"
proof -
  obtain x where x: "List.find (\<lambda>x. o_trade_no x = o_trade_no r) (db_orders d) = Some x"
    using assms(2) find_eq_None_iff [of "\<lambda>x. o_trade_no x = o_trade_no r" "db_orders d"]
    by (cases "List.find (\<lambda>x. o_trade_no x = o_trade_no r) (db_orders d)") auto
  then have "x \<in> set (db_orders d)" "o_trade_no x = o_trade_no r" by (auto dest: find_eq_Some_set)
  then have "x = r"
    using assms by (auto simp: db_ok_def orders.holds_def orders_unique_def distinct_map dest: inj_onD)
  then show ?thesis using x by (simp add: find_order_def)
qed

lemma CompleteOrder_again:
  assumes r: "CompleteOrder loc tradeNo callbackNo now d = Inr ((ord, ch), d1)" and ok: "db_ok d"
    and cb: "1 \<le> length callbackNo'" "length callbackNo' \<le> 255" and t: "0 \<le> unix now'"
  shows "\<exists>row. CompleteOrder loc tradeNo callbackNo' now' d1 = Inr ((row, None), d1) \<and>
           o_status row = OrderStatusCompleted \<and> o_trade_no row = tradeNo"
proof -
  have v: "validTradeNo tradeNo" using r by (auto simp: CompleteOrder_def split: if_splits)
  obtain row where row: "row \<in> set (db_orders d1)" "o_trade_no row = tradeNo" "o_status row = OrderStatusCompleted"
    and ok1: "db_ok d1"
  proof -
    obtain ord0 where f: "find_order (\<lambda>x. o_trade_no x = tradeNo) d = Inr ord0"
      using r by (auto simp: CompleteOrder_def split: if_splits)
    note o0 = find_order_Inr [OF f]
    show thesis
    proof (cases "o_status ord0 = OrderStatusCompleted")
      case True
      then have "d1 = d" using r f v by (auto simp: CompleteOrder_def split: if_splits)
      then show thesis using that [of ord0] o0 True ok by simp
    next
      case False
      then obtain ord1 ch1 where c: "completeOrderTx loc ord0 callbackNo now d = Inr ((ord1, ch1), d1)"
        using r f v by (auto simp: CompleteOrder_def split: if_splits)
      obtain r' where r': "r' \<in> set (db_orders d1)" "o_status r' = OrderStatusCompleted" "order_evolves ord0 r'"
        using completed_row [OF c ok] o0 by blast
      show thesis using that [of r'] o0 r' order_evolves_fields(3) [OF r'(3)]
          history_ok [OF completeOrderTx_history [OF c] ok] by simp
    qed
  qed
  have "find_order (\<lambda>x. o_trade_no x = tradeNo) d1 = Inr row"
    using find_by_trade_no [OF ok1 row(1)] row(2) by simp
  then show ?thesis using v cb t row by (auto simp: CompleteOrder_def)
qed

section \<open>Every operation on orders\<close>

lemma CreateOrder_history:
  assumes "CreateOrder loc random input now d = Inr (ord, d')"
  shows "history d d'"
proof -
  obtain u applied i p per t a ord1 ord3 d1 d2 where
    cl: "classify_order loc u (db_settings d) (apply_discounts u applied (new_order i p per t a now)) now d = Inr ord1"
    and pay: "pay_from_balance u (setOrderCommission u (db_settings d) d ord1) now d = Inr (ord3, d1)"
    and con: "consume_coupon applied now d1 = Inr d2" and ins: "insert_order ord3 d2 = Inr (o_id ord, d')"
    by (rule CreateOrder_stages [OF assms]) (rule that; assumption)
  have "o_commission_status ord3 \<noteq> 2" using created_order_frame [OF cl pay] by (simp add: order_frame_def)
  note ins' = insert_order_history [OF ins this]
  have "history d d1"
    using pay by (auto simp: pay_from_balance_def Let_def split: if_splits intro: update_users_history history.refl)
  also have "history d1 d2"
    using con by (auto simp: consume_coupon_def Let_def split: option.splits
        intro: update_coupons_history history.refl)
  also note ins'
  finally show ?thesis .
qed

lemma AssignOrder_history:
  assumes "AssignOrder uni random input now d = Inr (ord, d')"
  shows "history d d'"
proof -
  obtain i p per t a ty u where
    ins: "insert_new_order (setOrderCommission u (db_settings d) d ((new_order i p per t a now)\<lparr>o_type := ty\<rparr>)) d = Inr (ord, d')"
    using assms unfolding AssignOrder_def Let_def case_prod_unfold by (elim stageE) (rule that)
  have "o_commission_status (setOrderCommission u (db_settings d) d ((new_order i p per t a now)\<lparr>o_type := ty\<rparr>)) \<noteq> 2"
    using setOrderCommission_frame(1) [of "(new_order i p per t a now)\<lparr>o_type := ty\<rparr>" u "db_settings d" d]
    by (simp add: order_frame_def)
  then show ?thesis using ins
    by (auto simp: insert_new_order_def split: sum.splits intro: insert_order_history)
qed

lemma cancelOrderTx_history:
  assumes "cancelOrderTx ord now d = Inr (ord', d')"
  shows "history d d'"
proof -
  let ?p = "\<lambda>x. o_id x = o_id ord \<and> o_status x = OrderStatusPending"
  let ?f = "\<lambda>x. x\<lparr>o_status := OrderStatusCancelled, o_updated_at := unix now\<rparr>"
  obtain d1 where up: "update_orders ?p ?f d = Inr d1"
    and d': "d' = d1 \<or> (\<exists>p f. update_users p f d1 = Inr d' \<and> (\<forall>v. u_id (f v) = u_id v))"
    using assms unfolding cancelOrderTx_def Let_def
    by (elim stageE) (fastforce split: if_splits option.splits)
  have "history d d1"
    by (rule update_orders_history [OF up]) (auto simp: order_moves_def order_evolves_def order_terms_def)
  also have "history d1 d'" using d' by (auto intro: history.refl update_users_history)
  finally show ?thesis .
qed

lemma UpdateAdminOrderCommissionStatus_history:
  assumes "UpdateAdminOrderCommissionStatus tradeNo nxt now d = Inr (ord, d')"
  shows "history d d'"
proof -
  let ?p = "\<lambda>ord0 r. o_id r = o_id ord0 \<and> o_status r = OrderStatusCompleted \<and>
      o_commission_status r = o_commission_status ord0"
  let ?f = "\<lambda>r. r\<lparr>o_commission_status := nxt, o_updated_at := unix now\<rparr>"
  obtain ord0 d1 where n: "\<not> (\<not> validTradeNo tradeNo \<or> unix now < 0 \<or> nxt \<notin> {0, 1, 3})"
    and s: "\<not> (o_status ord0 \<noteq> OrderStatusCompleted \<or> o_commission_status ord0 = 2 \<or>
       o_invite_user_id ord0 = None \<or> o_commission_balance ord0 \<le> 0)"
    and up1: "update_orders (?p ord0) ?f d = Inr d1" and e: "Inr (?f ord0, d1) = (Inr (ord, d') :: store_error + _)"
    using assms unfolding UpdateAdminOrderCommissionStatus_def Let_def by (elim stageE) (rule that; assumption)
  from up1 e have "update_orders (?p ord0) ?f d = Inr d'" by simp
  then show ?thesis
    by (rule update_orders_history) (use s n in \<open>auto simp: order_moves_def order_evolves_def order_terms_def\<close>)
qed

lemma quarantine_upsert_history:
  "quarantine_upsert kind i reason t t' d = Inr d' \<Longrightarrow> history d d'"
  by (auto simp: quarantine_upsert_def Let_def split: if_splits
      intro: update_quarantine_history insert_quarantine_history)

lemma quarantine_clear_history: "history d (quarantine_clear kind i d)"
proof (rule history_frame)
  show "keeps_ok d (quarantine_clear kind i d)"
    by (auto simp: keeps_ok_def quarantine_clear_def db_ok_def holds_defs check_defs refs_defs seqs_ok_def
        list_all_iff quarantines_unique_def distinct_map_filter)
qed (simp_all add: quarantine_clear_def)

lemma stale_step_history:
  assumes "stale_step loc now ord (res, d) = Inr (res', d')"
  shows "history d d'"
proof -
  consider (cancelled) c d1 where "cancelOrderTx ord now d = Inr (c, d1)"
      "d' = quarantine_clear ''stale_order'' (o_id ord) d1"
    | (quarantined) kind i reason t t' where "quarantine_upsert kind i reason t t' d = Inr d'"
    | (completed) cb c ch where "completeOrderTx loc ord cb now d = Inr ((c, ch), d')"
    using assms by (auto simp: stale_step_def split: if_splits sum.splits)
  then show ?thesis
  proof cases
    case cancelled
    then show ?thesis
      using history.trans [OF cancelOrderTx_history [OF cancelled(1)] quarantine_clear_history] by simp
  next
    case quarantined
    then show ?thesis by (rule quarantine_upsert_history)
  next
    case completed
    then show ?thesis by (rule completeOrderTx_history)
  qed
qed

lemma ProcessStaleOrders_history:
  assumes "ProcessStaleOrders loc now limit d = Inr (res, d')"
  shows "history d d'"
proof -
  obtain xs res0 res1 where f: "efold (stale_step loc now) xs (res0, d) = Inr (res1, d')"
    using assms by (auto simp: ProcessStaleOrders_def)
  show ?thesis by (rule history.fold_with_counter_respects [OF f]) (erule stale_step_history)
qed

lemma CompleteOrder_history:
  "CompleteOrder loc tradeNo cb now d = Inr ((ord, ch), d') \<Longrightarrow> history d d'"
  by (auto simp: CompleteOrder_def split: if_splits intro: history.refl completeOrderTx_history)

lemma CompletePendingOrder_history:
  "CompletePendingOrder loc tradeNo cb now d = Inr ((ord, ch), d') \<Longrightarrow> history d d'"
  by (auto simp: CompletePendingOrder_def split: if_splits intro: completeOrderTx_history)

lemma CancelOrder_history: "CancelOrder userID tradeNo now d = Inr (ord, d') \<Longrightarrow> history d d'"
  by (auto simp: CancelOrder_def dest!: cancel_found_effect(1) intro: cancelOrderTx_history)

lemma CancelAdminOrder_history: "CancelAdminOrder tradeNo now d = Inr (ord, d') \<Longrightarrow> history d d'"
  by (auto simp: CancelAdminOrder_def dest!: cancel_found_effect(1) intro: cancelOrderTx_history)

end
