(* ===== verification/Checkout_Correct.thy ===== *)
theory Checkout_Correct
  imports Checkout Completion_Correct
begin

text \<open>
  What the payment checkout guarantees: the handling fee is exact, an attempt asks for exactly
  the order's total and its fee, a recorded response never changes, and a provider's webhook
  completes its order once however often it is delivered.
\<close>

section \<open>The handling fee\<close>

lemma split_percentage:
  fixes a b m :: int
  assumes "0 < m"
  shows "(a div m) * b + ((a mod m) * b + k) div m = (a * b + k) div m"
proof -
  have "a * b = (m * (a div m) + a mod m) * b" by simp
  then have "a * b + k = ((a mod m) * b + k) + m * ((a div m) * b)" by (simp only: algebra_simps)
  moreover have "(((a mod m) * b + k) + m * ((a div m) * b)) div m = (a div m) * b + ((a mod m) * b + k) div m"
    using assms by (intro div_mult_self2) simp
  ultimately show ?thesis by metis
qed

lemma PaymentHandlingFee_exact:
  assumes "money amount" and "money fixed" and "0 \<le> bp" and "bp \<le> 10000"
  shows "PaymentHandlingFee amount fixed bp =
    (let fee = (amount * bp + 5000) div 10000 + fixed in
     if fee > maxOrderMoneyCents then Inl ErrInvalidInput else Inr fee)"
proof -
  have a: "0 \<le> amount" "amount \<le> 9000000000000000" "0 \<le> fixed" "fixed \<le> 9000000000000000"
    using assms(1,2) by (simp_all add: money_def maxOrderMoneyCents_def)
  have q: "0 \<le> amount div 10000" "amount div 10000 \<le> 900000000000"
    using a zdiv_mono1 [of amount 9000000000000000 10000] by (simp_all add: pos_imp_zdiv_nonneg_iff)
  have r: "0 \<le> amount mod 10000" "amount mod 10000 < 10000" by simp_all
  have p1: "0 \<le> (amount div 10000) * bp" "(amount div 10000) * bp \<le> 900000000000 * 10000"
    using q assms(3,4) mult_mono [of "amount div 10000" 900000000000 bp 10000] by simp_all
  have p2: "0 \<le> (amount mod 10000) * bp" "(amount mod 10000) * bp \<le> 10000 * 10000"
    using r assms(3,4) mult_mono [of "amount mod 10000" 10000 bp 10000] by simp_all
  have d2: "0 \<le> ((amount mod 10000) * bp + 5000) div 10000" "((amount mod 10000) * bp + 5000) div 10000 \<le> 10001"
    using p2 zdiv_mono1 [of "(amount mod 10000) * bp + 5000" 100005000 10000] by (simp_all add: pos_imp_zdiv_nonneg_iff)
  have "i64 (i64 ((amount sdiv 10000) * bp) + i64 (i64 ((amount smod 10000) * bp) + 5000) sdiv 10000) =
      (amount * bp + 5000) div 10000"
    using a p1 p2 d2 split_percentage [of 10000 amount bp 5000]
    by (simp add: sdiv_nonneg smod_nonneg wrap_simps)
  moreover have "0 \<le> (amount * bp + 5000) div 10000" "(amount * bp + 5000) div 10000 \<le> 9000000000010001"
    using p1 p2 d2 split_percentage [of 10000 amount bp 5000] by simp_all
  ultimately show ?thesis using a assms(3,4)
    by (auto simp: PaymentHandlingFee_def Let_def maxOrderMoneyCents_def wrap_simps)
qed

lemma PaymentHandlingFee_bounds:
  assumes "PaymentHandlingFee amount fixed bp = Inr fee"
  shows "0 \<le> fee" and "fee \<le> maxOrderMoneyCents"
proof -
  have g: "money amount" "money fixed" "0 \<le> bp" "bp \<le> 10000"
    using assms by (auto simp: PaymentHandlingFee_def money_def split: if_splits)
  have "0 \<le> (amount * bp + 5000) div 10000" using g by (simp add: money_def pos_imp_zdiv_nonneg_iff)
  then show "0 \<le> fee" and "fee \<le> maxOrderMoneyCents"
    using assms g unfolding PaymentHandlingFee_exact [OF g] by (auto simp: Let_def money_def split: if_splits)
qed

section \<open>Attempts\<close>

lemma obtain_attempt_history:
  assumes "obtain_attempt random orderID paymentID expected now d = Inr ((a, cached), d')"
  shows "history d d'"
proof (cases "find_attempt orderID paymentID d")
  case None
  then show ?thesis using assms insert_attempt_history by (auto simp: obtain_attempt_def Let_def)
next
  case (Some b)
  show ?thesis
  proof (cases "a_status b = PaymentCheckoutCreated")
    case True
    then show ?thesis using assms Some by (auto simp: obtain_attempt_def intro: history.refl)
  next
    case False
    then have up: "update_attempts (\<lambda>r. a_id r = a_id b) (restart_attempt expected now) d = Inr d'"
      and one: "count_where (\<lambda>r. a_id r = a_id b) (db_attempts d) = 1"
      using assms Some by (auto simp: obtain_attempt_def split: if_splits)
    have b: "b \<in> set (db_attempts d)" using Some by (auto simp: find_attempt_def dest!: find_eq_Some_set)
    have "r = b" if "r \<in> set (db_attempts d)" "a_id r = a_id b" for r
      using count_where_one_unique [OF one that b] by simp
    then show ?thesis using False
      by (intro update_attempts_history [OF up]) (auto simp: attempt_evolves_def restart_attempt_def)
  qed
qed

lemma FailPaymentCheckout_history:
  assumes "FailPaymentCheckout attemptID key code now d = Inr d'"
  shows "history d d'"
  using assms unfolding FailPaymentCheckout_def Let_def
  by (elim stageE) (auto simp: attempt_evolves_def elim!: update_attempts_history)

lemma CompletePaymentCheckout_history:
  assumes "CompletePaymentCheckout attemptID key rt rd ext now d = Inr (a, d')"
  shows "history d d'"
  using assms unfolding CompletePaymentCheckout_def Let_def
  by (elim stageE) (auto simp: attempt_evolves_def intro: history.refl elim!: update_attempts_history split: if_splits)

lemma StartPaymentCheckout_stages:
  assumes "StartPaymentCheckout random input now d = Inr (st, d')"
  obtains ord meth fee a cached d1 where
    "find_order (\<lambda>r. o_user_id r = si_user_id input \<and> o_trade_no r = si_trade_no input) d = Inr ord"
    "o_status ord = OrderStatusPending" "o_total_amount ord > 0"
    "getPayment (si_payment_id input) d = Inr meth" "pay_enabled meth"
    "PaymentHandlingFee (o_total_amount ord) (pay_handling_fee_fixed meth) (pay_handling_fee_basis_points meth) = Inr fee"
    "o_total_amount ord \<le> i64 (maxOrderMoneyCents - fee)"
    "obtain_attempt random (o_id ord) (pay_id meth) (i64 (o_total_amount ord + fee)) now d = Inr ((a, cached), d1)"
    "cached \<longrightarrow> a_expected_amount a \<ge> o_total_amount ord"
    "update_orders (\<lambda>r. o_id r = o_id ord \<and> o_status r = OrderStatusPending)
       (\<lambda>r. r\<lparr>o_payment_id := Some (pay_id meth), o_handling_amount := nullablePositiveMoney
         (if cached then i64 (a_expected_amount a - o_total_amount ord) else fee), o_updated_at := unix now\<rparr>) d1 = Inr d'"
    "cs_attempt st = a" "cs_payment st = meth" "cs_cached st = cached"
    "cs_order st = ord\<lparr>o_payment_id := Some (pay_id meth), o_handling_amount :=
       (let f = (if cached then i64 (a_expected_amount a - o_total_amount ord) else fee) in if f > 0 then Some f else None),
       o_updated_at := unix now\<rparr>"
proof -
  obtain ord where f: "find_order (\<lambda>r. o_user_id r = si_user_id input \<and> o_trade_no r = si_trade_no input) d = Inr ord"
    using assms unfolding StartPaymentCheckout_def by (elim stageE)
  obtain meth where m: "getPayment (si_payment_id input) d = Inr meth"
    using assms f unfolding StartPaymentCheckout_def by (elim stageE) auto
  obtain code where c: "TrustedPluginCodeForPaymentProvider (pay_provider meth) = Some code"
    using assms f m unfolding StartPaymentCheckout_def by (auto split: option.splits if_splits)
  show thesis
    using assms unfolding StartPaymentCheckout_def f m ebind_simps map_error_simps c option.case Let_def
    by (elim stageE) (rule that [OF f _ _ m], auto)
qed

lemma StartPaymentCheckout_history:
  assumes "StartPaymentCheckout random input now d = Inr (st, d')"
  shows "history d d'"
proof -
  obtain i p a x cached d1 q f where ob: "obtain_attempt random i p a now d = Inr ((x, cached), d1)"
    and up: "update_orders q (\<lambda>r. r\<lparr>o_payment_id := Some p, o_handling_amount := f, o_updated_at := unix now\<rparr>) d1 = Inr d'"
    by (rule StartPaymentCheckout_stages [OF assms]) (rule that; assumption)
  note obtain_attempt_history [OF ob]
  also have "history d1 d'"
    by (rule update_orders_history [OF up]) (simp_all add: order_moves_def order_evolves_def order_terms_def)
  finally show ?thesis .
qed

section \<open>The webhook\<close>

lemma settle_webhook_stages:
  assumes "settle_webhook loc notify meth ord input now d = Inr (ord', d')"
  obtains d1 where
    "insert_receipt \<lparr>rc_payment_id = wi_payment_id input, rc_order_id = o_id ord, rc_provider = wi_provider input,
        rc_external_id = wi_external_id input, rc_trade_no = wi_trade_no input, rc_amount = wi_amount input,
        rc_currency = wi_currency input, rc_payload_sha256 = wi_payload_sha256 input,
        rc_received_at = unix now\<rparr> d = Inr d1"
    "(o_status ord = OrderStatusCompleted \<and> d' = d1 \<and> ord' = ord) \<or>
     (\<exists>d2 ch. update_orders (\<lambda>r. o_id r = o_id ord \<and> order_active r)
         (\<lambda>r. r\<lparr>o_payment_id := Some (wi_payment_id input),
                o_handling_amount := nullablePositiveMoney (i64 (wi_amount input - o_total_amount ord)),
                o_updated_at := unix now\<rparr>) d1 = Inr d2 \<and>
       completeOrderTx loc (ord\<lparr>o_payment_id := Some (wi_payment_id input),
           o_handling_amount := (if i64 (wi_amount input - o_total_amount ord) > 0
             then Some (i64 (wi_amount input - o_total_amount ord)) else None),
           o_updated_at := unix now\<rparr>) (wi_external_id input) now d2 = Inr ((ord', ch), d'))"
  using assms unfolding settle_webhook_def Let_def
  by (elim stageE) (rule that, assumption, fastforce split: if_splits)

lemma settle_webhook_parts:
  assumes "settle_webhook loc notify meth ord input now d = Inr (ord', d')"
  obtains rc d1 where "insert_receipt rc d = Inr d1" and "history d1 d'"
proof -
  obtain rc d1 where ins: "insert_receipt rc d = Inr d1"
    and rest: "d' = d1 \<or> (\<exists>d2 p x y ord1 ch. update_orders p (\<lambda>r. r\<lparr>o_payment_id := x,
        o_handling_amount := y, o_updated_at := unix now\<rparr>) d1 = Inr d2 \<and>
        completeOrderTx loc ord1 (wi_external_id input) now d2 = Inr ((ord', ch), d'))"
    by (rule settle_webhook_stages [OF assms]) (rule that, assumption, blast)
  have "history d1 d'"
  proof (cases "d' = d1")
    case True
    then show ?thesis by (simp add: history.refl)
  next
    case False
    then obtain d2 p x y ord1 ch where up: "update_orders p (\<lambda>r. r\<lparr>o_payment_id := x,
        o_handling_amount := y, o_updated_at := unix now\<rparr>) d1 = Inr d2"
      and c: "completeOrderTx loc ord1 (wi_external_id input) now d2 = Inr ((ord', ch), d')"
      using rest by blast
    have "history d1 d2"
      by (rule update_orders_history [OF up]) (simp_all add: order_moves_def order_evolves_def order_terms_def)
    also note completeOrderTx_history [OF c]
    finally show ?thesis .
  qed
  then show thesis by (rule that [OF ins])
qed

lemma settle_webhook_effect:
  assumes r: "settle_webhook loc notify meth ord input now d = Inr (ord', d')" and ok: "db_ok d"
    and o: "ord \<in> set (db_orders d)"
    and amount: "o_total_amount ord \<le> wi_amount input" "wi_amount input \<le> maxOrderMoneyCents"
  obtains row us os es where
    "d' = d\<lparr>db_receipts := db_receipts d @ [\<lparr>rc_payment_id = wi_payment_id input, rc_order_id = o_id ord,
        rc_provider = wi_provider input, rc_external_id = wi_external_id input, rc_trade_no = wi_trade_no input,
        rc_amount = wi_amount input, rc_currency = wi_currency input,
        rc_payload_sha256 = wi_payload_sha256 input, rc_received_at = unix now\<rparr>],
        db_users := us, db_orders := os, db_events := es\<rparr>"
    "row \<in> set (db_orders d')" "order_evolves ord row" "o_status row = OrderStatusCompleted"
proof -
  let ?rc = "\<lparr>rc_payment_id = wi_payment_id input, rc_order_id = o_id ord, rc_provider = wi_provider input,
        rc_external_id = wi_external_id input, rc_trade_no = wi_trade_no input, rc_amount = wi_amount input,
        rc_currency = wi_currency input, rc_payload_sha256 = wi_payload_sha256 input, rc_received_at = unix now\<rparr>"
  let ?h = "i64 (wi_amount input - o_total_amount ord)"
  let ?ord1 = "ord\<lparr>o_payment_id := Some (wi_payment_id input),
      o_handling_amount := (if ?h > 0 then Some ?h else None), o_updated_at := unix now\<rparr>"
  let ?p = "\<lambda>r. o_id r = o_id ord \<and> order_active r"
  let ?f = "\<lambda>r. r\<lparr>o_payment_id := Some (wi_payment_id input), o_handling_amount := nullablePositiveMoney ?h,
      o_updated_at := unix now\<rparr>"
  obtain d1 where ins: "insert_receipt ?rc d = Inr d1"
    and rest: "(o_status ord = OrderStatusCompleted \<and> d' = d1 \<and> ord' = ord) \<or>
     (\<exists>d2 ch. update_orders ?p ?f d1 = Inr d2 \<and>
       completeOrderTx loc ?ord1 (wi_external_id input) now d2 = Inr ((ord', ch), d'))"
    by (rule settle_webhook_stages [OF r])
  have d1: "d1 = d\<lparr>db_receipts := db_receipts d @ [?rc]\<rparr>" using ins by (auto simp: insert_receipt_Inr)
  note ok1 = history_core_ok [OF insert_receipt_core [OF ins] ok]
  show thesis
  proof (cases "o_status ord = OrderStatusCompleted \<and> d' = d1")
    case True
    then have "d' = d\<lparr>db_receipts := db_receipts d @ [?rc], db_users := db_users d, db_orders := db_orders d,
        db_events := db_events d\<rparr>" by (simp add: d1)
    then show thesis by (rule that [where row = ord]) (use True o d1 in simp_all)
  next
    case False
    then obtain d2 ch where up: "update_orders ?p ?f d1 = Inr d2"
      and c: "completeOrderTx loc ?ord1 (wi_external_id input) now d2 = Inr ((ord', ch), d')"
      using rest by blast
    have h2: "history d1 d2" by (rule update_orders_history [OF up]) (simp_all add: order_moves_def order_evolves_def order_terms_def)
    have "0 \<le> ?h"
      using amount order_ok_member [OF ok o] by (simp add: order_ok_def money_def maxOrderMoneyCents_def wrap_simps)
    then have f: "?f ord = ?ord1" by (auto simp: nullablePositiveMoney_def)
    have "order_active ?ord1" by (rule completeOrderTx_stages [OF c])
    then have "?ord1 \<in> set (db_orders d2)"
      using up o f by (auto simp: d1 update_orders_Inr update_where_def image_iff order_active_def intro!: bexI [of _ ord])
    then obtain row where row: "row \<in> set (db_orders d')" "o_status row = OrderStatusCompleted" "order_evolves ?ord1 row"
      using completed_row [OF c history_ok [OF h2 ok1]] by blast
    have ev: "order_evolves ord ?ord1" by (simp add: order_evolves_def order_terms_def)
    obtain us os es where "d' = d2\<lparr>db_users := us, db_orders := os, db_events := es\<rparr>"
      by (rule completeOrderTx_frame [OF c])
    moreover obtain os2 where "d2 = d1\<lparr>db_orders := os2\<rparr>" using up by (auto simp: update_orders_Inr)
    ultimately have "d' = d\<lparr>db_receipts := db_receipts d @ [?rc], db_users := us, db_orders := os, db_events := es\<rparr>"
      by (simp add: d1)
    then show thesis by (rule that [where row = row]) (use row order_evolves_trans [OF ev row(3)] in simp_all)
  qed
qed

text \<open>What the webhook validated before it settles, as one record of facts.\<close>

definition normalize_webhook :: "(string \<Rightarrow> string) \<Rightarrow> (string \<Rightarrow> string) \<Rightarrow> webhook_input \<Rightarrow> webhook_input" where
  "normalize_webhook upper lower raw = raw\<lparr>wi_external_id := TrimSpace (wi_external_id raw),
     wi_currency := ToUpper upper (TrimSpace (wi_currency raw)),
     wi_payload_sha256 := ToLower lower (TrimSpace (wi_payload_sha256 raw))\<rparr>"

definition webhook_valid :: "webhook_input \<Rightarrow> bool" where
  "webhook_valid input \<longleftrightarrow>
     \<not> (wi_payment_id input < 1 \<or> wi_provider input \<notin> set paymentProviders \<or>
         \<not> validExternalPaymentID (wi_external_id input) \<or> \<not> validTradeNo (wi_trade_no input) \<or>
         wi_amount input < 1 \<or> wi_amount input > maxOrderMoneyCents \<or>
         \<not> validPaymentCurrency (wi_currency input) \<or> \<not> validLowerHex (wi_payload_sha256 input) 64)"

lemma CompletePaymentWebhook_Inr:
  "CompletePaymentWebhook loc upper lower notify raw now d = Inr (ord', d') \<longleftrightarrow>
   (let input = normalize_webhook upper lower raw in
    webhook_valid input \<and> 0 \<le> unix now \<and> wi_currency input = ''CNY'' \<and>
    (\<exists>meth ord a. getPayment (wi_payment_id input) d = Inr meth \<and> pay_provider meth = wi_provider input \<and>
      find_order (\<lambda>r. o_trade_no r = wi_trade_no input) d = Inr ord \<and>
      List.find (\<lambda>a. a_order_id a = o_id ord \<and> a_payment_id a = wi_payment_id input \<and>
                      a_currency a = wi_currency input) (db_attempts d) = Some a \<and>
      a_expected_amount a = wi_amount input \<and> o_total_amount ord \<le> wi_amount input \<and>
      (case getPaymentReceipt (wi_payment_id input) (wi_external_id input) d of
         None \<Rightarrow> settle_webhook loc notify meth ord input now d = Inr (ord', d')
       | Some r \<Rightarrow> rc_order_id r = o_id ord \<and> rc_provider r = wi_provider input \<and>
           rc_trade_no r = wi_trade_no input \<and> rc_amount r = wi_amount input \<and>
           rc_currency r = wi_currency input \<and> ord' = ord \<and> d' = d)))"
proof -
  define input where "input = normalize_webhook upper lower raw"
  have guard: "(wi_payment_id input < 1 \<or> wi_provider input \<notin> set paymentProviders \<or>
         \<not> validExternalPaymentID (wi_external_id input) \<or> \<not> validTradeNo (wi_trade_no input) \<or>
         wi_amount input < 1 \<or> wi_amount input > maxOrderMoneyCents \<or>
         \<not> validPaymentCurrency (wi_currency input) \<or> \<not> validLowerHex (wi_payload_sha256 input) 64 \<or> unix now < 0)
       = (\<not> (webhook_valid input \<and> 0 \<le> unix now))"
    by (auto simp: webhook_valid_def)
  show ?thesis
  proof (cases "getPayment (wi_payment_id input) d"; cases "find_order (\<lambda>r. o_trade_no r = wi_trade_no input) d")
    fix meth ord
    assume m: "getPayment (wi_payment_id input) d = Inr meth"
      and o: "find_order (\<lambda>r. o_trade_no r = wi_trade_no input) d = Inr ord"
    show ?thesis
      unfolding CompletePaymentWebhook_def normalize_webhook_def [symmetric] input_def [symmetric] Let_def guard m o
      by (cases "List.find (\<lambda>a. a_order_id a = o_id ord \<and> a_payment_id a = wi_payment_id input \<and>
            a_currency a = wi_currency input) (db_attempts d)";
          cases "getPaymentReceipt (wi_payment_id input) (wi_external_id input) d") auto
  qed (simp_all add: CompletePaymentWebhook_def normalize_webhook_def [symmetric] input_def [symmetric] Let_def guard)
qed

lemma settle_webhook_history:
  assumes r: "settle_webhook loc notify meth ord input now d = Inr (ord', d')"
    and o: "ord \<in> set (db_orders d)"
    and amount: "o_total_amount ord \<le> wi_amount input" "wi_amount input \<le> maxOrderMoneyCents"
  shows "history d d'"
proof -
  obtain rc d1 where ins: "insert_receipt rc d = Inr d1" and h: "history d1 d'"
    by (rule settle_webhook_parts [OF r])
  note ins' = insert_receipt_core [OF ins]
  have core: "history_core d d'" by (rule history_core.trans [OF ins' history_coreD [OF h]])
  have "commissions_booked d'" if "db_ok d" "commissions_booked d"
    using that ins history_settled(1) [OF h history_core_ok [OF ins']]
    by (auto simp: commissions_booked_def insert_receipt_Inr)
  moreover have "receipts_settled d'" if ok: "db_ok d" and rs: "receipts_settled d"
  proof -
    obtain row new where new: "db_receipts d' = db_receipts d @ [new]" "rc_order_id new = o_id ord"
      and row: "row \<in> set (db_orders d')" "order_evolves ord row" "o_status row = OrderStatusCompleted"
      by (rule settle_webhook_effect [OF r ok o amount]) (rule that, simp, simp, assumption+)
    have "receipt_settled (db_orders d') new"
      using row new(2) order_evolves_fields(1) [OF row(2)] by (auto simp: receipt_settled_def exists_where_iff)
    then show ?thesis
      using rs new(1) receipt_settled_evolves [of d d'] core
      by (auto simp: receipts_settled_def list_all_iff history_core_def)
  qed
  moreover have "gifts_counted d'" if "db_ok d" "gifts_counted d"
    using that ins history_settled(3) [OF h history_core_ok [OF ins']]
    by (auto simp: gifts_counted_def insert_receipt_Inr)
  ultimately show ?thesis using core by (auto simp: history_def keeps_settled_def intro: history_core_ok)
qed

lemma CompletePaymentWebhook_history:
  "CompletePaymentWebhook loc upper lower notify raw now d = Inr (ord', d') \<Longrightarrow> history d d'"
  by (auto simp: CompletePaymentWebhook_Inr Let_def webhook_valid_def split: option.splits
      intro: history.refl settle_webhook_history dest: find_order_Inr)

text \<open>
  After a delivery the receipt of the payment is on record, for the order it names and the
  amount delivered.
\<close>

lemma webhook_recorded:
  assumes r: "CompletePaymentWebhook loc upper lower notify raw now d = Inr (ord', d')" and ok: "db_ok d"
    and input: "input = normalize_webhook upper lower raw"
  obtains rc meth row a where
    "getPaymentReceipt (wi_payment_id input) (wi_external_id input) d' = Some rc"
    "rc_order_id rc = o_id row" "rc_provider rc = wi_provider input"
    "rc_trade_no rc = wi_trade_no input" "rc_amount rc = wi_amount input" "rc_currency rc = wi_currency input"
    "getPayment (wi_payment_id input) d' = Inr meth" "pay_provider meth = wi_provider input"
    "row \<in> set (db_orders d')" "o_trade_no row = wi_trade_no input" "o_total_amount row \<le> wi_amount input"
    "List.find (\<lambda>a. a_order_id a = o_id row \<and> a_payment_id a = wi_payment_id input \<and>
        a_currency a = wi_currency input) (db_attempts d') = Some a" "a_expected_amount a = wi_amount input"
    "getPaymentReceipt (wi_payment_id input) (wi_external_id input) d = None \<longrightarrow> o_status row = OrderStatusCompleted"
proof -
  obtain meth ord a where v: "webhook_valid input"
    and m: "getPayment (wi_payment_id input) d = Inr meth" "pay_provider meth = wi_provider input"
    and f: "find_order (\<lambda>r. o_trade_no r = wi_trade_no input) d = Inr ord"
    and a: "List.find (\<lambda>a. a_order_id a = o_id ord \<and> a_payment_id a = wi_payment_id input \<and>
                      a_currency a = wi_currency input) (db_attempts d) = Some a" "a_expected_amount a = wi_amount input"
    and amt: "o_total_amount ord \<le> wi_amount input"
    and c: "case getPaymentReceipt (wi_payment_id input) (wi_external_id input) d of
         None \<Rightarrow> settle_webhook loc notify meth ord input now d = Inr (ord', d')
       | Some r \<Rightarrow> rc_order_id r = o_id ord \<and> rc_provider r = wi_provider input \<and>
           rc_trade_no r = wi_trade_no input \<and> rc_amount r = wi_amount input \<and>
           rc_currency r = wi_currency input \<and> ord' = ord \<and> d' = d"
    using r unfolding CompletePaymentWebhook_Inr Let_def input [symmetric] by blast
  note o = find_order_Inr [OF f]
  show thesis
  proof (cases "getPaymentReceipt (wi_payment_id input) (wi_external_id input) d")
    case (Some rc)
    then show thesis using c m a amt o by (intro that [of rc ord meth a]) simp_all
  next
    case None
    then have s: "settle_webhook loc notify meth ord input now d = Inr (ord', d')" using c by simp
    have "wi_amount input \<le> maxOrderMoneyCents" using v by (auto simp: webhook_valid_def)
    then obtain row us os es where
      d': "d' = d\<lparr>db_receipts := db_receipts d @ [\<lparr>rc_payment_id = wi_payment_id input, rc_order_id = o_id ord,
        rc_provider = wi_provider input, rc_external_id = wi_external_id input, rc_trade_no = wi_trade_no input,
        rc_amount = wi_amount input, rc_currency = wi_currency input,
        rc_payload_sha256 = wi_payload_sha256 input, rc_received_at = unix now\<rparr>],
        db_users := us, db_orders := os, db_events := es\<rparr>"
      and row: "row \<in> set (db_orders d')" "order_evolves ord row" "o_status row = OrderStatusCompleted"
      using settle_webhook_effect [OF s ok _ amt] o by metis
    note e = order_evolves_fields [OF row(2)]
    let ?rc = "\<lparr>rc_payment_id = wi_payment_id input, rc_order_id = o_id ord,
        rc_provider = wi_provider input, rc_external_id = wi_external_id input, rc_trade_no = wi_trade_no input,
        rc_amount = wi_amount input, rc_currency = wi_currency input,
        rc_payload_sha256 = wi_payload_sha256 input, rc_received_at = unix now\<rparr>"
    show thesis
      by (rule that [of ?rc row meth a])
         (use None m a amt o row e in \<open>simp_all add: d' getPaymentReceipt_def getPayment_def find_append\<close>)
  qed
qed

text \<open>A delivery repeated changes nothing and answers with the order.\<close>

lemma webhook_replay:
  assumes r: "CompletePaymentWebhook loc upper lower notify raw now d = Inr (ord', d')" and ok: "db_ok d"
    and t: "0 \<le> unix later"
  shows "\<exists>row. CompletePaymentWebhook loc upper lower notify' raw later d' = Inr (row, d') \<and>
    row \<in> set (db_orders d') \<and> o_trade_no row = wi_trade_no raw"
proof -
  let ?input = "normalize_webhook upper lower raw"
  have v: "webhook_valid ?input" "wi_currency ?input = ''CNY''" using r by (simp_all add: CompletePaymentWebhook_Inr Let_def)
  obtain rc meth row a where w:
    "getPaymentReceipt (wi_payment_id ?input) (wi_external_id ?input) d' = Some rc"
    "rc_order_id rc = o_id row" "rc_provider rc = wi_provider ?input"
    "rc_trade_no rc = wi_trade_no ?input" "rc_amount rc = wi_amount ?input" "rc_currency rc = wi_currency ?input"
    "getPayment (wi_payment_id ?input) d' = Inr meth" "pay_provider meth = wi_provider ?input"
    "row \<in> set (db_orders d')" "o_trade_no row = wi_trade_no ?input" "o_total_amount row \<le> wi_amount ?input"
    "List.find (\<lambda>a. a_order_id a = o_id row \<and> a_payment_id a = wi_payment_id ?input \<and>
        a_currency a = wi_currency ?input) (db_attempts d') = Some a" "a_expected_amount a = wi_amount ?input"
    by (rule webhook_recorded [OF r ok refl]) (rule that; assumption)
  have "find_order (\<lambda>x. o_trade_no x = wi_trade_no ?input) d' = Inr row"
    using find_by_trade_no [OF history_ok [OF CompletePaymentWebhook_history [OF r] ok] w(9)] w(10) by simp
  then have "CompletePaymentWebhook loc upper lower notify' raw later d' = Inr (row, d')"
    using v t w unfolding CompletePaymentWebhook_Inr Let_def by fastforce
  then show ?thesis using w(9,10) by (simp add: normalize_webhook_def)
qed

end
