(* ===== verification/Commissions.thy ===== *)
theory Commissions
  imports Orders
begin

text \<open>
  Commissions (\<^verbatim>\<open>internal/store/commissions.go\<close>): the summary an inviter sees, moving commission
  into the balance, paying an order's commission up the chain of inviters, and the batch that
  confirms and pays due commissions, setting aside the orders it cannot pay.
\<close>

section \<open>Definitions\<close>

definition commissionShare :: "int \<Rightarrow> int \<Rightarrow> int" where
  "commissionShare amount percentage =
     (if amount \<le> 0 \<or> percentage \<le> 0 then 0 else i64 (amount * percentage) sdiv 100)"

record commission_summary =
  sm_available_commission :: int
  sm_commission_rate :: int
  sm_distribution_enabled :: bool
  sm_withdrawal_enabled :: bool
  sm_distribution_rates :: "int list"
  sm_invited_count :: int
  sm_valid_commission :: int
  sm_pending_commission :: int

definition populateInvitationCommissionSummary :: "int \<Rightarrow> db \<Rightarrow> store_error + commission_summary" where
  "populateInvitationCommissionSummary ownerID d =
     (if ownerID < 1 then Inl ErrInvalidInput else
      ebind (of_option ErrNotFound
        (List.find (\<lambda>u. u_id u = ownerID \<and> u_account_kind u = AccountKindHuman) (db_users d))) (\<lambda>u.
      let st = db_settings d;
          rate = (case u_commission_rate u of
                    Some r \<Rightarrow> (if r > 0 then r else s_invite_commission st)
                  | None \<Rightarrow> s_invite_commission st);
          enabled = s_commission_distribution_enable st;
          pending = sum_list (map o_commission_balance (filter (\<lambda>ord.
            o_invite_user_id ord = Some ownerID \<and> o_status ord = OrderStatusCompleted \<and>
            o_commission_status ord = 0) (db_orders d)))
      in Inr \<lparr>sm_available_commission = u_commission_balance u, sm_commission_rate = rate,
              sm_distribution_enabled = enabled,
              sm_withdrawal_enabled = (\<not> s_withdraw_close_enable st),
              sm_distribution_rates = (if enabled then
                [commissionShare rate (s_commission_distribution_l1 st),
                 commissionShare rate (s_commission_distribution_l2 st),
                 commissionShare rate (s_commission_distribution_l3 st)] else []),
              sm_invited_count = int (count_where (\<lambda>v. u_invite_user_id v = Some ownerID) (db_users d)),
              sm_valid_commission = sum_list (map cl_get_amount (filter (\<lambda>l.
                cl_invite_user_id l = ownerID) (db_commission_logs d))),
              sm_pending_commission =
                (if enabled then commissionShare pending (s_commission_distribution_l1 st) else pending)\<rparr>))"

definition ListCommissionLogs ::
  "int \<Rightarrow> int \<Rightarrow> int \<Rightarrow> db \<Rightarrow> store_error + commission_log list \<times> int" where
  "ListCommissionLogs ownerID page pageSize d =
     (if ownerID < 1 \<or> page < 1 \<or> page > 1000000 \<or> pageSize < 1 \<or> pageSize > 100 then Inl ErrInvalidInput else
      let own = filter (\<lambda>l. cl_invite_user_id l = ownerID) (db_commission_logs d);
          offset = i64 ((page - 1) * pageSize) in
      Inr (take (nat pageSize) (drop (nat offset) (rev (order_by cl_created_at own))), int (length own)))"

definition TransferCommission :: "int \<Rightarrow> int \<Rightarrow> instant \<Rightarrow> db \<Rightarrow> store_error + (int \<times> int) \<times> db" where
  "TransferCommission userID amount now d =
     (if userID < 1 \<or> amount < 1 \<or> amount > maxOrderMoneyCents \<or> unix now < 0 then Inl ErrInvalidInput else
      let payer = (\<lambda>u. u_id u = userID \<and> u_account_kind u = AccountKindHuman \<and>
                       u_commission_balance u \<ge> amount \<and> u_balance u \<le> i64 (maxOrderMoneyCents - amount)) in
      ebind (update_users payer
        (\<lambda>u. u\<lparr>u_commission_balance := u_commission_balance u - amount, u_balance := u_balance u + amount,
               u_updated_at := unix now\<rparr>) d) (\<lambda>d1.
      if count_where payer (db_users d) \<noteq> 1 then
        (if exists_where (\<lambda>u. u_id u = userID \<and> u_account_kind u = AccountKindHuman) (db_users d1)
         then Inl ErrInsufficientCommission else Inl ErrNotFound)
      else
        ebind (of_option ErrDatabase (List.find (\<lambda>u. u_id u = userID) (db_users d1))) (\<lambda>u.
        Inr ((u_commission_balance u, u_balance u), d1))))"

text \<open>One inviter is credited on the balance when withdrawals are closed, else on the commission.\<close>

definition credit_recipient :: "bool \<Rightarrow> int \<Rightarrow> int \<Rightarrow> instant \<Rightarrow> db \<Rightarrow> store_error + db" where
  "credit_recipient withdrawClosed share inviterID now d =
     (let room = (\<lambda>u. u_id u = inviterID \<and>
            (if withdrawClosed then u_balance u else u_commission_balance u) \<le> i64 (maxOrderMoneyCents - share)) in
      ebind (update_users room
        (\<lambda>u. if withdrawClosed then u\<lparr>u_balance := u_balance u + share, u_updated_at := unix now\<rparr>
             else u\<lparr>u_commission_balance := u_commission_balance u + share, u_updated_at := unix now\<rparr>) d) (\<lambda>d1.
      if count_where room (db_users d) \<noteq> 1 then Inl ErrCommissionBalanceLimit else Inr d1))"

fun settle_levels ::
  "order \<Rightarrow> int list \<Rightarrow> bool \<Rightarrow> instant \<Rightarrow> int \<Rightarrow> int list \<Rightarrow> int \<Rightarrow> db \<Rightarrow> store_error + int \<times> db" where
  "settle_levels ord [] withdrawClosed now inviterID seen actual d = Inr (actual, d)"
| "settle_levels ord (percentage # levels) withdrawClosed now inviterID seen actual d =
     (if inviterID < 1 then Inr (actual, d)
      else if inviterID \<in> set seen then Inl ErrCommissionCycle
      else case List.find (\<lambda>u. u_id u = inviterID) (db_users d) of
             None \<Rightarrow> Inr (actual, d)
           | Some inviter \<Rightarrow>
               if u_account_kind inviter \<noteq> AccountKindHuman then Inr (actual, d) else
               let share = commissionShare (o_commission_balance ord) percentage;
                   parent = (case u_invite_user_id inviter of None \<Rightarrow> 0 | Some i \<Rightarrow> i) in
               if share > 0 then
                 ebind (credit_recipient withdrawClosed share inviterID now d) (\<lambda>d1.
                 ebind (insert_commission_log
                   \<lparr>cl_order_id = o_id ord, cl_invite_user_id = inviterID, cl_user_id = o_user_id ord,
                    cl_trade_no = o_trade_no ord, cl_order_amount = o_total_amount ord, cl_get_amount = share,
                    cl_created_at = unix now\<rparr> d1) (\<lambda>d2.
                 settle_levels ord levels withdrawClosed now parent (inviterID # seen) (i64 (actual + share)) d2))
               else settle_levels ord levels withdrawClosed now parent (inviterID # seen) actual d)"

definition settleOrderCommissionTx :: "order \<Rightarrow> int list \<Rightarrow> bool \<Rightarrow> instant \<Rightarrow> db \<Rightarrow> store_error + db" where
  "settleOrderCommissionTx ord levels withdrawClosed now d =
     ebind (settle_levels ord levels withdrawClosed now
              (case o_invite_user_id ord of None \<Rightarrow> 0 | Some i \<Rightarrow> i) [] 0 d) (\<lambda>(actual, d1).
     let payable = (\<lambda>r. o_id r = o_id ord \<and> o_commission_status r = 1) in
     ebind (update_orders payable
       (\<lambda>r. r\<lparr>o_commission_status := 2, o_actual_commission_balance := Some actual, o_updated_at := unix now\<rparr>) d1) (\<lambda>d2.
     if count_where payable (db_orders d1) \<noteq> 1 then Inl ErrInternal else Inr d2))"

record commission_result =
  cr_checked :: int
  cr_paid :: int
  cr_quarantined :: int
  cr_remaining :: int

definition commission_payable :: "instant \<Rightarrow> db \<Rightarrow> order \<Rightarrow> bool" where
  "commission_payable now d ord \<longleftrightarrow>
     o_status ord = OrderStatusCompleted \<and> o_commission_status ord = 1 \<and> o_invite_user_id ord \<noteq> None \<and>
     \<not> quarantined_until ''commission'' (o_id ord) (unix now) d"

definition due_for_confirmation :: "instant \<Rightarrow> int \<Rightarrow> db \<Rightarrow> order list" where
  "due_for_confirmation now limit d =
     take (nat limit) (order_by o_updated_at (filter (\<lambda>ord. o_status ord = OrderStatusCompleted \<and>
       o_commission_status ord = 0 \<and> o_invite_user_id ord \<noteq> None \<and>
       o_updated_at ord \<le> unix (now - seconds 259200)) (db_orders d)))"

definition confirm_due :: "bool \<Rightarrow> instant \<Rightarrow> int \<Rightarrow> db \<Rightarrow> store_error + int \<times> db" where
  "confirm_due autoCheck now limit d =
     (if \<not> autoCheck then Inr (0, d) else
      let due = map o_id (due_for_confirmation now limit d) in
      ebind (update_orders (\<lambda>r. o_id r \<in> set due)
        (\<lambda>r. r\<lparr>o_commission_status := 1, o_updated_at := unix now\<rparr>) d) (\<lambda>d1.
      Inr (int (count_where (\<lambda>r. o_id r \<in> set due) (db_orders d)), d1)))"

definition quarantine_reason :: "store_error \<Rightarrow> string" where
  "quarantine_reason e =
     (if e = ErrCommissionCycle then ''cyclic_invitation_relationship''
      else if e = ErrCommissionBalanceLimit then ''commission_balance_limit_exceeded'' else [])"

definition commission_step ::
  "int list \<Rightarrow> bool \<Rightarrow> instant \<Rightarrow> order \<Rightarrow> commission_result \<times> db \<Rightarrow> store_error + commission_result \<times> db" where
  "commission_step levels withdrawClosed now ord = (\<lambda>(res, d).
     case settleOrderCommissionTx ord levels withdrawClosed now d of
       Inr d1 \<Rightarrow> Inr (res\<lparr>cr_paid := cr_paid res + 1\<rparr>, quarantine_clear ''commission'' (o_id ord) d1)
     | Inl e \<Rightarrow>
         if quarantine_reason e = [] then Inl e else
         ebind (quarantine_upsert ''commission'' (o_id ord) (quarantine_reason e)
                  (unix now) (unix (now + seconds 3600)) d) (\<lambda>d1.
         Inr (res\<lparr>cr_quarantined := cr_quarantined res + 1\<rparr>, d1)))"

definition ProcessCommissions :: "instant \<Rightarrow> int \<Rightarrow> db \<Rightarrow> store_error + commission_result \<times> db" where
  "ProcessCommissions now limit d =
     (if unix now < 0 \<or> limit < 1 \<or> limit > 1000 then Inl ErrInvalidInput else
      let st = db_settings d;
          l1 = s_commission_distribution_l1 st; l2 = s_commission_distribution_l2 st;
          l3 = s_commission_distribution_l3 st in
      if l1 < 0 \<or> l2 < 0 \<or> l3 < 0 \<or> i64 (i64 (l1 + l2) + l3) > 100 then Inl ErrInvalidInput else
      let levels = (if s_commission_distribution_enable st then [l1, l2, l3] else [100]) in
      ebind (confirm_due (s_commission_auto_check_enable st) now limit d) (\<lambda>(checked, d1).
      ebind (efold (commission_step levels (s_withdraw_close_enable st) now)
        (take (nat limit) (order_by o_updated_at (filter (commission_payable now d1) (db_orders d1))))
        (\<lparr>cr_checked = checked, cr_paid = 0, cr_quarantined = 0, cr_remaining = 0\<rparr>, d1)) (\<lambda>(res, d2).
      Inr (res\<lparr>cr_remaining := int (count_where (commission_payable now d2) (db_orders d2))\<rparr>, d2))))"

end
