(* ===== verification/Commissions_Correct.thy ===== *)
theory Commissions_Correct
  imports Commissions Completion_Correct
begin

text \<open>
  What the commissions guarantee: the shares of the levels never exceed the commission of the
  order, every unit credited to an inviter is in a log of the order, an order is paid once, and a
  transfer moves commission into the balance without creating money.
\<close>

section \<open>Shares\<close>

lemma commissionShare_exact:
  assumes "money a" and "0 \<le> p" and "p \<le> 100"
  shows "commissionShare a p = a * p div 100"
proof -
  have "0 \<le> a * p" "a * p \<le> 9000000000000000 * 100"
    using assms mult_mono [of a 9000000000000000 p 100] by (simp_all add: money_def maxOrderMoneyCents_def)
  then have "i64 (a * p) sdiv 100 = a * p div 100" by (simp add: i64_id sdiv_nonneg)
  then show ?thesis using assms by (auto simp: commissionShare_def money_def)
qed

lemma floor_sum_le:
  fixes a m :: int
  assumes "0 < m" and "\<forall>p\<in>set ps. 0 \<le> p"
  shows "m * sum_list (map (\<lambda>p. a * p div m) ps) \<le> a * sum_list ps"
  using assms
proof (induction ps)
  case (Cons p ps)
  have "m * (a * p div m) \<le> a * p"
    using assms(1) by (metis mult.commute mult_div_mod_eq add_le_same_cancel1 pos_mod_sign le_add_same_cancel1)
  then show ?case using Cons by (simp add: algebra_simps)
qed simp

lemma shares_le:
  assumes "money a" and "\<forall>p\<in>set ps. 0 \<le> p" and "sum_list ps \<le> 100"
  shows "sum_list (map (commissionShare a) ps) \<le> a"
proof -
  have "p \<le> sum_list ps" if "p \<in> set ps" for p
    using that assms(2) member_le_sum_list [of p ps] by simp
  then have "map (commissionShare a) ps = map (\<lambda>p. a * p div 100) ps"
    using assms by (intro map_cong) (auto intro!: commissionShare_exact order_trans [OF _ assms(3)])
  moreover have "100 * sum_list (map (\<lambda>p. a * p div 100) ps) \<le> a * sum_list ps"
    by (rule floor_sum_le) (use assms in auto)
  moreover have "a * sum_list ps \<le> a * 100" using assms by (intro mult_left_mono) (auto simp: money_def)
  ultimately show ?thesis by (simp only:)
qed

lemma commissionShare_nonneg: "money a \<Longrightarrow> 0 \<le> p \<Longrightarrow> p \<le> 100 \<Longrightarrow> 0 \<le> commissionShare a p"
  by (simp add: commissionShare_exact money_def pos_imp_zdiv_nonneg_iff)

section \<open>What the users hold\<close>

definition holdings :: "db \<Rightarrow> (int \<times> int) list" where
  "holdings d = map (\<lambda>u. (u_id u, u_balance u + u_commission_balance u)) (db_users d)"

definition credits :: "(int \<Rightarrow> int) \<Rightarrow> (int \<times> int) list \<Rightarrow> (int \<times> int) list" where
  "credits f hs = map (\<lambda>(i, h). (i, h + f i)) hs"

definition earned :: "commission_log list \<Rightarrow> int \<Rightarrow> int" where
  "earned ls i = sum_list (map cl_get_amount (filter (\<lambda>l. cl_invite_user_id l = i) ls))"

lemma earned_simps [simp]:
  "earned [] = (\<lambda>i. 0)"
  "earned (l # ls) = (\<lambda>i. (if cl_invite_user_id l = i then cl_get_amount l else 0) + earned ls i)"
  by (simp_all add: earned_def fun_eq_iff)

lemma credits_0 [simp]: "credits (\<lambda>i. 0) hs = hs"
  by (induction hs) (auto simp: credits_def)

lemma credits_credits: "credits f (credits g hs) = credits (\<lambda>i. g i + f i) hs"
  by (auto simp: credits_def algebra_simps)

lemma holdings_update_users:
  assumes "update_users p f d = Inr d'" and "\<And>u. u_id (f u) = u_id u"
    and "\<And>u. u \<in> set (db_users d) \<Longrightarrow>
       (if p u then u_balance (f u) + u_commission_balance (f u) else u_balance u + u_commission_balance u) =
       u_balance u + u_commission_balance u + g (u_id u)"
  shows "holdings d' = credits g (holdings d)"
proof -
  have d': "db_users d' = map (\<lambda>u. if p u then money_trigger u (f u) else u) (db_users d)"
    using assms(1) by (simp add: update_users_Inr update_where_def)
  have "(u_id (if p u then money_trigger u (f u) else u),
       u_balance (if p u then money_trigger u (f u) else u) + u_commission_balance (if p u then money_trigger u (f u) else u)) =
      (u_id u, u_balance u + u_commission_balance u + g (u_id u))" if "u \<in> set (db_users d)" for u
    using assms(2) assms(3) [OF that] by auto
  then show ?thesis unfolding holdings_def credits_def d' by (simp add: comp_def)
qed

lemma credit_recipient_effect:
  assumes r: "credit_recipient wc share i now d = Inr d'" and ok: "db_ok d"
  shows "holdings d' = credits (\<lambda>j. if j = i then share else 0) (holdings d)"
    and "history d d'" and "\<exists>us. d' = d\<lparr>db_users := us\<rparr>"
proof -
  let ?p = "\<lambda>u. u_id u = i \<and> (if wc then u_balance u else u_commission_balance u) \<le> i64 (maxOrderMoneyCents - share)"
  let ?f = "\<lambda>u. if wc then u\<lparr>u_balance := u_balance u + share, u_updated_at := unix now\<rparr>
             else u\<lparr>u_commission_balance := u_commission_balance u + share, u_updated_at := unix now\<rparr>"
  have up: "update_users ?p ?f d = Inr d'" and one: "count_where ?p (db_users d) = 1"
    using r by (auto simp: credit_recipient_def Let_def)
  have "?p u" if "u \<in> set (db_users d)" "u_id u = i" for u
  proof -
    obtain v where "v \<in> set (db_users d)" "?p v" using one count_where_pos [of ?p "db_users d"] by auto
    then show ?thesis using user_member_unique [OF ok that(1), of v] that(2) by (auto split: if_splits)
  qed
  then show "holdings d' = credits (\<lambda>j. if j = i then share else 0) (holdings d)"
    by (intro holdings_update_users [OF up]) auto
  show "history d d'" by (rule update_users_history [OF up]) simp
  show "\<exists>us. d' = d\<lparr>db_users := us\<rparr>" using up unfolding update_users_Inr by blast
qed

section \<open>Paying an order's commission\<close>

lemma settle_levels_effect:
  assumes "settle_levels ord levels wc now i seen actual d = Inr (actual', d')"
    and "db_ok d" and "money (o_commission_balance ord)" and "\<forall>p\<in>set levels. 0 \<le> p \<and> p \<le> 100"
    and "0 \<le> actual" and "actual + sum_list (map (commissionShare (o_commission_balance ord)) levels) \<le> maxOrderMoneyCents"
  shows "\<exists>ls us. d' = d\<lparr>db_users := us, db_commission_logs := db_commission_logs d @ ls\<rparr> \<and>
      (\<forall>l\<in>set ls. cl_order_id l = o_id ord) \<and> actual' = actual + sum_list (map cl_get_amount ls) \<and>
      sum_list (map cl_get_amount ls) \<le> sum_list (map (commissionShare (o_commission_balance ord)) levels) \<and>
      holdings d' = credits (earned ls) (holdings d) \<and> history_core d d'"
  using assms
proof (induction ord levels wc now i seen actual d rule: settle_levels.induct)
  case (1 ord wc now i seen actual d)
  then have "d' = d\<lparr>db_users := db_users d, db_commission_logs := db_commission_logs d @ []\<rparr>" by simp
  with 1 show ?case by (intro exI [of _ "[]"] exI [of _ "db_users d"]) (simp add: history_core.refl earned_def)
next
  case (2 ord p levels wc now i seen actual d)
  let ?share = "commissionShare (o_commission_balance ord)"
  let ?rest = "sum_list (map ?share levels)"
  have nn: "0 \<le> ?share p" "0 \<le> ?rest"
    using 2(5,6) by (auto intro!: sum_list_nonneg commissionShare_nonneg)
  have stop: ?case if "actual' = actual" "d' = d"
  proof -
    have "d' = d\<lparr>db_users := db_users d, db_commission_logs := db_commission_logs d @ []\<rparr>" using that by simp
    then show ?thesis using that nn
      by (intro exI [of _ "[]"] exI [of _ "db_users d"]) (simp add: history_core.refl earned_def)
  qed
  show ?case
  proof (cases "i < 1 \<or> (case List.find (\<lambda>u. u_id u = i) (db_users d) of
        None \<Rightarrow> True | Some v \<Rightarrow> u_account_kind v \<noteq> AccountKindHuman)")
    case True
    then show ?thesis using 2(3) stop by (auto split: option.splits if_splits)
  next
    case False
    then obtain v where v: "List.find (\<lambda>u. u_id u = i) (db_users d) = Some v" "u_account_kind v = AccountKindHuman"
      and i: "\<not> i < 1" by (auto split: option.splits)
    have seen: "i \<notin> set seen" using 2(3) i by (auto split: if_splits)
    show ?thesis
    proof (cases "?share p > 0")
      case False
      then show ?thesis using 2(2) [OF i seen v(1) _ refl refl] 2(3-8) v i seen nn by (auto split: if_splits)
    next
      case True
      let ?log = "\<lparr>cl_order_id = o_id ord, cl_invite_user_id = i, cl_user_id = o_user_id ord,
                    cl_trade_no = o_trade_no ord, cl_order_amount = o_total_amount ord, cl_get_amount = ?share p,
                    cl_created_at = unix now\<rparr>"
      let ?parent = "case u_invite_user_id v of None \<Rightarrow> 0 | Some j \<Rightarrow> j"
      obtain d1 d2 where c: "credit_recipient wc (?share p) i now d = Inr d1"
        and l: "insert_commission_log ?log d1 = Inr d2"
        and s: "settle_levels ord levels wc now ?parent (i # seen) (i64 (actual + ?share p)) d2 = Inr (actual', d')"
        using 2(3) v i seen True by (auto simp: Let_def)
      note e = credit_recipient_effect [OF c 2(4)]
      have h: "history_core d d2"
        by (rule history_core.trans [OF history_coreD [OF e(2)] insert_commission_log_core [OF l]])
      have w: "i64 (actual + ?share p) = actual + ?share p"
        using 2(7,8) nn by (simp add: wrap_simps maxOrderMoneyCents_def)
      from 2(1) [OF i seen v(1) _ refl refl True c l] s history_core_ok [OF h 2(4)] 2(5-8) v(2) w nn
      obtain ls us where r: "d' = d2\<lparr>db_users := us, db_commission_logs := db_commission_logs d2 @ ls\<rparr>"
        "\<forall>l\<in>set ls. cl_order_id l = o_id ord" "actual' = actual + ?share p + sum_list (map cl_get_amount ls)"
        "sum_list (map cl_get_amount ls) \<le> ?rest" "holdings d' = credits (earned ls) (holdings d2)" "history_core d2 d'"
        by auto
      have d2: "d2 = d1\<lparr>db_commission_logs := db_commission_logs d1 @ [?log]\<rparr>"
        using l by (simp add: insert_commission_log_Inr)
      obtain us1 where d1: "d1 = d\<lparr>db_users := us1\<rparr>" using e(3) by blast
      have "holdings d2 = credits (\<lambda>j. if j = i then ?share p else 0) (holdings d)"
        using e(1) by (simp add: d2 holdings_def)
      then have "holdings d' = credits (earned (?log # ls)) (holdings d)"
        unfolding r(5) by (simp only: credits_credits) (rule arg_cong2 [where f = credits], simp_all add: fun_eq_iff)
      moreover have "d' = d\<lparr>db_users := us, db_commission_logs := db_commission_logs d @ (?log # ls)\<rparr>"
        by (simp add: r(1) d2 d1)
      ultimately show ?thesis using r(2-4) history_core.trans [OF h r(6)]
        by (intro exI [of _ "?log # ls"] exI [of _ us]) simp
    qed
  qed
qed

definition levels_ok :: "int list \<Rightarrow> bool" where
  "levels_ok levels \<longleftrightarrow> list_all (\<lambda>p. 0 \<le> p) levels \<and> sum_list levels \<le> 100"

lemma levels_ok_bounds: "levels_ok levels \<Longrightarrow> p \<in> set levels \<Longrightarrow> 0 \<le> p \<and> p \<le> 100"
  using member_le_sum_list [of p levels] by (auto simp: levels_ok_def list_all_iff)

lemma settleOrderCommissionTx_effect:
  assumes r: "settleOrderCommissionTx ord levels wc now d = Inr d'" and ok: "db_ok d"
    and o: "ord \<in> set (db_orders d)" and lv: "levels_ok levels"
  obtains ls us actual where
    "d' = d\<lparr>db_users := us, db_commission_logs := db_commission_logs d @ ls,
       db_orders := update_where (\<lambda>r. o_id r = o_id ord)
         (\<lambda>r. r\<lparr>o_commission_status := 2, o_actual_commission_balance := Some actual, o_updated_at := unix now\<rparr>)
         (db_orders d)\<rparr>"
    "\<forall>l\<in>set ls. cl_order_id l = o_id ord" "actual = sum_list (map cl_get_amount ls)"
    "actual \<le> o_commission_balance ord" "holdings d' = credits (earned ls) (holdings d)"
    "history_core d d'" "o_commission_status ord = 1"
proof -
  let ?p = "\<lambda>r. o_id r = o_id ord \<and> o_commission_status r = 1"
  let ?f = "\<lambda>actual r. r\<lparr>o_commission_status := 2, o_actual_commission_balance := Some actual, o_updated_at := unix now\<rparr>"
  obtain actual d1 where s: "settle_levels ord levels wc now (case o_invite_user_id ord of None \<Rightarrow> 0 | Some i \<Rightarrow> i) [] 0 d = Inr (actual, d1)"
    and up: "update_orders ?p (?f actual) d1 = Inr d'" and one: "count_where ?p (db_orders d1) = 1"
    using r by (auto simp: settleOrderCommissionTx_def Let_def)
  have m: "money (o_commission_balance ord)" using order_ok_member [OF ok o] by (simp add: order_ok_def)
  have sh: "sum_list (map (commissionShare (o_commission_balance ord)) levels) \<le> o_commission_balance ord"
    by (rule shares_le [OF m]) (use lv in \<open>auto simp: levels_ok_def list_all_iff\<close>)
  obtain ls us where e: "d1 = d\<lparr>db_users := us, db_commission_logs := db_commission_logs d @ ls\<rparr>"
      "\<forall>l\<in>set ls. cl_order_id l = o_id ord" "actual = sum_list (map cl_get_amount ls)"
      "actual \<le> o_commission_balance ord" "holdings d1 = credits (earned ls) (holdings d)" "history_core d d1"
    using settle_levels_effect [OF s ok m] levels_ok_bounds [OF lv] sh m by (auto simp: money_def)
  have same: "r = ord" if "r \<in> set (db_orders d)" "o_id r = o_id ord" for r
    using order_member_unique [OF ok that(1) o that(2)] .
  have one': "o_commission_status ord = 1"
    using one count_where_pos [of ?p "db_orders d1"] same by (auto simp: e(1))
  then have "update_where ?p (?f actual) (db_orders d) = update_where (\<lambda>r. o_id r = o_id ord) (?f actual) (db_orders d)"
    using same by (auto simp: update_where_def)
  then have d': "d' = d\<lparr>db_users := us, db_commission_logs := db_commission_logs d @ ls,
       db_orders := update_where (\<lambda>r. o_id r = o_id ord) (?f actual) (db_orders d)\<rparr>"
    using up by (simp add: update_orders_Inr e(1))
  have "history_core d1 d'"
    by (rule update_orders_core [OF up]) (auto simp: order_evolves_def order_terms_def)
  then have "history_core d d'" by (rule history_core.trans [OF e(6)])
  moreover have "holdings d' = credits (earned ls) (holdings d)" using e(5) by (simp add: d' e(1) holdings_def)
  ultimately show thesis using that [OF d' e(2,3,4)] one' by blast
qed

lemma paid_out_append: "paid_out i (ls @ ls') = paid_out i ls + paid_out i ls'"
  by (simp add: paid_out_def)

lemma paid_out_none: "\<forall>l\<in>set ls. cl_order_id l \<noteq> i \<Longrightarrow> paid_out i ls = 0"
  by (simp add: paid_out_def filter_False)

lemma paid_out_all: "\<forall>l\<in>set ls. cl_order_id l = i \<Longrightarrow> paid_out i ls = sum_list (map cl_get_amount ls)"
  by (simp add: paid_out_def filter_True)

lemma commission_booked_paid:
  assumes "commission_booked ls r" and "o_commission_status r \<noteq> 2" and "\<forall>l\<in>set ls'. cl_order_id l = o_id r"
    and "sum_list (map cl_get_amount ls') \<le> o_commission_balance r"
  shows "commission_booked (ls @ ls') (r\<lparr>o_commission_status := 2,
    o_actual_commission_balance := Some (sum_list (map cl_get_amount ls')), o_updated_at := t\<rparr>)"
  using assms by (auto simp: commission_booked_def paid_out_append paid_out_all paid_out_none exists_where_iff)

lemma commission_booked_other:
  "commission_booked ls r \<Longrightarrow> \<forall>l\<in>set ls'. cl_order_id l \<noteq> o_id r \<Longrightarrow> commission_booked (ls @ ls') r"
  by (auto simp: commission_booked_def paid_out_append paid_out_none exists_where_iff)

lemma settleOrderCommissionTx_history:
  assumes r: "settleOrderCommissionTx ord levels wc now d = Inr d'" and o: "ord \<in> set (db_orders d)"
    and lv: "levels_ok levels" and ok: "db_ok d"
  shows "history d d'"
proof -
  obtain ls us where
    d': "d' = d\<lparr>db_users := us, db_commission_logs := db_commission_logs d @ ls,
       db_orders := update_where (\<lambda>r. o_id r = o_id ord)
         (\<lambda>r. r\<lparr>o_commission_status := 2, o_actual_commission_balance := Some (sum_list (map cl_get_amount ls)),
           o_updated_at := unix now\<rparr>) (db_orders d)\<rparr>"
    and ls: "\<forall>l\<in>set ls. cl_order_id l = o_id ord" "sum_list (map cl_get_amount ls) \<le> o_commission_balance ord"
    and core: "history_core d d'" and one: "o_commission_status ord = 1"
    by (rule settleOrderCommissionTx_effect [OF r ok o lv]) (rule that; simp)
  have "commission_booked (db_commission_logs d @ ls) r'"
    if "commissions_booked d" and r': "r' \<in> set (db_orders d')" for r'
  proof -
    have old: "commission_booked (db_commission_logs d) x" if "x \<in> set (db_orders d)" for x
      using that \<open>commissions_booked d\<close> by (simp add: commissions_booked_def list_all_iff)
    from r' consider "r' \<in> set (db_orders d)" "o_id r' \<noteq> o_id ord"
      | "r' = ord\<lparr>o_commission_status := 2, o_actual_commission_balance := Some (sum_list (map cl_get_amount ls)),
           o_updated_at := unix now\<rparr>"
      using order_member_unique [OF ok _ o] by (auto simp: d' update_where_def split: if_splits)
    then show ?thesis
    proof cases
      case 1
      then show ?thesis using old ls(1) by (auto intro!: commission_booked_other)
    next
      case 2
      then show ?thesis using commission_booked_paid [OF old [OF o] _ ls] one by simp
    qed
  qed
  moreover have "receipts_settled d'" if "receipts_settled d"
    using that receipt_settled_evolves [of d d'] core
    by (auto simp: receipts_settled_def list_all_iff history_core_def d')
  ultimately show ?thesis using core history_core_ok [OF core ok]
    by (auto simp: history_def keeps_settled_def commissions_booked_def gifts_counted_def list_all_iff d')
qed

section \<open>The batch\<close>

lemma due_for_confirmation_member:
  "r \<in> set (due_for_confirmation now limit d) \<Longrightarrow> r \<in> set (db_orders d) \<and> o_commission_status r = 0"
  by (auto simp: due_for_confirmation_def order_by_def dest: in_set_takeD)

lemma confirm_due_history:
  assumes r: "confirm_due auto_check now limit d = Inr (n, d')" and ok: "db_ok d"
  shows "history d d'"
proof (cases auto_check)
  case True
  let ?due = "map o_id (due_for_confirmation now limit d)"
  have up: "update_orders (\<lambda>r. o_id r \<in> set ?due) (\<lambda>r. r\<lparr>o_commission_status := 1, o_updated_at := unix now\<rparr>) d = Inr d'"
    using r True by (auto simp: confirm_due_def Let_def)
  have "o_commission_status r = 0" if r: "r \<in> set (db_orders d)" "o_id r \<in> set ?due" for r
  proof -
    obtain x where "x \<in> set (due_for_confirmation now limit d)" "o_id r = o_id x" using r(2) by auto
    then show ?thesis using due_for_confirmation_member [of x] order_member_unique [OF ok r(1), of x] by simp
  qed
  then show ?thesis
    by (intro update_orders_history [OF up]) (auto simp: order_moves_def order_evolves_def order_terms_def)
qed (use r in \<open>simp add: confirm_due_def history.refl\<close>)

definition configured_levels :: "settings \<Rightarrow> int list" where
  "configured_levels st = (if s_commission_distribution_enable st
     then [s_commission_distribution_l1 st, s_commission_distribution_l2 st, s_commission_distribution_l3 st] else [100])"

lemma ProcessCommissions_stages:
  assumes "ProcessCommissions now limit d = Inr (res, d')" and ok: "db_ok d"
  obtains checked d1 res1 where "levels_ok (configured_levels (db_settings d))"
    "confirm_due (s_commission_auto_check_enable (db_settings d)) now limit d = Inr (checked, d1)"
    "efold (commission_step (configured_levels (db_settings d)) (s_withdraw_close_enable (db_settings d)) now)
        (take (nat limit) (order_by o_updated_at (filter (commission_payable now d1) (db_orders d1))))
        (\<lparr>cr_checked = checked, cr_paid = 0, cr_quarantined = 0, cr_remaining = 0\<rparr>, d1) = Inr (res1, d')"
    "res = res1\<lparr>cr_remaining := int (count_where (commission_payable now d') (db_orders d'))\<rparr>"
proof -
  have "settings_ok (db_settings d)" using ok by (simp add: db_ok_def)
  then show thesis using assms(1) that
    by (auto simp: ProcessCommissions_def configured_levels_def levels_ok_def settings_ok_def Let_def wrap_simps)
qed

text \<open>
  The orders of the batch are distinct rows; settling one leaves the others as they were read, so
  each is settled from its own row.
\<close>

lemma commission_step_others:
  assumes r: "commission_step levels wc now ord (res, d) = Inr (res', d')" and ok: "db_ok d"
    and o: "ord \<in> set (db_orders d)" and lv: "levels_ok levels"
  shows "history d d'" and "\<And>x. x \<in> set (db_orders d) \<Longrightarrow> o_id x \<noteq> o_id ord \<Longrightarrow> x \<in> set (db_orders d')"
proof -
  consider (paid) d1 where "settleOrderCommissionTx ord levels wc now d = Inr d1"
      "d' = quarantine_clear ''commission'' (o_id ord) d1"
    | (quarantined) reason t t' where "quarantine_upsert ''commission'' (o_id ord) reason t t' d = Inr d'"
    using r by (auto simp: commission_step_def split: if_splits sum.splits)
  then have "history d d' \<and> (\<forall>x\<in>set (db_orders d). o_id x \<noteq> o_id ord \<longrightarrow> x \<in> set (db_orders d'))"
  proof cases
    case paid
    have "history d d'"
      using history.trans [OF settleOrderCommissionTx_history [OF paid(1) o lv ok] quarantine_clear_history]
      by (simp add: paid(2))
    moreover obtain f where "db_orders d1 = update_where (\<lambda>r. o_id r = o_id ord) f (db_orders d)"
      by (rule settleOrderCommissionTx_effect [OF paid(1) ok o lv]) (rule that, simp)
    ultimately show ?thesis by (auto simp: paid(2) quarantine_clear_def update_where_def)
  next
    case quarantined
    then have "db_orders d' = db_orders d"
      by (auto simp: quarantine_upsert_def Let_def update_quarantine_Inr insert_quarantine_Inr split: if_splits)
    then show ?thesis using quarantine_upsert_history [OF quarantined] by simp
  qed
  then show "history d d'" and "\<And>x. x \<in> set (db_orders d) \<Longrightarrow> o_id x \<noteq> o_id ord \<Longrightarrow> x \<in> set (db_orders d')"
    by auto
qed

lemma commission_batch_history:
  assumes "efold (commission_step levels wc now) xs (res, d) = Inr (res', d')" and "db_ok d"
    and "set xs \<subseteq> set (db_orders d)" and "distinct (map o_id xs)" and "levels_ok levels"
  shows "history d d'"
  using assms
proof (induction xs arbitrary: res d)
  case (Cons ord xs)
  obtain res1 d1 where s: "commission_step levels wc now ord (res, d) = Inr (res1, d1)"
    and rest: "efold (commission_step levels wc now) xs (res1, d1) = Inr (res', d')"
    using Cons.prems(1) by (auto simp: ebind_eq_Inr)
  note e = commission_step_others [OF s Cons.prems(2) _ Cons.prems(5)]
  have o: "ord \<in> set (db_orders d)" using Cons.prems(3) by simp
  have "set xs \<subseteq> set (db_orders d1)"
  proof
    fix x assume "x \<in> set xs"
    then show "x \<in> set (db_orders d1)" using Cons.prems(3,4) by (intro e(2) [OF o]) (auto simp: image_iff)
  qed
  then have "history d1 d'"
    using Cons.IH [OF rest history_ok [OF e(1) [OF o] Cons.prems(2)]] Cons.prems(4,5) by simp
  then show ?case by (rule history.trans [OF e(1) [OF o]])
qed (simp add: history.refl)

lemma ProcessCommissions_history:
  assumes r: "ProcessCommissions now limit d = Inr (res, d')" and ok: "db_ok d"
  shows "history d d'"
proof -
  obtain levels wc auto_check checked d1 res0 res1 where lv: "levels_ok levels"
    and c: "confirm_due auto_check now limit d = Inr (checked, d1)"
    and f: "efold (commission_step levels wc now)
        (take (nat limit) (order_by o_updated_at (filter (commission_payable now d1) (db_orders d1)))) (res0, d1) = Inr (res1, d')"
    by (rule ProcessCommissions_stages [OF r ok]) (rule that; assumption)
  note h = confirm_due_history [OF c ok]
  note ok1 = history_ok [OF h ok]
  have "distinct (map o_id (db_orders d1))"
    using ok1 by (simp add: db_ok_def orders.holds_def orders_unique_def)
  then have "history d1 d'"
    by (intro commission_batch_history [OF f ok1 _ _ lv] batch_distinct) (use batch_subset in fastforce)+
  then show ?thesis by (rule history.trans [OF h])
qed

section \<open>Moving commission into the balance\<close>

lemma TransferCommission_effect:
  assumes r: "TransferCommission userID amount now d = Inr ((cb, b), d')" and ok: "db_ok d"
  obtains u v where "u \<in> set (db_users d)" "u_id u = userID" "amount \<le> u_commission_balance u" "0 < amount"
    "v \<in> set (db_users d')" "u_id v = userID" "cb = u_commission_balance u - amount" "b = u_balance u + amount"
    "u_commission_balance v = cb" "u_balance v = b" "holdings d' = holdings d" "history d d'"
proof -
  let ?p = "\<lambda>u. u_id u = userID \<and> u_account_kind u = AccountKindHuman \<and>
      u_commission_balance u \<ge> amount \<and> u_balance u \<le> i64 (maxOrderMoneyCents - amount)"
  let ?f = "\<lambda>u. u\<lparr>u_commission_balance := u_commission_balance u - amount, u_balance := u_balance u + amount,
      u_updated_at := unix now\<rparr>"
  have g: "0 < amount" and up: "update_users ?p ?f d = Inr d'" and one: "count_where ?p (db_users d) = 1"
    and f: "\<exists>v. List.find (\<lambda>u. u_id u = userID) (db_users d') = Some v \<and> cb = u_commission_balance v \<and> b = u_balance v"
    using r by (auto simp: TransferCommission_def Let_def split: if_splits)
  obtain u where u: "u \<in> set (db_users d)" "?p u" using one count_where_pos [of ?p "db_users d"] by auto
  obtain v where v: "v \<in> set (db_users d')" "u_id v = userID" "cb = u_commission_balance v" "b = u_balance v"
    using f by (auto dest: find_eq_Some_set)
  have h: "history d d'" by (rule update_users_history [OF up]) simp
  have "money_trigger u (?f u) \<in> set (db_users d')"
    using up u by (auto simp: update_users_Inr update_where_def image_iff intro!: bexI [of _ u])
  then have "v = money_trigger u (?f u)"
    by (rule user_member_unique [OF history_ok [OF h ok] v(1)]) (use v(2) u(2) in simp)
  moreover have "holdings d' = credits (\<lambda>i. 0) (holdings d)"
    by (rule holdings_update_users [OF up]) auto
  ultimately show thesis using that u v g h by simp
qed

end
