(* ===== verification/Sample_Store.thy ===== *)
theory Sample_Store
  imports Checkout_Correct Commissions_Correct "HOL-Library.Code_Target_Nat"
begin

text \<open>
  A small store on which the witnesses evaluate the operations: an inviter, a customer with a
  balance whom they invited, two plans, a coupon with two uses, and a payment method.
\<close>

definition sample_zone :: location where
  "sample_zone t = 28800"

definition sample_now :: instant where
  "sample_now = 1700000000000000000"

definition sample_user :: "int \<Rightarrow> string \<Rightarrow> user" where
  "sample_user i mail =
     \<lparr>u_id = i, u_email = mail, u_uuid = None, u_is_admin = False, u_is_distributor = False, u_banned = False,
      u_account_kind = AccountKindHuman, u_plan_id = None, u_group_id = None, u_expired_at = None,
      u_balance = 0, u_discount = None, u_invite_user_id = None, u_transfer_enable = 0, u_traffic_u = 0,
      u_traffic_d = 0, u_speed_limit = 0, u_device_limit = 0, u_next_reset_at = None, u_last_reset_at = None,
      u_reset_count = 0, u_commission_type = 0, u_commission_rate = None, u_commission_balance = 0,
      u_admin_revision = 1, u_created_at = 1600000000, u_updated_at = 1600000000\<rparr>"

definition sample_plan :: "int \<Rightarrow> string \<Rightarrow> int \<Rightarrow> plan" where
  "sample_plan i name price =
     \<lparr>p_id = i, p_group_id = Some 1, p_transfer_enable_gib = 100, p_name = name, p_speed_limit = None,
      p_show = True, p_sort_position = i - 1, p_renew = True, p_content = [], p_reset_traffic_method = Some 2,
      p_capacity_limit = None, p_prices = [(''monthly'', price), (''yearly'', 10 * price)], p_sell = True,
      p_device_limit = Some 3, p_tags = [], p_distributor_hwid_limit = 1, p_revision = 1,
      p_created_at = 1600000000, p_updated_at = 1600000000, p_customer_visibility = ''all'',
      p_distributor_visibility = ''none''\<rparr>"

definition sample_coupon :: coupon where
  "sample_coupon =
     \<lparr>c_id = 1, c_code = ''SAVE10AB'', c_name = ''Ten percent'', c_type = CouponTypePercentage, c_value = 10,
      c_show = True, c_limit_use = Some 2, c_limit_use_with_user = Some 1, c_limit_plan_ids = [],
      c_limit_periods = [], c_started_at = 1600000000, c_ended_at = 1800000000, c_created_at = 1600000000,
      c_updated_at = 1600000000\<rparr>"

definition sample_settings :: settings where
  "sample_settings =
     \<lparr>s_traffic_reset_method = 1, s_plan_change_enable = True, s_surplus_enable = True,
      s_new_order_event_id = 0, s_renew_order_event_id = 0, s_change_order_event_id = 0,
      s_commission_first_time_enable = True, s_invite_commission = 10, s_coupon_enabled = True,
      s_commission_auto_check_enable = True, s_withdraw_close_enable = False,
      s_commission_distribution_enable = True, s_commission_distribution_l1 = 60,
      s_commission_distribution_l2 = 30, s_commission_distribution_l3 = 10, s_try_out_plan_id = 0\<rparr>"

definition sample_db :: db where
  "sample_db =
     \<lparr>db_users = [sample_user 1 ''inviter@example.com'',
        (sample_user 2 ''customer@example.com'')\<lparr>u_balance := 300, u_invite_user_id := Some 1\<rparr>],
      db_plans = [sample_plan 1 ''Basic'' 1000, sample_plan 2 ''Large'' 5000], db_orders = [],
      db_coupons = [sample_coupon],
      db_payments = [\<lparr>pay_id = 1, pay_provider = ''AlipayF2F'', pay_name = ''Alipay'', pay_enabled = True,
        pay_handling_fee_fixed = 10, pay_handling_fee_basis_points = 100\<rparr>],
      db_attempts = [], db_receipts = [], db_settings = sample_settings, db_plugins = [(''alipay_f2f'', True)],
      db_groups = [1], db_visibility = [], db_events = [], db_quarantine = [], db_commission_logs = [],
      db_reset_logs = [], db_gift_templates = [], db_gift_codes = [], db_gift_usages = [], db_deactivated = [],
      db_order_seq = 0, db_plan_seq = 2, db_coupon_seq = 1, db_attempt_seq = 0, db_gift_template_seq = 0,
      db_gift_code_seq = 0, db_gift_usage_seq = 0\<rparr>"

lemma sample_db_ok: "db_ok sample_db"
  unfolding db_ok_def holds_defs seqs_ok_def check_defs by code_simp

definition sample_order_input :: create_order_input where
  "sample_order_input = \<lparr>oi_user_id = 2, oi_plan_id = 1, oi_period = ''month_price'', oi_coupon_code = '' SAVE10AB ''\<rparr>"

text \<open>
  The states the store goes through, written out: the customer orders, starts a checkout, pays,
  and four days later the commission of the order is paid. Each lemma runs the operation.
\<close>

definition sample_order :: order where
  "sample_order =
     \<lparr>o_id = 1, o_user_id = 2, o_plan_id = 1, o_payment_id = None, o_period = ''monthly'',
      o_trade_no = ''2023111506132000000000007'', o_original_amount = 1000, o_total_amount = 600,
      o_handling_amount = None, o_balance_amount = 300, o_surplus_credit = 0, o_surplus_amount = 0,
      o_type = OrderTypeNew, o_status = OrderStatusPending, o_surplus_order_ids = [], o_coupon_id = Some 1,
      o_commission_status = 0, o_invite_user_id = Some 1, o_actual_commission_balance = None,
      o_commission_rate = None, o_commission_balance = 90, o_discount_amount = 100, o_paid_at = None,
      o_callback_no = None, o_entitlement_before = None, o_entitlement_after = None, o_source = ''online'', o_gift_card_code_id = None, o_purchase_snapshot = None,
      o_created_at = 1700000000, o_updated_at = 1700000000\<rparr>"

definition sample_ordered :: db where
  "sample_ordered = sample_db
     \<lparr>db_users := [sample_user 1 ''inviter@example.com'', (sample_user 2 ''customer@example.com'')
        \<lparr>u_invite_user_id := Some 1, u_admin_revision := 2, u_updated_at := 1700000000\<rparr>],
      db_coupons := [sample_coupon\<lparr>c_limit_use := Some 1, c_updated_at := 1700000000\<rparr>],
      db_orders := [sample_order], db_order_seq := 1\<rparr>"

lemma sample_created:
  "CreateOrder sample_zone 7 sample_order_input sample_now sample_db = Inr (sample_order, sample_ordered)"
  by code_simp

definition sample_key :: "nat list" where
  "sample_key = replicate 32 171"

definition sample_checkout_input :: start_checkout_input where
  "sample_checkout_input = \<lparr>si_user_id = 2, si_trade_no = ''2023111506132000000000007'', si_payment_id = 1\<rparr>"

definition sample_attempt :: attempt where
  "sample_attempt =
     \<lparr>a_id = 1, a_order_id = 1, a_payment_id = 1, a_idempotency_key = EncodeToString sample_key,
      a_expected_amount = 616, a_currency = ''CNY'', a_status = PaymentCheckoutCreating, a_external_id = None,
      a_response_type = None, a_response_data = None, a_error_code = None,
      a_created_at = 1700000060, a_updated_at = 1700000060\<rparr>"

definition sample_bound :: order where
  "sample_bound = sample_order\<lparr>o_payment_id := Some 1, o_handling_amount := Some 16, o_updated_at := 1700000060\<rparr>"

definition sample_checkout :: checkout_start where
  "sample_checkout = \<lparr>cs_attempt = sample_attempt, cs_payment = hd (db_payments sample_db), cs_order = sample_bound,
     cs_cached = False\<rparr>"

definition sample_started :: db where
  "sample_started = sample_ordered\<lparr>db_orders := [sample_bound], db_attempts := [sample_attempt], db_attempt_seq := 1\<rparr>"

lemma sample_start:
  "StartPaymentCheckout sample_key sample_checkout_input (sample_now + seconds 60) sample_ordered =
     Inr (sample_checkout, sample_started)"
  by code_simp

definition sample_delivery :: webhook_input where
  "sample_delivery =
     \<lparr>wi_payment_id = 1, wi_provider = ''AlipayF2F'', wi_external_id = '' tx-1 '',
      wi_trade_no = ''2023111506132000000000007'', wi_amount = 616, wi_currency = ''cny'',
      wi_payload_sha256 = replicate 64 (CHR ''A'')\<rparr>"

definition sample_completed :: order where
  "sample_completed = sample_bound\<lparr>o_status := OrderStatusCompleted, o_paid_at := Some 1700000120,
     o_callback_no := Some ''tx-1'', o_entitlement_after := Some 1702592120, o_updated_at := 1700000120\<rparr>"

definition sample_subscriber :: user where
  "sample_subscriber = (sample_user 2 ''customer@example.com'')
     \<lparr>u_invite_user_id := Some 1, u_plan_id := Some 1, u_group_id := Some 1, u_expired_at := Some 1702592120,
      u_transfer_enable := 107374182400, u_device_limit := 3,
      u_last_reset_at := Some 1700000120, u_reset_count := 1, u_admin_revision := 3, u_updated_at := 1700000120\<rparr>"

definition sample_paid :: db where
  "sample_paid = sample_started
     \<lparr>db_users := [sample_user 1 ''inviter@example.com'', sample_subscriber], db_orders := [sample_completed],
      db_receipts := [\<lparr>rc_payment_id = 1, rc_order_id = 1, rc_provider = ''AlipayF2F'', rc_external_id = ''tx-1'',
        rc_trade_no = ''2023111506132000000000007'', rc_amount = 616, rc_currency = ''CNY'',
        rc_payload_sha256 = replicate 64 (CHR ''a''), rc_received_at = 1700000120\<rparr>],
      db_events := [\<lparr>ev_order_id = 1, ev_user_id = 2, ev_type = ''new'',
        ev_before = marshalEntitlementSnapshot (sample_user 2 []),
        ev_after = marshalEntitlementSnapshot sample_subscriber, ev_applied_at = 1700000120\<rparr>]\<rparr>"

definition sample_normalized :: webhook_input where
  "sample_normalized = sample_delivery\<lparr>wi_external_id := ''tx-1'', wi_currency := ''CNY'',
     wi_payload_sha256 := replicate 64 (CHR ''a'')\<rparr>"

lemma sample_delivery_normalized: "normalize_webhook id id sample_delivery = sample_normalized"
  by code_simp

lemma sample_delivery_valid: "webhook_valid sample_normalized"
  by code_simp

text \<open>The completion, stage by stage.\<close>

lemma completeOrderTx_intro:
  assumes "order_active ord" and "readOrderUser (o_user_id ord) d = Inr u" and "getPlan (o_plan_id ord) now d = Inr info"
    and "mark_processing ord (case o_paid_at ord of None \<Rightarrow> unix now | Some t \<Rightarrow> t)
       (case o_callback_no ord of None \<Rightarrow> callbackNo | Some c \<Rightarrow> c) now d = Inr d1"
    and "efold (discount_surplus_order ord now) (o_surplus_order_ids ord) d1 = Inr d2"
    and "grant_period loc ord (pl_row info) (if o_surplus_credit ord > 0
       then u\<lparr>u_balance := i64 (u_balance u + o_surplus_credit ord)\<rparr> else u) now = Inr granted"
    and "finish_user loc ord (pl_row info) (db_settings d) granted now = u2"
    and "apply_entitlement u2 now d2 = Inr d3"
    and "insert_event \<lparr>ev_order_id = o_id ord, ev_user_id = o_user_id ord, ev_type = orderTypeEventName (o_type ord),
         ev_before = marshalEntitlementSnapshot u, ev_after = marshalEntitlementSnapshot u2, ev_applied_at = unix now\<rparr> d3 = Inr d4"
    and "mark_completed ord (u_expired_at u) (u_expired_at u2) now d4 = Inr d5"
    and "ord' = ord\<lparr>o_status := OrderStatusCompleted,
         o_paid_at := Some (case o_paid_at ord of None \<Rightarrow> unix now | Some t \<Rightarrow> t),
         o_callback_no := Some (case o_callback_no ord of None \<Rightarrow> callbackNo | Some c \<Rightarrow> c),
         o_entitlement_before := u_expired_at u, o_entitlement_after := u_expired_at u2, o_updated_at := unix now\<rparr>"
  shows "completeOrderTx loc ord callbackNo now d = Inr ((ord', \<lparr>ch_user_id = u_id u, ch_previous_uuid = u_uuid u,
    ch_old_group_id = u_group_id u, ch_new_group_id = u_group_id u2\<rparr>), d5)"
  using assms by (simp add: completeOrderTx_def Let_def)

definition sample_processing :: order where
  "sample_processing = sample_bound\<lparr>o_status := OrderStatusProcessing, o_paid_at := Some 1700000120,
     o_callback_no := Some ''tx-1'', o_updated_at := 1700000120\<rparr>"

definition sample_customer :: user where
  "sample_customer = (sample_user 2 ''customer@example.com'')
     \<lparr>u_invite_user_id := Some 1, u_admin_revision := 2, u_updated_at := 1700000000\<rparr>"

definition sample_receipted :: db where
  "sample_receipted = sample_started\<lparr>db_receipts := db_receipts sample_paid,
     db_orders := [sample_bound\<lparr>o_updated_at := 1700000120\<rparr>]\<rparr>"

lemma sample_completion:
  "completeOrderTx sample_zone (sample_bound\<lparr>o_updated_at := 1700000120\<rparr>) ''tx-1'' (sample_now + seconds 120) sample_receipted =
     Inr ((sample_completed, \<lparr>ch_user_id = 2, ch_previous_uuid = None, ch_old_group_id = None, ch_new_group_id = Some 1\<rparr>), sample_paid)"
proof -
  let ?now = "sample_now + seconds 120"
  let ?ord = "sample_bound\<lparr>o_updated_at := 1700000120\<rparr>"
  let ?d1 = "sample_receipted\<lparr>db_orders := [sample_processing]\<rparr>"
  let ?d3 = "?d1\<lparr>db_users := db_users sample_paid\<rparr>"
  let ?granted = "sample_customer\<lparr>u_plan_id := Some 1, u_group_id := Some 1, u_transfer_enable := 107374182400,
     u_expired_at := Some 1702592120\<rparr>"
  let ?u2 = "sample_subscriber\<lparr>u_admin_revision := 2, u_updated_at := 1700000000\<rparr>"
  have "completeOrderTx sample_zone ?ord ''tx-1'' ?now sample_receipted =
      Inr ((sample_completed, \<lparr>ch_user_id = u_id sample_customer, ch_previous_uuid = u_uuid sample_customer,
        ch_old_group_id = u_group_id sample_customer, ch_new_group_id = u_group_id ?u2\<rparr>), sample_paid)"
    by (rule completeOrderTx_intro [where info = "plan_info_of sample_receipted ?now (sample_plan 1 ''Basic'' 1000)" and ?d1.0 = ?d1
          and ?d2.0 = ?d1 and granted = "(?granted, True)" and ?d3.0 = ?d3 and ?d4.0 = "?d3\<lparr>db_events := db_events sample_paid\<rparr>"])
       code_simp+
  then show ?thesis by (simp add: sample_customer_def sample_subscriber_def sample_user_def)
qed

lemma settle_webhook_intro:
  assumes "insert_receipt
       \<lparr>rc_payment_id = wi_payment_id input, rc_order_id = o_id ord, rc_provider = wi_provider input,
        rc_external_id = wi_external_id input, rc_trade_no = wi_trade_no input, rc_amount = wi_amount input,
        rc_currency = wi_currency input, rc_payload_sha256 = wi_payload_sha256 input,
        rc_received_at = unix now\<rparr> d = Inr d1"
    and "o_status ord \<noteq> OrderStatusCompleted"
    and "update_orders (\<lambda>r. o_id r = o_id ord \<and> order_active r)
       (\<lambda>r. r\<lparr>o_payment_id := Some (wi_payment_id input),
              o_handling_amount := nullablePositiveMoney (i64 (wi_amount input - o_total_amount ord)), o_updated_at := unix now\<rparr>) d1 = Inr d2"
    and "count_where (\<lambda>r. o_id r = o_id ord \<and> order_active r) (db_orders d1) = 1"
    and "ord\<lparr>o_payment_id := Some (wi_payment_id input),
           o_handling_amount := (if i64 (wi_amount input - o_total_amount ord) > 0
             then Some (i64 (wi_amount input - o_total_amount ord)) else None), o_updated_at := unix now\<rparr> = ord1"
    and "completeOrderTx loc ord1 (wi_external_id input) now d2 = Inr ((ord2, ch), d3)"
    and "notify ord2 meth now = Inr ()"
  shows "settle_webhook loc notify meth ord input now d = Inr (ord2, d3)"
  using assms by (simp add: settle_webhook_def Let_def)

lemma sample_settled:
  "settle_webhook sample_zone (\<lambda>_ _ _. Inr ()) (hd (db_payments sample_db)) sample_bound sample_normalized
     (sample_now + seconds 120) sample_started = Inr (sample_completed, sample_paid)"
proof (rule settle_webhook_intro [where ?d1.0 = "sample_started\<lparr>db_receipts := db_receipts sample_paid\<rparr>"
      and ?d2.0 = sample_receipted])
  have "wi_external_id sample_normalized = ''tx-1''" by (simp add: sample_normalized_def)
  then show "completeOrderTx sample_zone (sample_bound\<lparr>o_updated_at := 1700000120\<rparr>) (wi_external_id sample_normalized)
      (sample_now + seconds 120) sample_receipted = Inr ((sample_completed,
      \<lparr>ch_user_id = 2, ch_previous_uuid = None, ch_old_group_id = None, ch_new_group_id = Some 1\<rparr>), sample_paid)"
    using sample_completion by simp
qed code_simp+

lemma sample_webhook_lookups:
  "getPayment 1 sample_started = Inr (hd (db_payments sample_db))"
  "find_order (\<lambda>r. o_trade_no r = ''2023111506132000000000007'') sample_started = Inr sample_bound"
  "getPaymentReceipt 1 ''tx-1'' sample_started = None"
  "db_attempts sample_started = [sample_attempt]"
  by code_simp+

lemma sample_webhook:
  "CompletePaymentWebhook sample_zone id id (\<lambda>_ _ _. Inr ()) sample_delivery (sample_now + seconds 120)
     sample_started = Inr (sample_completed, sample_paid)"
  unfolding CompletePaymentWebhook_Inr sample_delivery_normalized Let_def
  using sample_delivery_valid sample_settled sample_webhook_lookups
  by (simp add: sample_normalized_def sample_delivery_def sample_attempt_def sample_bound_def sample_order_def
      sample_db_def sample_now_def seconds_def unix_def)

definition sample_commissioned :: db where
  "sample_commissioned = sample_paid
     \<lparr>db_users := [(sample_user 1 ''inviter@example.com'')\<lparr>u_commission_balance := 54, u_admin_revision := 2,
        u_updated_at := 1700345600\<rparr>, sample_subscriber],
      db_orders := [sample_completed\<lparr>o_commission_status := 2, o_actual_commission_balance := Some 54,
        o_updated_at := 1700345600\<rparr>],
      db_commission_logs := [\<lparr>cl_order_id = 1, cl_invite_user_id = 1, cl_user_id = 2,
        cl_trade_no = ''2023111506132000000000007'', cl_order_amount = 600, cl_get_amount = 54,
        cl_created_at = 1700345600\<rparr>]\<rparr>"

lemma sample_commissions:
  "ProcessCommissions (sample_now + seconds 345600) 100 sample_paid =
     Inr (\<lparr>cr_checked = 1, cr_paid = 1, cr_quarantined = 0, cr_remaining = 0\<rparr>, sample_commissioned)"
  by code_simp

text \<open>The states are consistent.\<close>

lemma sample_history:
  "history sample_db sample_ordered" "history sample_ordered sample_started" "history sample_started sample_paid"
  by (rule CreateOrder_history [OF sample_created], rule StartPaymentCheckout_history [OF sample_start],
      rule CompletePaymentWebhook_history [OF sample_webhook])

lemma sample_states_ok: "db_ok sample_ordered" "db_ok sample_started" "db_ok sample_paid"
  using sample_history history_ok sample_db_ok by blast+

end
