(* ===== verification/Order_Properties.thy ===== *)
theory Order_Properties
  imports Sample_Store
begin

text \<open>
  The properties of orders and coupons, each with an instance evaluated on the sample store.
\<close>

section \<open>Buying\<close>

text \<open>C1: An order that is created accounts for its whole price: discount, surplus put in less the
  credit given back, balance used and amount to pay add up to it, none is negative, and exactly one
  row is appended, pending, while exactly the recorded amount leaves the buyer's balance and nobody
  else's, and the database keeps all its constraints.\<close>

theorem create_order_accounts:
  assumes "CreateOrder loc random input now d = Inr (ord, d')" and "db_ok d"
  shows "order_accounts ord \<and> balances d' = debit (oi_user_id input) (o_balance_amount ord) (balances d) \<and>
    db_orders d' = db_orders d @ [ord] \<and> o_status ord = OrderStatusPending \<and>
    o_user_id ord = oi_user_id input \<and> db_ok d'"
  using CreateOrder_effect [OF assms] by simp

theorem create_order_accounts_witness:
  "order_accounts sample_order \<and> balances sample_ordered = debit 2 300 (balances sample_db) \<and> db_ok sample_ordered"
  using create_order_accounts [OF sample_created sample_db_ok]
  by (simp add: sample_order_input_def sample_order_def)

text \<open>C2: Cancelling an order right after creating it always succeeds for the buyer, gives every user
  the balance of before, and leaves the order cancelled.\<close>

theorem create_cancel_roundtrip:
  assumes "CreateOrder loc random input now d = Inr (ord, d1)" and "db_ok d" and "now \<le> later" and "0 \<le> unix later"
  shows "\<exists>ord' d2. CancelOrder (oi_user_id input) (o_trade_no ord) later d1 = Inr (ord', d2) \<and>
    balances d2 = balances d \<and> o_status ord' = OrderStatusCancelled \<and> db_ok d2"
  by (rule create_then_cancel [OF assms]) blast

theorem create_cancel_roundtrip_witness:
  "\<exists>ord' d2. CancelOrder 2 ''2023111506132000000000007'' (sample_now + seconds 5) sample_ordered = Inr (ord', d2) \<and>
    balances d2 = balances sample_db \<and> o_status ord' = OrderStatusCancelled \<and> db_ok d2"
  using create_cancel_roundtrip [OF sample_created sample_db_ok, of "sample_now + seconds 5"]
  by (simp add: sample_order_input_def sample_order_def sample_now_def seconds_def unix_def)





section \<open>Coupons\<close>

lemma created_coupon:
  assumes "CreateOrder loc random input now d = Inr (ord, d')" and "o_coupon_id ord = Some i"
  obtains c d1 d2 period planID code where "c_id c = i" "validateCoupon (oi_user_id input) planID period code now d = Inr c"
    "db_coupons d1 = db_coupons d" "consume_coupon (Some c) now d1 = Inr d2" "db_coupons d' = db_coupons d2"
proof -
  obtain u info price period applied code ord1 ord3 d1 d2 where "u_id u = oi_user_id input"
    and "getPlan (oi_plan_id input) now d = Inr info" and "map_of (p_prices (pl_row info)) period = Some price"
    and cp: "\<forall>c. applied = Some c \<longrightarrow> validateCoupon (oi_user_id input) (p_id (pl_row info)) period code now d = Inr c"
    and cl: "classify_order loc u (db_settings d) (apply_discounts u applied
       (new_order (oi_user_id input) (oi_plan_id input) period (newOrderTradeNo loc now random) price now)) now d = Inr ord1"
    and pay: "pay_from_balance u (setOrderCommission u (db_settings d) d ord1) now d = Inr (ord3, d1)"
    and con: "consume_coupon applied now d1 = Inr d2" and ins: "insert_order ord3 d2 = Inr (o_id ord, d')"
    and o3: "ord = ord3\<lparr>o_id := o_id ord\<rparr>"
    by (rule CreateOrder_stages [OF assms(1)]) (rule that; assumption)
  have "o_coupon_id ord1 = map_option c_id applied"
    using classify_order_frame(2) [OF cl] by (simp add: apply_discounts_rest apply_discounts_coupon)
  moreover have "o_coupon_id ord3 = o_coupon_id ord1"
    using pay setOrderCommission_frame(2) [of u "db_settings d" d ord1]
    by (auto simp: pay_from_balance_def Let_def split: if_splits)
  moreover have "o_coupon_id ord3 = Some i" using assms(2) by (subst (asm) o3) simp
  ultimately obtain c where c: "applied = Some c" "c_id c = i" by (cases applied) auto
  have "db_coupons d1 = db_coupons d"
    using pay by (auto simp: pay_from_balance_def Let_def update_users_Inr split: if_splits)
  moreover have "db_coupons d' = db_coupons d2" using ins by (auto simp: insert_order_Inr)
  ultimately show thesis using that c cp con by blast
qed

text \<open>C4: A coupon an order uses exists, is inside its window, has a use left and has not been used up by
  the buyer; the purchase takes exactly one use of a limited coupon, none of an unlimited one, and
  touches no other coupon.\<close>

theorem coupon_consumed_once:
  assumes "CreateOrder loc random input now d = Inr (ord, d')" and "db_ok d" and "o_coupon_id ord = Some i"
  shows "\<exists>c\<in>set (db_coupons d). c_id c = i \<and> from_unix (c_started_at c) \<le> now \<and> now \<le> from_unix (c_ended_at c) \<and>
    (\<forall>n. c_limit_use c = Some n \<longrightarrow> 0 < n) \<and>
    (\<forall>n. c_limit_use_with_user c = Some n \<longrightarrow> int (coupon_uses i (oi_user_id input) d) < n) \<and>
    db_coupons d' = update_where (\<lambda>r. c_id r = i \<and> c_limit_use r \<noteq> None)
      (\<lambda>r. r\<lparr>c_limit_use := map_option (\<lambda>n. n - 1) (c_limit_use r), c_updated_at := unix now\<rparr>) (db_coupons d)"
proof -
  obtain c d1 d2 period planID code where c: "c_id c = i"
    and v: "validateCoupon (oi_user_id input) planID period code now d = Inr c"
    and d1: "db_coupons d1 = db_coupons d" and con: "consume_coupon (Some c) now d1 = Inr d2"
    and d2: "db_coupons d' = db_coupons d2"
    by (rule created_coupon [OF assms(1,3)])
  note w = validateCoupon_Inr [OF v]
  have same: "r = c" if "r \<in> set (db_coupons d)" "c_id r = i" for r
    using assms(2) w(1) c that by (auto simp: db_ok_def coupons.holds_def coupons_unique_def distinct_map dest: inj_onD)
  have "db_coupons d2 = update_where (\<lambda>r. c_id r = i \<and> c_limit_use r \<noteq> None)
      (\<lambda>r. r\<lparr>c_limit_use := map_option (\<lambda>n. n - 1) (c_limit_use r), c_updated_at := unix now\<rparr>) (db_coupons d)"
  proof (cases "c_limit_use c")
    case None
    then have "d2 = d1" using con by (simp add: consume_coupon_def)
    then show ?thesis using None same d1 by (auto simp: update_where_def intro!: map_idI [symmetric])
  next
    case (Some n)
    then have "0 < n" using w(2) by simp
    then have "(case c_limit_use r of None \<Rightarrow> False | Some m \<Rightarrow> m > 0) \<longleftrightarrow> c_limit_use r \<noteq> None"
      if "r \<in> set (db_coupons d)" "c_id r = i" for r using same [OF that] Some by simp
    then show ?thesis using con c Some d1
      by (auto simp: consume_coupon_def Let_def update_coupons_Inr update_where_def)
  qed
  then show ?thesis using w c d2 by (intro bexI [of _ c]) auto
qed

theorem coupon_consumed_once_witness:
  "db_coupons sample_ordered = update_where (\<lambda>r. c_id r = 1 \<and> c_limit_use r \<noteq> None)
      (\<lambda>r. r\<lparr>c_limit_use := map_option (\<lambda>n. n - 1) (c_limit_use r), c_updated_at := unix sample_now\<rparr>) (db_coupons sample_db)"
  using coupon_consumed_once [OF sample_created sample_db_ok, of 1] by (auto simp: sample_order_def)

section \<open>Completing\<close>

text \<open>Completing an order is idempotent: once an order is completed, completing it again with any
  callback number succeeds, changes nothing and grants nothing.\<close>

theorem complete_order_idempotent:
  assumes "CompleteOrder loc tradeNo callbackNo now d = Inr ((ord, ch), d1)" and "db_ok d"
    and "1 \<le> length callbackNo'" and "length callbackNo' \<le> 255" and "0 \<le> unix now'"
  shows "\<exists>row. CompleteOrder loc tradeNo callbackNo' now' d1 = Inr ((row, None), d1) \<and>
    o_status row = OrderStatusCompleted \<and> o_trade_no row = tradeNo"
  by (rule CompleteOrder_again [OF assms])

lemma sample_direct_completion:
  "CompleteOrder sample_zone ''2023111506132000000000007'' ''again'' sample_now sample_paid =
     Inr ((sample_completed, None), sample_paid)"
  by code_simp

theorem complete_order_idempotent_witness:
  "\<exists>row. CompleteOrder sample_zone ''2023111506132000000000007'' ''third'' sample_now sample_paid =
     Inr ((row, None), sample_paid) \<and> o_status row = OrderStatusCompleted \<and>
     o_trade_no row = ''2023111506132000000000007''"
  by (rule complete_order_idempotent [OF sample_direct_completion sample_states_ok(3)])
     (simp_all add: sample_now_def unix_def)

end
