(* ===== verification/Payment_Properties.thy ===== *)
theory Payment_Properties
  imports Sample_Store
begin

text \<open>
  The properties of the payment checkout, each with an instance evaluated on the sample store.
\<close>

section \<open>What a checkout asks for\<close>

text \<open>C5: The handling fee is the percentage of the amount rounded half up plus the fixed part, computed
  without overflow although the code splits the multiplication; a fee above the money bound is an error.\<close>

theorem handling_fee_exact:
  assumes "money amount" and "money fixed" and "0 \<le> bp" and "bp \<le> 10000"
  shows "PaymentHandlingFee amount fixed bp =
    (let fee = (amount * bp + 5000) div 10000 + fixed in
     if fee > maxOrderMoneyCents then Inl ErrInvalidInput else Inr fee)"
  by (rule PaymentHandlingFee_exact [OF assms])

theorem handling_fee_exact_witness: "PaymentHandlingFee 1999 30 250 = Inr 80"
  using handling_fee_exact [of 1999 30 250] by (simp add: money_def maxOrderMoneyCents_def Let_def)

lemma attempt_ok_member: "db_ok d \<Longrightarrow> a \<in> set (db_attempts d) \<Longrightarrow> attempt_ok a"
  by (auto simp: db_ok_def attempts.holds_def list_all_iff attempt_check_def)

lemma attempt_amount:
  assumes "db_ok d" and "a \<in> set (db_attempts d)"
  shows "money (a_expected_amount a)"
  using attempt_ok_member [OF assms] unfolding attempt_ok_def money_def by (elim conjE) linarith

lemma obtain_attempt_effect:
  assumes "obtain_attempt random orderID paymentID expected now d = Inr ((a, cached), d')"
  shows "a \<in> set (db_attempts d')" and "a_order_id a = orderID" and "a_payment_id a = paymentID"
    and "db_orders d' = db_orders d" and "\<not> cached \<Longrightarrow> a_expected_amount a = expected"
proof -
  have "a \<in> set (db_attempts d') \<and> a_order_id a = orderID \<and> a_payment_id a = paymentID \<and>
    db_orders d' = db_orders d \<and> (\<not> cached \<longrightarrow> a_expected_amount a = expected)"
  proof (cases "find_attempt orderID paymentID d")
    case None
    then show ?thesis using assms by (auto simp: obtain_attempt_def Let_def insert_attempt_Inr)
  next
    case (Some b)
    then have "b \<in> set (db_attempts d)" "a_order_id b = orderID" "a_payment_id b = paymentID"
      by (auto simp: find_attempt_def dest!: find_eq_Some_set)
    then show ?thesis using assms Some
      by (auto simp: obtain_attempt_def update_attempts_Inr update_where_def restart_attempt_def split: if_splits)
  qed
  then show "a \<in> set (db_attempts d')" and "a_order_id a = orderID" and "a_payment_id a = paymentID"
    and "db_orders d' = db_orders d" and "\<not> cached \<Longrightarrow> a_expected_amount a = expected" by auto
qed

text \<open>A started checkout asks the provider for exactly the amount the order has to pay plus the
  handling amount the order records, whether the attempt is new, restarted or reused; the attempt is
  stored for this order and method, and the order row carries the method and the handling amount.\<close>

theorem checkout_asks_total_and_fee:
  assumes "StartPaymentCheckout random input now d = Inr (st, d')" and "db_ok d"
  shows "a_expected_amount (cs_attempt st) =
      o_total_amount (cs_order st) + (case o_handling_amount (cs_order st) of None \<Rightarrow> 0 | Some f \<Rightarrow> f) \<and>
    cs_attempt st \<in> set (db_attempts d') \<and> a_order_id (cs_attempt st) = o_id (cs_order st) \<and>
    a_payment_id (cs_attempt st) = pay_id (cs_payment st) \<and> o_payment_id (cs_order st) = Some (pay_id (cs_payment st)) \<and>
    cs_order st \<in> set (db_orders d')"
proof -
  obtain ord meth fee a cached d1 where
    f: "find_order (\<lambda>r. o_user_id r = si_user_id input \<and> o_trade_no r = si_trade_no input) d = Inr ord"
    and p: "o_status ord = OrderStatusPending" and m: "getPayment (si_payment_id input) d = Inr meth"
    and fee: "PaymentHandlingFee (o_total_amount ord) (pay_handling_fee_fixed meth) (pay_handling_fee_basis_points meth) = Inr fee"
    and room: "o_total_amount ord \<le> i64 (maxOrderMoneyCents - fee)"
    and ob: "obtain_attempt random (o_id ord) (pay_id meth) (i64 (o_total_amount ord + fee)) now d = Inr ((a, cached), d1)"
    and ge: "cached \<longrightarrow> a_expected_amount a \<ge> o_total_amount ord"
    and up: "update_orders (\<lambda>r. o_id r = o_id ord \<and> o_status r = OrderStatusPending)
       (\<lambda>r. r\<lparr>o_payment_id := Some (pay_id meth), o_handling_amount := nullablePositiveMoney
         (if cached then i64 (a_expected_amount a - o_total_amount ord) else fee), o_updated_at := unix now\<rparr>) d1 = Inr d'"
    and st: "cs_attempt st = a" "cs_payment st = meth" "cs_cached st = cached"
    "cs_order st = ord\<lparr>o_payment_id := Some (pay_id meth), o_handling_amount :=
       (let f = (if cached then i64 (a_expected_amount a - o_total_amount ord) else fee) in if f > 0 then Some f else None),
       o_updated_at := unix now\<rparr>"
    by (rule StartPaymentCheckout_stages [OF assms(1)]) (rule that; assumption)
  note o = find_order_Inr [OF f]
  note ob' = obtain_attempt_effect [OF ob]
  have mo: "money (o_total_amount ord)" using order_ok_member [OF assms(2)] o by (simp add: order_ok_def)
  have ma: "money (a_expected_amount a)"
    by (rule attempt_amount [OF history_ok [OF obtain_attempt_history [OF ob] assms(2)] ob'(1)])
  note fb = PaymentHandlingFee_bounds [OF fee]
  define h where "h = (if cached then i64 (a_expected_amount a - o_total_amount ord) else fee)"
  have h: "0 \<le> h \<and> a_expected_amount a = o_total_amount ord + h"
  proof (cases cached)
    case True
    then show ?thesis using ge mo ma by (simp add: h_def money_def maxOrderMoneyCents_def wrap_simps)
  next
    case False
    have "o_total_amount ord \<le> maxOrderMoneyCents - fee" "0 \<le> o_total_amount ord"
      using room fb mo by (simp_all add: maxOrderMoneyCents_def wrap_simps money_def)
    then have "i64 (o_total_amount ord + fee) = o_total_amount ord + fee"
      using fb by (intro i64_id) (simp_all add: maxOrderMoneyCents_def)
    then show ?thesis using ob'(5) [OF False] False fb(1) by (simp add: h_def)
  qed
  have row: "ord\<lparr>o_payment_id := Some (pay_id meth), o_handling_amount := nullablePositiveMoney h, o_updated_at := unix now\<rparr>
      \<in> set (db_orders d')"
    using up o p ob'(4) by (auto simp: update_orders_Inr update_where_def h_def)
  have hh: "(if h > 0 then Some h else None) = nullablePositiveMoney h" using h by (auto simp: nullablePositiveMoney_def)
  have "db_attempts d' = db_attempts d1" using up by (simp add: update_orders_Inr)
  then show ?thesis
    using h row ob'(1-3) unfolding st h_def [symmetric] Let_def hh by (auto simp: nullablePositiveMoney_def)
qed

theorem checkout_asks_total_and_fee_witness:
  "a_expected_amount sample_attempt = o_total_amount sample_bound + 16 \<and> sample_attempt \<in> set (db_attempts sample_started) \<and>
    sample_bound \<in> set (db_orders sample_started)"
  using checkout_asks_total_and_fee [OF sample_start history_ok [OF CreateOrder_history [OF sample_created] sample_db_ok]]
  by (simp add: sample_checkout_def sample_bound_def)

section \<open>The outcome the provider gives\<close>

lemma attempt_member_unique:
  "db_ok d \<Longrightarrow> a \<in> set (db_attempts d) \<Longrightarrow> a' \<in> set (db_attempts d) \<Longrightarrow> a_id a = a_id a' \<Longrightarrow> a = a'"
  by (auto simp: db_ok_def attempts.holds_def attempts_unique_def distinct_map dest: inj_onD)

lemma CompletePaymentCheckout_result:
  assumes "CompletePaymentCheckout attemptID key rt rd ext now d = Inr (a, d')" and ok: "db_ok d"
  shows "a \<in> set (db_attempts d')" and "a_id a = attemptID" and "a_idempotency_key a = key"
    and "a_status a = PaymentCheckoutCreated" and "a_response_type a = Some rt" and "a_response_data a = Some rd"
    and "a_external_id a = nullableText ext"
proof -
  let ?f = "\<lambda>r. r\<lparr>a_status := PaymentCheckoutCreated, a_external_id := nullableText ext, a_response_type := Some rt,
    a_response_data := Some rd, a_error_code := None, a_updated_at := unix now\<rparr>"
  obtain b where b: "b \<in> set (db_attempts d)" "a_id b = attemptID" "a_idempotency_key b = key"
    and c: "if a_status b = PaymentCheckoutCreated then a_response_type b = Some rt \<and> a_response_data b = Some rd \<and>
          a_external_id b = nullableText ext \<and> a = b \<and> d' = d
      else update_attempts (\<lambda>r. a_id r = a_id b \<and> a_status r = PaymentCheckoutCreating) ?f d = Inr d' \<and>
           count_where (\<lambda>r. a_id r = a_id b \<and> a_status r = PaymentCheckoutCreating) (db_attempts d) = 1 \<and> a = ?f b"
    using assms(1) unfolding CompletePaymentCheckout_def Let_def
    by (elim stageE) (auto dest!: find_eq_Some_set split: if_splits)
  have "a \<in> set (db_attempts d') \<and> a_id a = attemptID \<and> a_idempotency_key a = key \<and>
    a_status a = PaymentCheckoutCreated \<and> a_response_type a = Some rt \<and> a_response_data a = Some rd \<and>
    a_external_id a = nullableText ext"
  proof (cases "a_status b = PaymentCheckoutCreated")
    case True
    then show ?thesis using b c by simp
  next
    case False
    let ?p = "\<lambda>r. a_id r = a_id b \<and> a_status r = PaymentCheckoutCreating"
    have up: "update_attempts ?p ?f d = Inr d'" and one: "count_where ?p (db_attempts d) = 1" and a: "a = ?f b"
      using c False by auto
    obtain r where "r \<in> set (db_attempts d)" "?p r" using one count_where_pos [of ?p "db_attempts d"] by auto
    then have "?p b" using attempt_member_unique [OF ok, of r b] b(1) by simp
    then have "a \<in> set (db_attempts d')"
      using up b(1) unfolding a update_attempts_Inr update_where_def by (auto simp: image_iff intro!: bexI [of _ b])
    then show ?thesis using a b by simp
  qed
  then show "a \<in> set (db_attempts d')" and "a_id a = attemptID" and "a_idempotency_key a = key"
    and "a_status a = PaymentCheckoutCreated" and "a_response_type a = Some rt" and "a_response_data a = Some rd"
    and "a_external_id a = nullableText ext" by auto
qed

text \<open>The outcome of a checkout is recorded once: repeating the same completion succeeds with the stored
  attempt and changes nothing, and a completion with another response is refused as a conflict.\<close>

theorem checkout_outcome_final:
  assumes "CompletePaymentCheckout attemptID key rt rd ext now d = Inr (a, d')" and "db_ok d"
    and "rt' \<in> {0, 1}" and "validPaymentResponseData rd'" and "validOptionalExternalPaymentID ext'" and "0 \<le> unix later"
  shows "CompletePaymentCheckout attemptID key rt' rd' ext' later d' =
    (if rt' = rt \<and> rd' = rd \<and> nullableText ext' = nullableText ext then Inr (a, d') else Inl ErrConflict)"
proof -
  note r = CompletePaymentCheckout_result [OF assms(1,2)]
  note ok' = history_ok [OF CompletePaymentCheckout_history [OF assms(1)] assms(2)]
  have g: "1 \<le> attemptID" "validPaymentIdempotencyKey key"
    using assms(1) by (auto simp: CompletePaymentCheckout_def split: if_splits)
  obtain x where x: "List.find (\<lambda>a. a_id a = attemptID) (db_attempts d') = Some x"
    using r(1,2) find_eq_None_iff [of "\<lambda>a. a_id a = attemptID" "db_attempts d'"]
    by (cases "List.find (\<lambda>a. a_id a = attemptID) (db_attempts d')") auto
  then have "x = a" using find_eq_Some_set [OF x] attempt_member_unique [OF ok', of x a] r(1,2) by simp
  then show ?thesis using x g r(3-7) assms(3-6)
    unfolding CompletePaymentCheckout_def by auto
qed

lemma sample_answered:
  "CompletePaymentCheckout 1 (a_idempotency_key sample_attempt) 1 ''https://pay'' [] (sample_now + seconds 61) sample_started =
     Inr (sample_attempt\<lparr>a_status := PaymentCheckoutCreated, a_response_type := Some 1, a_response_data := Some ''https://pay'',
        a_updated_at := 1700000061\<rparr>, sample_started\<lparr>db_attempts := [sample_attempt\<lparr>a_status := PaymentCheckoutCreated,
        a_response_type := Some 1, a_response_data := Some ''https://pay'', a_updated_at := 1700000061\<rparr>]\<rparr>)"
  by code_simp

theorem checkout_outcome_final_witness:
  "CompletePaymentCheckout 1 (a_idempotency_key sample_attempt) 0 ''https://other'' [] (sample_now + seconds 70)
     (sample_started\<lparr>db_attempts := [sample_attempt\<lparr>a_status := PaymentCheckoutCreated,
        a_response_type := Some 1, a_response_data := Some ''https://pay'', a_updated_at := 1700000061\<rparr>]\<rparr>) = Inl ErrConflict"
proof -
  have "validPaymentResponseData ''https://other''" by code_simp
  then show ?thesis
    using checkout_outcome_final [OF sample_answered sample_states_ok(2), of 0 "''https://other''" "[]" "sample_now + seconds 70"]
    by (simp add: validOptionalExternalPaymentID_def sample_now_def seconds_def unix_def)
qed

section \<open>The webhook\<close>




text \<open>C7: Delivering the same notification again, at any later time, is accepted, returns the order and
  changes nothing: a payment is settled exactly once however often the provider repeats itself.\<close>

theorem webhook_idempotent:
  assumes "CompletePaymentWebhook loc upper lower notify raw now d = Inr (ord', d')" and "db_ok d" and "0 \<le> unix later"
  shows "\<exists>row. CompletePaymentWebhook loc upper lower notify' raw later d' = Inr (row, d') \<and>
    row \<in> set (db_orders d') \<and> o_trade_no row = wi_trade_no raw"
  by (rule webhook_replay [OF assms])

theorem webhook_idempotent_witness:
  "\<exists>row. CompletePaymentWebhook sample_zone id id (\<lambda>_ _ _. Inr ()) sample_delivery (sample_now + seconds 999) sample_paid = Inr (row, sample_paid) \<and>
    row \<in> set (db_orders sample_paid) \<and> o_trade_no row = wi_trade_no sample_delivery"
  by (rule webhook_idempotent [OF sample_webhook sample_states_ok(2)]) (simp add: sample_now_def seconds_def unix_def)

end
