(* ===== verification/Commission_Properties.thy ===== *)
theory Commission_Properties
  imports Sample_Store
begin

text \<open>
  The properties of commissions, each with an instance evaluated on the sample store.
\<close>

section \<open>Paying the commission of an order\<close>

text \<open>C8: Paying the commission of an order appends one log per credited inviter, credits every user by
  exactly the logs that name them and nobody else, never pays more than the commission the order
  earned however the shares are rounded, and records the sum on the order, whose commission is then
  paid; only an order whose commission was confirmed is paid.\<close>

theorem commission_settlement_exact:
  assumes "settleOrderCommissionTx ord levels wc now d = Inr d'" and "db_ok d" and "ord \<in> set (db_orders d)"
    and "levels_ok levels"
  shows "\<exists>ls. db_commission_logs d' = db_commission_logs d @ ls \<and> (\<forall>l\<in>set ls. cl_order_id l = o_id ord) \<and>
    sum_list (map cl_get_amount ls) \<le> o_commission_balance ord \<and>
    holdings d' = credits (earned ls) (holdings d) \<and> o_commission_status ord = 1 \<and>
    ord\<lparr>o_commission_status := 2, o_actual_commission_balance := Some (sum_list (map cl_get_amount ls)),
      o_updated_at := unix now\<rparr> \<in> set (db_orders d')"
proof -
  obtain ls us actual where
    d': "d' = d\<lparr>db_users := us, db_commission_logs := db_commission_logs d @ ls,
       db_orders := update_where (\<lambda>r. o_id r = o_id ord)
         (\<lambda>r. r\<lparr>o_commission_status := 2, o_actual_commission_balance := Some actual, o_updated_at := unix now\<rparr>)
         (db_orders d)\<rparr>"
    and e: "\<forall>l\<in>set ls. cl_order_id l = o_id ord" "actual = sum_list (map cl_get_amount ls)"
    "actual \<le> o_commission_balance ord" "holdings d' = credits (earned ls) (holdings d)" "o_commission_status ord = 1"
    by (rule settleOrderCommissionTx_effect [OF assms]) (rule that; assumption)
  have "ord\<lparr>o_commission_status := 2, o_actual_commission_balance := Some actual, o_updated_at := unix now\<rparr> \<in> set (db_orders d')"
    using assms(3) by (auto simp: d' update_where_def)
  moreover have "db_commission_logs d' = db_commission_logs d @ ls" by (simp add: d')
  ultimately show ?thesis using e by (intro exI [of _ ls]) blast
qed

definition sample_confirmed :: db where
  "sample_confirmed = sample_paid\<lparr>db_orders := [sample_completed\<lparr>o_commission_status := 1\<rparr>]\<rparr>"

lemma sample_confirmed_ok: "db_ok sample_confirmed"
  unfolding db_ok_def holds_defs seqs_ok_def check_defs by code_simp

lemma sample_confirmed_settled:
  "settleOrderCommissionTx (sample_completed\<lparr>o_commission_status := 1\<rparr>) [60, 30, 10] False (sample_now + seconds 345600)
     sample_confirmed = Inr sample_commissioned"
  by code_simp

theorem commission_settlement_exact_witness:
  "\<exists>ls. db_commission_logs sample_commissioned = ls \<and> sum_list (map cl_get_amount ls) \<le> 90 \<and>
    holdings sample_commissioned = credits (earned ls) (holdings sample_confirmed)"
  using commission_settlement_exact [OF sample_confirmed_settled sample_confirmed_ok]
  by (auto simp: sample_confirmed_def levels_ok_def sample_completed_def sample_bound_def sample_order_def
      sample_paid_def sample_started_def sample_ordered_def sample_db_def)

section \<open>The batch\<close>




lemma sample_paid_facts: "db_ok sample_paid" "commissions_booked sample_paid"
proof -
  show "db_ok sample_paid" unfolding db_ok_def holds_defs seqs_ok_def check_defs by code_simp
  show "commissions_booked sample_paid" by code_simp
qed


section \<open>Moving commission into the balance\<close>

text \<open>C10: A transfer moves exactly the amount from the user's commission into the balance, answers with the
  two new amounts, never takes more commission than there is, and changes what nobody holds in total.\<close>

theorem transfer_conserves_holdings:
  assumes "TransferCommission userID amount now d = Inr ((cb, b), d')" and "db_ok d"
  shows "holdings d' = holdings d \<and> (\<exists>u\<in>set (db_users d). \<exists>v\<in>set (db_users d'). u_id u = userID \<and> u_id v = userID \<and>
    0 < amount \<and> amount \<le> u_commission_balance u \<and> cb = u_commission_balance u - amount \<and> b = u_balance u + amount \<and>
    u_commission_balance v = cb \<and> u_balance v = b) \<and> db_ok d'"
  by (rule TransferCommission_effect [OF assms]) (use history_ok assms(2) in fastforce)

lemma sample_transfer:
  "TransferCommission 1 50 (sample_now + seconds 345700) sample_commissioned =
     Inr ((4, 50), sample_commissioned\<lparr>db_users := [(sample_user 1 ''inviter@example.com'')\<lparr>u_commission_balance := 4,
       u_balance := 50, u_admin_revision := 3, u_updated_at := 1700345700\<rparr>, sample_subscriber]\<rparr>)"
  by code_simp

theorem transfer_conserves_holdings_witness:
  "holdings (sample_commissioned\<lparr>db_users := [(sample_user 1 ''inviter@example.com'')\<lparr>u_commission_balance := 4,
       u_balance := 50, u_admin_revision := 3, u_updated_at := 1700345700\<rparr>, sample_subscriber]\<rparr>) =
     holdings sample_commissioned"
  using transfer_conserves_holdings [OF sample_transfer
    history_ok [OF ProcessCommissions_history [OF sample_commissions sample_paid_facts(1)] sample_paid_facts(1)]]
  by simp

end
