(* ===== verification/Plans_Correct.thy ===== *)
theory Plans_Correct
  imports Plans Evolution
begin

text \<open>
  The lemmas of the plan catalogue: what every operation keeps, optimistic locking, the order of the
  catalogue, the paged rescheduling of users as one update, and the batch of due traffic resets.
\<close>

lemma set_plan_columns_fields [simp]:
  "p_id (set_plan_columns n now p) = p_id p" "p_revision (set_plan_columns n now p) = p_revision p + 1"
  by (simp_all add: set_plan_columns_def)

lemma push_plan_columns_id [simp]: "u_id (push_plan_columns n now u) = u_id u"
  by (simp add: push_plan_columns_def)

section \<open>Every operation is a history\<close>

lemma CreatePlan_stages:
  assumes "CreatePlan input now d = Inr (info, d')"
  obtains n i where "normalizePlanInput input = Inr n" and "validatePlanGroup (pi_group_id n) d = Inr ()"
    and "insert_plan (new_plan n (next_plan_position (db_plans d)) now) d = Inr (i, d')"
    and "getPlan i now d' = Inr info"
  using assms unfolding CreatePlan_def by (auto simp only: ebind_eq_Inr ebind_pair_eq_Inr sum.inject prod.inject)

lemma CreatePlan_history: "CreatePlan input now d = Inr (info, d') \<Longrightarrow> history d d'"
  by (erule CreatePlan_stages) (rule insert_plan_history)

lemma reschedule_user_history: "reschedule_user loc pm sm now w u d = Inr d' \<Longrightarrow> history d d'"
  unfolding reschedule_user_def by (erule update_users_history) simp

lemma reschedule_batches_stage:
  assumes "reschedule_batches loc pm sm now sel w lastID d = Inr d'"
  obtains d1 where "efold (reschedule_user loc pm sm now w) (reschedule_batch sel lastID d) d = Inr d1"
    and "length (reschedule_batch sel lastID d) < 500 \<longrightarrow> d' = d1"
    and "\<not> length (reschedule_batch sel lastID d) < 500 \<longrightarrow>
         reschedule_batches loc pm sm now sel w (u_id (last (reschedule_batch sel lastID d))) d1 = Inr d'"
proof -
  let ?us = "reschedule_batch sel lastID d"
  from assms have "ebind (efold (reschedule_user loc pm sm now w) ?us d) (\<lambda>d1.
        if length ?us < 500 then Inr d1
        else reschedule_batches loc pm sm now sel w (u_id (last ?us)) d1) = Inr d'"
    unfolding reschedule_batches.simps [of loc pm sm now sel w lastID d] Let_def .
  then show thesis by (rule ebind_InrE) (rule that; simp split: if_splits)
qed

lemma reschedule_batches_history:
  "reschedule_batches loc pm sm now sel w lastID d = Inr d' \<Longrightarrow> history d d'"
proof (induction loc pm sm now sel w lastID d rule: reschedule_batches.induct)
  case (1 loc pm sm now sel w lastID d)
  let ?us = "reschedule_batch sel lastID d"
  obtain d1 where d1: "efold (reschedule_user loc pm sm now w) ?us d = Inr d1"
    and fin: "length ?us < 500 \<longrightarrow> d' = d1"
    and more: "\<not> length ?us < 500 \<longrightarrow> reschedule_batches loc pm sm now sel w (u_id (last ?us)) d1 = Inr d'"
    using "1.prems" by (rule reschedule_batches_stage) (rule that; assumption)
  have "history d d1"
    by (rule history.fold_respects [OF d1]) (rule reschedule_user_history)
  moreover have "history d1 d'"
  proof (cases "length ?us < 500")
    case True
    then show ?thesis using fin history.refl by simp
  next
    case False
    then show ?thesis using "1.IH" [OF refl d1] more by simp
  qed
  ultimately show ?case by (rule history.trans)
qed

lemma UpdatePlan_stages:
  assumes "UpdatePlan loc planID revision input forceUpdateUsers now d = Inr (info, d')"
  obtains n current d1 d2 where "1 \<le> planID" and "1 \<le> revision" and "normalizePlanInput input = Inr n"
    and "validatePlanGroup (pi_group_id n) d = Inr ()"
    and "List.find (\<lambda>p. p_id p = planID \<and> p_revision p = revision) (db_plans d) = Some current"
    and "update_plans (\<lambda>p. p_id p = planID \<and> p_revision p = revision) (set_plan_columns n now) d = Inr d1"
    and "(if sameOptionalPlanInt (p_reset_traffic_method current) (pi_reset_traffic_method n) then Inr d1
          else reschedulePlanUsers loc planID (pi_reset_traffic_method n) now d1) = Inr d2"
    and "(if \<not> forceUpdateUsers then Inr d2 else
          update_users (\<lambda>u. u_plan_id u = Some planID \<and> u_account_kind u = AccountKindHuman)
            (push_plan_columns n now) d2) = Inr d'"
    and "getPlan planID now d' = Inr info"
proof (cases "List.find (\<lambda>p. p_id p = planID \<and> p_revision p = revision) (db_plans d)")
  case None
  then show ?thesis using assms unfolding UpdatePlan_def by auto
next
  case (Some current)
  show ?thesis
    using assms unfolding UpdatePlan_def Some option.case
    by (elim stageE) (rule that [OF _ _ _ _ Some]; (assumption | simp))
qed

lemma UpdatePlan_history:
  assumes "UpdatePlan loc planID revision input forceUpdateUsers now d = Inr (info, d')"
  shows "history d d'"
proof -
  obtain n current d1 d2 where "normalizePlanInput input = Inr n"
    and "List.find (\<lambda>p. p_id p = planID \<and> p_revision p = revision) (db_plans d) = Some current"
    and u1: "update_plans (\<lambda>p. p_id p = planID \<and> p_revision p = revision) (set_plan_columns n now) d = Inr d1"
    and u2: "(if sameOptionalPlanInt (p_reset_traffic_method current) (pi_reset_traffic_method n) then Inr d1
          else reschedulePlanUsers loc planID (pi_reset_traffic_method n) now d1) = Inr d2"
    and u3: "(if \<not> forceUpdateUsers then Inr d2 else
          update_users (\<lambda>u. u_plan_id u = Some planID \<and> u_account_kind u = AccountKindHuman)
            (push_plan_columns n now) d2) = Inr d'"
    using assms by (rule UpdatePlan_stages) (rule that; assumption)
  have "history d d1" using u1 by (rule update_plans_history) simp
  also have "history d1 d2"
    using u2 unfolding reschedulePlanUsers_def
    by (auto split: if_splits intro: history.refl reschedule_batches_history)
  also have "history d2 d'"
    using u3 by (auto split: if_splits intro: history.refl update_users_history)
  finally show ?thesis .
qed

lemma SetPlanState_stages:
  assumes "SetPlanState planID revision state now d = Inr (info, d')"
  obtains "1 \<le> planID" and "1 \<le> revision"
    and "update_plans (\<lambda>p. p_id p = planID \<and> p_revision p = revision)
        (\<lambda>p. p\<lparr>p_show := ps_show state, p_sell := ps_sell state, p_renew := ps_renew state,
               p_revision := p_revision p + 1, p_updated_at := unix now\<rparr>) d = Inr d'"
    and "count_where (\<lambda>p. p_id p = planID \<and> p_revision p = revision) (db_plans d) = 1"
    and "getPlan planID now d' = Inr info"
  using assms unfolding SetPlanState_def by (auto simp: not_less)

lemma SetPlanState_history: "SetPlanState planID revision state now d = Inr (info, d') \<Longrightarrow> history d d'"
  by (erule SetPlanState_stages, erule update_plans_history) simp

lemma DeletePlan_stages:
  assumes "DeletePlan planID d = Inr d'"
  obtains "1 \<le> planID" and "exists_where (\<lambda>p. p_id p = planID) (db_plans d)"
    and "\<forall>u\<in>set (db_users d). u_plan_id u \<noteq> Some planID"
    and "\<forall>r\<in>set (db_orders d). o_plan_id r \<noteq> planID"
    and "s_try_out_plan_id (db_settings d) \<noteq> planID" and "\<forall>c\<in>set (db_gift_codes d). map_option gs_plan_id (gc_purchase_snapshot c) \<noteq> Some planID"
    and "\<forall>g\<in>set (db_gift_usages d). gu_user_plan_id g \<noteq> Some planID"
    and "d' = d\<lparr>db_plans := filter (\<lambda>p. p_id p \<noteq> planID) (db_plans d),
                  db_visibility := filter (\<lambda>(p, _, _). p \<noteq> planID) (db_visibility d),
                  db_reset_logs := update_where (\<lambda>l. rl_plan_id l = Some planID)
                    (\<lambda>l. l\<lparr>rl_plan_id := None\<rparr>) (db_reset_logs d)\<rparr>"
  using assms unfolding DeletePlan_def by (auto simp: exists_where_iff)

lemma DeletePlan_keeps:
  assumes "DeletePlan planID d = Inr d'" and ok: "db_ok d"
  shows "db_ok d'"
  using assms(1)
proof (rule DeletePlan_stages)
  let ?ps = "filter (\<lambda>p. p_id p \<noteq> planID) (db_plans d)"
  assume us: "\<forall>u\<in>set (db_users d). u_plan_id u \<noteq> Some planID"
    and os: "\<forall>r\<in>set (db_orders d). o_plan_id r \<noteq> planID"
    and gs: "\<forall>g\<in>set (db_gift_usages d). gu_user_plan_id g \<noteq> Some planID"
    and d': "d' = d\<lparr>db_plans := ?ps,
                  db_visibility := filter (\<lambda>(p, _, _). p \<noteq> planID) (db_visibility d),
                  db_reset_logs := update_where (\<lambda>l. rl_plan_id l = Some planID)
                    (\<lambda>l. l\<lparr>rl_plan_id := None\<rparr>) (db_reset_logs d)\<rparr>"
  have ref: "opt_all (\<lambda>q. q \<in> p_id ` set (db_plans d)) x \<Longrightarrow> x \<noteq> Some planID \<Longrightarrow> opt_all (\<lambda>q. q \<in> p_id ` set ?ps) x" for x
    by (cases x) auto
  have "users.holds d'"
    using ok us ref unfolding d' db_ok_def users.holds_def user_check_def user_refs_def by (auto simp: list_all_iff)
  moreover have "plans.holds d'"
    using ok unfolding d' db_ok_def plans.holds_def
    by (auto simp: list_all_iff plan_check_def plan_refs_def plans_unique_def distinct_map_filter)
  moreover have "orders.holds d'"
    using ok os unfolding d' db_ok_def orders.holds_def order_check_def order_refs_def by (auto simp: list_all_iff)
  moreover have "reset_logs.holds d'"
    using ok ref unfolding d' db_ok_def reset_logs.holds_def reset_log_check_def reset_logs_unique_def
    by (auto simp: list_all_iff set_update_where map_update_where_inv reset_log_ok_def)
  moreover have "gift_usages.holds d'"
    using ok gs ref unfolding d' db_ok_def gift_usages.holds_def gift_usage_check_def gift_usage_refs_def by (auto simp: list_all_iff)
  ultimately show ?thesis using ok unfolding d'
    by (simp add: db_ok_def holds_defs check_defs refs_defs seqs_ok_def list_all_iff)
qed

lemma DeletePlan_history:
  assumes "DeletePlan planID d = Inr d'"
  shows "history d d'"
proof (rule history_frame)
  show "keeps_ok d d'" using DeletePlan_keeps [OF assms] by (simp add: keeps_ok_def)
qed (use assms in \<open>auto elim: DeletePlan_stages\<close>)

lemma reorder_step_history: "reorder_step now x d = Inr d' \<Longrightarrow> history d d'"
  by (cases x) (auto simp: reorder_step_def elim: update_plans_history)

lemma ReorderPlans_stages:
  assumes "ReorderPlans ids now d = Inr (infos, d')"
  obtains "distinct ids" and "length (db_plans d) = length ids"
    and "efold (reorder_step now) (List.enumerate 0 ids) d = Inr d'" and "infos = listPlans now (\<lambda>_. True) d'"
  using assms unfolding ReorderPlans_def by (auto simp: not_less)

lemma ReorderPlans_history: "ReorderPlans ids now d = Inr (infos, d') \<Longrightarrow> history d d'"
  by (erule ReorderPlans_stages, erule history.fold_respects) (rule reorder_step_history)

lemma SavePlanVisibility_stages:
  assumes "SavePlanVisibility input now d = Inr d'"
  obtains d1 where "validatePlanVisibilityInput input = Inr ()"
    and "list_all (audience_member d False) (vi_customer_user_ids input)"
    and "list_all (audience_member d True) (vi_distributor_user_ids input)"
    and "update_plans (\<lambda>p. p_id p = vi_plan_id input)
       (\<lambda>p. p\<lparr>p_customer_visibility := vi_customer_visibility input,
              p_distributor_visibility := vi_distributor_visibility input,
              p_revision := p_revision p + 1, p_updated_at := unix now\<rparr>) d = Inr d1"
    and "count_where (\<lambda>p. p_id p = vi_plan_id input) (db_plans d) \<noteq> 0"
    and "d' = d1\<lparr>db_visibility :=
       filter (\<lambda>(p, _, _). p \<noteq> vi_plan_id input) (db_visibility d1) @
       map (\<lambda>i. (vi_plan_id input, ''customer'', i)) (vi_customer_user_ids input) @
       map (\<lambda>i. (vi_plan_id input, ''distributor'', i)) (vi_distributor_user_ids input)\<rparr>"
  using assms unfolding SavePlanVisibility_def
  by (elim stageE) (rule that; (assumption | erule Inr_inject [THEN sym] | simp))

text \<open>The audience rows are outside the constraints and the relations of the history.\<close>

lemma db_ok_visibility: "db_ok (d\<lparr>db_visibility := vs\<rparr>) = db_ok d"
  by (simp add: db_ok_def holds_defs check_defs refs_defs seqs_ok_def list_all_iff)

lemma SavePlanVisibility_history:
  assumes "SavePlanVisibility input now d = Inr d'"
  shows "history d d'"
  using assms
proof (rule SavePlanVisibility_stages)
  fix d1
  assume "update_plans (\<lambda>p. p_id p = vi_plan_id input)
       (\<lambda>p. p\<lparr>p_customer_visibility := vi_customer_visibility input,
              p_distributor_visibility := vi_distributor_visibility input,
              p_revision := p_revision p + 1, p_updated_at := unix now\<rparr>) d = Inr d1"
    and d': "d' = d1\<lparr>db_visibility :=
       filter (\<lambda>(p, _, _). p \<noteq> vi_plan_id input) (db_visibility d1) @
       map (\<lambda>i. (vi_plan_id input, ''customer'', i)) (vi_customer_user_ids input) @
       map (\<lambda>i. (vi_plan_id input, ''distributor'', i)) (vi_distributor_user_ids input)\<rparr>"
  then have "history d d1" by (auto elim: update_plans_history)
  also have "history d1 d'" unfolding d' by (rule history_frame) (simp_all add: keeps_ok_def db_ok_visibility)
  finally show ?thesis .
qed

lemma reset_step_history: "reset_step loc now item (c, d) = Inr (c', d') \<Longrightarrow> history d d'"
  unfolding reset_step_def Let_def
  by (auto split: if_splits elim!: history.trans [OF update_users_history] intro: insert_reset_log_history history.refl)

lemma ProcessDueTrafficResets_stages:
  assumes "ProcessDueTrafficResets loc now limit d = Inr ((processed, remaining), d')"
  obtains "1 \<le> limit" and "limit \<le> 1000"
    and "efold (reset_step loc now) (due_resets now limit d) (0, d) = Inr (processed, d')"
    and "remaining = int (count_where (reset_due now) (db_users d'))"
  using assms unfolding ProcessDueTrafficResets_def by (auto simp: not_less)

lemma ProcessDueTrafficResets_history:
  "ProcessDueTrafficResets loc now limit d = Inr ((processed, remaining), d') \<Longrightarrow> history d d'"
  by (erule ProcessDueTrafficResets_stages, erule history.fold_with_counter_respects) (rule reset_step_history)

section \<open>The paged rescheduling is one update\<close>


text \<open>Rescheduling one user, as the prepared statement does it.\<close>

definition rescheduled :: "location \<Rightarrow> int option \<Rightarrow> int \<Rightarrow> instant \<Rightarrow> user \<Rightarrow> user" where
  "rescheduled loc pm sm now u =
     u\<lparr>u_next_reset_at := CalculateNextTrafficReset loc pm sm (u_expired_at u) now, u_updated_at := unix now\<rparr>"

lemma rescheduled_trigger: "money_trigger u (rescheduled loc pm sm now u) = rescheduled loc pm sm now u"
  by (simp add: money_trigger_def rescheduled_def)

lemma rescheduled_id [simp]: "u_id (rescheduled loc pm sm now u) = u_id u"
  by (simp add: rescheduled_def)

lemma users_by_id:
  assumes "users_unique (db_users d)" and "u \<in> set (db_users d)" and "v \<in> set (db_users d)"
  shows "u_id v = u_id u \<longleftrightarrow> v = u"
  using assms by (auto simp: users_unique_def distinct_map dest: inj_onD)

lemma reschedule_user_eq:
  assumes "users_unique (db_users d)" and "u \<in> set (db_users d)" and "w u"
  shows "reschedule_user loc pm sm now w u d = update_users (\<lambda>v. v = u) (rescheduled loc pm sm now) d"
  unfolding reschedule_user_def update_users_def
  by (rule users.update_cong)
     (use assms users_by_id [OF assms(1,2)] in \<open>auto simp: rescheduled_def\<close>)

lemma update_rescheduled_twice:
  assumes "users_unique (db_users d)"
    and "\<And>u. u \<in> set (db_users d) \<Longrightarrow> p u \<Longrightarrow> \<not> q (rescheduled loc pm sm now u)"
  shows "ebind (update_users p (rescheduled loc pm sm now) d) (update_users q (rescheduled loc pm sm now)) =
         update_users (\<lambda>u. p u \<or> q u) (rescheduled loc pm sm now) d"
  unfolding update_users_def
  by (rule users.update_twice)
     (use assms in \<open>simp_all add: rescheduled_trigger users_unique_def map_update_where_inv\<close>)

lemma efold_reschedule_eq:
  assumes "users_unique (db_users d)" and "set us \<subseteq> set (db_users d)" and "distinct (map u_id us)"
    and "\<And>u. u \<in> set us \<Longrightarrow> w u" and "users.holds d"
  shows "efold (reschedule_user loc pm sm now w) us d = update_users (\<lambda>v. v \<in> set us) (rescheduled loc pm sm now) d"
  using assms
proof (induction us arbitrary: d)
  case Nil
  then show ?case by (simp add: update_users_def users.update_none)
next
  case (Cons u us)
  let ?f = "rescheduled loc pm sm now"
  have "efold (reschedule_user loc pm sm now w) (u # us) d =
      ebind (update_users (\<lambda>v. v = u) ?f d) (efold (reschedule_user loc pm sm now w) us)"
    using Cons.prems by (simp add: reschedule_user_eq)
  also have "\<dots> = ebind (update_users (\<lambda>v. v = u) ?f d) (update_users (\<lambda>v. v \<in> set us) ?f)"
  proof (rule ebind_cong [OF refl])
    fix d1 assume d1: "update_users (\<lambda>v. v = u) ?f d = Inr d1"
    have "u \<notin> set us" using Cons.prems(3) by auto
    then have "set us \<subseteq> set (db_users d1)"
      using Cons.prems(2) d1 by (auto simp: update_users_Inr update_where_def rescheduled_trigger)
    moreover have "users_unique (db_users d1)" using d1 by (simp add: update_users_Inr)
    moreover have "users.holds d1"
      using d1 Cons.prems(5) users.update_keeps by (auto simp: update_users_def)
    ultimately show "efold (reschedule_user loc pm sm now w) us d1 = update_users (\<lambda>v. v \<in> set us) ?f d1"
      using Cons.prems by (intro Cons.IH) auto
  qed
  also have "\<dots> = update_users (\<lambda>v. v = u \<or> v \<in> set us) ?f d"
  proof (rule update_rescheduled_twice [OF Cons.prems(1)])
    fix v assume "v = u"
    then show "?f v \<notin> set us" using Cons.prems(3) by (auto simp: image_iff)
  qed
  finally show ?case by simp
qed


text \<open>One page: the first 500 of the selected users above an id, in id order.\<close>

lemma batch_complete:
  assumes "length (reschedule_batch sel lastID d) < 500"
  shows "set (reschedule_batch sel lastID d) = {u \<in> set (db_users d). sel d u \<and> u_id u > lastID}"
proof -
  have "length (filter (\<lambda>u. sel d u \<and> u_id u > lastID) (db_users d)) < 500"
    using assms by (simp add: reschedule_batch_def order_by_def)
  then show ?thesis by (simp add: reschedule_batch_def order_by_def)
qed

lemma sorted_take_split:
  fixes g :: "'a \<Rightarrow> int"
  assumes "sorted (map g xs)" and "distinct (map g xs)" and "take n xs \<noteq> []"
  shows "set (take n xs) = {x \<in> set xs. g x \<le> g (last (take n xs))}"
proof -
  let ?m = "g (last (take n xs))"
  have split: "sorted (map g (take n xs @ drop n xs))" "distinct (map g (take n xs @ drop n xs))"
    using assms(1,2) by (simp_all only: append_take_drop_id)
  have "last (take n xs) \<in> set (take n xs)" using assms(3) by (rule last_in_set)
  have low: "g x \<le> ?m" if "x \<in> set (take n xs)" for x
  proof -
    obtain i where i: "i < length (take n xs)" "x = take n xs ! i" using \<open>x \<in> set (take n xs)\<close> by (metis in_set_conv_nth)
    moreover have "sorted (map g (take n xs))" using split(1) unfolding map_append sorted_append by blast
    ultimately have "map g (take n xs) ! i \<le> map g (take n xs) ! (length (take n xs) - 1)"
      by (intro sorted_nth_mono) auto
    moreover have "length (take n xs) - 1 < length (take n xs)" using i(1) by linarith
    ultimately show ?thesis using i by (simp only: nth_map last_conv_nth [OF assms(3)])
  qed
  have high: "?m < g x" if "x \<in> set (drop n xs)" for x
    using that split \<open>last (take n xs) \<in> set (take n xs)\<close> unfolding map_append sorted_append distinct_append
    by (metis (no_types, lifting) disjoint_iff imageI list.set_map order_less_le)
  have "set xs = set (take n xs) \<union> set (drop n xs)" by (metis append_take_drop_id set_append)
  then show ?thesis using low high by fastforce
qed

lemma batch_page:
  assumes "users_unique (db_users d)" and "reschedule_batch sel lastID d \<noteq> []"
  shows "set (reschedule_batch sel lastID d) =
    {u \<in> set (db_users d). sel d u \<and> u_id u > lastID \<and> u_id u \<le> u_id (last (reschedule_batch sel lastID d))}"
proof -
  let ?xs = "order_by u_id (filter (\<lambda>u. sel d u \<and> u_id u > lastID) (db_users d))"
  have "sorted (map u_id ?xs)" by (simp add: order_by_def)
  moreover have "distinct (map u_id ?xs)" using assms(1) by (simp add: users_unique_def distinct_map_filter)
  ultimately have "set (take 500 ?xs) = {x \<in> set ?xs. u_id x \<le> u_id (last (take 500 ?xs))}"
    using assms(2) unfolding reschedule_batch_def by (rule sorted_take_split)
  then show ?thesis unfolding reschedule_batch_def by auto
qed

text \<open>The paged loop is one update of all selected users.\<close>

lemma reschedule_batches_eq:
  assumes "users.holds d" and "\<And>d d' u. db_plans d' = db_plans d \<Longrightarrow> sel d' u = sel d u"
    and "\<And>d u. sel d u \<Longrightarrow> w u"
  shows "reschedule_batches loc pm sm now sel w lastID d =
    update_users (\<lambda>u. sel d u \<and> u_id u > lastID) (rescheduled loc pm sm now) d"
  using assms
proof (induction loc pm sm now sel w lastID d rule: reschedule_batches.induct)
  case (1 loc pm sm now sel w lastID d)
  let ?us = "reschedule_batch sel lastID d"
  let ?f = "rescheduled loc pm sm now"
  let ?last = "u_id (last ?us)"
  have uniq: "users_unique (db_users d)" using "1.prems"(1) by (simp add: users.holds_def)
  have fold: "efold (reschedule_user loc pm sm now w) ?us d = update_users (\<lambda>u. u \<in> set ?us) ?f d"
  proof (rule efold_reschedule_eq [OF uniq])
    show "set ?us \<subseteq> set (db_users d)" using set_reschedule_batch by blast
    show "distinct (map u_id ?us)" using uniq unfolding reschedule_batch_def users_unique_def by (rule batch_distinct)
    show "w u" if "u \<in> set ?us" for u using set_reschedule_batch [OF that] "1.prems"(3) by blast
  qed (rule "1.prems"(1))
  show ?case
  proof (cases "length ?us < 500")
    case True
    have "reschedule_batches loc pm sm now sel w lastID d = update_users (\<lambda>u. u \<in> set ?us) ?f d"
      using True by (simp add: reschedule_batches.simps [of loc pm sm now sel w lastID d] fold [symmetric] Let_def ebind_def split: sum.split)
    also have "\<dots> = update_users (\<lambda>u. sel d u \<and> u_id u > lastID) ?f d"
      unfolding update_users_def by (rule users.update_cong) (auto simp: batch_complete [OF True])
    finally show ?thesis .
  next
    case False
    then have "?us \<noteq> []" by auto
    note page = batch_page [OF uniq this]
    have "?last > lastID" using set_reschedule_batch [OF last_in_set [OF \<open>?us \<noteq> []\<close>]] by blast
    have "reschedule_batches loc pm sm now sel w lastID d =
        ebind (update_users (\<lambda>u. u \<in> set ?us) ?f d) (reschedule_batches loc pm sm now sel w ?last)"
      using False by (simp add: reschedule_batches.simps [of loc pm sm now sel w lastID d] fold Let_def)
    also have "\<dots> = ebind (update_users (\<lambda>u. u \<in> set ?us) ?f d) (update_users (\<lambda>u. sel d u \<and> u_id u > ?last) ?f)"
    proof (rule ebind_cong [OF refl])
      fix d1 assume d1: "update_users (\<lambda>u. u \<in> set ?us) ?f d = Inr d1"
      then have "users.holds d1" using "1.prems"(1) users.update_keeps by (auto simp: update_users_def)
      then have "reschedule_batches loc pm sm now sel w ?last d1 = update_users (\<lambda>u. sel d1 u \<and> u_id u > ?last) ?f d1"
        using "1.prems"(2,3) by (rule "1.IH" [OF refl d1 [folded fold] False])
      moreover have "sel d1 = sel d" by (rule ext, rule "1.prems"(2)) (use d1 in \<open>simp add: update_users_Inr\<close>)
      ultimately show "reschedule_batches loc pm sm now sel w ?last d1 = update_users (\<lambda>u. sel d u \<and> u_id u > ?last) ?f d1"
        by simp
    qed
    also have "\<dots> = update_users (\<lambda>u. u \<in> set ?us \<or> sel d u \<and> u_id u > ?last) ?f d"
      by (rule update_rescheduled_twice [OF uniq]) (auto simp: page)
    also have "\<dots> = update_users (\<lambda>u. sel d u \<and> u_id u > lastID) ?f d"
      unfolding update_users_def
      by (rule users.update_cong) (use \<open>?last > lastID\<close> in \<open>auto simp: page\<close>)
    finally show ?thesis .
  qed
qed

text \<open>The two callers of the loop.\<close>

definition plan_members :: "int \<Rightarrow> instant \<Rightarrow> user \<Rightarrow> bool" where
  "plan_members planID now u \<longleftrightarrow>
     u_account_kind u = AccountKindHuman \<and> u_plan_id u = Some planID \<and> \<not> u_banned u \<and>
     opt_all (\<lambda>e. e > unix now) (u_expired_at u)"

definition system_reset_users :: "instant \<Rightarrow> plan list \<Rightarrow> user \<Rightarrow> bool" where
  "system_reset_users now ps u \<longleftrightarrow>
     u_account_kind u = AccountKindHuman \<and> \<not> u_banned u \<and>
     (\<exists>p\<in>set ps. u_plan_id u = Some (p_id p) \<and> p_reset_traffic_method p = None) \<and>
     opt_all (\<lambda>e. e > unix now) (u_expired_at u)"

lemma db_ok_user_id: "db_ok d \<Longrightarrow> u \<in> set (db_users d) \<Longrightarrow> 0 < u_id u"
  by (simp add: db_ok_def seqs_ok_def list_all_iff)

lemma reschedulePlanUsers_eq:
  assumes "db_ok d"
  shows "reschedulePlanUsers loc planID pm now d = update_users (plan_members planID now)
    (rescheduled loc pm (if pm = None then s_traffic_reset_method (db_settings d) else 1) now) d"
proof -
  have "users.holds d" using assms by (simp add: db_ok_def)
  then show ?thesis
    unfolding reschedulePlanUsers_def
    by (subst reschedule_batches_eq, assumption, simp, simp, unfold update_users_def, intro users.update_cong)
       (use db_ok_user_id [OF assms] in \<open>auto simp: plan_members_def opt_all_def\<close>)
qed

lemma rescheduleSystemTrafficResetUsers_eq:
  assumes "db_ok d"
  shows "rescheduleSystemTrafficResetUsers loc sm now d =
    update_users (system_reset_users now (db_plans d)) (rescheduled loc None sm now) d"
proof -
  have "users.holds d" using assms by (simp add: db_ok_def)
  then show ?thesis
    unfolding rescheduleSystemTrafficResetUsers_def
    by (subst reschedule_batches_eq, assumption, simp, simp, unfold update_users_def, intro users.update_cong)
       (use db_ok_user_id [OF assms] in \<open>auto simp: system_reset_users_def opt_all_def exists_where_iff\<close>)
qed

section \<open>Optimistic locking\<close>

lemma plans_by_id:
  assumes "db_ok d" and "p \<in> set (db_plans d)" and "q \<in> set (db_plans d)" and "p_id q = p_id p"
  shows "q = p"
  using assms by (auto simp: db_ok_def plans.holds_def plans_unique_def distinct_map dest: inj_onD)

lemma getPlan_Inr: "getPlan i now d = Inr info \<longleftrightarrow>
    (\<exists>p. List.find (\<lambda>p. p_id p = i) (db_plans d) = Some p \<and> info = plan_info_of d now p)"
  by (auto simp: getPlan_def split: option.splits)

lemma plan_info_row [simp]: "pl_row (plan_info_of d now p) = p"
  by (simp add: plan_info_of_def Let_def)

lemma find_update_where:
  assumes "List.find p rows = Some r" and "\<And>r. r \<in> set rows \<Longrightarrow> p (f r) = p r"
  shows "List.find p (update_where p f rows) = Some (f r)"
  using assms by (induction rows) (auto split: if_splits)

lemma find_unique_plan:
  assumes "db_ok d" and "p \<in> set (db_plans d)"
  shows "List.find (\<lambda>q. p_id q = p_id p) (db_plans d) = Some p"
proof (cases "List.find (\<lambda>q. p_id q = p_id p) (db_plans d)")
  case None
  then show ?thesis using assms(2) by (auto simp: find_eq_None_iff)
next
  case (Some q)
  then show ?thesis using find_eq_Some_set [OF Some] plans_by_id [OF assms] by auto
qed

text \<open>A revision identifies one state of one plan: the guarded update is an update by id.\<close>

lemma guarded_update_plans:
  assumes ok: "db_ok d" and p: "p \<in> set (db_plans d)" "p_id p = planID" "p_revision p = revision"
    and up: "update_plans (\<lambda>p. p_id p = planID \<and> p_revision p = revision) f d = Inr d'"
  shows "db_plans d' = update_where (\<lambda>p. p_id p = planID) f (db_plans d)"
proof -
  have "update_where (\<lambda>p. p_id p = planID \<and> p_revision p = revision) f (db_plans d) =
      update_where (\<lambda>p. p_id p = planID) f (db_plans d)"
  proof (unfold update_where_def, rule map_cong [OF refl])
    fix q assume "q \<in> set (db_plans d)"
    then have "p_id q = planID \<Longrightarrow> p_revision q = revision" using plans_by_id [OF ok p(1), of q] p by metis
    then show "(if p_id q = planID \<and> p_revision q = revision then f q else q) = (if p_id q = planID then f q else q)"
      by auto
  qed
  then show ?thesis using up by (simp add: update_plans_Inr)
qed

lemma UpdatePlan_effect:
  assumes r: "UpdatePlan loc planID revision input forceUpdateUsers now d = Inr (info, d')" and ok: "db_ok d"
  obtains n p where "normalizePlanInput input = Inr n" and "p \<in> set (db_plans d)" and "p_id p = planID"
    and "p_revision p = revision" and "pl_row info = set_plan_columns n now p"
    and "db_plans d' = update_where (\<lambda>p. p_id p = planID) (set_plan_columns n now) (db_plans d)"
proof -
  obtain n current d1 d2 where n: "normalizePlanInput input = Inr n"
    and c: "List.find (\<lambda>p. p_id p = planID \<and> p_revision p = revision) (db_plans d) = Some current"
    and u1: "update_plans (\<lambda>p. p_id p = planID \<and> p_revision p = revision) (set_plan_columns n now) d = Inr d1"
    and u2: "(if sameOptionalPlanInt (p_reset_traffic_method current) (pi_reset_traffic_method n) then Inr d1
          else reschedulePlanUsers loc planID (pi_reset_traffic_method n) now d1) = Inr d2"
    and u3: "(if \<not> forceUpdateUsers then Inr d2 else
          update_users (\<lambda>u. u_plan_id u = Some planID \<and> u_account_kind u = AccountKindHuman)
            (push_plan_columns n now) d2) = Inr d'"
    and g: "getPlan planID now d' = Inr info"
    using r by (rule UpdatePlan_stages) (rule that; assumption)
  have p: "current \<in> set (db_plans d)" "p_id current = planID" "p_revision current = revision"
    using find_eq_Some_set [OF c] by auto
  have ps1: "db_plans d1 = update_where (\<lambda>p. p_id p = planID) (set_plan_columns n now) (db_plans d)"
    by (rule guarded_update_plans [OF ok p u1])
  have "db_ok d1" by (rule history_ok [OF update_plans_history [OF u1] ok]) simp
  then have "db_plans d2 = db_plans d1"
    using u2 by (auto simp: reschedulePlanUsers_eq update_users_Inr split: if_splits)
  moreover have "db_plans d' = db_plans d2" using u3 by (auto simp: update_users_Inr split: if_splits)
  ultimately have ps: "db_plans d' = update_where (\<lambda>p. p_id p = planID) (set_plan_columns n now) (db_plans d)"
    using ps1 by simp
  have "List.find (\<lambda>p. p_id p = planID) (db_plans d) = Some current"
    using find_unique_plan [OF ok p(1)] p(2) by simp
  then have "List.find (\<lambda>p. p_id p = planID) (db_plans d') = Some (set_plan_columns n now current)"
    unfolding ps by (rule find_update_where) simp
  then have "pl_row info = set_plan_columns n now current" using g by (auto simp: getPlan_Inr)
  then show thesis using that n p ps by blast
qed

text \<open>Whoever still holds the old revision is refused.\<close>

lemma stale_revision:
  assumes "db_plans d' = update_where (\<lambda>p. p_id p = planID) f (db_plans d)"
    and "\<And>p. p_id (f p) = p_id p" and "\<And>p. p_revision (f p) = p_revision p + 1"
    and ok: "db_ok d" and p: "p \<in> set (db_plans d)" "p_id p = planID" "p_revision p = revision"
  shows "List.find (\<lambda>p. p_id p = planID \<and> p_revision p = revision) (db_plans d') = None"
    and "count_where (\<lambda>p. p_id p = planID \<and> p_revision p = revision) (db_plans d') = 0"
    and "planMutationError planID d' = ErrRevisionConflict"
proof -
  have no: "\<not> (p_id q = planID \<and> p_revision q = revision)" if q: "q \<in> set (db_plans d')" for q
  proof -
    obtain r where r: "r \<in> set (db_plans d)" "q = (if p_id r = planID then f r else r)"
      using q assms(1) by (auto simp: update_where_def)
    moreover have "p_id r = planID \<Longrightarrow> r = p" using plans_by_id [OF ok p(1) r(1)] p by metis
    ultimately show ?thesis using assms(2,3) p by (auto split: if_splits)
  qed
  then show "List.find (\<lambda>p. p_id p = planID \<and> p_revision p = revision) (db_plans d') = None"
    by (simp add: find_eq_None_iff)
  show "count_where (\<lambda>p. p_id p = planID \<and> p_revision p = revision) (db_plans d') = 0"
    using no by (simp add: count_where_0)
  show "planMutationError planID d' = ErrRevisionConflict"
  proof -
    have "f p \<in> set (db_plans d')" using assms(1) p(1,2) by (force simp: update_where_def)
    then show ?thesis using assms(2) p(2) by (auto simp: planMutationError_def exists_where_iff)
  qed
qed

section \<open>The order of the catalogue\<close>

definition moved_to :: "instant \<Rightarrow> nat \<Rightarrow> plan \<Rightarrow> plan" where
  "moved_to now k p = p\<lparr>p_sort_position := int k, p_revision := p_revision p + 1, p_updated_at := unix now\<rparr>"

lemma moved_to_fields [simp]: "p_id (moved_to now k p) = p_id p" "p_sort_position (moved_to now k p) = int k"
  by (simp_all add: moved_to_def)

lemma reorder_step_Inr:
  "reorder_step now (k, i) d = Inr d' \<longleftrightarrow>
     update_plans (\<lambda>p. p_id p = i) (moved_to now k) d = Inr d' \<and> count_where (\<lambda>p. p_id p = i) (db_plans d) = 1"
  by (auto simp: reorder_step_def moved_to_def [abs_def])

lemma reorder_fold:
  assumes "efold (reorder_step now) (List.enumerate m ids) d = Inr d'" and "distinct ids"
  shows "set ids \<subseteq> p_id ` set (db_plans d) \<and> map p_id (db_plans d') = map p_id (db_plans d) \<and>
    (\<forall>p\<in>set (db_plans d'). \<forall>k<length ids. p_id p = ids ! k \<longrightarrow> p_sort_position p = int (m + k)) \<and>
    (\<forall>p\<in>set (db_plans d'). p_id p \<notin> set ids \<longrightarrow> p \<in> set (db_plans d))"
  using assms
proof (induction ids arbitrary: m d)
  case Nil
  then show ?case by simp
next
  case (Cons i ids)
  from Cons.prems obtain d1 where up: "update_plans (\<lambda>p. p_id p = i) (moved_to now m) d = Inr d1"
    and one: "count_where (\<lambda>p. p_id p = i) (db_plans d) = 1"
    and rest: "efold (reorder_step now) (List.enumerate (Suc m) ids) d1 = Inr d'"
    by (auto simp: reorder_step_Inr)
  have ids1: "map p_id (db_plans d1) = map p_id (db_plans d)"
    using up by (auto simp: update_plans_Inr map_update_where_inv)
  have row: "\<exists>r\<in>set (db_plans d). q = (if p_id r = i then moved_to now m r else r)" if q: "q \<in> set (db_plans d1)" for q
  proof -
    have "db_plans d1 = update_where (\<lambda>p. p_id p = i) (moved_to now m) (db_plans d)"
      using up by (auto simp: update_plans_Inr)
    then show ?thesis using q by (auto simp: update_where_def)
  qed
  have dist: "distinct ids" "i \<notin> set ids" using Cons.prems(2) by auto
  note IH = Cons.IH [OF rest dist(1)]
  have "i \<in> p_id ` set (db_plans d)" using one count_where_pos [of "\<lambda>p. p_id p = i" "db_plans d"] by auto
  moreover have "p_id ` set (db_plans d1) = p_id ` set (db_plans d)" using ids1 by (metis list.set_map)
  moreover have "p_sort_position p = int (m + k)"
    if "p \<in> set (db_plans d')" "k < length (i # ids)" "p_id p = (i # ids) ! k" for p k
  proof (cases k)
    case 0
    then have "p_id p \<notin> set ids" using that(3) dist(2) by simp
    then have "p \<in> set (db_plans d1)" using IH that(1) by blast
    from row [OF this] obtain r where "p = (if p_id r = i then moved_to now m r else r)" by blast
    then show ?thesis using 0 that(3) by (simp split: if_splits)
  next
    case (Suc j)
    then have "p_sort_position p = int (Suc m + j)" using IH that by auto
    then show ?thesis using Suc by simp
  qed
  moreover have "p \<in> set (db_plans d)" if "p \<in> set (db_plans d')" "p_id p \<notin> set (i # ids)" for p
  proof -
    have "p \<in> set (db_plans d1)" using IH that by auto
    from row [OF this] obtain r where "r \<in> set (db_plans d)" "p = (if p_id r = i then moved_to now m r else r)" by blast
    then show ?thesis using that(2) by (simp split: if_splits)
  qed
  moreover have "set ids \<subseteq> p_id ` set (db_plans d1)" and "map p_id (db_plans d') = map p_id (db_plans d1)"
    using IH by blast+
  ultimately show ?case using ids1 by (intro conjI ballI allI impI) simp_all
qed

lemma reorder_positions:
  assumes "efold (reorder_step now) (List.enumerate 0 ids) d = Inr d'" and "distinct ids"
    and "length (db_plans d) = length ids" and "distinct (map p_id (db_plans d))"
  shows "map p_id (order_by p_sort_position (db_plans d')) = ids"
proof -
  let ?ps = "db_plans d'" and ?n = "length ids"
  note f = reorder_fold [OF assms(1,2)]
  have len: "length ?ps = ?n" using f assms(3) by (metis length_map)
  have same: "p_id ` set ?ps = set ids"
  proof -
    have "set ids \<subseteq> set (map p_id ?ps)" using f by auto
    moreover have "card (set (map p_id ?ps)) = card (set ids)"
      using f assms(2-4) by (simp only: distinct_card length_map)
    ultimately show ?thesis by (metis List.finite_set card_subset_eq list.set_map)
  qed
  have pos: "p_sort_position p = int k" if "p \<in> set ?ps" "k < ?n" "p_id p = ids ! k" for p k
    using f that by simp
  have at: "p_id p = ids ! k" if p: "p \<in> set ?ps" "p_sort_position p = int k" "k < ?n" for p k
  proof -
    obtain j where "j < ?n" "p_id p = ids ! j" using same p(1) by (metis imageI in_set_conv_nth)
    then show ?thesis using pos [OF p(1)] p(2) by auto
  qed
  have dist: "distinct (map p_sort_position ?ps)"
  proof -
    have "distinct (map p_id ?ps)" using f assms(4) by simp
    then have "distinct ?ps" and inj: "inj_on p_id (set ?ps)" by (simp_all add: distinct_map)
    moreover have "inj_on p_sort_position (set ?ps)"
    proof (rule inj_onI)
      fix p q assume "p \<in> set ?ps" "q \<in> set ?ps" "p_sort_position p = p_sort_position q"
      moreover obtain k where "k < ?n" "p_id p = ids ! k" using same \<open>p \<in> set ?ps\<close> by (metis imageI in_set_conv_nth)
      ultimately have "p_id q = p_id p" using pos at by metis
      then show "p = q" using inj \<open>p \<in> set ?ps\<close> \<open>q \<in> set ?ps\<close> by (metis inj_onD)
    qed
    ultimately show ?thesis by (simp add: distinct_map)
  qed
  let ?L = "order_by p_sort_position ?ps"
  have "set (map p_sort_position ?ps) = int ` {..<?n}"
  proof
    show "set (map p_sort_position ?ps) \<subseteq> int ` {..<?n}"
      using same pos by (auto simp: image_iff) (metis imageI in_set_conv_nth lessThan_iff)
    show "int ` {..<?n} \<subseteq> set (map p_sort_position ?ps)"
    proof
      fix x assume "x \<in> int ` {..<?n}"
      then obtain k where k: "k < ?n" "x = int k" by auto
      then obtain p where "p \<in> set ?ps" "p_id p = ids ! k" using same by (metis imageE nth_mem)
      then show "x \<in> set (map p_sort_position ?ps)" using pos [of p k] k by force
    qed
  qed
  then have "map p_sort_position ?L = map int [0..<?n]"
  proof (intro sorted_distinct_set_unique)
    show "sorted (map int [0..<?n])" by (simp add: sorted_iff_nth_mono)
  qed (use dist in \<open>auto simp: order_by_def distinct_map atLeast0LessThan\<close>)
  then have "p_sort_position (?L ! k) = int k" if "k < ?n" for k
    using that len by (metis add_0 diff_zero length_map length_upt nth_map nth_upt)
  then have "p_id (?L ! k) = ids ! k" if "k < ?n" for k
    using that len nth_mem [of k ?L] by (intro at) (simp_all add: order_by_def)
  then show ?thesis using len by (intro nth_equalityI) (auto simp: order_by_def)
qed

section \<open>Due traffic resets\<close>

definition plan_method :: "db \<Rightarrow> user \<Rightarrow> int option" where
  "plan_method d u = (case List.find (\<lambda>p. u_plan_id u = Some (p_id p)) (db_plans d) of
     None \<Rightarrow> None | Some p \<Rightarrow> p_reset_traffic_method p)"

definition next_reset :: "location \<Rightarrow> instant \<Rightarrow> db \<Rightarrow> user \<Rightarrow> int option" where
  "next_reset loc now d u =
     CalculateNextTrafficReset loc (plan_method d u) (s_traffic_reset_method (db_settings d)) (u_expired_at u) now"

definition reset_user :: "location \<Rightarrow> instant \<Rightarrow> db \<Rightarrow> user \<Rightarrow> user" where
  "reset_user loc now d u =
     u\<lparr>u_traffic_u := 0, u_traffic_d := 0, u_last_reset_at := Some (unix now),
       u_reset_count := u_reset_count u + 1, u_next_reset_at := next_reset loc now d u, u_updated_at := unix now\<rparr>"

definition reset_log_of :: "instant \<Rightarrow> db \<Rightarrow> user \<Rightarrow> reset_log" where
  "reset_log_of now d u =
     \<lparr>rl_user_id = u_id u, rl_plan_id = u_plan_id u, rl_scheduled_for = next_reset_key u, rl_reset_at = unix now,
      rl_upload_before = u_traffic_u u, rl_download_before = u_traffic_d u, rl_reset_count = u_reset_count u + 1,
      rl_reset_method = (case plan_method d u of None \<Rightarrow> s_traffic_reset_method (db_settings d) | Some m \<Rightarrow> m)\<rparr>"

lemma reset_user_id [simp]: "u_id (reset_user loc now d u) = u_id u"
  by (simp add: reset_user_def)

lemma reset_user_trigger: "money_trigger u (reset_user loc now d u) = reset_user loc now d u"
  by (simp add: money_trigger_def reset_user_def)

text \<open>
  The premises of a batch: the zone has had a fixed offset for the last 400 days, and no reset
  of a due user at its scheduled time is in the log already.
\<close>

definition unlogged :: "db \<Rightarrow> user \<Rightarrow> bool" where
  "unlogged d u \<longleftrightarrow> \<not> exists_where (\<lambda>l. rl_user_id l = u_id u \<and> rl_scheduled_for l = next_reset_key u) (db_reset_logs d)"

definition steady_zone :: "location \<Rightarrow> instant \<Rightarrow> bool" where
  "steady_zone loc now \<longleftrightarrow> (\<exists>t0 off. fixed_from t0 off loc \<and> t0 + 34560000 \<le> unix now)"

lemma next_reset_future:
  assumes "steady_zone loc now" and "reset_due now u" and "next_reset loc now d u = Some n"
  shows "unix now < n \<and> n \<le> unix now + 64281600"
proof -
  obtain e where "u_expired_at u = Some e" using assms(2) by (auto simp: reset_due_def split: option.splits)
  then show ?thesis
    using assms(1,3) reset_in_future_aux unfolding steady_zone_def next_reset_def by metis
qed

lemma not_due_after_reset:
  assumes "steady_zone loc now" and "reset_due now u"
  shows "\<not> reset_due now (reset_user loc now d u)"
  using next_reset_future [OF assms, of d] by (force simp: reset_due_def reset_user_def split: option.splits)

lemma reset_step_single:
  assumes "users_unique (db_users d)" and u: "u \<in> set (db_users d)" and due: "reset_due now u"
  shows "reset_step loc now u (c, d) =
    ebind (update_users (\<lambda>v. v = u) (reset_user loc now d) d) (\<lambda>d1.
    ebind (insert_reset_log (reset_log_of now d u) d1) (\<lambda>d2. Inr (c + 1, d2)))"
proof -
  let ?m = "\<lambda>v. u_id v = u_id u \<and> u_plan_id v = u_plan_id u \<and> u_next_reset_at v = u_next_reset_at u \<and> reset_due now v"
  have m: "?m v \<longleftrightarrow> v = u" if "v \<in> set (db_users d)" for v
    using users_by_id [OF assms(1) u that] due by auto
  have "count_where ?m (db_users d) \<noteq> 0" using u due by (auto simp: count_where_0)
  moreover have "update_users ?m (\<lambda>v. v\<lparr>u_traffic_u := 0, u_traffic_d := 0, u_last_reset_at := Some (unix now),
       u_reset_count := u_reset_count v + 1, u_next_reset_at := next_reset loc now d u, u_updated_at := unix now\<rparr>) d =
      update_users (\<lambda>v. v = u) (reset_user loc now d) d"
    unfolding update_users_def by (rule users.update_cong) (use m in \<open>auto simp: reset_user_def\<close>)
  ultimately show ?thesis
    by (simp add: reset_step_def Let_def reset_log_of_def plan_method_def next_reset_def)
qed

lemma due_user_resets:
  assumes ok: "db_ok d" and u: "u \<in> set (db_users d)" and due: "reset_due now u"
    and z: "steady_zone loc now" and now: "0 \<le> unix now"
  shows "user_check d (reset_user loc now d u)" and "reset_log_check d (reset_log_of now d u)"
proof -
  have c: "user_ok u" "user_refs d u" using ok u by (auto simp: db_ok_def users.holds_def list_all_iff user_check_def)
  have "opt_all (\<lambda>t. 0 \<le> t) (next_reset loc now d u)"
    using next_reset_future [OF z due, of d] now by (cases "next_reset loc now d u") auto
  then show "user_check d (reset_user loc now d u)"
    using c now by (auto simp: user_check_def user_ok_def user_refs_def reset_user_def max_i64_def)
  have m: "0 \<le> rl_reset_method (reset_log_of now d u) \<and> rl_reset_method (reset_log_of now d u) \<le> 4"
  proof (cases "plan_method d u")
    case None
    then show ?thesis using ok by (simp add: reset_log_of_def db_ok_def settings_ok_def)
  next
    case (Some m)
    then obtain p where "p \<in> set (db_plans d)" "p_reset_traffic_method p = Some m"
      using find_eq_Some_set by (fastforce simp: plan_method_def split: option.splits)
    then have "opt_all (\<lambda>x. 0 \<le> x \<and> x \<le> 4) (Some m)"
      using ok by (auto simp: db_ok_def plans.holds_def list_all_iff plan_check_def plan_ok_def)
    then show ?thesis using Some by (simp add: reset_log_of_def)
  qed
  obtain n where n: "u_next_reset_at u = Some n" "n \<le> unix now" using due by (auto simp: reset_due_def split: option.splits)
  then show "reset_log_check d (reset_log_of now d u)"
    using c m u n by (auto simp: reset_log_check_def reset_log_ok_def reset_log_of_def next_reset_key_def user_ok_def user_refs_def)
qed

definition after_resets :: "location \<Rightarrow> instant \<Rightarrow> user list \<Rightarrow> db \<Rightarrow> db" where
  "after_resets loc now us d =
     d\<lparr>db_users := update_where (\<lambda>u. u \<in> set us) (reset_user loc now d) (db_users d),
       db_reset_logs := db_reset_logs d @ map (reset_log_of now d) us\<rparr>"

lemma reset_step_succeeds:
  assumes ok: "db_ok d" and u: "u \<in> set (db_users d)" and due: "reset_due now u" and new: "unlogged d u"
    and z: "steady_zone loc now" and now: "0 \<le> unix now"
  shows "reset_step loc now u (c, d) = Inr (c + 1, after_resets loc now [u] d)"
proof -
  have uniq: "users_unique (db_users d)" using ok by (simp add: db_ok_def users.holds_def)
  let ?d = "d\<lparr>db_users := update_where (\<lambda>v. v = u) (reset_user loc now d) (db_users d)\<rparr>"
  have "update_users (\<lambda>v. v = u) (reset_user loc now d) d = Inr ?d"
    using uniq due_user_resets(1) [OF ok u due z now]
    by (simp add: update_users_Inr reset_user_trigger users_unique_def map_update_where_inv)
  moreover have "insert_reset_log (reset_log_of now d u) ?d = Inr (after_resets loc now [u] d)"
  proof -
    have "map u_id (db_users ?d) = map u_id (db_users d)" by (simp add: map_update_where_inv)
    then have "reset_log_check ?d (reset_log_of now d u)"
      using due_user_resets(2) [OF ok u due z now] by (simp only: reset_log_check_def) simp
    moreover have "reset_logs_unique (db_reset_logs d @ [reset_log_of now d u])"
      using ok new by (auto simp: db_ok_def reset_logs.holds_def reset_logs_unique_def unlogged_def exists_where_iff reset_log_of_def)
    ultimately show ?thesis by (simp add: insert_reset_log_Inr after_resets_def)
  qed
  ultimately show ?thesis by (simp add: reset_step_single [OF uniq u due])
qed

lemma after_resets_same: "db_plans (after_resets loc now us d) = db_plans d" "db_settings (after_resets loc now us d) = db_settings d"
  by (simp_all add: after_resets_def)

lemma resets_frame:
  assumes "db_plans d' = db_plans d" and "db_settings d' = db_settings d"
  shows "reset_user loc now d' = reset_user loc now d" and "reset_log_of now d' = reset_log_of now d"
  by (auto simp: fun_eq_iff reset_user_def reset_log_of_def next_reset_def plan_method_def assms split: option.split)

lemma reset_fold:
  assumes "db_ok d" and "set us \<subseteq> set (db_users d)" and "distinct (map u_id us)"
    and "\<And>u. u \<in> set us \<Longrightarrow> reset_due now u \<and> unlogged d u" and z: "steady_zone loc now" and now: "0 \<le> unix now"
  shows "efold (reset_step loc now) us (c, d) = Inr (c + int (length us), after_resets loc now us d)"
  using assms(1-4)
proof (induction us arbitrary: c d)
  case Nil
  then show ?case by (simp add: after_resets_def update_where_def)
next
  case (Cons u us)
  let ?d = "after_resets loc now [u] d"
  have step: "reset_step loc now u (c, d) = Inr (c + 1, ?d)"
    using Cons.prems z now by (intro reset_step_succeeds) auto
  have other: "v \<noteq> u \<and> u_id v \<noteq> u_id u" if "v \<in> set us" for v
    using that Cons.prems(3) by (metis distinct.simps(2) image_eqI list.set_map list.simps(9))
  have "efold (reset_step loc now) us (c + 1, ?d) = Inr (c + 1 + int (length us), after_resets loc now us ?d)"
  proof (rule Cons.IH)
    show "db_ok ?d" using reset_step_history [OF step] Cons.prems(1) history_ok by blast
    show "set us \<subseteq> set (db_users ?d)"
      using Cons.prems(2) other by (auto simp: after_resets_def set_update_where)
    show "reset_due now v \<and> unlogged ?d v" if "v \<in> set us" for v
      using Cons.prems(4) [of v] that other [OF that] by (auto simp: unlogged_def after_resets_def exists_where_iff reset_log_of_def)
  qed (use Cons.prems(3) in simp)
  moreover have "after_resets loc now us ?d = after_resets loc now (u # us) d"
  proof -
    have "reset_user loc now d v \<notin> set us" if "v = u" for v
      using other that by (metis reset_user_id)
    then have "update_where (\<lambda>v. v \<in> set us) (reset_user loc now d) (db_users ?d) =
        update_where (\<lambda>v. v \<in> set (u # us)) (reset_user loc now d) (db_users d)"
      by (auto simp: after_resets_def update_where_def)
    then show ?thesis
      by (simp add: after_resets_def [of loc now us] resets_frame [OF after_resets_same]) (simp add: after_resets_def)
  qed
  ultimately show ?case using step by simp
qed

lemma count_members:
  assumes "distinct (map g rows)" and "set us \<subseteq> set rows" and "distinct us"
  shows "count_where (\<lambda>r. r \<in> set us) rows = length us"
proof -
  have "distinct (filter (\<lambda>r. r \<in> set us) rows)" using assms(1) by (simp add: distinct_map)
  moreover have "set (filter (\<lambda>r. r \<in> set us) rows) = set us" using assms(2) by auto
  ultimately have "length (filter (\<lambda>r. r \<in> set us) rows) = card (set us)" by (metis distinct_card)
  then show ?thesis using assms(3) by (simp add: count_where_def distinct_card)
qed

lemma count_after_update:
  assumes "\<And>r. r \<in> set rows \<Longrightarrow> p r \<Longrightarrow> q r" and "\<And>r. r \<in> set rows \<Longrightarrow> p r \<Longrightarrow> \<not> q (f r)"
  shows "count_where q (update_where p f rows) + count_where p rows = count_where q rows"
  using assms by (induction rows) auto

lemma ProcessDueTrafficResets_total:
  assumes ok: "db_ok d" and lim: "1 \<le> limit" "limit \<le> 1000" and now: "0 \<le> unix now" and z: "steady_zone loc now"
    and new: "\<And>u. u \<in> set (db_users d) \<Longrightarrow> reset_due now u \<Longrightarrow> unlogged d u"
  shows "ProcessDueTrafficResets loc now limit d =
      Inr ((int (length (due_resets now limit d)),
            int (count_where (reset_due now) (db_users d)) - int (length (due_resets now limit d))),
           after_resets loc now (due_resets now limit d) d)"
    and "int (length (due_resets now limit d)) = min limit (int (count_where (reset_due now) (db_users d)))"
proof -
  let ?us = "due_resets now limit d"
  let ?p = "\<lambda>u. reset_due now u \<and> exists_where (\<lambda>p. u_plan_id u = Some (p_id p)) (db_plans d)"
  have uniq: "distinct (map u_id (db_users d))" using ok by (simp add: db_ok_def users.holds_def users_unique_def)
  have us: "set ?us \<subseteq> {u \<in> set (db_users d). ?p u}" unfolding due_resets_def by (rule batch_subset)
  have dist: "distinct (map u_id ?us)" unfolding due_resets_def by (rule batch_distinct [OF uniq])
  have fold: "efold (reset_step loc now) ?us (0, d) = Inr (0 + int (length ?us), after_resets loc now ?us d)"
    by (rule reset_fold [OF ok _ dist _ z now]) (use us new in auto)
  have "count_where (reset_due now) (db_users (after_resets loc now ?us d)) + count_where (\<lambda>u. u \<in> set ?us) (db_users d)
      = count_where (reset_due now) (db_users d)"
    unfolding after_resets_def using us not_due_after_reset [OF z]
    by simp (rule count_after_update; auto)
  moreover have "count_where (\<lambda>u. u \<in> set ?us) (db_users d) = length ?us"
    using us dist by (intro count_members [OF uniq]) (auto simp: distinct_map)
  ultimately have left: "int (count_where (reset_due now) (db_users (after_resets loc now ?us d))) =
      int (count_where (reset_due now) (db_users d)) - int (length ?us)" by linarith
  show "ProcessDueTrafficResets loc now limit d =
      Inr ((int (length ?us), int (count_where (reset_due now) (db_users d)) - int (length ?us)), after_resets loc now ?us d)"
    using fold left lim by (simp add: ProcessDueTrafficResets_def)
  have plan: "exists_where (\<lambda>p. u_plan_id u = Some (p_id p)) (db_plans d)" if "u \<in> set (db_users d)" "reset_due now u" for u
    using ok that by (force simp: db_ok_def users.holds_def list_all_iff user_check_def user_refs_def reset_due_def exists_where_iff)
  have "count_where (reset_due now) (db_users d) = length (filter ?p (db_users d))"
    unfolding count_where_def using plan by (metis (mono_tags, lifting) filter_cong)
  then show "int (length ?us) = min limit (int (count_where (reset_due now) (db_users d)))"
    using lim by (simp add: due_resets_def order_by_def min.commute)
qed

section \<open>Inputs are normalized once\<close>

lemma map_put_new: "k \<notin> fst ` set m \<Longrightarrow> map_put k v m = m @ [(k, v)]"
  by (induction m) auto

lemma keys_map_put: "fst ` set (map_put k v m) = insert k (fst ` set m)"
  by (induction k v m rule: map_put.induct) (simp_all add: insert_commute)

lemma distinct_map_put: "distinct (map fst m) \<Longrightarrow> distinct (map fst (map_put k v m))"
  by (induction m) (auto simp: keys_map_put)

definition price_ok :: "string \<times> int \<Rightarrow> bool" where
  "price_ok kv \<longleftrightarrow> TrimSpace (fst kv) = fst kv \<and> fst kv \<in> set orderPeriods \<and> 0 \<le> snd kv \<and> snd kv \<le> 9000000000000000"

lemma list_all_map_put: "list_all P m \<Longrightarrow> P (k, v) \<Longrightarrow> list_all P (map_put k v m)"
  by (induction m) auto

lemma prices_loop_result:
  "prices_loop acc xs = Inr ys \<Longrightarrow> list_all price_ok acc \<Longrightarrow> distinct (map fst acc) \<Longrightarrow>
   list_all price_ok ys \<and> distinct (map fst ys)"
proof (induction acc xs rule: prices_loop.induct)
  case (2 acc period price rest)
  let ?p = "TrimSpace period"
  have "\<not> (?p \<notin> set orderPeriods \<or> price < 0 \<or> price > 9000000000000000)"
    and "prices_loop (map_put ?p price acc) rest = Inr ys"
    using "2.prems"(1) by (auto simp: Let_def split: if_splits)
  then show ?case
    using 2 by (intro "2.IH") (auto simp: distinct_map_put price_ok_def TrimSpace_idem intro!: list_all_map_put)
qed simp

lemma prices_loop_accepts:
  "list_all price_ok xs \<Longrightarrow> distinct (map fst (acc @ xs)) \<Longrightarrow> prices_loop acc xs = Inr (acc @ xs)"
proof (induction acc xs rule: prices_loop.induct)
  case (2 acc period price rest)
  then have "map_put period price acc = acc @ [(period, price)]" by (intro map_put_new) auto
  then show ?case using 2 by (simp add: price_ok_def Let_def)
qed simp

lemma tags_loop_result:
  "set (tags_loop seen vs) \<inter> set seen = {}" "distinct (tags_loop seen vs)"
  "list_all (\<lambda>t. t \<noteq> [] \<and> TrimSpace t = t) (tags_loop seen vs)"
  by (induction seen vs rule: tags_loop.induct) (auto simp: Let_def TrimSpace_idem)

lemma tags_loop_accepts:
  "list_all (\<lambda>t. t \<noteq> [] \<and> TrimSpace t = t) ts \<Longrightarrow> distinct ts \<Longrightarrow> set ts \<inter> set seen = {} \<Longrightarrow> tags_loop seen ts = ts"
  by (induction seen ts rule: tags_loop.induct) (auto simp: Let_def)

lemma normalizePlanTags_idem: "normalizePlanTags (normalizePlanTags ts) = normalizePlanTags ts"
  unfolding normalizePlanTags_def by (rule tags_loop_accepts) (use tags_loop_result in auto)

lemma normalizePlanInput_stages:
  assumes "normalizePlanInput input = Inr n"
  obtains prices where "prices_loop [] (pi_prices input) = Inr prices"
    and "n = input\<lparr>pi_name := TrimSpace (pi_name input), pi_content := TrimSpace (pi_content input), pi_prices := prices,
           pi_tags := normalizePlanTags (pi_tags input)\<rparr>"
  using assms unfolding normalizePlanInput_def Let_def by (elim stageE) (erule that, rule Inr_inject [THEN sym])

lemma normalizePlanInput_idem:
  assumes "normalizePlanInput input = Inr n"
  shows "normalizePlanInput n = Inr n"
proof -
  obtain prices where p: "prices_loop [] (pi_prices input) = Inr prices"
    and n: "n = input\<lparr>pi_name := TrimSpace (pi_name input), pi_content := TrimSpace (pi_content input), pi_prices := prices,
           pi_tags := normalizePlanTags (pi_tags input)\<rparr>"
    using assms by (rule normalizePlanInput_stages) (rule that)
  have "prices_loop [] prices = Inr prices"
    using prices_loop_result [OF p] prices_loop_accepts [of prices "[]"] by simp
  then show ?thesis
    using assms p unfolding n normalizePlanInput_def
    by (simp add: TrimSpace_idem normalizePlanTags_idem Let_def)
qed

section \<open>Audiences and offers\<close>

lemma plan_by_id_ex:
  assumes "db_ok d" and "p \<in> set (db_plans d)"
  shows "(\<exists>q\<in>set (db_plans d). p_id q = p_id p \<and> Q q) \<longleftrightarrow> Q p"
  using plans_by_id [OF assms] assms(2) by metis

lemma requirePlanAudience_Inr:
  assumes "db_ok d" and "u \<in> set (db_users d)" and "p \<in> set (db_plans d)"
  shows "requirePlanAudience (p_id p) (u_id u) d = Inr () \<longleftrightarrow>
    u_account_kind u = AccountKindHuman \<and> in_audience d (u_is_distributor u) (u_id u) p"
proof -
  have uniq: "users_unique (db_users d)" using assms(1) by (simp add: db_ok_def users.holds_def)
  have "requirePlanAudience (p_id p) (u_id u) d = Inr () \<longleftrightarrow>
      (\<exists>v\<in>set (db_users d). u_id v = u_id u \<and> u_account_kind v = AccountKindHuman \<and>
        (\<exists>q\<in>set (db_plans d). p_id q = p_id p \<and> in_audience d (u_is_distributor v) (u_id u) q))"
    by (auto simp: requirePlanAudience_def exists_where_iff)
  also have "\<dots> \<longleftrightarrow> u_account_kind u = AccountKindHuman \<and> in_audience d (u_is_distributor u) (u_id u) p"
    using assms(2) users_by_id [OF uniq assms(2)] unfolding plan_by_id_ex [OF assms(1,3)] by metis
  finally show ?thesis .
qed

lemma find_human:
  assumes "db_ok d" and "u \<in> set (db_users d)"
  shows "List.find (\<lambda>v. u_id v = u_id u \<and> u_account_kind v = AccountKindHuman) (db_users d) =
    (if u_account_kind u = AccountKindHuman then Some u else None)"
proof -
  have uniq: "users_unique (db_users d)" using assms(1) by (simp add: db_ok_def users.holds_def)
  show ?thesis
  proof (cases "List.find (\<lambda>v. u_id v = u_id u \<and> u_account_kind v = AccountKindHuman) (db_users d)")
    case None
    then show ?thesis using assms(2) by (auto simp: find_eq_None_iff)
  next
    case (Some v)
    then show ?thesis using find_eq_Some_set [OF Some] users_by_id [OF uniq assms(2), of v] by auto
  qed
qed

lemma set_listPlans: "set (listPlans now q d) = {i \<in> plan_info_of d now ` set (db_plans d). q i}"
  by (auto simp: listPlans_def)

lemma plan_offer_row [simp]: "p_id (pl_row (po_plan (plan_offer_of c s i))) = p_id (pl_row i)"
  by (simp add: plan_offer_of_def Let_def)

lemma ListUserPlanOffers_iff:
  assumes ok: "db_ok d" and u: "u \<in> set (db_users d)" and p: "p \<in> set (db_plans d)"
    and r: "ListUserPlanOffers (u_id u) now d = Inr offers"
  shows "(\<exists>off\<in>set offers. p_id (pl_row (po_plan off)) = p_id p) \<longleftrightarrow>
    (p_show p \<and> p_sell p \<and> in_audience d (u_is_distributor u) (u_id u) p \<and> has_capacity (plan_info_of d now p))
     \<or> (\<not> u_is_distributor u \<and> u_plan_id u = Some (p_id p) \<and> p_renew p)"
    and "u_account_kind u = AccountKindHuman"
proof -
  let ?q = "\<lambda>i. (p_show (pl_row i) \<and> p_sell (pl_row i) \<and> in_audience d (u_is_distributor u) (u_id u) (pl_row i) \<and>
                has_capacity i) \<or> (\<not> u_is_distributor u \<and> u_plan_id u = Some (p_id (pl_row i)) \<and> p_renew (pl_row i))"
  show h: "u_account_kind u = AccountKindHuman"
    using r unfolding ListUserPlanOffers_def find_human [OF ok u] by (auto split: if_splits)
  have "offers = planOffers (listPlans now ?q d) (u_plan_id u) (s_traffic_reset_method (db_settings d))"
    using r h unfolding ListUserPlanOffers_def find_human [OF ok u] by (auto split: if_splits)
  then have "(\<exists>off\<in>set offers. p_id (pl_row (po_plan off)) = p_id p) \<longleftrightarrow>
      (\<exists>q\<in>set (db_plans d). p_id q = p_id p \<and> ?q (plan_info_of d now q))"
    by (auto simp: planOffers_def set_listPlans)
  also have "\<dots> \<longleftrightarrow> ?q (plan_info_of d now p)" by (rule plan_by_id_ex [OF ok p])
  finally show "(\<exists>off\<in>set offers. p_id (pl_row (po_plan off)) = p_id p) \<longleftrightarrow>
    (p_show p \<and> p_sell p \<and> in_audience d (u_is_distributor u) (u_id u) p \<and> has_capacity (plan_info_of d now p))
     \<or> (\<not> u_is_distributor u \<and> u_plan_id u = Some (p_id p) \<and> p_renew p)" by simp
qed

end
