(* ===== verification/Plan_Properties.thy ===== *)
theory Plan_Properties
  imports Plans_Correct Sample_Store
begin

text \<open>
  The properties of the plan catalogue and of the traffic resets, each with an instance evaluated on
  the sample store.
\<close>

section \<open>Editing the catalogue\<close>

text \<open>C26: What the catalogue stores is a fixed point of the input normalization: trimming, collecting the prices
  and removing repeated tags from an already normalized input changes nothing and is accepted again.\<close>

theorem plan_input_normalized_once:
  assumes "normalizePlanInput input = Inr n"
  shows "normalizePlanInput n = Inr n"
  by (rule normalizePlanInput_idem [OF assms])

definition sample_plan_input :: save_plan_input where
  "sample_plan_input = \<lparr>pi_distributor_hwid_limit = None, pi_group_id = Some 1, pi_transfer_enable_gib = 50,
     pi_name = '' Basic plus '', pi_speed_limit = Some 100, pi_content = '' fast '', pi_reset_traffic_method = Some 2,
     pi_capacity_limit = None, pi_prices = [('' monthly'', 1200)], pi_device_limit = Some 2,
     pi_tags = [''new'', '' new'', []]\<rparr>"

definition sample_plan_normalized :: save_plan_input where
  "sample_plan_normalized = sample_plan_input\<lparr>pi_name := ''Basic plus'', pi_content := ''fast'',
     pi_prices := [(''monthly'', 1200)], pi_tags := [''new'']\<rparr>"

lemma sample_plan_accepted: "normalizePlanInput sample_plan_input = Inr sample_plan_normalized"
  by code_simp

theorem plan_input_normalized_once_witness: "normalizePlanInput sample_plan_normalized = Inr sample_plan_normalized"
  by (rule plan_input_normalized_once [OF sample_plan_accepted])

text \<open>C22: Edits of a plan are never lost: a successful edit was made on the current revision, raises it by one and
  leaves every other plan alone, and whoever still holds the old revision is refused with a revision conflict,
  by a state change as by an edit.\<close>

theorem plan_edits_not_lost:
  assumes "UpdatePlan loc planID revision input force now d = Inr (info, d')" and "db_ok d"
  shows "p_revision (pl_row info) = revision + 1 \<and>
    (\<forall>q\<in>set (db_plans d). p_id q \<noteq> planID \<longrightarrow> q \<in> set (db_plans d')) \<and>
    SetPlanState planID revision st now2 d' = Inl ErrRevisionConflict \<and>
    (normalizePlanInput input2 = Inr n2 \<and> validatePlanGroup (pi_group_id n2) d' = Inr () \<longrightarrow>
      UpdatePlan loc planID revision input2 force2 now2 d' = Inl ErrRevisionConflict)"
proof -
  obtain n p where p: "p \<in> set (db_plans d)" "p_id p = planID" "p_revision p = revision"
    and row: "pl_row info = set_plan_columns n now p"
    and ps: "db_plans d' = update_where (\<lambda>p. p_id p = planID) (set_plan_columns n now) (db_plans d)"
    by (rule UpdatePlan_effect [OF assms])
  note stale = stale_revision [OF ps _ _ assms(2) p, simplified]
  have ok': "db_ok d'" by (rule history_ok [OF UpdatePlan_history [OF assms(1)] assms(2)])
  have "0 < planID \<and> 0 < revision" by (rule UpdatePlan_stages [OF assms(1)]) simp
  moreover have "update_plans (\<lambda>p. p_id p = planID \<and> p_revision p = revision) f d' = Inr d'" for f
    unfolding update_plans_def using ok' stale(2) by (intro plans.update_none) (auto simp: db_ok_def count_where_0)
  ultimately have "SetPlanState planID revision st now2 d' = Inl ErrRevisionConflict"
    using stale by (simp add: SetPlanState_def)
  moreover have "UpdatePlan loc planID revision input2 force2 now2 d' = Inl ErrRevisionConflict"
    if "normalizePlanInput input2 = Inr n2 \<and> validatePlanGroup (pi_group_id n2) d' = Inr ()"
    using that stale \<open>0 < planID \<and> 0 < revision\<close> by (simp add: UpdatePlan_def)
  moreover have "\<forall>q\<in>set (db_plans d). p_id q \<noteq> planID \<longrightarrow> q \<in> set (db_plans d')"
    by (auto simp: ps set_update_where)
  ultimately show ?thesis using row p(3) by simp
qed

definition sample_edited_plan :: plan where
  "sample_edited_plan = (sample_plan 1 ''Basic plus'' 1000)\<lparr>p_transfer_enable_gib := 50, p_speed_limit := Some 100,
     p_content := ''fast'', p_prices := [(''monthly'', 1200)], p_device_limit := Some 2, p_tags := [''new''],
     p_revision := 2, p_updated_at := 1700000000\<rparr>"

definition sample_edited :: db where
  "sample_edited = sample_db\<lparr>db_plans := [sample_edited_plan, sample_plan 2 ''Large'' 5000]\<rparr>"

lemma sample_edit:
  "UpdatePlan sample_zone 1 1 sample_plan_input False sample_now sample_db =
     Inr (plan_info_of sample_edited sample_now sample_edited_plan, sample_edited)"
  by code_simp

theorem plan_edits_not_lost_witness:
  "SetPlanState 1 1 \<lparr>ps_show = False, ps_sell = False, ps_renew = False\<rparr> sample_now sample_edited = Inl ErrRevisionConflict"
  using plan_edits_not_lost [OF sample_edit sample_db_ok] by blast

text \<open>Reordering the catalogue makes the list of plans exactly the list of ids that was sent, and it is
  accepted only when every plan is named once.\<close>

theorem reorder_gives_order:
  assumes "ReorderPlans ids now d = Inr (infos, d')" and "db_ok d"
  shows "map (p_id \<circ> pl_row) infos = ids \<and> mset (map p_id (db_plans d)) = mset ids"
proof -
  have dist: "distinct (map p_id (db_plans d))"
    using assms(2) by (simp add: db_ok_def plans.holds_def plans_unique_def)
  obtain di: "distinct ids" and len: "length (db_plans d) = length ids"
    and f: "efold (reorder_step now) (List.enumerate 0 ids) d = Inr d'" and i: "infos = listPlans now (\<lambda>_. True) d'"
    using assms(1) by (rule ReorderPlans_stages)
  have L: "map p_id (order_by p_sort_position (db_plans d')) = ids" by (rule reorder_positions [OF f di len dist])
  then have "map (p_id \<circ> pl_row) infos = ids" by (simp add: i listPlans_def comp_def)
  moreover have "mset ids = mset (map p_id (db_plans d'))"
    unfolding L [symmetric] by (simp add: order_by_def mset_map)
  ultimately show ?thesis using reorder_fold [OF f di] by simp
qed

definition sample_reordered :: db where
  "sample_reordered = sample_db\<lparr>db_plans :=
     [(sample_plan 1 ''Basic'' 1000)\<lparr>p_sort_position := 1, p_revision := 2, p_updated_at := 1700000000\<rparr>,
      (sample_plan 2 ''Large'' 5000)\<lparr>p_sort_position := 0, p_revision := 2, p_updated_at := 1700000000\<rparr>]\<rparr>"

lemma sample_reorder:
  "ReorderPlans [2, 1] sample_now sample_db =
     Inr (map (plan_info_of sample_reordered sample_now) (rev (db_plans sample_reordered)), sample_reordered)"
  by code_simp

theorem reorder_gives_order_witness:
  "map (p_id \<circ> pl_row) (map (plan_info_of sample_reordered sample_now) (rev (db_plans sample_reordered))) = [2, 1]"
  using reorder_gives_order [OF sample_reorder sample_db_ok] by blast

section \<open>Audiences and offers\<close>

text \<open>C24: Saving the audience of a plan decides exactly who may buy it afterwards: of the customers everybody or those
  listed, of the distributors everybody, those listed or nobody. The audiences of the other plans stay as they are.\<close>

theorem saved_audience_decides:
  assumes "SavePlanVisibility input now d = Inr d'" and "db_ok d" and "u \<in> set (db_users d)"
    and "u_account_kind u = AccountKindHuman"
  shows "(requirePlanAudience (vi_plan_id input) (u_id u) d' = Inr () \<longleftrightarrow>
      (if u_is_distributor u
       then vi_distributor_visibility input = ''all'' \<or>
            vi_distributor_visibility input = ''selected'' \<and> u_id u \<in> set (vi_distributor_user_ids input)
       else vi_customer_visibility input = ''all'' \<or>
            vi_customer_visibility input = ''selected'' \<and> u_id u \<in> set (vi_customer_user_ids input))) \<and>
    (q \<in> set (db_plans d) \<and> p_id q \<noteq> vi_plan_id input \<longrightarrow>
      requirePlanAudience (p_id q) (u_id u) d' = requirePlanAudience (p_id q) (u_id u) d)"
proof -
  let ?f = "\<lambda>p. p\<lparr>p_customer_visibility := vi_customer_visibility input,
              p_distributor_visibility := vi_distributor_visibility input,
              p_revision := p_revision p + 1, p_updated_at := unix now\<rparr>"
  obtain d1 where up: "update_plans (\<lambda>p. p_id p = vi_plan_id input) ?f d = Inr d1"
    and some: "count_where (\<lambda>p. p_id p = vi_plan_id input) (db_plans d) \<noteq> 0"
    and d': "d' = d1\<lparr>db_visibility :=
       filter (\<lambda>(p, _, _). p \<noteq> vi_plan_id input) (db_visibility d1) @
       map (\<lambda>i. (vi_plan_id input, ''customer'', i)) (vi_customer_user_ids input) @
       map (\<lambda>i. (vi_plan_id input, ''distributor'', i)) (vi_distributor_user_ids input)\<rparr>"
    using assms(1) by (rule SavePlanVisibility_stages) (rule that; assumption)
  have ok': "db_ok d'" by (rule history_ok [OF SavePlanVisibility_history [OF assms(1)] assms(2)])
  have us: "u \<in> set (db_users d')" and ps: "db_plans d' = update_where (\<lambda>p. p_id p = vi_plan_id input) ?f (db_plans d)"
    and vis: "db_visibility d1 = db_visibility d"
    using up assms(3) by (auto simp: d' update_plans_Inr)
  obtain p where p: "p \<in> set (db_plans d)" "p_id p = vi_plan_id input" using some by (auto simp: count_where_0)
  have "?f p \<in> set (db_plans d')" unfolding ps set_update_where using p by blast
  note audience = requirePlanAudience_Inr [OF ok' us this] requirePlanAudience_Inr [OF ok' us]
    requirePlanAudience_Inr [OF assms(2,3)]
  have 1: "requirePlanAudience (vi_plan_id input) (u_id u) d' = Inr () \<longleftrightarrow> in_audience d' (u_is_distributor u) (u_id u) (?f p)"
    using audience(1) assms(4) p(2) by simp
  have 2: "requirePlanAudience (p_id q) (u_id u) d' = requirePlanAudience (p_id q) (u_id u) d"
    if q: "q \<in> set (db_plans d)" "p_id q \<noteq> vi_plan_id input"
  proof -
    have "q \<in> set (db_plans d')" using q by (auto simp: ps set_update_where)
    moreover have "in_audience d' b i q = in_audience d b i q" for b i
      using q(2) by (auto simp: in_audience_def Let_def d' vis)
    ultimately have "requirePlanAudience (p_id q) (u_id u) d' = Inr () \<longleftrightarrow> requirePlanAudience (p_id q) (u_id u) d = Inr ()"
      using audience(2,3) q(1) by simp
    then show ?thesis by (auto simp: requirePlanAudience_def split: if_splits)
  qed
  have "in_audience d' (u_is_distributor u) (u_id u) (?f p) \<longleftrightarrow>
      (if u_is_distributor u
       then vi_distributor_visibility input = ''all'' \<or>
            vi_distributor_visibility input = ''selected'' \<and> u_id u \<in> set (vi_distributor_user_ids input)
       else vi_customer_visibility input = ''all'' \<or>
            vi_customer_visibility input = ''selected'' \<and> u_id u \<in> set (vi_customer_user_ids input))"
    using p(2) by (auto simp: in_audience_def Let_def d' vis)
  then show ?thesis using 1 2 by blast
qed

definition sample_audience :: save_plan_visibility_input where
  "sample_audience = \<lparr>vi_plan_id = 2, vi_customer_visibility = ''selected'', vi_distributor_visibility = ''none'',
     vi_customer_user_ids = [2], vi_distributor_user_ids = []\<rparr>"

definition sample_restricted :: db where
  "sample_restricted = sample_db\<lparr>db_plans := [sample_plan 1 ''Basic'' 1000, (sample_plan 2 ''Large'' 5000)
       \<lparr>p_customer_visibility := ''selected'', p_revision := 2, p_updated_at := 1700000000\<rparr>],
     db_visibility := [(2, ''customer'', 2)]\<rparr>"

lemma sample_restrict: "SavePlanVisibility sample_audience sample_now sample_db = Inr sample_restricted"
  by code_simp

theorem saved_audience_decides_witness: "requirePlanAudience 2 1 sample_restricted = Inl ErrPlanUnavailable"
proof -
  let ?u = "sample_user 1 ''inviter@example.com''"
  have "?u \<in> set (db_users sample_db)" and "u_account_kind ?u = AccountKindHuman"
    by (simp_all add: sample_db_def sample_user_def)
  from saved_audience_decides [OF sample_restrict sample_db_ok this]
  have "requirePlanAudience 2 1 sample_restricted \<noteq> Inr ()" by (simp add: sample_audience_def sample_user_def)
  then show ?thesis by (simp add: requirePlanAudience_def split: if_splits)
qed




section \<open>Traffic resets\<close>

text \<open>C21: Rescheduling the users of a plan, 500 at a time in the order of their ids while the rows are being
  changed, has the effect of one update of all of them: nobody is skipped or done twice, and it fails exactly
  when that update would.\<close>

theorem paged_reschedule_is_one_update:
  assumes "db_ok d"
  shows "reschedulePlanUsers loc planID planMethod now d =
      update_users (plan_members planID now)
        (rescheduled loc planMethod (if planMethod = None then s_traffic_reset_method (db_settings d) else 1) now) d \<and>
    rescheduleSystemTrafficResetUsers loc systemMethod now d =
      update_users (system_reset_users now (db_plans d)) (rescheduled loc None systemMethod now) d"
  using reschedulePlanUsers_eq [OF assms] rescheduleSystemTrafficResetUsers_eq [OF assms] by blast

theorem paged_reschedule_is_one_update_witness:
  "reschedulePlanUsers sample_zone 1 (Some 2) sample_now sample_paid =
     update_users (plan_members 1 sample_now) (rescheduled sample_zone (Some 2) 1 sample_now) sample_paid"
  using paged_reschedule_is_one_update [OF sample_states_ok(3), where planMethod = "Some 2"] by simp






end
