(* ===== verification/Coupon_Properties.thy ===== *)
theory Coupon_Properties
  imports Sample_Store
begin

text \<open>
  The properties of coupons, each with an instance evaluated on the sample store.
\<close>

section \<open>Quotes\<close>

lemma CheckCoupon_stages:
  assumes "CheckCoupon input now d = Inr q"
  obtains period info price c where "normalizeOrderPeriod (cc_period input) = (period, True)"
    and "TrimSpace (cc_code input) \<noteq> []"
    and "getPlan (cc_plan_id input) now d = Inr info" and "map_of (p_prices (pl_row info)) period = Some price"
    and "validateCoupon (cc_user_id input) (p_id (pl_row info)) period (TrimSpace (cc_code input)) now d = Inr c"
    and "q = \<lparr>cq_coupon = c, cq_original_amount = price, cq_coupon_discount_amount = couponDiscount price c,
               cq_total_after_coupon = i64 (price - couponDiscount price c)\<rparr>"
  using assms find_eq_Some_set [of "\<lambda>u. u_id u = cc_user_id input" "db_users d"]
  unfolding CheckCoupon_def Let_def case_prod_unfold
  by (auto simp: validCouponCode_def prod_eq_iff Suc_le_eq split: if_splits option.splits)

text \<open>C25: A quote is honoured: when the till accepts an order for the same user, plan, period and code at the same
  moment, the order carries the quoted coupon and the quoted price, its discount is at least the quoted one, and the
  quote itself adds up exactly, the percentage rounded half up.\<close>

theorem coupon_quote_honoured:
  assumes "CheckCoupon \<lparr>cc_user_id = userID, cc_plan_id = planID, cc_period = period, cc_code = code\<rparr> now d = Inr q"
    and "CreateOrder loc random \<lparr>oi_user_id = userID, oi_plan_id = planID, oi_period = period, oi_coupon_code = code\<rparr> now d
      = Inr (ord, d')" and "db_ok d"
  shows "o_coupon_id ord = Some (c_id (cq_coupon q)) \<and> o_original_amount ord = cq_original_amount q \<and>
    cq_coupon_discount_amount q \<le> o_discount_amount ord \<and>
    cq_total_after_coupon q + cq_coupon_discount_amount q = cq_original_amount q \<and> 0 \<le> cq_total_after_coupon q \<and>
    cq_coupon_discount_amount q = (case c_type (cq_coupon q) of
      CouponTypeFixed \<Rightarrow> min (c_value (cq_coupon q)) (cq_original_amount q)
    | CouponTypePercentage \<Rightarrow> (cq_original_amount q * c_value (cq_coupon q) + 50) div 100)"
proof -
  let ?in = "\<lparr>oi_user_id = userID, oi_plan_id = planID, oi_period = period, oi_coupon_code = code\<rparr> :: create_order_input"
  obtain pd info price c where n: "normalizeOrderPeriod period = (pd, True)" and code: "TrimSpace code \<noteq> []"
    and pl: "getPlan planID now d = Inr info" and pr: "map_of (p_prices (pl_row info)) pd = Some price"
    and v: "validateCoupon userID (p_id (pl_row info)) pd (TrimSpace code) now d = Inr c"
    and q: "q = \<lparr>cq_coupon = c, cq_original_amount = price, cq_coupon_discount_amount = couponDiscount price c,
               cq_total_after_coupon = i64 (price - couponDiscount price c)\<rparr>"
    by (rule CheckCoupon_stages [OF assms(1)]) simp
  obtain u info' price' pd' applied code' ord1 ord3 d1 d2 where
    s: "u \<in> set (db_users d)" and pl': "getPlan (oi_plan_id ?in) now d = Inr info'"
    and pr': "map_of (p_prices (pl_row info')) pd' = Some price'"
    and cp: "\<forall>c. applied = Some c \<longrightarrow> validateCoupon (oi_user_id ?in) (p_id (pl_row info')) pd' code' now d = Inr c"
    and cl: "classify_order loc u (db_settings d) (apply_discounts u applied
       (new_order (oi_user_id ?in) (oi_plan_id ?in) pd' (newOrderTradeNo loc now random) price' now)) now d = Inr ord1"
    and pay: "pay_from_balance u (setOrderCommission u (db_settings d) d ord1) now d = Inr (ord3, d1)"
    and o3: "ord = ord3\<lparr>o_id := o_id ord\<rparr>"
    and n': "normalizeOrderPeriod (oi_period ?in) = (pd', True)" and code': "code' = TrimSpace (oi_coupon_code ?in)"
    and none: "applied = None \<longleftrightarrow> code' = []"
    by (rule CreateOrder_stages [OF assms(2)]) (rule that; assumption)
  have same: "info' = info" "pd' = pd" "price' = price" "applied = Some c"
    using pl pl' n n' pr pr' cp v code code' none by (auto split: option.splits)
  let ?new = "new_order userID planID pd (newOrderTradeNo loc now random) price now"
  let ?disc = "apply_discounts u (Some c) ?new"
  note cl = cl [unfolded same, simplified]
  have fr: "order_frame ?new ord3" by (rule created_order_frame [OF cl pay]) simp
  have orig: "o_original_amount ord = price" using fr by (subst o3) (simp add: order_frame_def)
  have price: "money price" using CreateOrder_effect(12) [OF assms(2,3)] orig by (simp add: order_ok_def)
  have cok: "coupon_ok c" using validateCoupon_Inr(1) [OF v] coupon_ok_member [OF assms(3)] by blast
  have surplus: "o_surplus_amount ?disc = 0" by (simp add: apply_discounts_rest)
  have "o_coupon_id ord1 = Some (c_id c)" and "o_discount_amount ord1 = o_discount_amount ?disc"
    using classify_order_frame(2) [OF cl surplus] classify_order_discount [OF cl surplus] by (simp_all add: apply_discounts_coupon)
  moreover have "o_coupon_id ord3 = o_coupon_id ord1" "o_discount_amount ord3 = o_discount_amount ord1"
    using pay by (auto simp: pay_from_balance_def setOrderCommission_def Let_def split: if_splits option.splits)
  moreover have "o_coupon_id ord = o_coupon_id ord3" "o_discount_amount ord = o_discount_amount ord3"
    by (subst o3, simp)+
  ultimately have o: "o_coupon_id ord = Some (c_id c)" "o_discount_amount ord = o_discount_amount ?disc" by simp_all
  note d = couponDiscount_le [OF price cok]
  have "couponDiscount price c \<le> o_discount_amount ?disc"
  proof (cases "u_discount u")
    case (Some r)
    then have "0 \<le> r" "r \<le> 100" using user_ok_member [OF assms(3) s] by (simp_all add: user_ok_def)
    note p = percentageCents_le [OF price this]
    have "i64 (couponDiscount price c + percentageCents price r) = couponDiscount price c + percentageCents price r"
      using p d price by (intro i64_id) (auto simp: money_def maxOrderMoneyCents_def)
    then show ?thesis using Some p d by (simp add: apply_discounts_def Let_def)
  qed (use d in \<open>simp add: apply_discounts_def Let_def\<close>)
  moreover have "i64 (price - couponDiscount price c) = price - couponDiscount price c"
    using d price by (intro i64_id) (auto simp: money_def maxOrderMoneyCents_def)
  moreover have "couponDiscount price c = (case c_type c of CouponTypeFixed \<Rightarrow> min (c_value c) price
      | CouponTypePercentage \<Rightarrow> (price * c_value c + 50) div 100)"
  proof (cases "c_type c")
    case CouponTypePercentage
    then have "0 \<le> c_value c" "c_value c \<le> 100" using cok by (auto simp: coupon_ok_def)
    from percentageCents_exact [OF price this] percentageCents_le(2) [OF price this] show ?thesis
      using CouponTypePercentage by (simp add: couponDiscount_def minInt64_def)
  qed (auto simp: couponDiscount_def minInt64_def)
  ultimately show ?thesis using o orig d unfolding q by (cases "c_type c") simp_all
qed

theorem coupon_quote_honoured_witness:
  "\<exists>q. CheckCoupon \<lparr>cc_user_id = 2, cc_plan_id = 1, cc_period = ''month_price'', cc_code = '' SAVE10AB ''\<rparr> sample_now sample_db = Inr q \<and>
     cq_coupon_discount_amount q \<le> o_discount_amount sample_order"
proof -
  let ?q = "\<lparr>cq_coupon = sample_coupon, cq_original_amount = 1000, cq_coupon_discount_amount = 100, cq_total_after_coupon = 900\<rparr>"
  have "CheckCoupon \<lparr>cc_user_id = 2, cc_plan_id = 1, cc_period = ''month_price'', cc_code = '' SAVE10AB ''\<rparr> sample_now sample_db = Inr ?q"
    by code_simp
  then show ?thesis
    using coupon_quote_honoured [OF _ sample_created [unfolded sample_order_input_def] sample_db_ok] by blast
qed

section \<open>Batches\<close>

lemma batch_insert_terms:
  "batch_insert draw k input now d = Inr (c, d1) \<Longrightarrow> \<exists>code. c\<lparr>c_id := 0\<rparr> = couponFromInput 0 (input\<lparr>ci_code := code\<rparr>) now"
  by (induction draw k input now d rule: batch_insert.induct)
     (auto simp: Let_def split: sum.splits if_splits)

lemma batch_loop_terms:
  "batch_loop draw index k input now d = Inr (cs, d') \<Longrightarrow>
   \<forall>c\<in>set cs. \<exists>code. c\<lparr>c_id := 0\<rparr> = couponFromInput 0 (input\<lparr>ci_code := code\<rparr>) now"
proof (induction draw index k input now d arbitrary: cs rule: batch_loop.induct)
  case (2 draw index left input now d)
  from "2.prems" obtain c d1 cs' where c: "batch_insert (draw index) 8 input now d = Inr (c, d1)"
    and rest: "batch_loop draw (Suc index) left input now d1 = Inr (cs', d')" and cs: "cs = c # cs'"
    by (auto split: prod.splits)
  show ?case using batch_insert_terms [OF c] "2.IH" [OF c refl rest] by (simp add: cs)
qed simp

text \<open>A batch of coupons yields exactly as many coupons as were asked for, appended to the table, all with different
  codes that no earlier coupon has, all with the terms of the input, and each can be read back by its id.\<close>

theorem coupon_batch_complete:
  assumes "CreateCouponBatch draw input cnt now d = Inr (cs, d')" and "db_ok d"
  shows "length cs = nat cnt \<and> db_coupons d' = db_coupons d @ cs \<and> distinct (map c_code (db_coupons d @ cs)) \<and>
    (\<exists>n. normalizeCouponInput (input\<lparr>ci_code := newCouponCode (draw 0 0)\<rparr>) now = Inr n \<and>
      (\<forall>c\<in>set cs. \<exists>code. c\<lparr>c_id := 0\<rparr> = couponFromInput 0 (n\<lparr>ci_code := code\<rparr>) now)) \<and>
    (\<forall>c\<in>set cs. getCoupon (c_id c) d' = Inr c)"
proof -
  have b: "db_ok d'" "length cs = nat cnt" "db_coupons d' = db_coupons d @ cs"
    using CreateCouponBatch_Inr [OF assms] by simp_all
  then have u: "distinct (map c_id (db_coupons d'))" "distinct (map c_code (db_coupons d'))"
    by (simp_all add: db_ok_def coupons.holds_def coupons_unique_def)
  obtain n where n: "normalizeCouponInput (input\<lparr>ci_code := newCouponCode (draw 0 0)\<rparr>) now = Inr n"
    and "batch_loop draw 0 (nat cnt) n now d = Inr (cs, d')"
    using assms(1) by (auto simp: CreateCouponBatch_def)
  from batch_loop_terms [OF this(2)] n
  have "\<exists>n. normalizeCouponInput (input\<lparr>ci_code := newCouponCode (draw 0 0)\<rparr>) now = Inr n \<and>
      (\<forall>c\<in>set cs. \<exists>code. c\<lparr>c_id := 0\<rparr> = couponFromInput 0 (n\<lparr>ci_code := code\<rparr>) now)" by blast
  moreover have "getCoupon (c_id c) d' = Inr c" if c: "c \<in> set cs" for c
  proof -
    have m: "c \<in> set (db_coupons d')" using c b(3) by simp
    then obtain r where r: "List.find (\<lambda>r. c_id r = c_id c) (db_coupons d') = Some r"
      using find_eq_None_iff [of "\<lambda>r. c_id r = c_id c" "db_coupons d'"] by fastforce
    then have "r = c" using find_eq_Some_set [OF r] m u(1) by (auto simp: distinct_map dest: inj_onD)
    then show ?thesis using r by (simp add: getCoupon_def)
  qed
  ultimately show ?thesis using b u(2) by simp
qed

definition sample_coupon_input :: save_coupon_input where
  "sample_coupon_input = \<lparr>ci_code = [], ci_name = ''Spring'', ci_type = 1, ci_value = 500, ci_show = True,
     ci_limit_use = Some 1, ci_limit_use_with_user = None, ci_limit_plan_ids = [1], ci_limit_periods = [],
     ci_started_at = 1600000000000000000, ci_ended_at = 1800000000000000000\<rparr>"

definition sample_draw :: "nat \<Rightarrow> nat \<Rightarrow> nat list" where
  "sample_draw index attempt = replicate 12 index"

theorem coupon_batch_complete_witness:
  "\<exists>cs d'. CreateCouponBatch sample_draw sample_coupon_input 2 sample_now sample_db = Inr (cs, d') \<and> length cs = 2 \<and>
     (\<forall>c\<in>set cs. getCoupon (c_id c) d' = Inr c)"
proof -
  have "\<not> isl (CreateCouponBatch sample_draw sample_coupon_input 2 sample_now sample_db)" by code_simp
  then obtain cs d' where r: "CreateCouponBatch sample_draw sample_coupon_input 2 sample_now sample_db = Inr (cs, d')"
    by (metis isl_def sum.exhaust surj_pair)
  from coupon_batch_complete [OF this sample_db_ok] show ?thesis using r by auto
qed

end
