(* ===== verification/Gift_Cards.thy ===== *)
theory Gift_Cards
  imports Orders
begin

text \<open>
  Gift cards (\<^verbatim>\<open>internal/store/gift_cards.go\<close>) and cards that carry a purchased plan
  (\<^verbatim>\<open>gift_card_purchase.go\<close>): templates, issuing codes, switching them on and off, checking a card
  for a user and redeeming it. \<open>loc\<close> is the zone of the traffic resets, \<open>zone\<close> the zone of \<^verbatim>\<open>now\<close> and \<open>local\<close>
  the zone of the server; \<open>parse\<close> is \<^verbatim>\<open>url.Parse\<close> reduced to the scheme, the host and whether there is
  user information; \<open>draw\<close> gives the random bytes and \<open>pick n\<close> a random number below \<open>n\<close>.
\<close>

section \<open>Inputs and results\<close>

record save_gift_template_input =
  ti_name :: string
  ti_description :: string
  ti_type :: gift_card_type
  ti_status :: bool
  ti_conditions :: gift_conditions
  ti_rewards :: gift_reward
  ti_limits :: gift_limits
  ti_special :: gift_special
  ti_icon :: string
  ti_background_image :: string
  ti_theme :: string
  ti_sort_position :: int

record generate_gift_codes_input =
  gi_count :: int
  gi_prefix :: string
  gi_expires_at :: "instant option"
  gi_max_usage :: int

record save_gift_code_input =
  ki_code :: string
  ki_status :: gift_code_status
  ki_expires_at :: "instant option"
  ki_max_usage :: int

record redeem_gift_card_input =
  ri_user_id :: int
  ri_code :: string
  ri_ip_address :: string
  ri_user_agent :: string

record gift_purchase_preview =
  gp_transfer_before :: int
  gp_transfer_after :: int
  gp_used_traffic :: int
  gp_expires_before :: "int option"
  gp_expires_after :: "int option"
  gp_renewal :: bool

record gift_card_preview =
  pv_purchase_preview :: "gift_purchase_preview option"
  pv_template :: gift_template
  pv_code :: gift_code
  pv_rewards :: gift_reward

record gift_redemption =
  rd_usage :: gift_usage
  rd_changes :: "entitlement_change list"
  rd_order_trade_no :: string

definition maxGiftCardMoney :: int where
  "maxGiftCardMoney = 9000000000000000"

definition maxGiftCardTransfer :: int where
  "maxGiftCardTransfer = 9000000000000000"

definition giftCardAlphabet :: string where
  "giftCardAlphabet = ''ABCDEFGHJKLMNPQRSTUVWXYZ23456789''"

section \<open>Texts and tokens\<close>

definition validateGiftCardText :: "string \<Rightarrow> nat \<Rightarrow> bool \<Rightarrow> bool" where
  "validateGiftCardText value maximum allowEmpty \<longleftrightarrow>
     ValidString value \<and> length value \<le> maximum \<and> CHR 0x00 \<notin> set value \<and> \<not> has_control value \<and> (allowEmpty \<or> value \<noteq> [])"

definition validGiftCardToken :: "string \<Rightarrow> bool" where
  "validGiftCardToken value \<longleftrightarrow> value \<noteq> [] \<and> list_all is_upper_alnum value"

definition validGiftCardTheme :: "string \<Rightarrow> bool" where
  "validGiftCardTheme value \<longleftrightarrow>
     length value = 7 \<and> hd value = CHR ''#'' \<and>
     list_all (\<lambda>ch. is_lower_hex ch \<or> 65 \<le> byte ch \<and> byte ch \<le> 70) (tl value)"

definition validGiftCardCode :: "(string \<Rightarrow> string) \<Rightarrow> string \<Rightarrow> bool" where
  "validGiftCardCode uni raw \<longleftrightarrow>
     (let value = ToUpper uni (TrimSpace raw) in 8 \<le> length value \<and> length value \<le> 32 \<and> validGiftCardToken value)"

definition randomGiftCardString :: "nat list \<Rightarrow> string" where
  "randomGiftCardString random = map (\<lambda>b. giftCardAlphabet ! (b mod 32)) random"

definition validHTTPURL :: "(string \<Rightarrow> (string \<times> string \<times> bool) option) \<Rightarrow> string \<Rightarrow> bool" where
  "validHTTPURL parse value \<longleftrightarrow>
     (case parse value of None \<Rightarrow> False
      | Some (scheme, host, user) \<Rightarrow> host \<noteq> [] \<and> (scheme = ''http'' \<or> scheme = ''https'') \<and> \<not> user)"

section \<open>Templates\<close>

fun gift_ids_loop :: "int list \<Rightarrow> int list \<Rightarrow> store_error + int list" where
  "gift_ids_loop seen [] = Inr []"
| "gift_ids_loop seen (v # vs) =
     (if v < 1 then Inl ErrInvalidInput
      else if v \<in> set seen then gift_ids_loop seen vs
      else ebind (gift_ids_loop (v # seen) vs) (\<lambda>rest. Inr (v # rest)))"

definition normalizeGiftCardIDs :: "int list \<Rightarrow> store_error + int list" where
  "normalizeGiftCardIDs values = (if length values > 100 then Inl ErrInvalidInput else gift_ids_loop [] values)"

definition normalizeGiftCardConditions :: "gift_conditions \<Rightarrow> store_error + gift_conditions" where
  "normalizeGiftCardConditions conditions =
     (let days = (if gcd_new_user_only conditions \<and> gcd_new_user_max_days conditions = None then Some 7
                  else gcd_new_user_max_days conditions) in
      if (case days of None \<Rightarrow> False | Some n \<Rightarrow> n < 0 \<or> n > 36500) then Inl ErrInvalidInput else
      ebind (normalizeGiftCardIDs (gcd_allowed_plan_ids conditions)) (\<lambda>allowed.
      ebind (normalizeGiftCardIDs (gcd_disallowed_plan_ids conditions)) (\<lambda>disallowed.
      if list_ex (\<lambda>i. i \<in> set disallowed) allowed then Inl ErrInvalidInput else
      Inr (conditions\<lparr>gcd_new_user_max_days := days, gcd_allowed_plan_ids := allowed,
                      gcd_disallowed_plan_ids := disallowed\<rparr>))))"

definition giftCardRewardEmpty :: "gift_reward \<Rightarrow> bool" where
  "giftCardRewardEmpty r \<longleftrightarrow>
     gr_balance r = 0 \<and> gr_transfer_enable r = 0 \<and> gr_expire_days r = 0 \<and> gr_device_limit r = 0 \<and> \<not> gr_reset_traffic r"

text \<open>The checks of \<^verbatim>\<open>validateGiftCardReward\<close> before its \<^verbatim>\<open>switch\<close>, and the case of a general reward.\<close>

definition reward_in_range :: "gift_card_type \<Rightarrow> gift_reward \<Rightarrow> bool \<Rightarrow> bool" where
  "reward_in_range kind r nested \<longleftrightarrow>
     0 \<le> gr_balance r \<and> gr_balance r \<le> maxGiftCardMoney \<and>
     0 \<le> gr_transfer_enable r \<and> gr_transfer_enable r \<le> maxGiftCardTransfer \<and>
     0 \<le> gr_expire_days r \<and> gr_expire_days r \<le> 36500 \<and> 0 \<le> gr_device_limit r \<and> gr_device_limit r \<le> 1000 \<and>
     0 \<le> gr_plan_validity_days r \<and> gr_plan_validity_days r \<le> 36500 \<and>
     (case gr_plan_id r of None \<Rightarrow> True | Some i \<Rightarrow> 1 \<le> i) \<and>
     \<not> (nested \<and> (gr_plan_id r \<noteq> None \<or> gr_plan_validity_days r \<noteq> 0 \<or> gr_random_rewards r \<noteq> [])) \<and>
     \<not> (gr_purchase_snapshot r \<noteq> None \<or> (kind \<noteq> GiftCardTypePurchase \<and> gr_purchase_period r \<noteq> []))"

definition general_reward_ok :: "gift_reward \<Rightarrow> bool" where
  "general_reward_ok r \<longleftrightarrow>
     gr_plan_id r = None \<and> gr_plan_validity_days r = 0 \<and> gr_random_rewards r = [] \<and> \<not> giftCardRewardEmpty r"

fun mystery_pool_loop :: "int \<Rightarrow> (int \<times> gift_reward) list \<Rightarrow> store_error + unit" where
  "mystery_pool_loop acc [] = Inr ()"
| "mystery_pool_loop acc ((weight, r) # items) =
     (if weight < 1 \<or> weight > 1000000 \<or> \<not> reward_in_range GiftCardTypeGeneral r True \<or> \<not> general_reward_ok r
      then Inl ErrInvalidInput
      else if i64 (acc + weight) > 2147483647 then Inl ErrInvalidInput
      else mystery_pool_loop (i64 (acc + weight)) items)"

definition validateGiftCardReward :: "gift_card_type \<Rightarrow> gift_reward \<Rightarrow> bool \<Rightarrow> store_error + unit" where
  "validateGiftCardReward kind r nested =
     (if \<not> reward_in_range kind r nested then Inl ErrInvalidInput else
      case kind of
        GiftCardTypePurchase \<Rightarrow>
          (if gr_plan_id r = None \<or> (gr_purchase_period r \<noteq> ''onetime'' \<and> orderPeriodMonths (gr_purchase_period r) = 0) \<or>
              gr_balance r \<noteq> 0 \<or> gr_transfer_enable r \<noteq> 0 \<or> gr_expire_days r \<noteq> 0 \<or> gr_plan_validity_days r \<noteq> 0 \<or>
              gr_device_limit r \<noteq> 0 \<or> gr_reset_traffic r \<or> gr_random_rewards r \<noteq> [] then Inl ErrInvalidInput else Inr ())
      | GiftCardTypeGeneral \<Rightarrow> (if \<not> general_reward_ok r then Inl ErrInvalidInput else Inr ())
      | GiftCardTypePlan \<Rightarrow>
          (if gr_plan_id r = None \<or> gr_random_rewards r \<noteq> [] \<or> gr_balance r \<noteq> 0 \<or> gr_transfer_enable r \<noteq> 0 \<or>
              gr_expire_days r \<noteq> 0 \<or> gr_device_limit r \<noteq> 0 \<or> gr_reset_traffic r then Inl ErrInvalidInput else Inr ())
      | GiftCardTypeMystery \<Rightarrow>
          (if gr_plan_id r \<noteq> None \<or> gr_plan_validity_days r \<noteq> 0 \<or> gr_balance r \<noteq> 0 \<or> gr_transfer_enable r \<noteq> 0 \<or>
              gr_expire_days r \<noteq> 0 \<or> gr_device_limit r \<noteq> 0 \<or> gr_reset_traffic r \<or>
              length (gr_random_rewards r) < 1 \<or> length (gr_random_rewards r) > 100
           then Inl ErrInvalidInput else mystery_pool_loop 0 (gr_random_rewards r)))"

definition purchase_template_plain :: "save_gift_template_input \<Rightarrow> bool" where
  "purchase_template_plain input \<longleftrightarrow>
     ti_limits input = \<lparr>gl_max_use_per_user = 0, gl_cooldown_hours = 0, gl_invite_reward_basis_points = 0\<rparr> \<and>
     gsp_started_at (ti_special input) = None \<and> gsp_ended_at (ti_special input) = None \<and>
     (gsp_festival_multiplier (ti_special input) = 0 \<or> gsp_festival_multiplier (ti_special input) = 10000) \<and>
     \<not> gcd_new_user_only (ti_conditions input) \<and> gcd_new_user_max_days (ti_conditions input) = None \<and>
     \<not> gcd_paid_user_only (ti_conditions input) \<and> \<not> gcd_require_invite (ti_conditions input) \<and>
     gcd_allowed_plan_ids (ti_conditions input) = [] \<and> gcd_disallowed_plan_ids (ti_conditions input) = []"

definition special_out_of_range :: "gift_special \<Rightarrow> bool" where
  "special_out_of_range s \<longleftrightarrow>
     gsp_festival_multiplier s < 0 \<or> gsp_festival_multiplier s > 1000000 \<or>
     (gsp_started_at s = None) \<noteq> (gsp_ended_at s = None) \<or>
     (case gsp_started_at s of None \<Rightarrow> False
      | Some started \<Rightarrow> (case gsp_ended_at s of None \<Rightarrow> False | Some ended \<Rightarrow> \<not> started < ended) \<or> unix started < 0)"

definition encoded_too_long :: "save_gift_template_input \<Rightarrow> bool" where
  "encoded_too_long input \<longleftrightarrow>
     length (json_conditions (ti_conditions input)) > 16384 \<or> length (json_reward (ti_rewards input)) > 65536 \<or>
     length (json_limits (ti_limits input)) > 8192 \<or>
     (case json_special (ti_special input) of None \<Rightarrow> True | Some text \<Rightarrow> length text > 8192)"

definition normalizeGiftCardTemplate ::
  "(string \<Rightarrow> (string \<times> string \<times> bool) option) \<Rightarrow> save_gift_template_input \<Rightarrow> int \<Rightarrow> instant \<Rightarrow>
   store_error + save_gift_template_input" where
  "normalizeGiftCardTemplate parse raw adminID now =
     (let theme = TrimSpace (ti_theme raw);
          input = raw\<lparr>ti_name := TrimSpace (ti_name raw), ti_description := TrimSpace (ti_description raw),
            ti_icon := TrimSpace (ti_icon raw), ti_background_image := TrimSpace (ti_background_image raw),
            ti_theme := (if theme = [] then ''#1890ff'' else theme)\<rparr> in
      if adminID < 1 \<or> unix now < 0 \<or>
         \<not> validateGiftCardText (ti_name input) 255 False \<or> \<not> validateGiftCardText (ti_description input) 4096 True \<or>
         \<not> validateGiftCardText (ti_icon input) 255 True \<or> \<not> validateGiftCardText (ti_background_image input) 255 True \<or>
         (ti_background_image input \<noteq> [] \<and> \<not> validHTTPURL parse (ti_background_image input)) \<or>
         \<not> validGiftCardTheme (ti_theme input) \<or> ti_sort_position input < 0 \<or> ti_sort_position input > 1000000000
      then Inl ErrInvalidInput else
      ebind (normalizeGiftCardConditions (ti_conditions input)) (\<lambda>conditions.
      let input = input\<lparr>ti_conditions := conditions\<rparr> in
      ebind (validateGiftCardReward (ti_type input) (ti_rewards input) False) (\<lambda>_.
      if ti_type input = GiftCardTypePurchase \<and> \<not> purchase_template_plain input then Inl ErrInvalidInput else
      let limits = (if gl_max_use_per_user (ti_limits input) = 0 \<and> ti_type input \<noteq> GiftCardTypePurchase
                    then (ti_limits input)\<lparr>gl_max_use_per_user := 1\<rparr> else ti_limits input) in
      if (gl_max_use_per_user limits < 1 \<and> ti_type input \<noteq> GiftCardTypePurchase) \<or>
         gl_max_use_per_user limits > 1000000000 \<or> gl_cooldown_hours limits < 0 \<or> gl_cooldown_hours limits > 87600 \<or>
         gl_invite_reward_basis_points limits < 0 \<or> gl_invite_reward_basis_points limits > 10000
      then Inl ErrInvalidInput else
      let special = (if gsp_festival_multiplier (ti_special input) = 0
                     then (ti_special input)\<lparr>gsp_festival_multiplier := 10000\<rparr> else ti_special input);
          final = input\<lparr>ti_limits := limits, ti_special := special\<rparr> in
      if special_out_of_range special \<or> encoded_too_long final then Inl ErrInvalidInput else Inr final)))"

definition purchaseSnapshot :: "gift_reward \<Rightarrow> instant \<Rightarrow> db \<Rightarrow> store_error + gift_purchase_snapshot" where
  "purchaseSnapshot reward now d =
     ebind (getPlan (the (gr_plan_id reward)) now d) (\<lambda>info.
     let p = pl_row info in
     if map_of (p_prices p) (gr_purchase_period reward) = None then Inl ErrInvalidInput
     else if p_transfer_enable_gib p \<le> 0 \<or> p_transfer_enable_gib p > maxGiftCardTransfer sdiv bytesPerGiB then Inl ErrInvalidInput
     else Inr \<lparr>gs_plan_id = p_id p, gs_plan_name = p_name p, gs_period = gr_purchase_period reward,
               gs_transfer_enable = i64 (p_transfer_enable_gib p * bytesPerGiB), gs_group_id = p_group_id p,
               gs_speed_limit = optionalPlanInt (p_speed_limit p), gs_device_limit = optionalPlanInt (p_device_limit p),
               gs_reset_method = (case p_reset_traffic_method p of None \<Rightarrow> s_traffic_reset_method (db_settings d) | Some m \<Rightarrow> m)\<rparr>)"

definition validateGiftCardReferences :: "save_gift_template_input \<Rightarrow> instant \<Rightarrow> db \<Rightarrow> store_error + unit" where
  "validateGiftCardReferences input now d =
     (let ids = gcd_allowed_plan_ids (ti_conditions input) @ gcd_disallowed_plan_ids (ti_conditions input) @
            (case gr_plan_id (ti_rewards input) of None \<Rightarrow> [] | Some i \<Rightarrow> [i]) in
      if \<not> list_all (\<lambda>i. exists_where (\<lambda>p. p_id p = i) (db_plans d)) ids then Inl ErrInvalidInput
      else if ti_type input = GiftCardTypePurchase then ebind (purchaseSnapshot (ti_rewards input) now d) (\<lambda>_. Inr ())
      else Inr ())"

definition getGiftCardTemplate :: "int \<Rightarrow> db \<Rightarrow> store_error + gift_template" where
  "getGiftCardTemplate templateID d = of_option ErrNotFound (List.find (\<lambda>t. gt_id t = templateID) (db_gift_templates d))"

definition GetGiftCardTemplate :: "int \<Rightarrow> db \<Rightarrow> store_error + gift_template" where
  "GetGiftCardTemplate templateID d =
     (if templateID < 1 then Inl ErrInvalidInput else getGiftCardTemplate templateID d)"

definition set_template_columns :: "save_gift_template_input \<Rightarrow> int \<Rightarrow> instant \<Rightarrow> gift_template \<Rightarrow> gift_template" where
  "set_template_columns n adminID now t =
     t\<lparr>gt_name := ti_name n, gt_description := ti_description n, gt_type := ti_type n, gt_status := ti_status n,
       gt_conditions := ti_conditions n, gt_rewards := ti_rewards n, gt_limits := ti_limits n, gt_special := ti_special n,
       gt_icon := ti_icon n, gt_background_image := ti_background_image n, gt_theme := ti_theme n,
       gt_sort_position := ti_sort_position n, gt_admin_id := adminID, gt_revision := gt_revision t + 1,
       gt_updated_at := unix now\<rparr>"

definition new_gift_template :: "save_gift_template_input \<Rightarrow> int \<Rightarrow> instant \<Rightarrow> gift_template" where
  "new_gift_template n adminID now =
     \<lparr>gt_id = 0, gt_name = ti_name n, gt_description = ti_description n, gt_type = ti_type n, gt_status = ti_status n,
      gt_conditions = ti_conditions n, gt_rewards = ti_rewards n, gt_limits = ti_limits n, gt_special = ti_special n,
      gt_icon = ti_icon n, gt_background_image = ti_background_image n, gt_theme = ti_theme n,
      gt_sort_position = ti_sort_position n, gt_admin_id = adminID, gt_revision = 1,
      gt_created_at = unix now, gt_updated_at = unix now\<rparr>"

definition CreateGiftCardTemplate ::
  "(string \<Rightarrow> (string \<times> string \<times> bool) option) \<Rightarrow> save_gift_template_input \<Rightarrow> int \<Rightarrow> instant \<Rightarrow> db \<Rightarrow>
   store_error + gift_template \<times> db" where
  "CreateGiftCardTemplate parse input adminID now d =
     ebind (normalizeGiftCardTemplate parse input adminID now) (\<lambda>n.
     ebind (validateGiftCardReferences n now d) (\<lambda>_.
     ebind (insert_gift_template (new_gift_template n adminID now) d) (\<lambda>(i, d1).
     ebind (getGiftCardTemplate i d1) (\<lambda>t. Inr (t, d1)))))"

text \<open>A template that does not exist is met by the query of its type, whose error the code passes on.\<close>

definition UpdateGiftCardTemplate ::
  "(string \<Rightarrow> (string \<times> string \<times> bool) option) \<Rightarrow> int \<Rightarrow> int \<Rightarrow> save_gift_template_input \<Rightarrow> int \<Rightarrow> instant \<Rightarrow> db \<Rightarrow>
   store_error + gift_template \<times> db" where
  "UpdateGiftCardTemplate parse templateID revision input adminID now d =
     (if templateID < 1 \<or> revision < 1 then Inl ErrInvalidInput else
      ebind (normalizeGiftCardTemplate parse input adminID now) (\<lambda>n.
      ebind (validateGiftCardReferences n now d) (\<lambda>_.
      ebind (of_option ErrDatabase (List.find (\<lambda>t. gt_id t = templateID) (db_gift_templates d))) (\<lambda>old.
      let issued = exists_where (\<lambda>c. gc_template_id c = templateID) (db_gift_codes d) in
      if issued \<and> gt_type old \<noteq> ti_type n \<and> (gt_type old = GiftCardTypePurchase \<or> ti_type n = GiftCardTypePurchase)
      then Inl ErrInvalidInput else
      ebind (update_gift_templates (\<lambda>t. gt_id t = templateID \<and> gt_revision t = revision) (set_template_columns n adminID now) d) (\<lambda>d1.
      if count_where (\<lambda>t. gt_id t = templateID \<and> gt_revision t = revision) (db_gift_templates d) \<noteq> 1 then
        (if exists_where (\<lambda>t. gt_id t = templateID) (db_gift_templates d1) then Inl ErrRevisionConflict else Inl ErrNotFound)
      else ebind (getGiftCardTemplate templateID d1) (\<lambda>t. Inr (t, d1)))))))"

text \<open>A use of a template keeps it by its own foreign key, whether or not a code remains.\<close>

definition DeleteGiftCardTemplate :: "int \<Rightarrow> db \<Rightarrow> store_error + db" where
  "DeleteGiftCardTemplate templateID d =
     (if templateID < 1 then Inl ErrInvalidInput else
      let referenced = exists_where (\<lambda>c. gc_template_id c = templateID) (db_gift_codes d);
          present = exists_where (\<lambda>t. gt_id t = templateID) (db_gift_templates d) in
      if present \<and> \<not> referenced then
        (if exists_where (\<lambda>g. gu_template_id g = templateID) (db_gift_usages d) then Inl ErrDatabase
         else Inr (d\<lparr>db_gift_templates := filter (\<lambda>t. gt_id t \<noteq> templateID) (db_gift_templates d)\<rparr>))
      else if \<not> present then Inl ErrNotFound
      else Inl ErrGiftCardReferenced)"

section \<open>Codes\<close>

definition getGiftCardCode :: "int \<Rightarrow> db \<Rightarrow> store_error + gift_code" where
  "getGiftCardCode codeID d = of_option ErrNotFound (List.find (\<lambda>c. gc_id c = codeID) (db_gift_codes d))"

definition GetGiftCardCode :: "int \<Rightarrow> db \<Rightarrow> store_error + gift_code" where
  "GetGiftCardCode codeID d = (if codeID < 1 then Inl ErrInvalidInput else getGiftCardCode codeID d)"

definition new_gift_code ::
  "int \<Rightarrow> string \<Rightarrow> string \<Rightarrow> generate_gift_codes_input \<Rightarrow> gift_purchase_snapshot option \<Rightarrow> instant \<Rightarrow> gift_code" where
  "new_gift_code templateID code batchNo input snapshot now =
     \<lparr>gc_id = 0, gc_template_id = templateID, gc_code = code, gc_batch_no = batchNo, gc_status = GiftCardCodeActive,
      gc_user_id = None, gc_used_at = None, gc_expires_at = map_option unix (gi_expires_at input),
      gc_actual_rewards = None, gc_usage_count = 0, gc_max_usage = gi_max_usage input,
      gc_purchase_snapshot = snapshot, gc_created_at = unix now, gc_updated_at = unix now\<rparr>"

text \<open>One code of a batch: up to eight draws of twenty bytes, a new one after each collision.\<close>

fun gift_code_insert ::
  "(nat \<Rightarrow> nat list) \<Rightarrow> nat \<Rightarrow> (string \<Rightarrow> gift_code) \<Rightarrow> string \<Rightarrow> db \<Rightarrow> store_error + gift_code \<times> db" where
  "gift_code_insert draw 0 row prefix d = Inl ErrConflict"
| "gift_code_insert draw (Suc left) row prefix d =
     (let code = prefix @ randomGiftCardString (draw (8 - Suc left)) in
      case insert_gift_code (row code) d of
        Inr (i, d1) \<Rightarrow> Inr ((row code)\<lparr>gc_id := i\<rparr>, d1)
      | Inl e \<Rightarrow> (if exists_where (\<lambda>c. gc_code c = code) (db_gift_codes d) then gift_code_insert draw left row prefix d else Inl e))"

fun gift_codes_loop ::
  "(nat \<Rightarrow> nat \<Rightarrow> nat list) \<Rightarrow> nat \<Rightarrow> nat \<Rightarrow> (string \<Rightarrow> gift_code) \<Rightarrow> string \<Rightarrow> db \<Rightarrow> store_error + gift_code list \<times> db" where
  "gift_codes_loop draw index 0 row prefix d = Inr ([], d)"
| "gift_codes_loop draw index (Suc left) row prefix d =
     ebind (gift_code_insert (draw index) 8 row prefix d) (\<lambda>(c, d1).
     ebind (gift_codes_loop draw (Suc index) left row prefix d1) (\<lambda>(cs, d2). Inr (c # cs, d2)))"

definition GenerateGiftCardCodes ::
  "(string \<Rightarrow> string) \<Rightarrow> nat list \<Rightarrow> (nat \<Rightarrow> nat \<Rightarrow> nat list) \<Rightarrow> int \<Rightarrow> generate_gift_codes_input \<Rightarrow> instant \<Rightarrow> db \<Rightarrow>
   store_error + gift_code list \<times> db" where
  "GenerateGiftCardCodes uni batchRandom draw templateID input now d =
     (let trimmed = ToUpper uni (TrimSpace (gi_prefix input));
          prefix = (if trimmed = [] then ''GC'' else trimmed) in
      if templateID < 1 \<or> gi_count input < 1 \<or> gi_count input > 10000 \<or> gi_max_usage input < 1 \<or>
         gi_max_usage input > 1000 \<or> length prefix > 10 \<or> \<not> validGiftCardToken prefix \<or> unix now < 0 \<or>
         (case gi_expires_at input of None \<Rightarrow> False | Some t \<Rightarrow> t < now) then Inl ErrInvalidInput else
      let batchNo = decimal (nat (unix now)) @ ''-'' @ randomGiftCardString batchRandom in
      ebind (getGiftCardTemplate templateID d) (\<lambda>template.
      if \<not> gt_status template then Inl ErrGiftCardUnavailable else
      ebind (if gt_type template = GiftCardTypePurchase then
               (if gi_max_usage input \<noteq> 1 then Inl ErrInvalidInput
                else ebind (purchaseSnapshot (gt_rewards template) now d) (\<lambda>s. Inr (Some s)))
             else Inr None) (\<lambda>snapshot.
      gift_codes_loop draw 0 (nat (gi_count input))
        (\<lambda>code. new_gift_code templateID code batchNo input snapshot now) prefix d)))"

text \<open>
  The trigger \<^verbatim>\<open>gift_purchase_snapshot_guard\<close> forbids what the guard on purchase codes has refused before.
\<close>

definition UpdateGiftCardCode ::
  "(string \<Rightarrow> string) \<Rightarrow> int \<Rightarrow> save_gift_code_input \<Rightarrow> instant \<Rightarrow> db \<Rightarrow> store_error + gift_code \<times> db" where
  "UpdateGiftCardCode uni codeID input now d =
     (let code = ToUpper uni (TrimSpace (ki_code input)) in
      if codeID < 1 \<or> \<not> validGiftCardCode uni code \<or> ki_max_usage input < 1 \<or> ki_max_usage input > 1000 \<or>
         (case ki_expires_at input of None \<Rightarrow> False | Some t \<Rightarrow> unix t < 0) \<or> unix now < 0 then Inl ErrInvalidInput else
      ebind (getGiftCardCode codeID d) (\<lambda>current.
      if gc_purchase_snapshot current \<noteq> None \<and> (ki_max_usage input \<noteq> 1 \<or> code \<noteq> gc_code current) then Inl ErrInvalidInput
      else if ki_max_usage input < gc_usage_count current \<or>
              (ki_status input = GiftCardCodeActive \<and>
               (gc_usage_count current \<ge> ki_max_usage input \<or>
                (case ki_expires_at input of None \<Rightarrow> False | Some t \<Rightarrow> t < now))) then Inl ErrInvalidInput
      else
        (case update_gift_codes (\<lambda>c. gc_id c = codeID)
            (\<lambda>c. c\<lparr>gc_code := code, gc_status := ki_status input, gc_expires_at := map_option unix (ki_expires_at input),
                   gc_max_usage := ki_max_usage input, gc_updated_at := unix now\<rparr>) d of
           Inl e \<Rightarrow> Inl (if exists_where (\<lambda>c. gc_code c = code \<and> gc_id c \<noteq> codeID) (db_gift_codes d) then ErrConflict else e)
         | Inr d1 \<Rightarrow>
             if count_where (\<lambda>c. gc_id c = codeID) (db_gift_codes d) \<noteq> 1 then Inl ErrNotFound
             else ebind (getGiftCardCode codeID d1) (\<lambda>c. Inr (c, d1)))))"

definition ToggleGiftCardCode :: "int \<Rightarrow> instant \<Rightarrow> db \<Rightarrow> store_error + gift_code \<times> db" where
  "ToggleGiftCardCode codeID now d =
     (if codeID < 1 \<or> unix now < 0 then Inl ErrInvalidInput else
      ebind (getGiftCardCode codeID d) (\<lambda>current.
      ebind (if gc_status current = GiftCardCodeDisabled then
               (if gc_usage_count current \<ge> gc_max_usage current then Inl ErrGiftCardExhausted
                else if (case gc_expires_at current of None \<Rightarrow> False | Some t \<Rightarrow> from_unix t < now) then Inl ErrGiftCardExpired
                else Inr GiftCardCodeActive)
             else if gc_status current \<noteq> GiftCardCodeActive then Inl ErrGiftCardUnavailable
             else Inr GiftCardCodeDisabled) (\<lambda>nxt.
      ebind (update_gift_codes (\<lambda>c. gc_id c = codeID) (\<lambda>c. c\<lparr>gc_status := nxt, gc_updated_at := unix now\<rparr>) d) (\<lambda>d1.
      Inr (current\<lparr>gc_status := nxt, gc_updated_at := unix now\<rparr>, d1)))))"

text \<open>An order of a purchase card keeps its code by the foreign key of the order.\<close>

definition DeleteGiftCardCode :: "int \<Rightarrow> db \<Rightarrow> store_error + db" where
  "DeleteGiftCardCode codeID d =
     (if codeID < 1 then Inl ErrInvalidInput else
      let present = exists_where (\<lambda>c. gc_id c = codeID) (db_gift_codes d) in
      if present \<and> \<not> exists_where (\<lambda>g. gu_code_id g = codeID) (db_gift_usages d) then
        (if exists_where (\<lambda>r. o_gift_card_code_id r = Some codeID) (db_orders d) then Inl ErrDatabase
         else Inr (d\<lparr>db_gift_codes := filter (\<lambda>c. gc_id c \<noteq> codeID) (db_gift_codes d)\<rparr>))
      else if \<not> present then Inl ErrNotFound else Inl ErrGiftCardReferenced)"

section \<open>Checking a card\<close>

definition readGiftCardUser :: "int \<Rightarrow> db \<Rightarrow> store_error + user" where
  "readGiftCardUser userID d =
     of_option ErrNotFound (List.find (\<lambda>u. u_id u = userID \<and> u_account_kind u = AccountKindHuman) (db_users d))"

text \<open>\<^verbatim>\<open>AddDate(0, 0, days)\<close> of a Unix time in a zone.\<close>

definition add_days :: "location \<Rightarrow> int \<Rightarrow> int \<Rightarrow> int" where
  "add_days zone u days =
     (case civil_date zone u of (y, m, d) \<Rightarrow> go_date zone y m (d + days) (clock_seconds zone u))"

definition validateGiftCardUserConditions ::
  "location \<Rightarrow> user \<Rightarrow> gift_template \<Rightarrow> instant \<Rightarrow> db \<Rightarrow> store_error + unit" where
  "validateGiftCardUserConditions local u template now d =
     (let conditions = gt_conditions template;
          activePlan = u_plan_id u \<noteq> None \<and> (case u_expired_at u of None \<Rightarrow> True | Some e \<Rightarrow> e > unix now);
          uses = filter (\<lambda>g. gu_user_id g = u_id u \<and> gu_template_id g = gt_id template) (db_gift_usages d) in
      if u_banned u then Inl ErrGiftCardCondition
      else if gcd_require_invite conditions \<and> u_invite_user_id u = None then Inl ErrGiftCardCondition
      else if gcd_paid_user_only conditions \<and>
              \<not> exists_where (\<lambda>r. o_user_id r = u_id u \<and> o_status r = OrderStatusCompleted) (db_orders d) then Inl ErrGiftCardCondition
      else if gcd_new_user_only conditions \<and>
              (case gcd_new_user_max_days conditions of None \<Rightarrow> False
               | Some days \<Rightarrow> from_unix (add_days local (u_created_at u) days) < now) then Inl ErrGiftCardCondition
      else if gcd_allowed_plan_ids conditions \<noteq> [] \<and>
              (case u_plan_id u of None \<Rightarrow> True | Some p \<Rightarrow> p \<notin> set (gcd_allowed_plan_ids conditions)) then Inl ErrGiftCardCondition
      else if (case u_plan_id u of None \<Rightarrow> False | Some p \<Rightarrow> p \<in> set (gcd_disallowed_plan_ids conditions)) then Inl ErrGiftCardCondition
      else if gt_type template = GiftCardTypePlan \<and> activePlan then Inl ErrGiftCardActivePlan
      else if gt_type template = GiftCardTypeGeneral \<and>
              (gr_transfer_enable (gt_rewards template) > 0 \<or> gr_expire_days (gt_rewards template) > 0 \<or>
               gr_reset_traffic (gt_rewards template)) \<and> u_plan_id u = None then Inl ErrGiftCardCondition
      else if int (length uses) \<ge> gl_max_use_per_user (gt_limits template) then Inl ErrGiftCardUserLimit
      else if uses \<noteq> [] \<and> gl_cooldown_hours (gt_limits template) > 0 \<and>
              i64 (coalesce_max 0 (map gu_used_at uses) + i64 (gl_cooldown_hours (gt_limits template) * 3600)) > unix now
           then Inl ErrGiftCardCooldown
      else Inr ())"

fun mystery_pick :: "int \<Rightarrow> (int \<times> gift_reward) list \<Rightarrow> store_error + gift_reward" where
  "mystery_pick position [] = Inl ErrInvalidInput"
| "mystery_pick position ((weight, r) # items) =
     (if position < weight then Inr r else mystery_pick (i64 (position - weight)) items)"

definition selectGiftCardMysteryReward :: "(int \<Rightarrow> int) \<Rightarrow> (int \<times> gift_reward) list \<Rightarrow> store_error + gift_reward" where
  "selectGiftCardMysteryReward pick values =
     (let weights = foldl (\<lambda>t (w, _). i64 (t + w)) 0 values in
      if weights < 1 then Inl ErrInvalidInput else mystery_pick (pick weights) values)"

definition giftCardMultiplier :: "gift_special \<Rightarrow> instant \<Rightarrow> int" where
  "giftCardMultiplier config now =
     (if gsp_festival_multiplier config \<le> 0 then 10000 else
      case gsp_started_at config of None \<Rightarrow> 10000
      | Some started \<Rightarrow>
          (case gsp_ended_at config of None \<Rightarrow> 10000
           | Some ended \<Rightarrow> (if now < started \<or> ended < now then 10000 else gsp_festival_multiplier config)))"

definition multiplyGiftCardInt64 :: "int \<Rightarrow> int \<Rightarrow> store_error + int" where
  "multiplyGiftCardInt64 value multiplier =
     (if value = 0 \<or> multiplier = 0 then Inr 0
      else if multiplier < 0 then Inl ErrInvalidInput
      else
        let whole = value sdiv 10000; remainder = value smod 10000 in
        if whole > max_i64 sdiv multiplier then Inl ErrInvalidInput else
        let result = i64 (whole * multiplier);
            fraction = i64 (remainder * multiplier) sdiv 10000 in
        if result > i64 (max_i64 - fraction) \<or> i64 (result + fraction) > maxGiftCardMoney then Inl ErrInvalidInput
        else Inr (i64 (result + fraction)))"

definition multiply_bounded :: "int \<Rightarrow> int \<Rightarrow> int \<Rightarrow> store_error + int" where
  "multiply_bounded value multiplier maximum =
     (case multiplyGiftCardInt64 value multiplier of
        Inl _ \<Rightarrow> Inl ErrInvalidInput
      | Inr x \<Rightarrow> (if x > maximum then Inl ErrInvalidInput else Inr x))"

definition multiplyGiftCardReward :: "gift_reward \<Rightarrow> int \<Rightarrow> store_error + gift_reward" where
  "multiplyGiftCardReward r multiplier =
     ebind (multiplyGiftCardInt64 (gr_balance r) multiplier) (\<lambda>balance.
     ebind (multiplyGiftCardInt64 (gr_transfer_enable r) multiplier) (\<lambda>transfer.
     ebind (multiply_bounded (gr_expire_days r) multiplier 36500) (\<lambda>days.
     ebind (multiply_bounded (gr_device_limit r) multiplier 1000) (\<lambda>devices.
     ebind (multiply_bounded (gr_plan_validity_days r) multiplier 36500) (\<lambda>validity.
     Inr (GiftReward (gr_purchase_period r) (gr_purchase_snapshot r) balance transfer days devices
            (gr_reset_traffic r) (gr_plan_id r) validity []))))))"

definition giftPurchasePreview ::
  "location \<Rightarrow> user \<Rightarrow> gift_purchase_snapshot \<Rightarrow> instant \<Rightarrow> store_error + gift_purchase_preview" where
  "giftPurchasePreview loc u s now =
     (if gs_plan_id s < 1 \<or> gs_transfer_enable s \<le> 0 \<or> gs_transfer_enable s > maxGiftCardTransfer then Inl ErrInvalidInput
      else if gs_period s \<noteq> ''onetime'' \<and> orderPeriodMonths (gs_period s) = 0 then Inl ErrInvalidInput
      else
        let renewal = u_plan_id u \<noteq> None in
        if renewal \<and> u_plan_id u \<noteq> Some (gs_plan_id s) then Inl ErrGiftPurchasePlan
        else if renewal \<and> ((u_expired_at u \<noteq> None) = (gs_period s = ''onetime'')) then Inl ErrGiftPurchaseMode
        else
          let p = \<lparr>gp_transfer_before = u_transfer_enable u, gp_transfer_after = gs_transfer_enable s,
                   gp_used_traffic = (if renewal then i64 (u_traffic_u u + u_traffic_d u) else 0),
                   gp_expires_before = u_expired_at u, gp_expires_after = None, gp_renewal = renewal\<rparr> in
          if gs_period s = ''onetime'' then
            (if renewal then
               (if u_transfer_enable u > i64 (maxGiftCardTransfer - gs_transfer_enable s) then Inl ErrInvalidInput
                else Inr (p\<lparr>gp_transfer_after := i64 (gp_transfer_after p + u_transfer_enable u)\<rparr>))
             else Inr p)
          else
            let base = (case u_expired_at u of Some e \<Rightarrow> (if renewal \<and> e > unix now then e else unix now) | None \<Rightarrow> unix now);
                expires = addOrderMonths loc base (orderPeriodMonths (gs_period s)) in
            if fst (civil_date loc expires) > 9999 then Inl ErrInvalidInput
            else Inr (p\<lparr>gp_expires_after := Some expires,
                        gp_transfer_after := (if renewal then u_transfer_enable u else gs_transfer_enable s)\<rparr>))"

definition readGiftCardCodeAndTemplate :: "string \<Rightarrow> db \<Rightarrow> store_error + gift_code \<times> gift_template" where
  "readGiftCardCodeAndTemplate code d =
     ebind (of_option ErrNotFound (List.find (\<lambda>c. gc_code c = code) (db_gift_codes d))) (\<lambda>c.
     ebind (of_option ErrNotFound (List.find (\<lambda>t. gt_id t = gc_template_id c) (db_gift_templates d))) (\<lambda>t.
     Inr (c, t)))"

text \<open>
  A card that fails the user's conditions is shown with its reward all the same; an error of the
  reward comes first. As a result the error counts, so it is the value here.
\<close>

definition checkGiftCard ::
  "location \<Rightarrow> location \<Rightarrow> (int \<Rightarrow> int) \<Rightarrow> int \<Rightarrow> string \<Rightarrow> instant \<Rightarrow> db \<Rightarrow> store_error + gift_card_preview" where
  "checkGiftCard loc local pick userID code now d =
     ebind (readGiftCardCodeAndTemplate code d) (\<lambda>(c, template).
     ebind (readGiftCardUser userID d) (\<lambda>u.
     if \<not> gt_status template \<or> gc_status c = GiftCardCodeDisabled then Inl ErrGiftCardUnavailable
     else if gc_status c = GiftCardCodeExpired \<or>
             (case gc_expires_at c of None \<Rightarrow> False | Some t \<Rightarrow> from_unix t < now) then Inl ErrGiftCardExpired
     else if gc_status c = GiftCardCodeUsed \<or> gc_usage_count c \<ge> gc_max_usage c then Inl ErrGiftCardExhausted
     else if gt_type template = GiftCardTypePurchase then
       (case gc_purchase_snapshot c of
          None \<Rightarrow> Inl ErrInvalidInput
        | Some s \<Rightarrow>
            if u_banned u then Inl ErrGiftCardCondition
            else if has_active_order userID d then Inl ErrGiftPurchasePending
            else ebind (giftPurchasePreview loc u s now) (\<lambda>p.
              Inr \<lparr>pv_purchase_preview = Some p, pv_template = template, pv_code = c,
                   pv_rewards = GiftReward (gs_period s) (Some s) 0 0 0 0 False (Some (gs_plan_id s)) 0 []\<rparr>))
     else
       let condition = validateGiftCardUserConditions local u template now d in
       ebind (if gt_type template = GiftCardTypeMystery
              then selectGiftCardMysteryReward pick (gr_random_rewards (gt_rewards template))
              else Inr (gt_rewards template)) (\<lambda>reward0.
       ebind (multiplyGiftCardReward reward0 (giftCardMultiplier (gt_special template) now)) (\<lambda>reward1.
       let reward =
         (if (gt_type template = GiftCardTypeGeneral \<or> gt_type template = GiftCardTypeMystery) \<and>
             u_plan_id u \<noteq> None \<and> u_expired_at u = None
          then GiftReward (gr_purchase_period reward1) (gr_purchase_snapshot reward1) (gr_balance reward1)
                 (gr_transfer_enable reward1) 0 (gr_device_limit reward1) (gr_reset_traffic reward1)
                 (gr_plan_id reward1) (gr_plan_validity_days reward1) (gr_random_rewards reward1)
          else reward1) in
       ebind condition (\<lambda>_.
       Inr \<lparr>pv_purchase_preview = None, pv_template = template, pv_code = c, pv_rewards = reward\<rparr>)))))"

definition CheckGiftCard ::
  "(string \<Rightarrow> string) \<Rightarrow> location \<Rightarrow> location \<Rightarrow> (int \<Rightarrow> int) \<Rightarrow> int \<Rightarrow> string \<Rightarrow> instant \<Rightarrow> db \<Rightarrow> store_error + gift_card_preview" where
  "CheckGiftCard uni loc local pick userID code now d =
     (if userID < 1 \<or> \<not> validGiftCardCode uni code \<or> unix now < 0 then Inl ErrInvalidInput
      else checkGiftCard loc local pick userID (ToUpper uni (TrimSpace code)) now d)"

section \<open>Redeeming a card\<close>

definition readEntitlementChangeTx :: "int \<Rightarrow> db \<Rightarrow> store_error + entitlement_change" where
  "readEntitlementChangeTx userID d =
     ebind (of_option ErrDatabase (List.find (\<lambda>u. u_id u = userID) (db_users d))) (\<lambda>u.
     Inr \<lparr>ch_user_id = userID, ch_previous_uuid = u_uuid u, ch_old_group_id = u_group_id u, ch_new_group_id = u_group_id u\<rparr>)"

text \<open>The reward of a plan card (lines 1576 to 1609): the user as the code keeps it, and the database.\<close>

definition apply_gift_plan ::
  "location \<Rightarrow> location \<Rightarrow> user \<Rightarrow> gift_reward \<Rightarrow> instant \<Rightarrow> db \<Rightarrow> store_error + user \<times> db" where
  "apply_gift_plan loc zone u reward now d =
     ebind (getPlan (the (gr_plan_id reward)) now d) (\<lambda>info.
     let p = pl_row info;
         expires = (if gr_plan_validity_days reward > 0
                    then Some (add_days zone (unix now) (gr_plan_validity_days reward)) else u_expired_at u);
         nxt = CalculateNextTrafficReset loc (p_reset_traffic_method p) (s_traffic_reset_method (db_settings d)) expires now in
     ebind (update_users (\<lambda>v. u_id v = u_id u)
       (\<lambda>v. v\<lparr>u_plan_id := Some (p_id p), u_group_id := p_group_id p,
              u_transfer_enable := i64 (p_transfer_enable_gib p * bytesPerGiB), u_traffic_u := 0, u_traffic_d := 0,
              u_expired_at := expires, u_speed_limit := optionalPlanInt (p_speed_limit p),
              u_device_limit := optionalPlanInt (p_device_limit p), u_next_reset_at := nxt, u_updated_at := unix now\<rparr>) d) (\<lambda>d1.
     Inr (u\<lparr>u_plan_id := Some (p_id p), u_group_id := p_group_id p\<rparr>, d1)))"

definition reward_expiry :: "location \<Rightarrow> user \<Rightarrow> gift_reward \<Rightarrow> instant \<Rightarrow> int option" where
  "reward_expiry zone u reward now =
     (if gr_expire_days reward > 0 \<and> \<not> (u_plan_id u \<noteq> None \<and> u_expired_at u = None)
      then Some (add_days zone (case u_expired_at u of Some e \<Rightarrow> (if e > unix now then e else unix now) | None \<Rightarrow> unix now)
                   (gr_expire_days reward))
      else u_expired_at u)"

definition reward_columns :: "user \<Rightarrow> gift_reward \<Rightarrow> int option \<Rightarrow> int option \<Rightarrow> instant \<Rightarrow> user \<Rightarrow> user" where
  "reward_columns u reward expiry nxt now v =
     (let reset = gr_reset_traffic reward \<and> u_plan_id u \<noteq> None in
      v\<lparr>u_balance := u_balance v + gr_balance reward, u_transfer_enable := u_transfer_enable v + gr_transfer_enable reward,
        u_device_limit := u_device_limit v + gr_device_limit reward,
        u_traffic_u := (if reset then 0 else u_traffic_u u), u_traffic_d := (if reset then 0 else u_traffic_d u),
        u_expired_at := expiry, u_next_reset_at := nxt,
        u_last_reset_at := (if reset then Some (unix now) else u_last_reset_at u),
        u_reset_count := u_reset_count v + (if reset then 1 else 0), u_updated_at := unix now\<rparr>)"

definition applyGiftCardReward ::
  "location \<Rightarrow> location \<Rightarrow> user \<Rightarrow> gift_card_type \<Rightarrow> gift_reward \<Rightarrow> instant \<Rightarrow> db \<Rightarrow> store_error + user \<times> db" where
  "applyGiftCardReward loc zone u kind reward now d =
     (if kind = GiftCardTypePlan then apply_gift_plan loc zone u reward now d
      else if u_balance u > i64 (maxGiftCardMoney - gr_balance reward) \<or>
              u_transfer_enable u > i64 (maxGiftCardTransfer - gr_transfer_enable reward) \<or>
              u_device_limit u > i64 (1000 - gr_device_limit reward) then Inl ErrInvalidInput
      else
        let expiry = reward_expiry zone u reward now in
        ebind (if expiry \<noteq> None \<and> u_plan_id u \<noteq> None then
                 ebind (getPlan (the (u_plan_id u)) now d) (\<lambda>info.
                 Inr (CalculateNextTrafficReset loc (p_reset_traffic_method (pl_row info))
                        (s_traffic_reset_method (db_settings d)) expiry now))
               else Inr (u_next_reset_at u)) (\<lambda>nxt.
        ebind (update_users (\<lambda>v. u_id v = u_id u) (reward_columns u reward expiry nxt now) d) (\<lambda>d1.
        Inr (u, d1))))"

definition applyGiftCardInviterReward ::
  "int \<Rightarrow> gift_reward \<Rightarrow> int \<Rightarrow> instant \<Rightarrow> db \<Rightarrow> store_error + gift_reward \<times> db" where
  "applyGiftCardInviterReward inviterID reward basisPoints now d =
     ebind (readGiftCardUser inviterID d) (\<lambda>inviter.
     ebind (multiplyGiftCardInt64 (gr_balance reward) basisPoints) (\<lambda>balance.
     ebind (multiplyGiftCardInt64 (gr_transfer_enable reward) basisPoints) (\<lambda>transfer.
     if u_balance inviter > i64 (maxGiftCardMoney - balance) \<or>
        u_transfer_enable inviter > i64 (maxGiftCardTransfer - transfer) then Inl ErrInvalidInput
     else
       ebind (update_users (\<lambda>v. u_id v = inviterID)
         (\<lambda>v. v\<lparr>u_balance := u_balance v + balance, u_transfer_enable := u_transfer_enable v + transfer,
                u_updated_at := unix now\<rparr>) d) (\<lambda>d1.
       Inr (GiftReward [] None balance transfer 0 0 False None 0 [], d1)))))"

text \<open>The entitlement a purchase card grants (lines 148 to 167), as the code writes it into its copy of the user.\<close>

definition purchased_user ::
  "location \<Rightarrow> user \<Rightarrow> gift_purchase_snapshot \<Rightarrow> gift_purchase_preview \<Rightarrow> instant \<Rightarrow> user" where
  "purchased_user loc u s p now =
     (let nxt = CalculateNextTrafficReset loc (Some (gs_reset_method s)) (gs_reset_method s) (gp_expires_after p) now;
          u1 = u\<lparr>u_plan_id := Some (gs_plan_id s), u_transfer_enable := gp_transfer_after p, u_expired_at := gp_expires_after p\<rparr>;
          u2 = (if \<not> gp_renewal p
                then u1\<lparr>u_traffic_u := 0, u_traffic_d := 0, u_group_id := gs_group_id s,
                        u_speed_limit := gs_speed_limit s, u_device_limit := gs_device_limit s, u_next_reset_at := nxt\<rparr>
                else u1);
          u3 = (if gs_period s \<noteq> ''onetime'' \<and> u_next_reset_at u2 = None then u2\<lparr>u_next_reset_at := nxt\<rparr> else u2)
      in if gs_period s = ''onetime'' then u3\<lparr>u_next_reset_at := None\<rparr> else u3)"

definition purchase_order ::
  "user \<Rightarrow> gift_code \<Rightarrow> gift_purchase_snapshot \<Rightarrow> gift_purchase_preview \<Rightarrow> string \<Rightarrow> instant \<Rightarrow> order" where
  "purchase_order u c s p trade now =
     (new_order (u_id u) (gs_plan_id s) (gs_period s) trade 0 now)
       \<lparr>o_type := (if gp_renewal p then OrderTypeRenewal else OrderTypeNew), o_status := OrderStatusCompleted,
        o_commission_status := 3, o_source := ''gift_card_purchase'', o_gift_card_code_id := Some (gc_id c),
        o_purchase_snapshot := Some s, o_entitlement_before := gp_expires_before p, o_entitlement_after := gp_expires_after p\<rparr>"

definition applyGiftPurchase ::
  "location \<Rightarrow> nat \<Rightarrow> user \<Rightarrow> gift_card_preview \<Rightarrow> instant \<Rightarrow> db \<Rightarrow> store_error + (string \<times> user) \<times> db" where
  "applyGiftPurchase loc random u preview now d =
     ebind (of_option ErrInvalidInput (gr_purchase_snapshot (pv_rewards preview))) (\<lambda>s.
     ebind (giftPurchasePreview loc u s now) (\<lambda>p.
     let u1 = purchased_user loc u s p now;
         trade = newOrderTradeNo loc now random;
         typeOfOrder = (if gp_renewal p then OrderTypeRenewal else OrderTypeNew) in
     ebind (update_users (\<lambda>v. u_id v = u_id u)
       (\<lambda>v. v\<lparr>u_plan_id := Some (gs_plan_id s), u_group_id := u_group_id u1, u_transfer_enable := u_transfer_enable u1,
              u_traffic_u := u_traffic_u u1, u_traffic_d := u_traffic_d u1, u_expired_at := u_expired_at u1,
              u_speed_limit := u_speed_limit u1, u_device_limit := u_device_limit u1,
              u_next_reset_at := u_next_reset_at u1, u_admin_revision := u_admin_revision v + 1,
              u_updated_at := unix now\<rparr>) d) (\<lambda>d1.
     ebind (insert_order (purchase_order u (pv_code preview) s p trade now) d1) (\<lambda>(orderID, d2).
     ebind (insert_event
       \<lparr>ev_order_id = orderID, ev_user_id = u_id u, ev_type = orderTypeEventName typeOfOrder,
        ev_before = marshalEntitlementSnapshot u, ev_after = marshalEntitlementSnapshot u1, ev_applied_at = unix now\<rparr> d2) (\<lambda>d3.
     Inr ((trade, u1), d3))))))"

text \<open>A use of a purchase card by the same user answers with the recorded use (lines 738 to 745).\<close>

definition recorded_purchase :: "string \<Rightarrow> int \<Rightarrow> db \<Rightarrow> gift_redemption option" where
  "recorded_purchase code userID d =
     map_option (\<lambda>g. \<lparr>rd_usage = g, rd_changes = [],
        rd_order_trade_no = (case List.find (\<lambda>r. o_gift_card_code_id r = Some (gu_code_id g)) (db_orders d) of
                               None \<Rightarrow> [] | Some r \<Rightarrow> o_trade_no r)\<rparr>)
       (List.find (\<lambda>g. gu_user_id g = userID \<and>
          exists_where (\<lambda>c. gc_id c = gu_code_id g \<and> gc_code c = code) (db_gift_codes d) \<and>
          exists_where (\<lambda>r. o_gift_card_code_id r = Some (gu_code_id g) \<and> o_source r = ''gift_card_purchase'') (db_orders d))
        (db_gift_usages d))"

text \<open>The row a redemption claims, and what it writes there (lines 763 to 768).\<close>

definition claimable :: "gift_card_preview \<Rightarrow> instant \<Rightarrow> gift_code \<Rightarrow> bool" where
  "claimable preview now r \<longleftrightarrow>
     gc_id r = gc_id (pv_code preview) \<and> gc_status r = GiftCardCodeActive \<and> gc_usage_count r < gc_max_usage r \<and>
     (case gc_expires_at r of None \<Rightarrow> True | Some t \<Rightarrow> t \<ge> unix now)"

definition claimed :: "gift_card_preview \<Rightarrow> int \<Rightarrow> instant \<Rightarrow> gift_code \<Rightarrow> gift_code" where
  "claimed preview userID now r =
     (let c = pv_code preview in
      r\<lparr>gc_usage_count := gc_usage_count r + 1,
        gc_status := (if i64 (gc_usage_count c + 1) \<ge> gc_max_usage c then GiftCardCodeUsed else GiftCardCodeActive),
        gc_user_id := Some userID, gc_used_at := Some (unix now), gc_actual_rewards := Some (pv_rewards preview),
        gc_updated_at := unix now\<rparr>)"

definition claim_gift_code :: "gift_card_preview \<Rightarrow> int \<Rightarrow> instant \<Rightarrow> db \<Rightarrow> store_error + db" where
  "claim_gift_code preview userID now d =
     ebind (update_gift_codes (claimable preview now) (claimed preview userID now) d) (\<lambda>d1.
     if count_where (claimable preview now) (db_gift_codes d) \<noteq> 1 then Inl ErrGiftCardExhausted else Inr d1)"

definition reward_changes_runtime :: "user \<Rightarrow> gift_card_preview \<Rightarrow> bool" where
  "reward_changes_runtime u preview \<longleftrightarrow>
     gt_type (pv_template preview) = GiftCardTypePurchase \<or> gt_type (pv_template preview) = GiftCardTypePlan \<or>
     gr_transfer_enable (pv_rewards preview) > 0 \<or> gr_device_limit (pv_rewards preview) > 0 \<or>
     (gr_reset_traffic (pv_rewards preview) \<and> u_plan_id u \<noteq> None) \<or>
     (gr_expire_days (pv_rewards preview) > 0 \<and> \<not> (u_plan_id u \<noteq> None \<and> u_expired_at u = None))"

text \<open>The reward of the inviter and the change it causes (lines 800 to 817).\<close>

definition reward_inviter ::
  "user \<Rightarrow> gift_card_preview \<Rightarrow> instant \<Rightarrow> db \<Rightarrow> store_error + (int option \<times> gift_reward \<times> entitlement_change list) \<times> db" where
  "reward_inviter u preview now d =
     (let basisPoints = gl_invite_reward_basis_points (gt_limits (pv_template preview)) in
      case u_invite_user_id u of
        Some inviterID \<Rightarrow>
          (if basisPoints > 0 then
             ebind (applyGiftCardInviterReward inviterID (pv_rewards preview) basisPoints now d) (\<lambda>(reward, d1).
             if gr_transfer_enable reward > 0 then
               ebind (readEntitlementChangeTx inviterID d1) (\<lambda>change. Inr ((Some inviterID, reward, [change]), d1))
             else Inr ((Some inviterID, reward, []), d1))
           else Inr ((None, no_reward, []), d))
      | None \<Rightarrow> Inr ((None, no_reward, []), d))"

text \<open>The row recorded for a use: \<open>u\<close> is the user before the reward, \<open>u1\<close> after it.\<close>

definition gift_usage_row ::
  "user \<Rightarrow> user \<Rightarrow> gift_card_preview \<Rightarrow> int option \<Rightarrow> gift_reward \<Rightarrow> int option \<Rightarrow> string \<Rightarrow> string \<Rightarrow> instant \<Rightarrow> gift_usage" where
  "gift_usage_row u u1 preview inviterID inviterReward level ip agent now =
     (let reset = gr_reset_traffic (pv_rewards preview) \<and> u_plan_id u \<noteq> None in
      \<lparr>gu_id = 0, gu_code_id = gc_id (pv_code preview), gu_template_id = gt_id (pv_template preview),
       gu_user_id = u_id u, gu_inviter_id = inviterID, gu_rewards = pv_rewards preview,
       gu_inviter_rewards = inviterReward, gu_user_level_at_use = level, gu_user_plan_id = u_plan_id u1,
       gu_multiplier = giftCardMultiplier (gt_special (pv_template preview)) now, gu_ip_address = ip,
       gu_user_agent = agent,
       gu_traffic_reset_upload_before = (if reset then Some (u_traffic_u u) else None),
       gu_traffic_reset_download_before = (if reset then Some (u_traffic_d u) else None),
       gu_used_at = unix now\<rparr>)"

definition RedeemGiftCard ::
  "(string \<Rightarrow> string) \<Rightarrow> location \<Rightarrow> location \<Rightarrow> location \<Rightarrow> (int \<Rightarrow> int) \<Rightarrow> nat \<Rightarrow> redeem_gift_card_input \<Rightarrow> instant \<Rightarrow> db \<Rightarrow>
   store_error + gift_redemption \<times> db" where
  "RedeemGiftCard uni loc zone local pick random input now d =
     (let code = ToUpper uni (TrimSpace (ri_code input)); ip = TrimSpace (ri_ip_address input);
          agent = TrimSpace (ri_user_agent input); userID = ri_user_id input in
      if userID < 1 \<or> \<not> validGiftCardCode uni code \<or> unix now < 0 \<or> length ip > 45 \<or> length agent > 1024 \<or>
         \<not> ValidString agent \<or> CHR 0x00 \<in> set agent then Inl ErrInvalidInput else
      case recorded_purchase code userID d of
        Some redemption \<Rightarrow> Inr (redemption, d)
      | None \<Rightarrow>
          ebind (checkGiftCard loc local pick userID code now d) (\<lambda>preview.
          ebind (readGiftCardUser userID d) (\<lambda>u.
          ebind (claim_gift_code preview userID now d) (\<lambda>d1.
          ebind (readEntitlementChangeTx (u_id u) d1) (\<lambda>change.
          ebind (if gt_type (pv_template preview) = GiftCardTypePurchase
                 then applyGiftPurchase loc random u preview now d1
                 else ebind (applyGiftCardReward loc zone u (gt_type (pv_template preview)) (pv_rewards preview) now d1) (\<lambda>(u1, d2).
                      Inr (([], u1), d2))) (\<lambda>((trade, u1), d2).
          ebind (reward_inviter u1 preview now d2) (\<lambda>((inviterID, inviterReward, inviterChanges), d3).
          ebind (case u_plan_id u1 of
                   None \<Rightarrow> Inr None
                 | Some planID \<Rightarrow> ebind (of_option ErrDatabase (List.find (\<lambda>p. p_id p = planID) (db_plans d3)))
                     (\<lambda>p. Inr (Some (p_sort_position p)))) (\<lambda>level.
          let usage = gift_usage_row u u1 preview inviterID inviterReward level ip agent now in
          ebind (insert_gift_usage usage d3) (\<lambda>(usageID, d4).
          Inr (\<lparr>rd_usage = usage\<lparr>gu_id := usageID\<rparr>,
                rd_changes = (if reward_changes_runtime u preview then [change\<lparr>ch_new_group_id := u_group_id u1\<rparr>] else []) @ inviterChanges,
                rd_order_trade_no = trade\<rparr>, d4))))))))))"

end
