(* ===== verification/Gift_Cards_Correct.thy ===== *)
theory Gift_Cards_Correct
  imports Gift_Cards Commissions_Correct
begin

text \<open>
  What the gift card operations guarantee: a festival or inviter share is the exact rounded-down
  product and nothing overflows, a mystery box gives each reward for as many draws as its weight says, a
  batch yields as many distinct unused codes as were asked for, a redemption counts and records one use, and
  every operation keeps the constraints of the database.
\<close>

section \<open>Shares of an amount\<close>

lemma basis_points_split:
  assumes "0 \<le> (v::int)"
  shows "(v div 10000) * m + (v mod 10000) * m div 10000 = v * m div 10000"
proof -
  have "v * m = (v div 10000 * 10000 + v mod 10000) * m" by simp
  also have "\<dots> = (v mod 10000) * m + (v div 10000 * m) * 10000" by (simp only: algebra_simps)
  finally show ?thesis by simp
qed

lemma div_lt_iff_lt_mult:
  assumes "0 < (m::int)"
  shows "a div m < w \<longleftrightarrow> a < w * m"
proof
  assume "a div m < w"
  then have "(a div m + 1) * m \<le> w * m" using assms by (intro mult_right_mono) auto
  then have "a div m * m + m \<le> w * m" by (simp add: distrib_right)
  then show "a < w * m" using div_mult_mod_eq [of a m] pos_mod_bound [OF assms, of a] by linarith
next
  assume "a < w * m"
  then have "a div m * m < w * m"
    using div_mult_mod_eq [of a m] pos_mod_sign [OF assms, of a] by linarith
  then show "a div m < w" using assms by simp
qed

lemma max_i64_pos: "0 \<le> max_i64"
  by (simp add: max_i64_def)

lemma multiplyGiftCardInt64_exact:
  assumes v: "0 \<le> value" "value \<le> max_i64" and m: "0 \<le> multiplier" "multiplier \<le> 1000000"
  shows "multiplyGiftCardInt64 value multiplier =
     (if value * multiplier div 10000 \<le> maxGiftCardMoney then Inr (value * multiplier div 10000) else Inl ErrInvalidInput)"
proof (cases "value = 0 \<or> multiplier = 0")
  case True
  then show ?thesis by (auto simp: multiplyGiftCardInt64_def maxGiftCardMoney_def)
next
  case False
  let ?w = "value div 10000" and ?r = "value mod 10000"
  have w: "0 \<le> ?w" using v by (simp add: pos_imp_zdiv_nonneg_iff)
  have r: "0 \<le> ?r" "?r < 10000" by simp_all
  have wm: "0 \<le> ?w * multiplier" using w m by simp
  have rm: "0 \<le> ?r * multiplier" using r m by simp
  have rm': "?r * multiplier \<le> 10000 * 1000000" using r m by (intro mult_mono) auto
  let ?f = "?r * multiplier div 10000"
  have f: "0 \<le> ?f" "?f \<le> 1000000" using rm rm' by (simp_all add: pos_imp_zdiv_nonneg_iff)
  have sum: "?w * multiplier + ?f = value * multiplier div 10000" by (rule basis_points_split [OF v(1)])
  have over: "?w > max_i64 div multiplier \<longleftrightarrow> ?w * multiplier > max_i64"
    using False m by (simp add: div_lt_iff_lt_mult)
  show ?thesis
  proof (cases "?w * multiplier > max_i64")
    case True
    then show ?thesis using False m v over sum f
      by (simp add: multiplyGiftCardInt64_def sdiv_nonneg maxGiftCardMoney_def max_i64_def)
  next
    case small: False
    have i: "i64 (?w * multiplier) = ?w * multiplier" "i64 (?r * multiplier) = ?r * multiplier"
      "i64 (max_i64 - ?f) = max_i64 - ?f"
      using small wm rm rm' f by (simp_all add: wrap_simps max_i64_def)
    have eq: "multiplyGiftCardInt64 value multiplier =
       (if ?w * multiplier > max_i64 - ?f \<or> i64 (?w * multiplier + ?f) > maxGiftCardMoney then Inl ErrInvalidInput
        else Inr (i64 (?w * multiplier + ?f)))"
      using False m over small unfolding multiplyGiftCardInt64_def Let_def
      by (simp add: sdiv_nonneg smod_nonneg v rm i max_i64_pos)
    show ?thesis
    proof (cases "?w * multiplier > max_i64 - ?f")
      case True
      then have "\<not> value * multiplier div 10000 \<le> maxGiftCardMoney"
        using sum by (simp add: maxGiftCardMoney_def max_i64_def)
      then show ?thesis using True eq by simp
    next
      case False
      then have "i64 (?w * multiplier + ?f) = value * multiplier div 10000"
        using wm f sum by (simp add: wrap_simps max_i64_def)
      then show ?thesis using False eq by simp
    qed
  qed
qed

section \<open>Mystery boxes\<close>

definition pool_weight :: "(int \<times> gift_reward) list \<Rightarrow> int" where
  "pool_weight pool = sum_list (map fst pool)"

lemma pool_weight_simps [simp]:
  "pool_weight [] = 0"
  "pool_weight (x # xs) = fst x + pool_weight xs"
  by (simp_all add: pool_weight_def)

definition pool_ok :: "(int \<times> gift_reward) list \<Rightarrow> bool" where
  "pool_ok pool \<longleftrightarrow> list_all (\<lambda>x. 1 \<le> fst x) pool \<and> pool_weight pool \<le> 2147483647"

lemma pool_weight_nonneg: "list_all (\<lambda>x. 1 \<le> fst x) pool \<Longrightarrow> 0 \<le> pool_weight pool"
  by (induction pool) auto

lemma mystery_pool_loop_Inr:
  "mystery_pool_loop acc pool = Inr u \<Longrightarrow> 0 \<le> acc \<Longrightarrow> acc \<le> 2147483647 \<Longrightarrow>
   list_all (\<lambda>x. 1 \<le> fst x) pool \<and> acc + pool_weight pool \<le> 2147483647"
proof (induction acc pool rule: mystery_pool_loop.induct)
  case (2 acc weight r items)
  have "1 \<le> weight" "weight \<le> 1000000" using "2.prems"(1) by (auto split: if_splits)
  then have "i64 (acc + weight) = acc + weight" using "2.prems"(2,3) by (simp add: wrap_simps max_i64_def)
  then show ?case using 2 by (auto split: if_splits)
qed simp

lemma accepted_pool_ok:
  assumes "validateGiftCardReward GiftCardTypeMystery r False = Inr ()"
  shows "pool_ok (gr_random_rewards r)" and "gr_random_rewards r \<noteq> []"
  using assms mystery_pool_loop_Inr [of 0 "gr_random_rewards r"]
  by (auto simp: validateGiftCardReward_def pool_ok_def split: if_splits)

lemma pool_fold:
  "list_all (\<lambda>x. 1 \<le> fst x) pool \<Longrightarrow> 0 \<le> acc \<Longrightarrow> acc + pool_weight pool \<le> 2147483647 \<Longrightarrow>
   foldl (\<lambda>t (w, _). i64 (t + w)) acc pool = acc + pool_weight pool"
proof (induction pool arbitrary: acc)
  case (Cons x xs)
  have "0 \<le> pool_weight xs" using Cons.prems(1) by (simp add: pool_weight_nonneg)
  then have "i64 (acc + fst x) = acc + fst x" using Cons.prems by (auto simp: wrap_simps)
  then show ?case using Cons by (simp add: case_prod_unfold)
qed simp

lemma mystery_pick_head:
  assumes "pool_ok ((w, x) # pool)" and "0 \<le> p" and "p < w + pool_weight pool"
  shows "mystery_pick p ((w, x) # pool) = (if p < w then Inr x else mystery_pick (p - w) pool)"
  using assms by (auto simp: pool_ok_def wrap_simps)

lemma pool_ok_tl: "pool_ok (x # xs) \<Longrightarrow> pool_ok xs"
  by (auto simp: pool_ok_def)

lemma mystery_pick_total:
  "pool_ok pool \<Longrightarrow> 0 \<le> p \<Longrightarrow> p < pool_weight pool \<Longrightarrow>
   \<exists>r. mystery_pick p pool = Inr r \<and> r \<in> snd ` set pool"
proof (induction pool arbitrary: p)
  case (Cons wx pool)
  obtain w x where wx: "wx = (w, x)" by force
  show ?case
  proof (cases "p < w")
    case False
    then have "\<exists>r. mystery_pick (p - w) pool = Inr r \<and> r \<in> snd ` set pool"
      using Cons.prems by (intro Cons.IH) (auto simp: wx dest: pool_ok_tl)
    then show ?thesis using False Cons.prems mystery_pick_head [of w x pool p] by (auto simp: wx)
  qed (simp add: wx)
qed simp

text \<open>The draws that give a reward.\<close>

definition draws_of :: "gift_reward \<Rightarrow> (int \<times> gift_reward) list \<Rightarrow> int set" where
  "draws_of r pool = {p. 0 \<le> p \<and> p < pool_weight pool \<and> mystery_pick p pool = Inr r}"

lemma draws_of_Cons:
  assumes "pool_ok ((w, x) # pool)"
  shows "draws_of r ((w, x) # pool) = (if x = r then {0..<w} else {}) \<union> (\<lambda>p. p + w) ` draws_of r pool"
proof -
  have w: "1 \<le> w" and nonneg: "0 \<le> pool_weight pool"
    using assms by (auto simp: pool_ok_def pool_weight_nonneg)
  have "p \<in> draws_of r ((w, x) # pool) \<longleftrightarrow>
      p \<in> (if x = r then {0..<w} else {}) \<or> p - w \<in> draws_of r pool" for p
    using w nonneg mystery_pick_head [OF assms, of p] by (auto simp: draws_of_def simp del: mystery_pick.simps split: if_splits)
  moreover have "p - w \<in> draws_of r pool \<longleftrightarrow> p \<in> (\<lambda>p. p + w) ` draws_of r pool" for p
    by (auto simp: image_iff intro: bexI [of _ "p - w"])
  ultimately show ?thesis by blast
qed

lemma draws_of_card:
  "pool_ok pool \<Longrightarrow> finite (draws_of r pool) \<and> int (card (draws_of r pool)) = pool_weight (filter (\<lambda>x. snd x = r) pool)"
proof (induction pool)
  case (Cons wx pool)
  obtain w x where wx: "wx = (w, x)" by force
  have ok: "pool_ok ((w, x) # pool)" and w: "1 \<le> w" using Cons.prems by (auto simp: wx pool_ok_def)
  have IH: "finite (draws_of r pool)" "int (card (draws_of r pool)) = pool_weight (filter (\<lambda>x. snd x = r) pool)"
    using Cons.IH [OF pool_ok_tl [OF Cons.prems]] by simp_all
  have shift: "card ((\<lambda>p. p + w) ` draws_of r pool) = card (draws_of r pool)"
    by (rule card_image) (auto simp: inj_on_def)
  have disj: "{0..<w} \<inter> (\<lambda>p. p + w) ` draws_of r pool = {}" by (auto simp: draws_of_def)
  show ?case
    using IH shift disj w by (auto simp: wx draws_of_Cons [OF ok] card_Un_disjoint)
qed (simp add: draws_of_def)

lemma selectGiftCardMysteryReward_eq:
  assumes "pool_ok pool" and "pool \<noteq> []"
  shows "selectGiftCardMysteryReward pick pool = mystery_pick (pick (pool_weight pool)) pool"
    and "0 < pool_weight pool"
proof -
  have "1 \<le> pool_weight pool"
    using assms pool_weight_nonneg [of "tl pool"] by (cases pool) (auto simp: pool_ok_def)
  then show "selectGiftCardMysteryReward pick pool = mystery_pick (pick (pool_weight pool)) pool"
    and "0 < pool_weight pool"
    using assms pool_fold [of pool 0] by (auto simp: selectGiftCardMysteryReward_def pool_ok_def)
qed

section \<open>Batches of codes\<close>

lemma gift_code_insert_row:
  "gift_code_insert draw k row prefix d = Inr (c, d1) \<Longrightarrow>
   \<exists>code i. c = (row code)\<lparr>gc_id := i\<rparr> \<and> insert_gift_code (row code) d = Inr (i, d1)"
  by (induction draw k row prefix d rule: gift_code_insert.induct)
     (auto simp: Let_def split: sum.splits if_splits)

lemma gift_codes_loop_Inr:
  "gift_codes_loop draw index k row prefix d = Inr (cs, d') \<Longrightarrow> db_ok d \<Longrightarrow>
   db_ok d' \<and> length cs = k \<and> db_gift_codes d' = db_gift_codes d @ cs \<and>
   (\<forall>c\<in>set cs. \<exists>code i. c = (row code)\<lparr>gc_id := i\<rparr>)"
proof (induction draw index k row prefix d arbitrary: cs rule: gift_codes_loop.induct)
  case (2 draw index left row prefix d)
  from "2.prems"(1) obtain c d1 cs' where c: "gift_code_insert (draw index) 8 row prefix d = Inr (c, d1)"
    and rest: "gift_codes_loop draw (Suc index) left row prefix d1 = Inr (cs', d')" and cs: "cs = c # cs'"
    by (auto split: prod.splits)
  from gift_code_insert_row [OF c] obtain code i where row: "c = (row code)\<lparr>gc_id := i\<rparr>"
    and ins: "insert_gift_code (row code) d = Inr (i, d1)" by blast
  have "db_ok d1" using insert_gift_code_keeps [OF ins "2.prems"(2)] .
  moreover have "db_gift_codes d1 = db_gift_codes d @ [c]" using ins by (auto simp: insert_gift_code_Inr row)
  ultimately show ?case using "2.IH" [OF c refl rest] row by (auto simp: cs)
qed simp

lemma gift_codes_loop_history:
  "gift_codes_loop draw index k row prefix d = Inr (cs, d') \<Longrightarrow> (\<And>code. gc_usage_count (row code) = 0) \<Longrightarrow> history d d'"
proof (induction draw index k row prefix d arbitrary: cs rule: gift_codes_loop.induct)
  case (2 draw index left row prefix d)
  from "2.prems"(1) obtain c d1 cs' where c: "gift_code_insert (draw index) 8 row prefix d = Inr (c, d1)"
    and rest: "gift_codes_loop draw (Suc index) left row prefix d1 = Inr (cs', d')" by (auto split: prod.splits)
  from gift_code_insert_row [OF c] obtain code i where "insert_gift_code (row code) d = Inr (i, d1)" by blast
  then have "history d d1" by (rule insert_gift_code_history) (rule "2.prems"(2))
  then show ?case using "2.IH" [OF c refl rest "2.prems"(2)] by (rule history.trans)
qed (simp add: history.refl)

lemma GenerateGiftCardCodes_stages:
  assumes "GenerateGiftCardCodes uni batchRandom draw templateID input now d = Inr (cs, d')"
  obtains prefix batchNo template snapshot where
    "1 \<le> gi_count input" and "getGiftCardTemplate templateID d = Inr template" and "gt_status template"
    and "gt_type template = GiftCardTypePurchase \<longrightarrow> gi_max_usage input = 1 \<and> (\<exists>s. snapshot = Some s)"
    and "gift_codes_loop draw 0 (nat (gi_count input))
       (\<lambda>code. new_gift_code templateID code batchNo input snapshot now) prefix d = Inr (cs, d')"
  using assms unfolding GenerateGiftCardCodes_def Let_def
  by (elim stageE) (rule that, (assumption | force split: if_splits)+)

lemma GenerateGiftCardCodes_history:
  "GenerateGiftCardCodes uni batchRandom draw templateID input now d = Inr (cs, d') \<Longrightarrow> history d d'"
  by (elim GenerateGiftCardCodes_stages gift_codes_loop_history) (simp add: new_gift_code_def)

section \<open>Administration\<close>

lemma CreateGiftCardTemplate_history: "CreateGiftCardTemplate parse input adminID now d = Inr (t, d') \<Longrightarrow> history d d'"
  unfolding CreateGiftCardTemplate_def by (auto elim!: insert_gift_template_history split: prod.splits)

lemma UpdateGiftCardTemplate_history:
  "UpdateGiftCardTemplate parse templateID revision input adminID now d = Inr (t, d') \<Longrightarrow> history d d'"
  unfolding UpdateGiftCardTemplate_def Let_def
  by (auto elim!: update_gift_templates_history simp: set_template_columns_def split: if_splits)

lemma id_remains: "i \<in> g ` set rows \<Longrightarrow> i \<noteq> k \<Longrightarrow> i \<in> g ` {r \<in> set rows. g r \<noteq> k}"
  by blast

lemma DeleteGiftCardTemplate_keeps:
  assumes "DeleteGiftCardTemplate templateID d = Inr d'" and "db_ok d"
  shows "db_ok d'"
proof -
  have d': "d' = d\<lparr>db_gift_templates := filter (\<lambda>t. gt_id t \<noteq> templateID) (db_gift_templates d)\<rparr>"
    and "\<forall>c\<in>set (db_gift_codes d). gc_template_id c \<noteq> templateID"
    and "\<forall>g\<in>set (db_gift_usages d). gu_template_id g \<noteq> templateID"
    using assms(1) by (auto simp: DeleteGiftCardTemplate_def Let_def exists_where_iff split: if_splits)
  then show ?thesis using assms(2) unfolding d'
    by (auto simp: db_ok_def holds_defs check_defs refs_defs seqs_ok_def list_all_iff gift_templates_unique_def
        distinct_map_filter intro!: id_remains)
qed

lemma DeleteGiftCardTemplate_history: "DeleteGiftCardTemplate templateID d = Inr d' \<Longrightarrow> history d d'"
  using DeleteGiftCardTemplate_keeps [of templateID d d']
  by (intro history_frame) (auto simp: keeps_ok_def DeleteGiftCardTemplate_def Let_def split: if_splits)

lemma UpdateGiftCardCode_history: "UpdateGiftCardCode uni codeID input now d = Inr (c, d') \<Longrightarrow> history d d'"
  unfolding UpdateGiftCardCode_def Let_def
  by (auto elim!: update_gift_codes_history split: if_splits sum.splits)

lemma ToggleGiftCardCode_history: "ToggleGiftCardCode codeID now d = Inr (c, d') \<Longrightarrow> history d d'"
  unfolding ToggleGiftCardCode_def by (auto elim!: update_gift_codes_history split: if_splits)

lemma DeleteGiftCardCode_keeps:
  assumes "DeleteGiftCardCode codeID d = Inr d'" and "db_ok d"
  shows "db_ok d'"
proof -
  have d': "d' = d\<lparr>db_gift_codes := filter (\<lambda>c. gc_id c \<noteq> codeID) (db_gift_codes d)\<rparr>"
    and free: "\<forall>r\<in>set (db_orders d). o_gift_card_code_id r \<noteq> Some codeID"
    and used: "\<forall>g\<in>set (db_gift_usages d). gu_code_id g \<noteq> codeID"
    using assms(1) by (auto simp: DeleteGiftCardCode_def Let_def exists_where_iff split: if_splits)
  have "opt_all (\<lambda>i. i \<in> gc_id ` {c \<in> set (db_gift_codes d). gc_id c \<noteq> codeID}) (o_gift_card_code_id ord)"
    if "ord \<in> set (db_orders d)" and "opt_all (\<lambda>i. i \<in> gc_id ` set (db_gift_codes d)) (o_gift_card_code_id ord)" for ord
    using that free by (cases "o_gift_card_code_id ord") auto
  then show ?thesis using assms(2) used unfolding d'
    by (auto simp: db_ok_def holds_defs check_defs refs_defs seqs_ok_def list_all_iff gift_codes_unique_def
        distinct_map_filter intro!: id_remains)
qed

lemma DeleteGiftCardCode_history: "DeleteGiftCardCode codeID d = Inr d' \<Longrightarrow> history d d'"
proof (rule historyI_gifts)
  assume del: "DeleteGiftCardCode codeID d = Inr d'"
  then show "history_core d d'"
    using DeleteGiftCardCode_keeps [OF del]
    by (intro history_core_frame) (auto simp: keeps_ok_def DeleteGiftCardCode_def Let_def intro: ledgers_grow_same split: if_splits)
qed (auto simp: DeleteGiftCardCode_def Let_def gifts_counted_def list_all_iff split: if_splits)

section \<open>Redeeming\<close>

lemma readGiftCardUser_Inr:
  assumes "readGiftCardUser i d = Inr u"
  shows "u \<in> set (db_users d)" and "u_id u = i" and "u_account_kind u = AccountKindHuman"
  using assms by (auto simp: readGiftCardUser_def find_Some_iff)

lemma Inr_pairE:
  assumes "Inr (a, b) = Inr (c, e)"
  obtains "a = c" and "b = e"
  using assms by simp

lemma Inr_pair_end: "Inr (a, b) = Inr (c, e) \<Longrightarrow> m = Inr b \<Longrightarrow> m = Inr e"
  by simp

lemma ebind_nested_InrE:
  assumes "ebind m (\<lambda>((a, b), c). f a b c) = Inr y"
  obtains a b c where "m = Inr ((a, b), c)" and "f a b c = Inr y"
  using assms by auto

lemma ebind_triple_InrE:
  assumes "ebind m (\<lambda>((a, b, c), e). f a b c e) = Inr y"
  obtains a b c e where "m = Inr ((a, b, c), e)" and "f a b c e = Inr y"
  using assms by auto

lemma RedeemGiftCard_stages:
  assumes "RedeemGiftCard uni loc zone local pick random input now d = Inr (rd, d')"
    and "recorded_purchase (ToUpper uni (TrimSpace (ri_code input))) (ri_user_id input) d = None"
  obtains pv u d1 change trade u1 d2 inviterID inviterReward ichanges d3 level usageID where
    "unix now \<ge> 0"
    and "checkGiftCard loc local pick (ri_user_id input) (ToUpper uni (TrimSpace (ri_code input))) now d = Inr pv"
    and "readGiftCardUser (ri_user_id input) d = Inr u"
    and "claim_gift_code pv (ri_user_id input) now d = Inr d1"
    and "readEntitlementChangeTx (u_id u) d1 = Inr change"
    and "(if gt_type (pv_template pv) = GiftCardTypePurchase then applyGiftPurchase loc random u pv now d1
          else ebind (applyGiftCardReward loc zone u (gt_type (pv_template pv)) (pv_rewards pv) now d1)
                 (\<lambda>(u1, d2). Inr (([], u1), d2))) = Inr ((trade, u1), d2)"
    and "reward_inviter u1 pv now d2 = Inr ((inviterID, inviterReward, ichanges), d3)"
    and "insert_gift_usage (gift_usage_row u u1 pv inviterID inviterReward level (TrimSpace (ri_ip_address input))
           (TrimSpace (ri_user_agent input)) now) d3 = Inr (usageID, d')"
    and "rd = \<lparr>rd_usage = (gift_usage_row u u1 pv inviterID inviterReward level (TrimSpace (ri_ip_address input))
           (TrimSpace (ri_user_agent input)) now)\<lparr>gu_id := usageID\<rparr>,
         rd_changes = (if reward_changes_runtime u pv then [change\<lparr>ch_new_group_id := u_group_id u1\<rparr>] else []) @ ichanges,
         rd_order_trade_no = trade\<rparr>"
proof -
  have nn: "0 \<le> unix now" using assms(1) by (auto simp: RedeemGiftCard_def Let_def split: if_splits)
  show thesis
    using assms(1) unfolding RedeemGiftCard_def Let_def assms(2) option.case
    by (elim if_Inl_InrE ebind_triple_InrE ebind_nested_InrE ebind_pair_InrE ebind_InrE)
       (erule Inr_pairE, hypsubst, rule that [OF nn]; (assumption | rule refl))
qed

lemma claim_gift_code_Inr:
  "claim_gift_code pv userID now d = Inr d1 \<longleftrightarrow>
   update_gift_codes (claimable pv now) (claimed pv userID now) d = Inr d1 \<and>
   count_where (claimable pv now) (db_gift_codes d) = 1"
  by (auto simp: claim_gift_code_def split: if_splits)

lemma claimed_simps [simp]:
  "gc_id (claimed pv userID now r) = gc_id r"
  "gc_usage_count (claimed pv userID now r) = gc_usage_count r + 1"
  by (simp_all add: claimed_def Let_def)

text \<open>After a claim every card is as before but the claimed one.\<close>

lemma claimed_codes:
  assumes claim: "claim_gift_code pv userID now d = Inr d1" and ids: "distinct (map gc_id (db_gift_codes d))"
    and r': "r' \<in> set (db_gift_codes d1)"
  obtains r where "r \<in> set (db_gift_codes d)" and "claimable pv now r \<longleftrightarrow> gc_id r = gc_id (pv_code pv)"
    and "r' = (if claimable pv now r then claimed pv userID now r else r)"
proof -
  obtain c where c: "c \<in> set (db_gift_codes d)" "claimable pv now c"
    using claim count_where_pos [of "claimable pv now" "db_gift_codes d"] by (auto simp: claim_gift_code_Inr)
  obtain r where r: "r \<in> set (db_gift_codes d)" "r' = (if claimable pv now r then claimed pv userID now r else r)"
    using claim r' by (auto simp: claim_gift_code_Inr update_gift_codes_Inr update_where_def)
  have "r = c" if "gc_id r = gc_id (pv_code pv)"
    using ids r(1) c that by (metis claimable_def distinct_map inj_onD)
  then have "claimable pv now r \<longleftrightarrow> gc_id r = gc_id (pv_code pv)" using c(2) by (auto simp: claimable_def)
  then show thesis using r by (intro that) auto
qed

text \<open>Applying a reward touches users, and for a purchase orders and entitlement events, never a card.\<close>

lemma apply_gift_plan_Inr:
  assumes "apply_gift_plan loc zone u reward now d = Inr (u1, d')"
  obtains f where "update_users (\<lambda>v. u_id v = u_id u) f d = Inr d'"
    and "\<forall>v. u_id (f v) = u_id v \<and> u_balance (f v) = u_balance v \<and> u_commission_balance (f v) = u_commission_balance v"
    and "u_id u1 = u_id u" and "u_invite_user_id u1 = u_invite_user_id u"
  using assms unfolding apply_gift_plan_def Let_def
  by (elim stageE) (rule that, erule Inr_pair_end, assumption, auto)

lemma applyGiftCardReward_credit:
  assumes "applyGiftCardReward loc zone u kind reward now d = Inr (u1, d')" and "kind \<noteq> GiftCardTypePlan"
  obtains expiry nxt where "update_users (\<lambda>v. u_id v = u_id u) (reward_columns u reward expiry nxt now) d = Inr d'"
    and "expiry = reward_expiry zone u reward now" and "u1 = u"
proof -
  show thesis using assms(1) unfolding applyGiftCardReward_def Let_def if_not_P [OF assms(2)]
    by (elim stageE) (rule that, erule Inr_pair_end, assumption, auto)
qed

lemma reward_columns_simps [simp]:
  "u_id (reward_columns u reward expiry nxt now v) = u_id v"
  "u_balance (reward_columns u reward expiry nxt now v) = u_balance v + gr_balance reward"
  "u_transfer_enable (reward_columns u reward expiry nxt now v) = u_transfer_enable v + gr_transfer_enable reward"
  "u_commission_balance (reward_columns u reward expiry nxt now v) = u_commission_balance v"
  by (simp_all add: reward_columns_def Let_def)

text \<open>What a card's reward, of a plan or of credit, does to the database.\<close>

lemma applyGiftCardReward_Inr:
  assumes "applyGiftCardReward loc zone u kind reward now d = Inr (u1, d')"
  obtains f where "update_users (\<lambda>v. u_id v = u_id u) f d = Inr d'"
    and "\<forall>v. u_id (f v) = u_id v \<and>
           u_balance (f v) = u_balance v + (if kind = GiftCardTypePlan then 0 else gr_balance reward) \<and>
           u_commission_balance (f v) = u_commission_balance v"
    and "u_id u1 = u_id u" and "u_invite_user_id u1 = u_invite_user_id u"
proof (cases "kind = GiftCardTypePlan")
  case True
  have "apply_gift_plan loc zone u reward now d = Inr (u1, d')"
    using assms True by (simp add: applyGiftCardReward_def)
  then obtain f where "update_users (\<lambda>v. u_id v = u_id u) f d = Inr d'"
    and "\<forall>v. u_id (f v) = u_id v \<and> u_balance (f v) = u_balance v \<and> u_commission_balance (f v) = u_commission_balance v"
    and "u_id u1 = u_id u" and "u_invite_user_id u1 = u_invite_user_id u" by (rule apply_gift_plan_Inr)
  then show thesis by (intro that) (simp_all add: True)
next
  case False
  obtain expiry nxt where "update_users (\<lambda>v. u_id v = u_id u) (reward_columns u reward expiry nxt now) d = Inr d'"
    and "u1 = u" by (rule applyGiftCardReward_credit [OF assms False])
  then show thesis by (intro that) (auto simp: False)
qed

lemma purchased_user_simps [simp]:
  "u_id (purchased_user loc u s p now) = u_id u"
  "u_invite_user_id (purchased_user loc u s p now) = u_invite_user_id u"
  "u_plan_id (purchased_user loc u s p now) = Some (gs_plan_id s)"
  "u_transfer_enable (purchased_user loc u s p now) = gp_transfer_after p"
  "u_expired_at (purchased_user loc u s p now) = gp_expires_after p"
  by (simp_all add: purchased_user_def Let_def)

definition purchase_written :: "user \<Rightarrow> user \<Rightarrow> user \<Rightarrow> bool" where
  "purchase_written u1 v w \<longleftrightarrow>
     u_id w = u_id v \<and> u_balance w = u_balance v \<and> u_commission_balance w = u_commission_balance v \<and>
     marshalEntitlementSnapshot w =
       (marshalEntitlementSnapshot u1)\<lparr>sn_last_reset_at := u_last_reset_at v, sn_reset_count := u_reset_count v,
          sn_balance := u_balance v\<rparr>"

lemma applyGiftPurchase_stages:
  assumes "applyGiftPurchase loc random u pv now d = Inr ((trade, u1), d')"
  obtains s p f d1 orderID d2 e where "gr_purchase_snapshot (pv_rewards pv) = Some s"
    and "giftPurchasePreview loc u s now = Inr p"
    and "u1 = purchased_user loc u s p now" and "trade = newOrderTradeNo loc now random"
    and "update_users (\<lambda>v. u_id v = u_id u) f d = Inr d1"
    and "\<forall>v. purchase_written u1 v (f v)"
    and "insert_order (purchase_order u (pv_code pv) s p trade now) d1 = Inr (orderID, d2)"
    and "insert_event e d2 = Inr d'"
    and "e = \<lparr>ev_order_id = orderID, ev_user_id = u_id u,
           ev_type = orderTypeEventName (if gp_renewal p then OrderTypeRenewal else OrderTypeNew),
           ev_before = marshalEntitlementSnapshot u, ev_after = marshalEntitlementSnapshot u1, ev_applied_at = unix now\<rparr>"
  using assms unfolding applyGiftPurchase_def Let_def
  by (elim stageE) (elim Inr_pairE Pair_inject, hypsubst, rule that, (assumption | simp add: purchase_written_def marshalEntitlementSnapshot_def)+)

text \<open>Both ways of granting at once, as \<^verbatim>\<open>RedeemGiftCard\<close> chooses them.\<close>

lemma granted_history:
  assumes "(if gt_type (pv_template pv) = GiftCardTypePurchase then applyGiftPurchase loc random u pv now d
     else ebind (applyGiftCardReward loc zone u (gt_type (pv_template pv)) (pv_rewards pv) now d)
            (\<lambda>(u1, d2). Inr (([], u1), d2))) = Inr ((trade, u1), d')"
  shows "history d d'" and "db_gift_codes d' = db_gift_codes d" and "db_gift_usages d' = db_gift_usages d"
    and "u_invite_user_id u1 = u_invite_user_id u"
proof -
  have "history d d' \<and> db_gift_codes d' = db_gift_codes d \<and> db_gift_usages d' = db_gift_usages d \<and>
     u_invite_user_id u1 = u_invite_user_id u"
  proof (cases "gt_type (pv_template pv) = GiftCardTypePurchase")
    case True
    then have r: "applyGiftPurchase loc random u pv now d = Inr ((trade, u1), d')" using assms by simp
    obtain s p f d1 orderID d2 e where "gr_purchase_snapshot (pv_rewards pv) = Some s"
      and "giftPurchasePreview loc u s now = Inr p" and u1: "u1 = purchased_user loc u s p now"
      and "trade = newOrderTradeNo loc now random" and up: "update_users (\<lambda>v. u_id v = u_id u) f d = Inr d1"
      and f: "\<forall>v. purchase_written u1 v (f v)"
      and ins: "insert_order (purchase_order u (pv_code pv) s p trade now) d1 = Inr (orderID, d2)"
      and ev: "insert_event e d2 = Inr d'"
      by (rule applyGiftPurchase_stages [OF r]) (rule that; assumption)
    note f = f [unfolded purchase_written_def]
    have "history d d1" using up f by (auto elim!: update_users_history)
    also have "history d1 d2" using ins by (rule insert_order_history) (simp add: purchase_order_def)
    also have "history d2 d'" using ev by (rule insert_event_history)
    finally show ?thesis using up ins ev u1 by (auto simp: update_users_Inr insert_order_Inr insert_event_Inr)
  next
    case False
    then have r: "applyGiftCardReward loc zone u (gt_type (pv_template pv)) (pv_rewards pv) now d = Inr (u1, d')"
      using assms by (auto split: prod.splits)
    obtain f where up: "update_users (\<lambda>v. u_id v = u_id u) f d = Inr d'" and f: "\<forall>v. u_id (f v) = u_id v"
      and inv: "u_invite_user_id u1 = u_invite_user_id u"
      by (rule applyGiftCardReward_Inr [OF r]) (rule that, assumption, blast, assumption)
    have "history d d'" using up f by (auto elim!: update_users_history)
    then show ?thesis using up inv by (auto simp: update_users_Inr)
  qed
  then show "history d d'" and "db_gift_codes d' = db_gift_codes d" and "db_gift_usages d' = db_gift_usages d"
    and "u_invite_user_id u1 = u_invite_user_id u" by simp_all
qed

lemma applyGiftCardInviterReward_Inr:
  assumes "applyGiftCardInviterReward inviterID reward basisPoints now d = Inr (r, d')"
  obtains balance transfer where "multiplyGiftCardInt64 (gr_balance reward) basisPoints = Inr balance"
    and "multiplyGiftCardInt64 (gr_transfer_enable reward) basisPoints = Inr transfer"
    and "update_users (\<lambda>v. u_id v = inviterID)
         (\<lambda>v. v\<lparr>u_balance := u_balance v + balance, u_transfer_enable := u_transfer_enable v + transfer,
                u_updated_at := unix now\<rparr>) d = Inr d'"
    and "r = GiftReward [] None balance transfer 0 0 False None 0 []"
  using assms unfolding applyGiftCardInviterReward_def
  by (elim stageE) (rule that, assumption, assumption, erule Inr_pair_end, assumption, auto)

text \<open>Without an inviter or a share for the inviter nothing happens.\<close>

lemma reward_inviter_cases:
  assumes "reward_inviter u pv now d = Inr ((inviterID, r, changes), d')"
  obtains "d' = d" and "inviterID = None" and "r = no_reward"
  | i where "u_invite_user_id u = Some i" and "inviterID = Some i"
    and "applyGiftCardInviterReward i (pv_rewards pv) (gl_invite_reward_basis_points (gt_limits (pv_template pv))) now d = Inr (r, d')"
    and "0 < gl_invite_reward_basis_points (gt_limits (pv_template pv))"
  using assms by (auto simp: reward_inviter_def Let_def split: option.splits if_splits prod.splits)

lemma reward_inviter_history:
  assumes "reward_inviter u pv now d = Inr ((inviterID, r, changes), d')"
  shows "history d d'" and "db_gift_codes d' = db_gift_codes d" and "db_gift_usages d' = db_gift_usages d"
proof -
  have "history d d' \<and> db_gift_codes d' = db_gift_codes d \<and> db_gift_usages d' = db_gift_usages d"
    using assms
  proof (cases rule: reward_inviter_cases)
    case (2 i)
    from 2(3) show ?thesis
    proof (rule applyGiftCardInviterReward_Inr)
      fix balance transfer
      assume "update_users (\<lambda>v. u_id v = i)
         (\<lambda>v. v\<lparr>u_balance := u_balance v + balance, u_transfer_enable := u_transfer_enable v + transfer,
                u_updated_at := unix now\<rparr>) d = Inr d'"
      then show ?thesis by (auto simp: update_users_Inr intro: update_users_history)
    qed
  qed (simp add: history.refl)
  then show "history d d'" and "db_gift_codes d' = db_gift_codes d" and "db_gift_usages d' = db_gift_usages d"
    by simp_all
qed

lemma RedeemGiftCard_replay:
  assumes "RedeemGiftCard uni loc zone local pick random input now d = Inr (rd, d')"
    and "recorded_purchase (ToUpper uni (TrimSpace (ri_code input))) (ri_user_id input) d = Some rd0"
  shows "d' = d" and "rd = rd0"
  using assms by (auto simp: RedeemGiftCard_def Let_def split: if_splits)

text \<open>A claim and its usage row, with a history that leaves the cards alone between them.\<close>

lemma redemption_history:
  assumes claim: "claim_gift_code pv userID now d = Inr d1" and mid: "history d1 d3"
    and same: "db_gift_codes d3 = db_gift_codes d1" "db_gift_usages d3 = db_gift_usages d1"
    and ins: "insert_gift_usage g d3 = Inr (i, d')" and g: "gu_code_id g = gc_id (pv_code pv)"
  shows "history d d'"
proof -
  have up: "update_gift_codes (claimable pv now) (claimed pv userID now) d = Inr d1"
    using claim by (simp add: claim_gift_code_Inr)
  have c1: "history_core d d1" by (rule update_gift_codes_core [OF up]) simp
  have c3: "history_core d3 d'" by (rule insert_gift_usage_core [OF ins])
  have core: "history_core d d'" by (rule history_core.trans [OF history_core.trans [OF c1 history_coreD [OF mid]] c3])
  have frame: "db_orders d1 = db_orders d" "db_receipts d1 = db_receipts d" "db_commission_logs d1 = db_commission_logs d"
    "db_gift_usages d1 = db_gift_usages d" using up by (auto simp: update_gift_codes_Inr)
  have frame': "db_orders d' = db_orders d3" "db_receipts d' = db_receipts d3" "db_commission_logs d' = db_commission_logs d3"
    "db_gift_codes d' = db_gift_codes d3" "db_gift_usages d' = db_gift_usages d3 @ [g\<lparr>gu_id := i\<rparr>]"
    using ins by (auto simp: insert_gift_usage_Inr)
  have books: "commissions_booked d \<longrightarrow> commissions_booked d'" "receipts_settled d \<longrightarrow> receipts_settled d'" if "db_ok d"
  proof -
    have "db_ok d1" by (rule history_core_ok [OF c1 that])
    from history_settled(1,2) [OF mid this]
    show "commissions_booked d \<longrightarrow> commissions_booked d'" "receipts_settled d \<longrightarrow> receipts_settled d'"
      by (simp_all add: commissions_booked_def receipts_settled_def frame frame')
  qed
  have gifts: "gifts_counted d'" if ok: "db_ok d" and counted: "gifts_counted d"
  proof -
    have ids: "distinct (map gc_id (db_gift_codes d))"
      using ok by (simp add: db_ok_def gift_codes.holds_def gift_codes_unique_def)
    have codes: "db_gift_codes d' = db_gift_codes d1" using frame' same by simp
    show ?thesis unfolding gifts_counted_def list_all_iff
    proof
      fix r' assume "r' \<in> set (db_gift_codes d')"
      then have "r' \<in> set (db_gift_codes d1)" by (simp add: codes)
      then obtain r where r: "r \<in> set (db_gift_codes d)" and "claimable pv now r \<longleftrightarrow> gc_id r = gc_id (pv_code pv)"
        and "r' = (if claimable pv now r then claimed pv userID now r else r)" by (rule claimed_codes [OF claim ids])
      then have r': "gc_id r' = gc_id r"
        "gc_usage_count r' = gc_usage_count r + (if gc_id r = gc_id (pv_code pv) then 1 else 0)" by simp_all
      have "gift_counted (db_gift_usages d) r" using counted r by (simp add: gifts_counted_def list_all_iff)
      then show "gift_counted (db_gift_usages d') r'"
        by (simp add: gift_counted_def r' frame frame' same g)
    qed
  qed
  show ?thesis unfolding history_def keeps_settled_def
    using core books gifts history_core_ok [OF core] by blast
qed

lemma RedeemGiftCard_history:
  assumes r: "RedeemGiftCard uni loc zone local pick random input now d = Inr (rd, d')"
  shows "history d d'"
proof (cases "recorded_purchase (ToUpper uni (TrimSpace (ri_code input))) (ri_user_id input) d")
  case None
  from r None show ?thesis
  proof (rule RedeemGiftCard_stages)
    fix pv u d1 change trade u1 d2 inviterID inviterReward ichanges d3 level usageID
    assume claim: "claim_gift_code pv (ri_user_id input) now d = Inr d1"
      and grant: "(if gt_type (pv_template pv) = GiftCardTypePurchase then applyGiftPurchase loc random u pv now d1
          else ebind (applyGiftCardReward loc zone u (gt_type (pv_template pv)) (pv_rewards pv) now d1)
                 (\<lambda>(u1, d2). Inr (([], u1), d2))) = Inr ((trade, u1), d2)"
      and inv: "reward_inviter u1 pv now d2 = Inr ((inviterID, inviterReward, ichanges), d3)"
      and ins: "insert_gift_usage (gift_usage_row u u1 pv inviterID inviterReward level (TrimSpace (ri_ip_address input))
           (TrimSpace (ri_user_agent input)) now) d3 = Inr (usageID, d')"
    show ?thesis
    proof (rule redemption_history [OF claim _ _ _ ins])
      show "history d1 d3" by (rule history.trans [OF granted_history(1) [OF grant] reward_inviter_history(1) [OF inv]])
    qed (simp_all add: granted_history(2,3) [OF grant] reward_inviter_history(2,3) [OF inv] gift_usage_row_def Let_def)
  qed
next
  case (Some rd0)
  then show ?thesis using RedeemGiftCard_replay(1) [OF r Some] by (simp add: history.refl)
qed

section \<open>What a redemption credits\<close>

definition gift_credit :: "gift_card_preview \<Rightarrow> int" where
  "gift_credit pv =
     (if gt_type (pv_template pv) \<in> {GiftCardTypeGeneral, GiftCardTypeMystery} then gr_balance (pv_rewards pv) else 0)"

lemma granted_holdings:
  assumes "(if gt_type (pv_template pv) = GiftCardTypePurchase then applyGiftPurchase loc random u pv now d
     else ebind (applyGiftCardReward loc zone u (gt_type (pv_template pv)) (pv_rewards pv) now d)
            (\<lambda>(u1, d2). Inr (([], u1), d2))) = Inr ((trade, u1), d')"
  shows "holdings d' = credits (\<lambda>i. if i = u_id u then gift_credit pv else 0) (holdings d)"
proof (cases "gt_type (pv_template pv) = GiftCardTypePurchase")
  case True
  then have r: "applyGiftPurchase loc random u pv now d = Inr ((trade, u1), d')" using assms by simp
  obtain s p f d1 orderID d2 e where "gr_purchase_snapshot (pv_rewards pv) = Some s"
    and "giftPurchasePreview loc u s now = Inr p" and u1: "u1 = purchased_user loc u s p now"
    and "trade = newOrderTradeNo loc now random" and up: "update_users (\<lambda>v. u_id v = u_id u) f d = Inr d1"
    and f: "\<forall>v. purchase_written u1 v (f v)"
    and ins: "insert_order (purchase_order u (pv_code pv) s p trade now) d1 = Inr (orderID, d2)"
    and ev: "insert_event e d2 = Inr d'"
    by (rule applyGiftPurchase_stages [OF r]) (rule that; assumption)
  have "holdings d1 = credits (\<lambda>i. 0) (holdings d)"
    by (rule holdings_update_users [OF up]) (use f in \<open>simp_all add: purchase_written_def\<close>)
  moreover have "holdings d' = holdings d1"
    using ins ev by (auto simp: holdings_def insert_order_Inr insert_event_Inr)
  moreover have "(\<lambda>i. if i = u_id u then gift_credit pv else 0) = (\<lambda>i. 0)"
    using True by (auto simp: gift_credit_def)
  ultimately show ?thesis by simp
next
  case False
  then have r: "applyGiftCardReward loc zone u (gt_type (pv_template pv)) (pv_rewards pv) now d = Inr (u1, d')"
    using assms by (auto split: prod.splits)
  obtain f where up: "update_users (\<lambda>v. u_id v = u_id u) f d = Inr d'"
    and f: "\<forall>v. u_id (f v) = u_id v \<and> u_balance (f v) = u_balance v +
         (if gt_type (pv_template pv) = GiftCardTypePlan then 0 else gr_balance (pv_rewards pv)) \<and>
         u_commission_balance (f v) = u_commission_balance v"
    by (rule applyGiftCardReward_Inr [OF r]) (rule that; assumption)
  have credit: "gift_credit pv = (if gt_type (pv_template pv) = GiftCardTypePlan then 0 else gr_balance (pv_rewards pv))"
    using False by (cases "gt_type (pv_template pv)") (simp_all add: gift_credit_def)
  show ?thesis by (rule holdings_update_users [OF up]) (use f in \<open>simp_all add: credit\<close>)
qed

lemma inviter_holdings:
  assumes "reward_inviter u pv now d = Inr ((inviterID, r, changes), d')"
  shows "holdings d' = credits (\<lambda>i. if inviterID = Some i then gr_balance r else 0) (holdings d)"
  using assms
proof (cases rule: reward_inviter_cases)
  case (2 i)
  from 2(3) show ?thesis
  proof (rule applyGiftCardInviterReward_Inr)
    fix balance transfer
    assume up: "update_users (\<lambda>v. u_id v = i)
       (\<lambda>v. v\<lparr>u_balance := u_balance v + balance, u_transfer_enable := u_transfer_enable v + transfer,
              u_updated_at := unix now\<rparr>) d = Inr d'"
      and r: "r = GiftReward [] None balance transfer 0 0 False None 0 []"
    show ?thesis by (rule holdings_update_users [OF up]) (simp_all add: 2 r)
  qed
qed simp

lemma checkGiftCard_Inr:
  assumes "checkGiftCard loc local pick userID code now d = Inr pv"
  shows "readGiftCardCodeAndTemplate code d = Inr (pv_code pv, pv_template pv)" and "gt_status (pv_template pv)"
    and "gc_status (pv_code pv) = GiftCardCodeActive" and "gc_usage_count (pv_code pv) < gc_max_usage (pv_code pv)"
proof -
  obtain c t where f: "readGiftCardCodeAndTemplate code d = Inr (c, t)" and st: "gt_status t" "gc_status c \<noteq> GiftCardCodeDisabled"
    "gc_status c \<noteq> GiftCardCodeExpired" "gc_status c \<noteq> GiftCardCodeUsed" "gc_usage_count c < gc_max_usage c"
    and pv: "pv_code pv = c" "pv_template pv = t"
    using assms unfolding checkGiftCard_def Let_def
    by (elim ebind_pair_InrE ebind_InrE if_Inl_InrE)
       (rule that, assumption, auto split: if_splits option.splits)
  then show "readGiftCardCodeAndTemplate code d = Inr (pv_code pv, pv_template pv)" and "gt_status (pv_template pv)"
    and "gc_usage_count (pv_code pv) < gc_max_usage (pv_code pv)" by simp_all
  show "gc_status (pv_code pv) = GiftCardCodeActive" using st pv by (cases "gc_status c") simp_all
qed

lemma readGiftCardCodeAndTemplate_Inr:
  assumes "readGiftCardCodeAndTemplate code d = Inr (c, t)"
  shows "c \<in> set (db_gift_codes d)" and "gc_code c = code" and "t \<in> set (db_gift_templates d)" and "gt_id t = gc_template_id c"
  using assms by (auto simp: readGiftCardCodeAndTemplate_def dest!: find_eq_Some_set)

end
