(* ===== verification/Gift_Properties.thy ===== *)
theory Gift_Properties
  imports Sample_Store Gift_Cards_Correct
begin

text \<open>
  The properties of gift cards, each with an instance evaluated on a sample store that has a card of credit
  and a card of a purchased plan.
\<close>

section \<open>A sample store with gift cards\<close>

definition sample_gift_template :: gift_template where
  "sample_gift_template =
     \<lparr>gt_id = 1, gt_name = ''Welcome'', gt_description = [], gt_type = GiftCardTypeGeneral, gt_status = True,
      gt_conditions = \<lparr>gcd_new_user_max_days = None, gcd_new_user_only = False, gcd_paid_user_only = False,
        gcd_require_invite = True, gcd_allowed_plan_ids = [], gcd_disallowed_plan_ids = []\<rparr>,
      gt_rewards = GiftReward [] None 500 0 0 0 False None 0 [],
      gt_limits = \<lparr>gl_max_use_per_user = 1, gl_cooldown_hours = 0, gl_invite_reward_basis_points = 1000\<rparr>,
      gt_special = \<lparr>gsp_started_at = None, gsp_ended_at = None, gsp_festival_multiplier = 10000\<rparr>,
      gt_icon = [], gt_background_image = [], gt_theme = ''#1890ff'', gt_sort_position = 0, gt_admin_id = 1,
      gt_revision = 1, gt_created_at = 1600000000, gt_updated_at = 1600000000\<rparr>"

definition sample_gift_code :: gift_code where
  "sample_gift_code =
     \<lparr>gc_id = 1, gc_template_id = 1, gc_code = ''GCABCDEFGH'', gc_batch_no = ''1600000000-ABCDEFGH'',
      gc_status = GiftCardCodeActive, gc_user_id = None, gc_used_at = None, gc_expires_at = None,
      gc_actual_rewards = None, gc_usage_count = 0, gc_max_usage = 2, gc_purchase_snapshot = None,
      gc_created_at = 1600000000, gc_updated_at = 1600000000\<rparr>"

definition sample_snapshot :: gift_purchase_snapshot where
  "sample_snapshot = \<lparr>gs_plan_id = 1, gs_plan_name = ''Basic'', gs_period = ''monthly'', gs_transfer_enable = 107374182400,
     gs_group_id = Some 1, gs_speed_limit = 0, gs_device_limit = 3, gs_reset_method = 2\<rparr>"

definition sample_purchase_template :: gift_template where
  "sample_purchase_template = sample_gift_template
     \<lparr>gt_id := 2, gt_name := ''Basic for a month'', gt_type := GiftCardTypePurchase,
      gt_conditions := (gt_conditions sample_gift_template)\<lparr>gcd_require_invite := False\<rparr>,
      gt_rewards := GiftReward ''monthly'' None 0 0 0 0 False (Some 1) 0 [],
      gt_limits := \<lparr>gl_max_use_per_user = 0, gl_cooldown_hours = 0, gl_invite_reward_basis_points = 0\<rparr>\<rparr>"

definition sample_purchase_code :: gift_code where
  "sample_purchase_code = sample_gift_code
     \<lparr>gc_id := 2, gc_template_id := 2, gc_code := ''GCPURCHASE'', gc_max_usage := 1, gc_purchase_snapshot := Some sample_snapshot\<rparr>"

definition sample_gift_db :: db where
  "sample_gift_db = sample_db
     \<lparr>db_gift_templates := [sample_gift_template, sample_purchase_template],
      db_gift_codes := [sample_gift_code, sample_purchase_code],
      db_gift_template_seq := 2, db_gift_code_seq := 2\<rparr>"

lemma sample_gift_db_ok: "db_ok sample_gift_db"
  unfolding db_ok_def holds_defs seqs_ok_def check_defs by code_simp
definition sample_redeem_input :: redeem_gift_card_input where
  "sample_redeem_input = \<lparr>ri_user_id = 2, ri_code = '' gcabcdefgh '', ri_ip_address = ''192.0.2.1'', ri_user_agent = ''curl''\<rparr>"

definition sample_gift_usage :: gift_usage where
  "sample_gift_usage =
     \<lparr>gu_id = 1, gu_code_id = 1, gu_template_id = 1, gu_user_id = 2, gu_inviter_id = Some 1,
      gu_rewards = GiftReward [] None 500 0 0 0 False None 0 [],
      gu_inviter_rewards = GiftReward [] None 50 0 0 0 False None 0 [],
      gu_user_level_at_use = None, gu_user_plan_id = None, gu_multiplier = 10000, gu_ip_address = ''192.0.2.1'',
      gu_user_agent = ''curl'', gu_traffic_reset_upload_before = None, gu_traffic_reset_download_before = None,
      gu_used_at = 1700000000\<rparr>"

definition sample_redeemed :: db where
  "sample_redeemed = sample_gift_db
     \<lparr>db_users := [(sample_user 1 ''inviter@example.com'')\<lparr>u_balance := 50, u_admin_revision := 2, u_updated_at := 1700000000\<rparr>,
        (sample_user 2 ''customer@example.com'')
          \<lparr>u_balance := 800, u_invite_user_id := Some 1, u_admin_revision := 2, u_updated_at := 1700000000\<rparr>],
      db_gift_codes := [sample_gift_code\<lparr>gc_user_id := Some 2, gc_used_at := Some 1700000000,
          gc_actual_rewards := Some (GiftReward [] None 500 0 0 0 False None 0 []), gc_usage_count := 1,
          gc_updated_at := 1700000000\<rparr>, sample_purchase_code],
      db_gift_usages := [sample_gift_usage], db_gift_usage_seq := 1\<rparr>"

lemma sample_redeem:
  "RedeemGiftCard id sample_zone sample_zone sample_zone id 7 sample_redeem_input sample_now sample_gift_db =
     Inr (\<lparr>rd_usage = sample_gift_usage, rd_changes = [], rd_order_trade_no = []\<rparr>, sample_redeemed)"
  by code_simp

section \<open>Amounts\<close>

text \<open>C32: A share of an amount in basis points, the festival multiplier of a reward or the part of an inviter, is the exact
  product rounded down, although the code multiplies in 64-bit arithmetic; it is refused exactly when it would exceed the
  bound of an amount.\<close>

theorem gift_share_exact:
  assumes "0 \<le> value" and "value \<le> max_i64" and "0 \<le> multiplier" and "multiplier \<le> 1000000"
  shows "multiplyGiftCardInt64 value multiplier =
     (if value * multiplier div 10000 \<le> maxGiftCardMoney then Inr (value * multiplier div 10000) else Inl ErrInvalidInput)"
  using assms by (rule multiplyGiftCardInt64_exact)

theorem gift_share_exact_witness:
  "multiplyGiftCardInt64 8999999999999999 10000 = Inr 8999999999999999 \<and>
   multiplyGiftCardInt64 max_i64 1000000 = Inl ErrInvalidInput"
  using gift_share_exact [of 8999999999999999 10000] gift_share_exact [of max_i64 1000000]
  by (simp add: max_i64_def maxGiftCardMoney_def)

section \<open>Mystery boxes\<close>

text \<open>C33: A mystery box the shop accepts is fair: every draw below the total weight yields one of its rewards, and each
  reward is the result of exactly as many draws as the weights listed for it add up to.\<close>

theorem mystery_box_fair:
  assumes "validateGiftCardReward GiftCardTypeMystery r False = Inr ()"
  shows "(\<forall>p. 0 \<le> p \<and> p < pool_weight (gr_random_rewards r) \<longrightarrow>
      (\<exists>x\<in>snd ` set (gr_random_rewards r). selectGiftCardMysteryReward (\<lambda>_. p) (gr_random_rewards r) = Inr x)) \<and>
    int (card {p. 0 \<le> p \<and> p < pool_weight (gr_random_rewards r) \<and>
      selectGiftCardMysteryReward (\<lambda>_. p) (gr_random_rewards r) = Inr x}) =
    sum_list (map fst (filter (\<lambda>wx. snd wx = x) (gr_random_rewards r)))"
proof -
  note ok = accepted_pool_ok [OF assms] and eq = selectGiftCardMysteryReward_eq(1) [OF accepted_pool_ok [OF assms]]
  have "\<exists>x\<in>snd ` set (gr_random_rewards r). selectGiftCardMysteryReward (\<lambda>_. p) (gr_random_rewards r) = Inr x"
    if "0 \<le> p" "p < pool_weight (gr_random_rewards r)" for p
    using mystery_pick_total [OF ok(1) that] by (auto simp: eq)
  moreover have "{p. 0 \<le> p \<and> p < pool_weight (gr_random_rewards r) \<and>
      selectGiftCardMysteryReward (\<lambda>_. p) (gr_random_rewards r) = Inr x} = draws_of x (gr_random_rewards r)"
    by (simp add: draws_of_def eq)
  ultimately show ?thesis using draws_of_card [OF ok(1), of x] by (simp add: pool_weight_def)
qed

definition sample_box :: gift_reward where
  "sample_box = GiftReward [] None 0 0 0 0 False None 0
     [(9, GiftReward [] None 100 0 0 0 False None 0 []), (1, GiftReward [] None 9000 0 0 0 False None 0 [])]"

lemma sample_box_accepted: "validateGiftCardReward GiftCardTypeMystery sample_box False = Inr ()"
  by code_simp

theorem mystery_box_fair_witness:
  "int (card {p. 0 \<le> p \<and> p < 10 \<and> selectGiftCardMysteryReward (\<lambda>_. p) (gr_random_rewards sample_box) =
     Inr (GiftReward [] None 9000 0 0 0 False None 0 [])}) = 1"
  using mystery_box_fair [OF sample_box_accepted, of "GiftReward [] None 9000 0 0 0 False None 0 []"]
  by (simp add: sample_box_def pool_weight_def)

section \<open>Issuing codes\<close>

lemma insert_gift_code_result:
  assumes "db_ok d" and "db_gift_code_seq d < max_i64"
    and "gift_code_check d (c\<lparr>gc_id := db_gift_code_seq d + 1\<rparr>)"
  shows "exists_where (\<lambda>r. gc_code r = gc_code c) (db_gift_codes d) \<longrightarrow> (\<exists>e. insert_gift_code c d = Inl e)"
    and "\<not> exists_where (\<lambda>r. gc_code r = gc_code c) (db_gift_codes d) \<longrightarrow> (\<exists>i d1. insert_gift_code c d = Inr (i, d1))"
proof -
  show "exists_where (\<lambda>r. gc_code r = gc_code c) (db_gift_codes d) \<longrightarrow> (\<exists>e. insert_gift_code c d = Inl e)"
  proof
    assume "exists_where (\<lambda>r. gc_code r = gc_code c) (db_gift_codes d)"
    then have "insert_gift_code c d \<noteq> Inr (i, d1)" for i d1
      by (auto simp: insert_gift_code_Inr gift_codes_unique_def exists_where_iff) (metis image_eqI)
    then show "\<exists>e. insert_gift_code c d = Inl e" by (cases "insert_gift_code c d") auto
  qed
  have ids: "gc_id r \<le> db_gift_code_seq d" if "r \<in> set (db_gift_codes d)" for r
    using assms(1) that by (auto simp: db_ok_def seqs_ok_def list_all_iff)
  have "gift_codes_unique (db_gift_codes d)" using assms(1) by (simp add: db_ok_def gift_codes.holds_def)
  then have "gift_codes_unique (db_gift_codes d @ [c\<lparr>gc_id := db_gift_code_seq d + 1\<rparr>])"
    if "\<not> exists_where (\<lambda>r. gc_code r = gc_code c) (db_gift_codes d)"
    using that ids by (fastforce simp: gift_codes_unique_def exists_where_iff)
  then show "\<not> exists_where (\<lambda>r. gc_code r = gc_code c) (db_gift_codes d) \<longrightarrow> (\<exists>i d1. insert_gift_code c d = Inr (i, d1))"
    using assms(2,3) by (auto simp: insert_gift_code_Inr)
qed

lemma ex_draw_Suc:
  assumes "Suc k \<le> 8"
  shows "(\<exists>j. 8 - Suc k \<le> j \<and> j < 8 \<and> F j) \<longleftrightarrow> F (8 - Suc k) \<or> (\<exists>j. 8 - k \<le> j \<and> j < 8 \<and> F j)"
proof -
  have "8 - Suc k \<le> j \<and> j < 8 \<longleftrightarrow> j = 8 - Suc k \<or> 8 - k \<le> j \<and> j < 8" for j using assms by auto
  then have "8 - Suc k \<le> j \<and> j < 8 \<and> F j \<longleftrightarrow> j = 8 - Suc k \<and> F j \<or> 8 - k \<le> j \<and> j < 8 \<and> F j" for j by blast
  then show ?thesis by (simp only: ex_disj_distrib simp_thms)
qed

lemma gift_code_insert_draws:
  assumes ok: "db_ok d" and room: "db_gift_code_seq d < max_i64"
    and row: "\<And>code. gc_code (row code) = code"
    and valid: "\<forall>j<8. gift_code_check d ((row (prefix @ randomGiftCardString (draw j)))\<lparr>gc_id := db_gift_code_seq d + 1\<rparr>)"
    and k: "k \<le> 8"
  shows "if \<exists>j. 8 - k \<le> j \<and> j < 8 \<and> \<not> exists_where (\<lambda>r. gc_code r = prefix @ randomGiftCardString (draw j)) (db_gift_codes d)
     then \<exists>c d'. gift_code_insert draw k row prefix d = Inr (c, d')
     else gift_code_insert draw k row prefix d = Inl ErrConflict"
  using k
proof (induction k)
  case (Suc k)
  let ?code = "\<lambda>j. prefix @ randomGiftCardString (draw j)"
  define start where "start = 8 - Suc k"
  have check: "gift_code_check d ((row (?code start))\<lparr>gc_id := db_gift_code_seq d + 1\<rparr>)" using valid by (simp add: start_def)
  note res = insert_gift_code_result [OF ok room check, unfolded row]
  have step: "(\<exists>j. start \<le> j \<and> j < 8 \<and> F j) \<longleftrightarrow> F start \<or> (\<exists>j. 8 - k \<le> j \<and> j < 8 \<and> F j)" for F
    unfolding start_def by (rule ex_draw_Suc [OF Suc.prems])
  show ?case
  proof (cases "exists_where (\<lambda>r. gc_code r = ?code start) (db_gift_codes d)")
    case True
    then obtain e where "insert_gift_code (row (?code start)) d = Inl e" using res(1) by blast
    then have "gift_code_insert draw (Suc k) row prefix d = gift_code_insert draw k row prefix d"
      using True by (simp add: Let_def start_def)
    then show ?thesis using Suc True unfolding start_def [symmetric] step by simp
  next
    case False
    then obtain i d1 where "insert_gift_code (row (?code start)) d = Inr (i, d1)" using res(2) by blast
    then have "\<exists>c d'. gift_code_insert draw (Suc k) row prefix d = Inr (c, d')" by (simp add: Let_def start_def)
    then show ?thesis using False unfolding start_def [symmetric] step by simp
  qed
qed simp

text \<open>C34: Drawing a code ends after at most eight draws: it stores a code as soon as one of the eight is not taken,
  and reports a conflict exactly when all eight are.\<close>

theorem gift_code_draws_end:
  assumes "db_ok d" and "db_gift_code_seq d < max_i64"
    and "\<forall>j<8. gift_code_check d ((new_gift_code templateID (prefix @ randomGiftCardString (draw j)) batchNo input snapshot now)
        \<lparr>gc_id := db_gift_code_seq d + 1\<rparr>)"
  shows "if \<exists>j<8. \<not> exists_where (\<lambda>r. gc_code r = prefix @ randomGiftCardString (draw j)) (db_gift_codes d)
    then \<exists>c d'. gift_code_insert draw 8 (\<lambda>code. new_gift_code templateID code batchNo input snapshot now) prefix d = Inr (c, d')
    else gift_code_insert draw 8 (\<lambda>code. new_gift_code templateID code batchNo input snapshot now) prefix d = Inl ErrConflict"
  using gift_code_insert_draws [OF assms(1,2) _ assms(3), of 8] by (simp add: new_gift_code_def)

theorem gift_code_draws_end_witness:
  "\<exists>c d'. gift_code_insert (\<lambda>j. replicate 8 j) 8 (\<lambda>code. new_gift_code 1 code ''1600000000-ABCDEFGH''
      \<lparr>gi_count = 1, gi_prefix = [], gi_expires_at = None, gi_max_usage = 1\<rparr> None sample_now) ''GC'' sample_gift_db = Inr (c, d')"
proof -
  let ?in = "\<lparr>gi_count = 1, gi_prefix = [], gi_expires_at = None, gi_max_usage = 1\<rparr> :: generate_gift_codes_input"
  have "list_all (\<lambda>j. gift_code_check sample_gift_db ((new_gift_code 1 (''GC'' @ randomGiftCardString (replicate 8 j))
     ''1600000000-ABCDEFGH'' ?in None sample_now)\<lparr>gc_id := db_gift_code_seq sample_gift_db + 1\<rparr>)) [0..<8]"
    by code_simp
  then have v: "\<forall>j<8. gift_code_check sample_gift_db ((new_gift_code 1 (''GC'' @ randomGiftCardString (replicate 8 j))
     ''1600000000-ABCDEFGH'' ?in None sample_now)\<lparr>gc_id := db_gift_code_seq sample_gift_db + 1\<rparr>)"
    by (simp add: list_all_iff)
  have room: "db_gift_code_seq sample_gift_db < max_i64" by (simp add: sample_gift_db_def max_i64_def)
  have "\<not> exists_where (\<lambda>r. gc_code r = ''GC'' @ randomGiftCardString (replicate 8 0)) (db_gift_codes sample_gift_db)"
    by code_simp
  then have "\<exists>j<8. \<not> exists_where (\<lambda>r. gc_code r = ''GC'' @ randomGiftCardString (replicate 8 j)) (db_gift_codes sample_gift_db)"
    by (intro exI [of _ 0]) simp
  with gift_code_draws_end [OF sample_gift_db_ok room, of 1 "''GC''" "\<lambda>j. replicate 8 j" "''1600000000-ABCDEFGH''" ?in None sample_now] v
  show ?thesis by simp
qed

text \<open>Issuing a batch stores exactly as many codes as were asked for: all new, pairwise different, appended to the
  table, active, never used, of the template, and with the asked limits; the cards issued before stay as they are.\<close>

theorem gift_batch_complete:
  assumes "GenerateGiftCardCodes uni batchRandom draw templateID input now d = Inr (cs, d')" and "db_ok d"
  shows "int (length cs) = gi_count input \<and> db_gift_codes d' = db_gift_codes d @ cs \<and>
    distinct (map gc_code (db_gift_codes d @ cs)) \<and> db_ok d' \<and>
    (\<forall>c\<in>set cs. gc_template_id c = templateID \<and> gc_status c = GiftCardCodeActive \<and> gc_usage_count c = 0 \<and>
       gc_max_usage c = gi_max_usage input \<and> gc_expires_at c = map_option unix (gi_expires_at input))"
proof -
  obtain prefix batchNo template snapshot where n: "1 \<le> gi_count input"
    and "getGiftCardTemplate templateID d = Inr template" and "gt_status template"
    and "gt_type template = GiftCardTypePurchase \<longrightarrow> gi_max_usage input = 1 \<and> (\<exists>s. snapshot = Some s)"
    and loop: "gift_codes_loop draw 0 (nat (gi_count input))
       (\<lambda>code. new_gift_code templateID code batchNo input snapshot now) prefix d = Inr (cs, d')"
    by (rule GenerateGiftCardCodes_stages [OF assms(1)]) (rule that; assumption)
  note l = gift_codes_loop_Inr [OF loop assms(2)]
  have "distinct (map gc_code (db_gift_codes d'))"
    using l unfolding db_ok_def gift_codes.holds_def gift_codes_unique_def by blast
  then have dist: "distinct (map gc_code (db_gift_codes d @ cs))" using l by simp
  have rows: "gc_template_id c = templateID \<and> gc_status c = GiftCardCodeActive \<and> gc_usage_count c = 0 \<and>
      gc_max_usage c = gi_max_usage input \<and> gc_expires_at c = map_option unix (gi_expires_at input)" if "c \<in> set cs" for c
    using l that by (auto simp: new_gift_code_def)
  show ?thesis using l n dist rows by auto
qed

definition sample_batch_input :: generate_gift_codes_input where
  "sample_batch_input = \<lparr>gi_count = 2, gi_prefix = '' gift '', gi_expires_at = None, gi_max_usage = 3\<rparr>"

lemma sample_batch:
  "GenerateGiftCardCodes id [0, 1, 2, 3, 4, 5, 6, 7] (\<lambda>i j. replicate 20 (i + j)) 1 sample_batch_input sample_now sample_gift_db =
   Inr (map (\<lambda>(i, ch). \<lparr>gc_id = i, gc_template_id = 1, gc_code = ''GIFT'' @ replicate 20 ch, gc_batch_no = ''1700000000-ABCDEFGH'',
      gc_status = GiftCardCodeActive, gc_user_id = None, gc_used_at = None, gc_expires_at = None, gc_actual_rewards = None,
      gc_usage_count = 0, gc_max_usage = 3, gc_purchase_snapshot = None, gc_created_at = 1700000000,
      gc_updated_at = 1700000000\<rparr>) [(3, CHR ''A''), (4, CHR ''B'')],
    sample_gift_db\<lparr>db_gift_codes := db_gift_codes sample_gift_db @
      map (\<lambda>(i, ch). \<lparr>gc_id = i, gc_template_id = 1, gc_code = ''GIFT'' @ replicate 20 ch, gc_batch_no = ''1700000000-ABCDEFGH'',
        gc_status = GiftCardCodeActive, gc_user_id = None, gc_used_at = None, gc_expires_at = None, gc_actual_rewards = None,
        gc_usage_count = 0, gc_max_usage = 3, gc_purchase_snapshot = None, gc_created_at = 1700000000,
        gc_updated_at = 1700000000\<rparr>) [(3, CHR ''A''), (4, CHR ''B'')], db_gift_code_seq := 4\<rparr>)"
  by code_simp

theorem gift_batch_complete_witness:
  "distinct (map gc_code (db_gift_codes sample_gift_db) @ [''GIFT'' @ replicate 20 CHR ''A'', ''GIFT'' @ replicate 20 CHR ''B''])"
  using gift_batch_complete [OF sample_batch sample_gift_db_ok] by simp

section \<open>Redemptions\<close>

text \<open>C27: Redeeming a card books it exactly: the card, which was active and not used up, counts one more use and is closed by
  its last one, one usage row is appended, the user is credited the reward of a card of credit and nothing otherwise, the
  inviter the share that the row records and that is the exact part of the reward, and nobody else's money changes.\<close>

theorem gift_redemption_accounts:
  assumes "RedeemGiftCard uni loc zone local pick random input now d = Inr (rd, d')" and "db_ok d"
    and "recorded_purchase (ToUpper uni (TrimSpace (ri_code input))) (ri_user_id input) d = None"
  shows "\<exists>c t c'. readGiftCardCodeAndTemplate (ToUpper uni (TrimSpace (ri_code input))) d = Inr (c, t) \<and>
    gc_status c = GiftCardCodeActive \<and> gc_usage_count c < gc_max_usage c \<and>
    c' \<in> set (db_gift_codes d') \<and> gc_id c' = gc_id c \<and> gc_usage_count c' = gc_usage_count c + 1 \<and>
    (gc_status c' = GiftCardCodeUsed \<longleftrightarrow> gc_usage_count c' = gc_max_usage c) \<and>
    db_gift_usages d' = db_gift_usages d @ [rd_usage rd] \<and> gu_code_id (rd_usage rd) = gc_id c \<and>
    gu_user_id (rd_usage rd) = ri_user_id input \<and>
    (gu_inviter_id (rd_usage rd) \<noteq> None \<longrightarrow> multiplyGiftCardInt64 (gr_balance (gu_rewards (rd_usage rd)))
       (gl_invite_reward_basis_points (gt_limits t)) = Inr (gr_balance (gu_inviter_rewards (rd_usage rd)))) \<and>
    holdings d' = credits (\<lambda>i.
        (if i = ri_user_id input \<and> gt_type t \<in> {GiftCardTypeGeneral, GiftCardTypeMystery} then gr_balance (gu_rewards (rd_usage rd)) else 0) +
        (if gu_inviter_id (rd_usage rd) = Some i then gr_balance (gu_inviter_rewards (rd_usage rd)) else 0)) (holdings d)"
  using assms(1,3)
proof (rule RedeemGiftCard_stages)
  fix pv u d1 change trade u1 d2 inviterID inviterReward ichanges d3 level usageID
  let ?row = "gift_usage_row u u1 pv inviterID inviterReward level (TrimSpace (ri_ip_address input)) (TrimSpace (ri_user_agent input)) now"
  assume check: "checkGiftCard loc local pick (ri_user_id input) (ToUpper uni (TrimSpace (ri_code input))) now d = Inr pv"
    and user: "readGiftCardUser (ri_user_id input) d = Inr u"
    and claim: "claim_gift_code pv (ri_user_id input) now d = Inr d1"
    and grant: "(if gt_type (pv_template pv) = GiftCardTypePurchase then applyGiftPurchase loc random u pv now d1
        else ebind (applyGiftCardReward loc zone u (gt_type (pv_template pv)) (pv_rewards pv) now d1)
               (\<lambda>(u1, d2). Inr (([], u1), d2))) = Inr ((trade, u1), d2)"
    and inv: "reward_inviter u1 pv now d2 = Inr ((inviterID, inviterReward, ichanges), d3)"
    and ins: "insert_gift_usage ?row d3 = Inr (usageID, d')"
    and rd: "rd = \<lparr>rd_usage = ?row\<lparr>gu_id := usageID\<rparr>,
         rd_changes = (if reward_changes_runtime u pv then [change\<lparr>ch_new_group_id := u_group_id u1\<rparr>] else []) @ ichanges,
         rd_order_trade_no = trade\<rparr>"
  note pv = checkGiftCard_Inr [OF check] and found = readGiftCardCodeAndTemplate_Inr [OF checkGiftCard_Inr(1) [OF check]]
  have uid: "u_id u = ri_user_id input" by (rule readGiftCardUser_Inr(2) [OF user])
  have d1: "db_users d1 = db_users d" "db_gift_usages d1 = db_gift_usages d"
    and codes: "db_gift_codes d1 = update_where (claimable pv now) (claimed pv (ri_user_id input) now) (db_gift_codes d)"
    using claim by (auto simp: claim_gift_code_Inr update_gift_codes_Inr)
  have ok: "gift_code_ok (pv_code pv)" and ids: "distinct (map gc_id (db_gift_codes d))"
    using assms(2) found(1) by (auto simp: db_ok_def gift_codes.holds_def list_all_iff gift_code_check_def gift_codes_unique_def)
  have "claimable pv now (pv_code pv)"
  proof -
    obtain r where r: "r \<in> set (db_gift_codes d)" "claimable pv now r"
      using claim count_where_pos [of "claimable pv now" "db_gift_codes d"] by (auto simp: claim_gift_code_Inr)
    then have "r = pv_code pv" using ids found(1) by (metis claimable_def distinct_map inj_onD)
    then show ?thesis using r by simp
  qed
  then have mem: "claimed pv (ri_user_id input) now (pv_code pv) \<in> set (db_gift_codes d')"
    using found(1) ins granted_history(2) [OF grant] reward_inviter_history(2) [OF inv]
    by (auto simp: insert_gift_usage_Inr codes update_where_def)
  have "i64 (gc_usage_count (pv_code pv) + 1) = gc_usage_count (pv_code pv) + 1"
    using ok by (auto simp: gift_code_ok_def wrap_simps)
  then have st: "gc_status (claimed pv (ri_user_id input) now (pv_code pv)) = GiftCardCodeUsed \<longleftrightarrow>
      gc_usage_count (pv_code pv) + 1 = gc_max_usage (pv_code pv)"
    using pv(4) by (auto simp: claimed_def Let_def)
  have usages: "db_gift_usages d' = db_gift_usages d @ [rd_usage rd]"
    using ins granted_history(3) [OF grant] reward_inviter_history(3) [OF inv] d1 by (auto simp: insert_gift_usage_Inr rd)
  have fields: "gu_code_id (rd_usage rd) = gc_id (pv_code pv)" "gu_user_id (rd_usage rd) = ri_user_id input"
    "gu_inviter_id (rd_usage rd) = inviterID" "gu_rewards (rd_usage rd) = pv_rewards pv"
    "gu_inviter_rewards (rd_usage rd) = inviterReward"
    by (simp_all add: rd gift_usage_row_def Let_def uid)
  have share: "inviterID \<noteq> None \<longrightarrow> multiplyGiftCardInt64 (gr_balance (pv_rewards pv))
      (gl_invite_reward_basis_points (gt_limits (pv_template pv))) = Inr (gr_balance inviterReward)"
    using inv by (cases rule: reward_inviter_cases) (auto elim: applyGiftCardInviterReward_Inr)
  have "holdings d' = holdings d3" using ins by (auto simp: holdings_def insert_gift_usage_Inr)
  also have "\<dots> = credits (\<lambda>i. if inviterID = Some i then gr_balance inviterReward else 0)
      (credits (\<lambda>i. if i = u_id u then gift_credit pv else 0) (holdings d1))"
    by (simp only: inviter_holdings [OF inv] granted_holdings [OF grant])
  also have "\<dots> = credits (\<lambda>i. (if i = ri_user_id input \<and> gt_type (pv_template pv) \<in> {GiftCardTypeGeneral, GiftCardTypeMystery}
        then gr_balance (pv_rewards pv) else 0) + (if inviterID = Some i then gr_balance inviterReward else 0)) (holdings d)"
    by (auto simp: credits_credits holdings_def d1 uid gift_credit_def intro!: arg_cong2 [of _ _ _ _ credits])
  finally have money: "holdings d' = \<dots>" .
  show ?thesis
    unfolding fields using pv mem st usages share money
    by (intro exI [of _ "pv_code pv"], intro exI [of _ "pv_template pv"], intro exI [of _ "claimed pv (ri_user_id input) now (pv_code pv)"]) simp
qed

lemma sample_not_recorded:
  "recorded_purchase (ToUpper id (TrimSpace (ri_code sample_redeem_input))) (ri_user_id sample_redeem_input) sample_gift_db = None"
  by code_simp

theorem gift_redemption_accounts_witness:
  "\<exists>t :: gift_template. holdings sample_redeemed = credits (\<lambda>i. (if i = 2 \<and> gt_type t \<in> {GiftCardTypeGeneral, GiftCardTypeMystery} then 500 else 0) +
     (if 1 = i then 50 else 0)) (holdings sample_gift_db)"
  using gift_redemption_accounts [OF sample_redeem sample_gift_db_ok sample_not_recorded]
  by (simp add: sample_gift_usage_def sample_redeem_input_def cong: if_cong) (elim exE conjE, rule exI, assumption)

section \<open>Cards of a purchased plan\<close>

lemma checkGiftCard_purchase:
  assumes "checkGiftCard loc local pick userID code now d = Inr pv" and "gt_type (pv_template pv) = GiftCardTypePurchase"
  obtains u s p where "readGiftCardUser userID d = Inr u" and "gc_purchase_snapshot (pv_code pv) = Some s"
    and "giftPurchasePreview loc u s now = Inr p" and "pv_purchase_preview pv = Some p"
    and "pv_rewards pv = GiftReward (gs_period s) (Some s) 0 0 0 0 False (Some (gs_plan_id s)) 0 []"
    and "\<not> has_active_order userID d"
proof -
  obtain c t where f: "readGiftCardCodeAndTemplate code d = Inr (c, t)" and ct: "pv_code pv = c" "pv_template pv = t"
    using checkGiftCard_Inr(1) [OF assms(1)] by blast
  obtain u where u: "readGiftCardUser userID d = Inr u"
    using assms(1) unfolding checkGiftCard_def f by auto
  obtain s p where "gc_purchase_snapshot c = Some s" and "giftPurchasePreview loc u s now = Inr p"
    and "\<not> has_active_order userID d" and "pv = \<lparr>pv_purchase_preview = Some p, pv_template = t, pv_code = c,
      pv_rewards = GiftReward (gs_period s) (Some s) 0 0 0 0 False (Some (gs_plan_id s)) 0 []\<rparr>"
    using assms unfolding checkGiftCard_def f u ct ebind_simps prod.case
    by (elim if_Inl_InrE) (auto split: option.splits elim!: if_Inl_InrE)
  then show thesis by (intro that [OF u]) simp_all
qed

lemma reward_inviter_users:
  assumes "reward_inviter u pv now d = Inr ((inviterID, r, changes), d')"
    and "gr_balance (pv_rewards pv) = 0" and "gr_transfer_enable (pv_rewards pv) = 0" and "v \<in> set (db_users d)"
  shows "\<exists>t. v\<lparr>u_updated_at := t\<rparr> \<in> set (db_users d')" and "db_orders d' = db_orders d" and "db_events d' = db_events d"
proof -
  have "(\<exists>t. v\<lparr>u_updated_at := t\<rparr> \<in> set (db_users d')) \<and> db_orders d' = db_orders d \<and> db_events d' = db_events d"
    using assms(1)
  proof (cases rule: reward_inviter_cases)
    case 1
    moreover have "v\<lparr>u_updated_at := u_updated_at v\<rparr> = v" by simp
    ultimately show ?thesis using assms(4) by metis
  next
    case (2 i)
    from 2(3) show ?thesis
    proof (rule applyGiftCardInviterReward_Inr)
      fix balance transfer
      assume "multiplyGiftCardInt64 (gr_balance (pv_rewards pv)) (gl_invite_reward_basis_points (gt_limits (pv_template pv))) = Inr balance"
        and "multiplyGiftCardInt64 (gr_transfer_enable (pv_rewards pv)) (gl_invite_reward_basis_points (gt_limits (pv_template pv))) = Inr transfer"
        and up: "update_users (\<lambda>v. u_id v = i)
         (\<lambda>v. v\<lparr>u_balance := u_balance v + balance, u_transfer_enable := u_transfer_enable v + transfer,
                u_updated_at := unix now\<rparr>) d = Inr d'"
      then have zero: "balance = 0" "transfer = 0" using assms(2,3) by (simp_all add: multiplyGiftCardInt64_def)
      have same: "v\<lparr>u_updated_at := u_updated_at v\<rparr> = v" by simp
      have "(if u_id v = i then v\<lparr>u_updated_at := unix now\<rparr> else v) \<in> set (db_users d')"
        using up assms(4) unfolding zero by (auto simp: update_users_Inr update_where_def money_trigger_def)
      then have "\<exists>t. v\<lparr>u_updated_at := t\<rparr> \<in> set (db_users d')" using same by (metis (full_types))
      then show ?thesis using up by (auto simp: update_users_Inr)
    qed
  qed
  then show "\<exists>t. v\<lparr>u_updated_at := t\<rparr> \<in> set (db_users d')" and "db_orders d' = db_orders d" and "db_events d' = db_events d"
    by simp_all
qed

text \<open>Everything a redeemed purchase card leaves behind.\<close>

lemma purchase_redeemed:
  assumes red: "RedeemGiftCard uni loc zone local pick random input now d = Inr (rd, d')"
    and none: "recorded_purchase (ToUpper uni (TrimSpace (ri_code input))) (ri_user_id input) d = None"
    and check: "checkGiftCard loc local pick (ri_user_id input) (ToUpper uni (TrimSpace (ri_code input))) now d = Inr pv"
    and type: "gt_type (pv_template pv) = GiftCardTypePurchase"
  obtains u s p v ord where "readGiftCardUser (ri_user_id input) d = Inr u" and "pv_purchase_preview pv = Some p"
    and "gc_purchase_snapshot (pv_code pv) = Some s" and "giftPurchasePreview loc u s now = Inr p"
    and "v \<in> set (db_users d')" and "u_id v = ri_user_id input" and "u_balance v = u_balance u"
    and "u_plan_id v = Some (gs_plan_id s)" and "u_transfer_enable v = gp_transfer_after p"
    and "u_expired_at v = gp_expires_after p"
    and "ord \<in> set (db_orders d')"
    and "\<exists>i. ord = (purchase_order u (pv_code pv) s p (rd_order_trade_no rd) now)\<lparr>o_id := i\<rparr>"
    and "rd_usage rd \<in> set (db_gift_usages d')" and "gu_user_id (rd_usage rd) = ri_user_id input"
    and "gu_code_id (rd_usage rd) = gc_id (pv_code pv)"
  using red none
proof (rule RedeemGiftCard_stages)
  fix pv' u d1 change trade u1 d2 inviterID inviterReward ichanges d3 level usageID
  let ?row = "gift_usage_row u u1 pv' inviterID inviterReward level (TrimSpace (ri_ip_address input)) (TrimSpace (ri_user_agent input)) now"
  assume check': "checkGiftCard loc local pick (ri_user_id input) (ToUpper uni (TrimSpace (ri_code input))) now d = Inr pv'"
    and user: "readGiftCardUser (ri_user_id input) d = Inr u"
    and claim: "claim_gift_code pv' (ri_user_id input) now d = Inr d1"
    and grant: "(if gt_type (pv_template pv') = GiftCardTypePurchase then applyGiftPurchase loc random u pv' now d1
        else ebind (applyGiftCardReward loc zone u (gt_type (pv_template pv')) (pv_rewards pv') now d1)
               (\<lambda>(u1, d2). Inr (([], u1), d2))) = Inr ((trade, u1), d2)"
    and inv: "reward_inviter u1 pv' now d2 = Inr ((inviterID, inviterReward, ichanges), d3)"
    and ins: "insert_gift_usage ?row d3 = Inr (usageID, d')"
    and rd: "rd = \<lparr>rd_usage = ?row\<lparr>gu_id := usageID\<rparr>,
         rd_changes = (if reward_changes_runtime u pv' then [change\<lparr>ch_new_group_id := u_group_id u1\<rparr>] else []) @ ichanges,
         rd_order_trade_no = trade\<rparr>"
  have pv: "pv' = pv" using check check' by simp
  obtain s p where sp: "gc_purchase_snapshot (pv_code pv) = Some s" "giftPurchasePreview loc u s now = Inr p"
    "pv_purchase_preview pv = Some p"
    "pv_rewards pv = GiftReward (gs_period s) (Some s) 0 0 0 0 False (Some (gs_plan_id s)) 0 []"
    using user by (auto intro: checkGiftCard_purchase [OF check type])
  have "applyGiftPurchase loc random u pv now d1 = Inr ((trade, u1), d2)" using grant type by (simp add: pv)
  then obtain s' p' f e1 orderID e2 e where s': "gr_purchase_snapshot (pv_rewards pv) = Some s'"
    and p': "giftPurchasePreview loc u s' now = Inr p'" and u1: "u1 = purchased_user loc u s' p' now"
    and "trade = newOrderTradeNo loc now random" and up: "update_users (\<lambda>v. u_id v = u_id u) f d1 = Inr e1"
    and f: "\<forall>v. purchase_written u1 v (f v)"
    and ord: "insert_order (purchase_order u (pv_code pv) s' p' trade now) e1 = Inr (orderID, e2)"
    and ev: "insert_event e e2 = Inr d2"
    by (rule applyGiftPurchase_stages) (rule that; assumption)
  have same: "s' = s" "p' = p" using s' p' sp by simp_all
  have "db_users d1 = db_users d" using claim by (auto simp: claim_gift_code_Inr update_gift_codes_Inr)
  then have "money_trigger u (f u) \<in> set (db_users e1)"
    using up readGiftCardUser_Inr(1) [OF user] by (auto simp: update_users_Inr update_where_def)
  then have mem: "money_trigger u (f u) \<in> set (db_users d2)" using ord ev by (auto simp: insert_order_Inr insert_event_Inr)
  note inv = inv [unfolded pv]
  from reward_inviter_users [OF inv _ _ mem] obtain t where v: "(money_trigger u (f u))\<lparr>u_updated_at := t\<rparr> \<in> set (db_users d3)"
    and o3: "db_orders d3 = db_orders d2" by (auto simp: sp)
  have w: "u_id (f u) = u_id u" "u_balance (f u) = u_balance u" "marshalEntitlementSnapshot (f u) =
      (marshalEntitlementSnapshot u1)\<lparr>sn_last_reset_at := u_last_reset_at u, sn_reset_count := u_reset_count u, sn_balance := u_balance u\<rparr>"
    using f by (simp_all add: purchase_written_def)
  let ?v = "(money_trigger u (f u))\<lparr>u_updated_at := t\<rparr>"
  let ?ord = "(purchase_order u (pv_code pv) s p trade now)\<lparr>o_id := orderID\<rparr>"
  have d3: "db_users d' = db_users d3" "db_orders d' = db_orders d3" "rd_usage rd \<in> set (db_gift_usages d')"
    using ins by (auto simp: insert_gift_usage_Inr rd)
  have "?ord \<in> set (db_orders d2)" using ord ev by (auto simp: insert_order_Inr insert_event_Inr same)
  then have om: "?ord \<in> set (db_orders d')" by (simp add: d3 o3)
  have vm: "?v \<in> set (db_users d')" using v by (simp add: d3)
  have uid: "u_id u = ri_user_id input" by (rule readGiftCardUser_Inr(2) [OF user])
  show thesis
  proof (rule that [OF user sp(3) sp(1) sp(2) vm _ _ _ _ _ om])
    show "\<exists>i. ?ord = (purchase_order u (pv_code pv) s p (rd_order_trade_no rd) now)\<lparr>o_id := i\<rparr>" by (auto simp: rd)
  qed (use w d3 uid in \<open>simp_all add: marshalEntitlementSnapshot_def u1 same rd gift_usage_row_def Let_def pv\<close>)
qed

lemma redeemed_code:
  assumes red: "RedeemGiftCard uni loc zone local pick random input now d = Inr (rd, d')"
    and none: "recorded_purchase (ToUpper uni (TrimSpace (ri_code input))) (ri_user_id input) d = None"
    and check: "checkGiftCard loc local pick (ri_user_id input) (ToUpper uni (TrimSpace (ri_code input))) now d = Inr pv"
  obtains c' where "c' \<in> set (db_gift_codes d')" and "gc_id c' = gc_id (pv_code pv)"
    and "gc_code c' = ToUpper uni (TrimSpace (ri_code input))"
  using red none
proof (rule RedeemGiftCard_stages)
  fix pv' u d1 change trade u1 d2 inviterID inviterReward ichanges d3 level usageID
  assume check': "checkGiftCard loc local pick (ri_user_id input) (ToUpper uni (TrimSpace (ri_code input))) now d = Inr pv'"
    and claim: "claim_gift_code pv' (ri_user_id input) now d = Inr d1"
    and grant: "(if gt_type (pv_template pv') = GiftCardTypePurchase then applyGiftPurchase loc random u pv' now d1
        else ebind (applyGiftCardReward loc zone u (gt_type (pv_template pv')) (pv_rewards pv') now d1)
               (\<lambda>(u1, d2). Inr (([], u1), d2))) = Inr ((trade, u1), d2)"
    and inv: "reward_inviter u1 pv' now d2 = Inr ((inviterID, inviterReward, ichanges), d3)"
    and ins: "insert_gift_usage (gift_usage_row u u1 pv' inviterID inviterReward level (TrimSpace (ri_ip_address input))
       (TrimSpace (ri_user_agent input)) now) d3 = Inr (usageID, d')"
  note found = readGiftCardCodeAndTemplate_Inr [OF checkGiftCard_Inr(1) [OF check]]
  have codes: "db_gift_codes d' = db_gift_codes d1"
    using ins granted_history(2) [OF grant] reward_inviter_history(2) [OF inv] by (auto simp: insert_gift_usage_Inr)
  let ?c = "if claimable pv' now (pv_code pv) then claimed pv' (ri_user_id input) now (pv_code pv) else pv_code pv"
  have "?c \<in> set (db_gift_codes d')"
    using found(1) claim unfolding codes by (auto simp: claim_gift_code_Inr update_gift_codes_Inr update_where_def)
  then show thesis by (rule that) (use found(2) in \<open>auto simp: claimed_def Let_def\<close>)
qed

lemma find_some:
  assumes "x \<in> set xs" and "P x"
  obtains y where "List.find P xs = Some y"
  using assms by (cases "List.find P xs") (auto simp: find_None_iff)

lemma order_of_card:
  assumes "orders_unique rows" and "ord \<in> set rows" and "o_gift_card_code_id ord = Some i"
  shows "List.find (\<lambda>r. o_gift_card_code_id r = Some i) rows = Some ord"
proof -
  obtain r where r: "List.find (\<lambda>r. o_gift_card_code_id r = Some i) rows = Some r"
    by (rule find_some [of ord rows "\<lambda>r. o_gift_card_code_id r = Some i", OF assms(2,3)])
  have "inj_on o_gift_card_code_id (set (filter (\<lambda>r. o_gift_card_code_id r \<noteq> None) rows))"
    using assms(1) by (simp add: orders_unique_def distinct_map)
  then have "r = ord" by (rule inj_onD) (use find_eq_Some_set [OF r] assms(2,3) in simp_all)
  then show ?thesis using r by simp
qed

definition sample_purchase_input :: redeem_gift_card_input where
  "sample_purchase_input = sample_redeem_input\<lparr>ri_code := ''GCPURCHASE''\<rparr>"

definition sample_purchase_usage :: gift_usage where
  "sample_purchase_usage = sample_gift_usage
     \<lparr>gu_code_id := 2, gu_template_id := 2, gu_inviter_id := None,
      gu_rewards := GiftReward ''monthly'' (Some sample_snapshot) 0 0 0 0 False (Some 1) 0 [],
      gu_inviter_rewards := no_reward, gu_user_level_at_use := Some 0, gu_user_plan_id := Some 1\<rparr>"

definition sample_purchased :: db where
  "sample_purchased =
     (let before = (sample_user 2 ''customer@example.com'')\<lparr>u_balance := 300, u_invite_user_id := Some 1\<rparr>;
          after = before\<lparr>u_plan_id := Some 1, u_group_id := Some 1, u_expired_at := Some 1702592000,
            u_transfer_enable := 107374182400, u_device_limit := 3, u_admin_revision := 2, u_updated_at := 1700000000\<rparr> in
      sample_gift_db
        \<lparr>db_users := [sample_user 1 ''inviter@example.com'', after],
         db_orders := [(new_order 2 1 ''monthly'' ''2023111506132000000000007'' 0 sample_now)
           \<lparr>o_id := 1, o_status := OrderStatusCompleted, o_commission_status := 3, o_source := ''gift_card_purchase'',
            o_gift_card_code_id := Some 2, o_purchase_snapshot := Some sample_snapshot, o_entitlement_after := Some 1702592000\<rparr>],
         db_order_seq := 1,
         db_events := [\<lparr>ev_order_id = 1, ev_user_id = 2, ev_type = ''new'', ev_before = marshalEntitlementSnapshot before,
           ev_after = marshalEntitlementSnapshot after, ev_applied_at = 1700000000\<rparr>],
         db_gift_codes := [sample_gift_code, sample_purchase_code\<lparr>gc_status := GiftCardCodeUsed, gc_user_id := Some 2,
           gc_used_at := Some 1700000000, gc_actual_rewards := Some (gu_rewards sample_purchase_usage), gc_usage_count := 1,
           gc_updated_at := 1700000000\<rparr>],
         db_gift_usages := [sample_purchase_usage], db_gift_usage_seq := 1\<rparr>)"

lemma sample_purchase:
  "RedeemGiftCard id sample_zone sample_zone sample_zone id 7 sample_purchase_input sample_now sample_gift_db =
     Inr (\<lparr>rd_usage = sample_purchase_usage, rd_changes = [\<lparr>ch_user_id = 2, ch_previous_uuid = None,
        ch_old_group_id = None, ch_new_group_id = Some 1\<rparr>], rd_order_trade_no = ''2023111506132000000000007''\<rparr>, sample_purchased)"
  by code_simp

lemma sample_purchase_new:
  "recorded_purchase (ToUpper id (TrimSpace (ri_code sample_purchase_input))) (ri_user_id sample_purchase_input) sample_gift_db = None"
  by code_simp

definition sample_purchase_preview :: gift_card_preview where
  "sample_purchase_preview =
     \<lparr>pv_purchase_preview = Some \<lparr>gp_transfer_before = 0, gp_transfer_after = 107374182400, gp_used_traffic = 0,
        gp_expires_before = None, gp_expires_after = Some 1702592000, gp_renewal = False\<rparr>,
      pv_template = sample_purchase_template, pv_code = sample_purchase_code, pv_rewards = gu_rewards sample_purchase_usage\<rparr>"

lemma sample_purchase_check:
  "CheckGiftCard id sample_zone sample_zone id (ri_user_id sample_purchase_input) (ri_code sample_purchase_input) sample_now
     sample_gift_db = Inr sample_purchase_preview"
  by code_simp

text \<open>C29: A purchase card gives what its preview promised: after the redemption the user has the previewed quota and expiry, and a
  completed order of the card for nothing and without commission records the previewed expiry.\<close>

theorem purchase_preview_honoured:
  assumes "CheckGiftCard uni loc local pick (ri_user_id input) (ri_code input) now d = Inr pv"
    and "gt_type (pv_template pv) = GiftCardTypePurchase"
    and "RedeemGiftCard uni loc zone local pick random input now d = Inr (rd, d')"
    and "recorded_purchase (ToUpper uni (TrimSpace (ri_code input))) (ri_user_id input) d = None"
  shows "\<exists>p. pv_purchase_preview pv = Some p \<and>
    (\<exists>v\<in>set (db_users d'). u_id v = ri_user_id input \<and> u_transfer_enable v = gp_transfer_after p \<and>
       u_expired_at v = gp_expires_after p) \<and>
    (\<exists>ord\<in>set (db_orders d'). o_trade_no ord = rd_order_trade_no rd \<and> o_user_id ord = ri_user_id input \<and>
       o_gift_card_code_id ord = Some (gc_id (pv_code pv)) \<and> o_status ord = OrderStatusCompleted \<and>
       o_total_amount ord = 0 \<and> o_commission_balance ord = 0 \<and> o_commission_status ord = 3 \<and>
       o_entitlement_before ord = gp_expires_before p \<and> o_entitlement_after ord = gp_expires_after p)"
proof -
  have check: "checkGiftCard loc local pick (ri_user_id input) (ToUpper uni (TrimSpace (ri_code input))) now d = Inr pv"
    using assms(1) by (auto simp: CheckGiftCard_def split: if_splits)
  show ?thesis
  proof (rule purchase_redeemed [OF assms(3,4) check assms(2)])
    fix u s p v ord
    assume u: "readGiftCardUser (ri_user_id input) d = Inr u" and p: "pv_purchase_preview pv = Some p"
      and v: "v \<in> set (db_users d')" "u_id v = ri_user_id input" "u_transfer_enable v = gp_transfer_after p"
      "u_expired_at v = gp_expires_after p" and ord: "ord \<in> set (db_orders d')"
      and row: "\<exists>i. ord = (purchase_order u (pv_code pv) s p (rd_order_trade_no rd) now)\<lparr>o_id := i\<rparr>"
    from row show ?thesis using readGiftCardUser_Inr(2) [OF u] p v ord
      by (intro exI [of _ p] conjI bexI [of _ v] bexI [of _ ord]) (auto simp: purchase_order_def new_order_def)
  qed
qed

theorem purchase_preview_honoured_witness:
  "\<exists>v\<in>set (db_users sample_purchased). u_id v = 2 \<and> u_transfer_enable v = 107374182400 \<and> u_expired_at v = Some 1702592000"
  using purchase_preview_honoured [OF sample_purchase_check _ sample_purchase sample_purchase_new]
  by (simp add: sample_purchase_preview_def sample_purchase_template_def sample_purchase_input_def sample_redeem_input_def)

text \<open>C30: Redeeming a purchase card again is harmless: when the same user repeats a redemption that succeeded, at whatever time,
  the store answers with the recorded use of the card and its order, changes nothing and reports no change of access.\<close>

theorem purchase_card_idempotent:
  assumes "RedeemGiftCard uni loc zone local pick random input now d = Inr (rd, d')" and "db_ok d"
    and "checkGiftCard loc local pick (ri_user_id input) (ToUpper uni (TrimSpace (ri_code input))) now d = Inr pv"
    and "gt_type (pv_template pv) = GiftCardTypePurchase"
    and "recorded_purchase (ToUpper uni (TrimSpace (ri_code input))) (ri_user_id input) d = None" and "0 \<le> unix now'"
  shows "\<exists>rd'. RedeemGiftCard uni loc zone' local' pick' random' input now' d' = Inr (rd', d') \<and> rd_changes rd' = [] \<and>
    gu_user_id (rd_usage rd') = ri_user_id input \<and> gu_code_id (rd_usage rd') = gu_code_id (rd_usage rd) \<and>
    rd_order_trade_no rd' = rd_order_trade_no rd"
proof (rule purchase_redeemed [OF assms(1,5,3,4)])
  fix u s p v ord
  let ?code = "ToUpper uni (TrimSpace (ri_code input))"
  assume ord: "ord \<in> set (db_orders d')" "\<exists>i. ord = (purchase_order u (pv_code pv) s p (rd_order_trade_no rd) now)\<lparr>o_id := i\<rparr>"
    and usage: "rd_usage rd \<in> set (db_gift_usages d')" "gu_user_id (rd_usage rd) = ri_user_id input"
    "gu_code_id (rd_usage rd) = gc_id (pv_code pv)"
  have o: "o_gift_card_code_id ord = Some (gc_id (pv_code pv))" "o_source ord = ''gift_card_purchase''"
    "o_trade_no ord = rd_order_trade_no rd"
    using ord(2) by (auto simp: purchase_order_def new_order_def)
  have "db_ok d'" by (rule history_ok [OF RedeemGiftCard_history [OF assms(1)] assms(2)])
  then have codes: "gift_codes_unique (db_gift_codes d')" and orders: "orders_unique (db_orders d')"
    by (simp_all add: db_ok_def gift_codes.holds_def orders.holds_def)
  obtain c' where c': "c' \<in> set (db_gift_codes d')" "gc_id c' = gc_id (pv_code pv)" "gc_code c' = ?code"
    by (rule redeemed_code [OF assms(1,5,3)])
  have hit: "exists_where (\<lambda>c. gc_id c = gu_code_id (rd_usage rd) \<and> gc_code c = ?code) (db_gift_codes d')"
    "exists_where (\<lambda>r. o_gift_card_code_id r = Some (gu_code_id (rd_usage rd)) \<and> o_source r = ''gift_card_purchase'') (db_orders d')"
    using c' usage ord(1) o by (auto simp: exists_where_iff)
  let ?P = "\<lambda>g. gu_user_id g = ri_user_id input \<and>
      exists_where (\<lambda>c. gc_id c = gu_code_id g \<and> gc_code c = ?code) (db_gift_codes d') \<and>
      exists_where (\<lambda>r. o_gift_card_code_id r = Some (gu_code_id g) \<and> o_source r = ''gift_card_purchase'') (db_orders d')"
  have "?P (rd_usage rd)" using usage(2) hit by blast
  from find_some [of "rd_usage rd" "db_gift_usages d'" ?P, OF usage(1) this]
  obtain g where g: "List.find ?P (db_gift_usages d') = Some g" .
  have inj: "r = c'" if "r \<in> set (db_gift_codes d')" "gc_code r = ?code" for r
    using codes that c' unfolding gift_codes_unique_def distinct_map by (metis inj_onD)
  have gp: "gu_user_id g = ri_user_id input" "gu_code_id g = gc_id (pv_code pv)"
    using find_eq_Some_set [OF g] c'(2) inj by (auto simp: exists_where_iff)
  have first: "List.find (\<lambda>r. o_gift_card_code_id r = Some (gu_code_id g)) (db_orders d') = Some ord"
    by (rule order_of_card [OF orders ord(1)]) (simp add: o gp)
  have rec: "recorded_purchase ?code (ri_user_id input) d' =
      Some \<lparr>rd_usage = g, rd_changes = [], rd_order_trade_no = rd_order_trade_no rd\<rparr>"
    unfolding recorded_purchase_def g by (simp add: first o)
  have "RedeemGiftCard uni loc zone' local' pick' random' input now' d' =
      Inr (\<lparr>rd_usage = g, rd_changes = [], rd_order_trade_no = rd_order_trade_no rd\<rparr>, d')"
    using assms(1,6) by (auto simp: RedeemGiftCard_def Let_def rec split: if_splits)
  then show ?thesis using gp usage by auto
qed

theorem purchase_card_idempotent_witness:
  "\<exists>rd'. RedeemGiftCard id sample_zone sample_zone sample_zone id 8 sample_purchase_input (sample_now + seconds 86400) sample_purchased
     = Inr (rd', sample_purchased) \<and> rd_order_trade_no rd' = ''2023111506132000000000007''"
proof -
  have "checkGiftCard sample_zone sample_zone id (ri_user_id sample_purchase_input)
      (ToUpper id (TrimSpace (ri_code sample_purchase_input))) sample_now sample_gift_db = Inr sample_purchase_preview"
    using sample_purchase_check by (auto simp: CheckGiftCard_def split: if_splits)
  moreover have "gt_type (pv_template sample_purchase_preview) = GiftCardTypePurchase"
    by (simp add: sample_purchase_preview_def sample_purchase_template_def)
  moreover have "0 \<le> unix (sample_now + seconds 86400)" by code_simp
  ultimately show ?thesis
    using purchase_card_idempotent [OF sample_purchase sample_gift_db_ok _ _ sample_purchase_new] by fastforce
qed



end
