(* ===== verification/Desk_Schema.thy ===== *)
theory Desk_Schema
  imports Commissions
begin

text \<open>
  The tables of the support desk beside those of the store: tickets and their messages
  (\<^verbatim>\<open>internal/store/sqlite.go\<close>), the ledger of commission withdrawals and its events
  (\<^verbatim>\<open>commission_withdrawals.go\<close>) and the audit log, with their constraints and triggers. A desk holds a
  store; the tables are further interpretations of the locale of tables.
\<close>

section \<open>Lengths of texts\<close>

text \<open>
  \<open>rune_tail\<close> is how many bytes follow the first one in the rune \<^verbatim>\<open>utf8.RuneCountInString\<close> reads, none for an
  invalid byte. SQLite's \<^verbatim>\<open>length\<close> stops at NUL and skips continuation bytes only after a lead byte.
\<close>

definition rune_tail :: "nat \<Rightarrow> nat list \<Rightarrow> nat" where
  "rune_tail a bs =
     (if 194 \<le> a \<and> a \<le> 223 \<and> utf8_bytes_valid (a # take 1 bs) then 1
      else if 224 \<le> a \<and> a \<le> 239 \<and> utf8_bytes_valid (a # take 2 bs) then 2
      else if 240 \<le> a \<and> a \<le> 244 \<and> utf8_bytes_valid (a # take 3 bs) then 3 else 0)"

function rune_count :: "nat list \<Rightarrow> nat" where
  "rune_count [] = 0"
| "rune_count (a # bs) = 1 + rune_count (drop (rune_tail a bs) bs)"
  by pat_completeness auto
termination by (relation "measure length") auto

definition RuneCountInString :: "string \<Rightarrow> nat" where
  "RuneCountInString s = rune_count (map byte s)"

function sqlite_count :: "nat list \<Rightarrow> nat" where
  "sqlite_count [] = 0"
| "sqlite_count (a # bs) =
     (if a = 0 then 0
      else 1 + sqlite_count (if a \<ge> 192 then dropWhile (\<lambda>b. 128 \<le> b \<and> b < 192) bs else bs))"
  by pat_completeness auto
termination by (relation "measure length") (auto simp: length_dropWhile_le less_Suc_eq_le)

definition sqlite_length :: "string \<Rightarrow> nat" where
  "sqlite_length s = sqlite_count (map byte s)"

section \<open>Rows\<close>

datatype ticket_status = TicketStatusOpen | TicketStatusClosed

datatype ticket_reply_status = TicketReplyWaiting | TicketReplyAnswered

record ticket =
  t_id :: int
  t_user_id :: int
  t_subject :: string
  t_level :: int
  t_status :: ticket_status
  t_reply_status :: ticket_reply_status
  t_last_reply_user_id :: int
  t_created_at :: int
  t_updated_at :: int

record ticket_message =
  tm_id :: int
  tm_ticket_id :: int
  tm_user_id :: int
  tm_message :: string
  tm_created_at :: int
  tm_updated_at :: int

record withdrawal =
  w_id :: int
  w_user_id :: int
  w_ticket_id :: int
  w_amount :: int
  w_status :: string
  w_request_key :: "string option"
  w_method :: string
  w_account :: string
  w_payment_reference :: string
  w_payment_reference_hash :: string
  w_anonymized_at :: "int option"
  w_created_at :: int
  w_updated_at :: int

record withdrawal_event =
  we_withdrawal_id :: int
  we_actor_id :: int
  we_status :: string
  we_available_delta :: int
  we_frozen_delta :: int
  we_paid_delta :: int
  we_created_at :: int

record audit_log =
  al_administrator_id :: int
  al_administrator_email :: string
  al_method :: string
  al_route :: string
  al_status_code :: int
  al_created_at :: int

record desk =
  dk_db :: db
  dk_tickets :: "ticket list"
  dk_messages :: "ticket_message list"
  dk_withdrawals :: "withdrawal list"
  dk_withdrawal_events :: "withdrawal_event list"
  dk_audit_logs :: "audit_log list"
  dk_ticket_must_wait_reply :: bool
  dk_withdraw_limit :: int
  dk_withdraw_methods :: "string list"
  dk_ticket_seq :: int
  dk_message_seq :: int

section \<open>Constraints\<close>

definition desk_users :: "desk \<Rightarrow> int list" where
  "desk_users k = map u_id (db_users (dk_db k))"

definition ticket_check :: "desk \<Rightarrow> ticket \<Rightarrow> bool" where
  "ticket_check k t \<longleftrightarrow>
     t_user_id t \<in> set (desk_users k) \<and> 1 \<le> sqlite_length (t_subject t) \<and> sqlite_length (t_subject t) \<le> 255 \<and>
     t_level t \<in> {0, 1, 2} \<and> t_last_reply_user_id t \<in> set (desk_users k)"

definition tickets_unique :: "ticket list \<Rightarrow> bool" where
  "tickets_unique rows \<longleftrightarrow>
     distinct (map t_id rows) \<and> distinct (map t_user_id (filter (\<lambda>t. t_status t = TicketStatusOpen) rows))"

definition message_check :: "desk \<Rightarrow> ticket_message \<Rightarrow> bool" where
  "message_check k m \<longleftrightarrow>
     tm_ticket_id m \<in> set (map t_id (dk_tickets k)) \<and> tm_user_id m \<in> set (desk_users k) \<and>
     1 \<le> sqlite_length (tm_message m) \<and> sqlite_length (tm_message m) \<le> 65536"

definition messages_unique :: "ticket_message list \<Rightarrow> bool" where
  "messages_unique rows \<longleftrightarrow> distinct (map tm_id rows)"

definition withdrawal_statuses :: "string list" where
  "withdrawal_statuses = [''pending'', ''approved'', ''paid'', ''rejected'']"

definition withdrawal_check :: "desk \<Rightarrow> withdrawal \<Rightarrow> bool" where
  "withdrawal_check k w \<longleftrightarrow>
     w_user_id w \<in> set (desk_users k) \<and> w_ticket_id w \<in> set (map t_id (dk_tickets k)) \<and>
     0 < w_amount w \<and> w_amount w \<le> maxOrderMoneyCents \<and> w_status w \<in> set withdrawal_statuses \<and>
     opt_all (\<lambda>key. 8 \<le> sqlite_length key \<and> sqlite_length key \<le> 128) (w_request_key w) \<and>
     1 \<le> sqlite_length (w_method w) \<and> sqlite_length (w_method w) \<le> 64 \<and>
     1 \<le> sqlite_length (w_account w) \<and> sqlite_length (w_account w) \<le> 512 \<and>
     sqlite_length (w_payment_reference w) \<le> 128 \<and>
     opt_all (\<lambda>t. w_updated_at w \<le> t) (w_anonymized_at w) \<and> 0 \<le> w_created_at w \<and> w_created_at w \<le> w_updated_at w \<and>
     (if w_status w = ''paid''
      then 0 < sqlite_length (w_payment_reference w) \<and> sqlite_length (w_payment_reference_hash w) = 64
      else w_payment_reference w = [] \<and> w_payment_reference_hash w = [])"

definition withdrawal_open :: "withdrawal \<Rightarrow> bool" where
  "withdrawal_open w \<longleftrightarrow> w_status w = ''pending'' \<or> w_status w = ''approved''"

text \<open>Request keys are unique per user; a null key differs from every other.\<close>

definition withdrawals_unique :: "withdrawal list \<Rightarrow> bool" where
  "withdrawals_unique rows \<longleftrightarrow>
     distinct (map w_id rows) \<and> distinct (map w_ticket_id rows) \<and>
     distinct (map (\<lambda>w. (w_user_id w, w_request_key w)) (filter (\<lambda>w. w_request_key w \<noteq> None) rows)) \<and>
     distinct (map w_user_id (filter withdrawal_open rows)) \<and>
     distinct (map (\<lambda>w. (w_method w, w_payment_reference_hash w)) (filter (\<lambda>w. w_status w = ''paid'') rows))"

definition withdrawal_event_check :: "desk \<Rightarrow> withdrawal_event \<Rightarrow> bool" where
  "withdrawal_event_check k e \<longleftrightarrow>
     we_withdrawal_id e \<in> set (map w_id (dk_withdrawals k)) \<and> we_actor_id e \<in> set (desk_users k) \<and> 0 \<le> we_created_at e \<and>
     we_available_delta e + we_frozen_delta e + we_paid_delta e = 0 \<and>
     (we_status e = ''pending'' \<and> we_available_delta e < 0 \<and> we_frozen_delta e = - we_available_delta e \<and> we_paid_delta e = 0 \<or>
      we_status e = ''approved'' \<and> we_available_delta e = 0 \<and> we_frozen_delta e = 0 \<and> we_paid_delta e = 0 \<or>
      we_status e = ''paid'' \<and> we_available_delta e = 0 \<and> we_frozen_delta e < 0 \<and> we_paid_delta e = - we_frozen_delta e \<or>
      we_status e = ''rejected'' \<and> we_available_delta e > 0 \<and> we_frozen_delta e = - we_available_delta e \<and> we_paid_delta e = 0)"

definition withdrawal_events_unique :: "withdrawal_event list \<Rightarrow> bool" where
  "withdrawal_events_unique rows \<longleftrightarrow> distinct (map (\<lambda>e. (we_withdrawal_id e, we_status e)) rows)"

definition isMutationMethod :: "string \<Rightarrow> bool" where
  "isMutationMethod meth \<longleftrightarrow> meth \<in> {''POST'', ''PUT'', ''PATCH'', ''DELETE''}"

definition audit_log_check :: "desk \<Rightarrow> audit_log \<Rightarrow> bool" where
  "audit_log_check k l \<longleftrightarrow>
     al_administrator_id l \<in> set (desk_users k) \<and> 1 \<le> sqlite_length (al_administrator_email l) \<and>
     sqlite_length (al_administrator_email l) \<le> 320 \<and> isMutationMethod (al_method l) \<and>
     1 \<le> sqlite_length (al_route l) \<and> sqlite_length (al_route l) \<le> 512 \<and> 100 \<le> al_status_code l \<and> al_status_code l \<le> 599"

text \<open>
  The triggers before an update of a withdrawal: its financial facts never change, its status follows the
  transitions, and account and receipt may only be anonymized, once, after the settlement.
\<close>

definition withdrawal_immutable :: "withdrawal \<Rightarrow> withdrawal \<Rightarrow> bool" where
  "withdrawal_immutable old new \<longleftrightarrow>
     w_user_id old = w_user_id new \<and> w_ticket_id old = w_ticket_id new \<and> w_amount old = w_amount new \<and>
     w_request_key old = w_request_key new \<and> w_method old = w_method new \<and> w_created_at old = w_created_at new"

definition withdrawal_settled :: "withdrawal \<Rightarrow> bool" where
  "withdrawal_settled w \<longleftrightarrow> w_status w = ''paid'' \<or> w_status w = ''rejected''"

definition withdrawal_account_guard :: "withdrawal \<Rightarrow> withdrawal \<Rightarrow> bool" where
  "withdrawal_account_guard old new \<longleftrightarrow>
     (w_account old = w_account new \<and> w_anonymized_at old = w_anonymized_at new \<and>
      \<not> (w_status old = ''paid'' \<and> w_payment_reference old \<noteq> w_payment_reference new)) \<or>
     (w_anonymized_at old = None \<and> w_anonymized_at new \<noteq> None \<and> withdrawal_settled old \<and> w_status old = w_status new \<and>
      w_account new = ''[anonymized]'' \<and>
      w_payment_reference new = (if w_status old = ''paid'' then ''[anonymized]'' else []))"

definition withdrawal_transition :: "withdrawal \<Rightarrow> withdrawal \<Rightarrow> bool" where
  "withdrawal_transition old new \<longleftrightarrow>
     (w_status old = ''pending'' \<and> (w_status new = ''approved'' \<or> w_status new = ''rejected'')) \<or>
     (w_status old = ''approved'' \<and> (w_status new = ''paid'' \<or> w_status new = ''rejected'')) \<or>
     (withdrawal_settled old \<and> w_status new = w_status old \<and> w_anonymized_at old = None \<and> w_anonymized_at new \<noteq> None)"

definition withdrawal_receipt_guard :: "withdrawal \<Rightarrow> withdrawal \<Rightarrow> bool" where
  "withdrawal_receipt_guard old new \<longleftrightarrow>
     \<not> (w_status old = ''paid'' \<and> w_payment_reference_hash old \<noteq> w_payment_reference_hash new)"

definition withdrawal_guard :: "withdrawal \<Rightarrow> withdrawal \<Rightarrow> bool" where
  "withdrawal_guard old new \<longleftrightarrow>
     withdrawal_immutable old new \<and> withdrawal_account_guard old new \<and> withdrawal_transition old new \<and>
     withdrawal_receipt_guard old new"

section \<open>Tables\<close>

definition put_tickets :: "ticket list \<Rightarrow> desk \<Rightarrow> desk" where
  "put_tickets rs k = k\<lparr>dk_tickets := rs\<rparr>"

definition put_messages :: "ticket_message list \<Rightarrow> desk \<Rightarrow> desk" where
  "put_messages rs k = k\<lparr>dk_messages := rs\<rparr>"

definition put_withdrawals :: "withdrawal list \<Rightarrow> desk \<Rightarrow> desk" where
  "put_withdrawals rs k = k\<lparr>dk_withdrawals := rs\<rparr>"

definition put_withdrawal_events :: "withdrawal_event list \<Rightarrow> desk \<Rightarrow> desk" where
  "put_withdrawal_events rs k = k\<lparr>dk_withdrawal_events := rs\<rparr>"

definition put_audit_logs :: "audit_log list \<Rightarrow> desk \<Rightarrow> desk" where
  "put_audit_logs rs k = k\<lparr>dk_audit_logs := rs\<rparr>"

lemmas desk_put_defs = put_tickets_def put_messages_def put_withdrawals_def put_withdrawal_events_def put_audit_logs_def

lemmas desk_check_defs = ticket_check_def message_check_def withdrawal_check_def withdrawal_event_check_def
  audit_log_check_def desk_users_def

interpretation tickets: db_table dk_tickets put_tickets ticket_check tickets_unique
  by unfold_locales (simp_all add: desk_put_defs desk_check_defs tickets_unique_def fun_eq_iff)

interpretation messages: db_table dk_messages put_messages message_check messages_unique
  by unfold_locales (simp_all add: desk_put_defs desk_check_defs messages_unique_def fun_eq_iff)

interpretation withdrawals: db_table dk_withdrawals put_withdrawals withdrawal_check withdrawals_unique
  by unfold_locales (simp_all add: desk_put_defs desk_check_defs withdrawals_unique_def fun_eq_iff)

interpretation withdrawal_events:
  db_table dk_withdrawal_events put_withdrawal_events withdrawal_event_check withdrawal_events_unique
  by unfold_locales (simp_all add: desk_put_defs desk_check_defs withdrawal_events_unique_def fun_eq_iff)

interpretation audit_logs: db_table dk_audit_logs put_audit_logs audit_log_check "\<lambda>_. True"
  by unfold_locales (simp_all add: desk_put_defs desk_check_defs fun_eq_iff)

section \<open>Statements\<close>

definition update_desk_users :: "(user \<Rightarrow> bool) \<Rightarrow> (user \<Rightarrow> user) \<Rightarrow> desk \<Rightarrow> store_error + desk" where
  "update_desk_users p f k = ebind (update_users p f (dk_db k)) (\<lambda>d. Inr (k\<lparr>dk_db := d\<rparr>))"

definition update_tickets :: "(ticket \<Rightarrow> bool) \<Rightarrow> (ticket \<Rightarrow> ticket) \<Rightarrow> desk \<Rightarrow> store_error + desk" where
  "update_tickets = exec_update dk_tickets put_tickets ticket_check tickets_unique"

definition insert_ticket :: "ticket \<Rightarrow> desk \<Rightarrow> store_error + int \<times> desk" where
  "insert_ticket t k =
     (if dk_ticket_seq k = max_i64 then Inl ErrDatabase else
      ebind (exec_insert dk_tickets put_tickets ticket_check tickets_unique (t\<lparr>t_id := dk_ticket_seq k + 1\<rparr>) k)
        (\<lambda>k'. Inr (dk_ticket_seq k + 1, k'\<lparr>dk_ticket_seq := dk_ticket_seq k + 1\<rparr>)))"

definition insert_message :: "ticket_message \<Rightarrow> desk \<Rightarrow> store_error + int \<times> desk" where
  "insert_message m k =
     (if dk_message_seq k = max_i64 then Inl ErrDatabase else
      ebind (exec_insert dk_messages put_messages message_check messages_unique (m\<lparr>tm_id := dk_message_seq k + 1\<rparr>) k)
        (\<lambda>k'. Inr (dk_message_seq k + 1, k'\<lparr>dk_message_seq := dk_message_seq k + 1\<rparr>)))"

definition update_withdrawals :: "(withdrawal \<Rightarrow> bool) \<Rightarrow> (withdrawal \<Rightarrow> withdrawal) \<Rightarrow> desk \<Rightarrow> store_error + desk" where
  "update_withdrawals p f k =
     (if list_all (\<lambda>w. p w \<longrightarrow> withdrawal_guard w (f w)) (dk_withdrawals k)
      then exec_update dk_withdrawals put_withdrawals withdrawal_check withdrawals_unique p f k else Inl ErrDatabase)"

text \<open>The id of a withdrawal is a plain row id: one more than the largest.\<close>

definition insert_withdrawal :: "withdrawal \<Rightarrow> desk \<Rightarrow> store_error + int \<times> desk" where
  "insert_withdrawal w k =
     (let i = coalesce_max 0 (map w_id (dk_withdrawals k)) + 1 in
      ebind (exec_insert dk_withdrawals put_withdrawals withdrawal_check withdrawals_unique (w\<lparr>w_id := i\<rparr>) k)
        (\<lambda>k'. Inr (i, k')))"

definition insert_withdrawal_event :: "withdrawal_event \<Rightarrow> desk \<Rightarrow> store_error + desk" where
  "insert_withdrawal_event =
     exec_insert dk_withdrawal_events put_withdrawal_events withdrawal_event_check withdrawal_events_unique"

definition insert_audit_log :: "audit_log \<Rightarrow> desk \<Rightarrow> store_error + desk" where
  "insert_audit_log = exec_insert dk_audit_logs put_audit_logs audit_log_check (\<lambda>_. True)"

end
