(* ===== verification/Tickets.thy ===== *)
theory Tickets
  imports Desk_Schema
begin

text \<open>
  Support tickets (\<^verbatim>\<open>internal/store/tickets.go\<close>): opening a ticket, replying as its user or as an
  administrator, closing it, closing stale answered tickets, and the views and listings. The outboxes are
  arguments: \<open>notify\<close> is \<^verbatim>\<open>enqueueTelegramTicketNotificationTx\<close> and \<open>mail\<close> is \<^verbatim>\<open>enqueueTicketMailTx\<close>; either may
  fail, and the transaction with it.
\<close>

section \<open>Inputs\<close>

type_synonym ticket_notify = "int \<Rightarrow> int \<Rightarrow> int \<Rightarrow> string \<Rightarrow> string \<Rightarrow> string \<Rightarrow> instant \<Rightarrow> store_error + unit"

type_synonym ticket_mail = "int \<Rightarrow> int \<Rightarrow> instant \<Rightarrow> store_error + unit"

record save_ticket_input =
  ti_subject :: string
  ti_level :: int
  ti_message :: string
  ti_notification_location :: string

definition maxTicketMessageBytes :: nat where
  "maxTicketMessageBytes = 65536"

definition maxTicketMessages :: nat where
  "maxTicketMessages = 1000"

definition maxTicketCloseBatch :: int where
  "maxTicketCloseBatch = 1000"

text \<open>A byte below 128 always stands for itself, also in text that is not valid UTF-8.\<close>

definition containsUnsafeTicketControl :: "string \<Rightarrow> bool \<Rightarrow> bool" where
  "containsUnsafeTicketControl value allowWhitespace =
     list_ex (\<lambda>ch. if byte ch \<in> {9, 10, 13} then \<not> allowWhitespace else byte ch < 32 \<or> byte ch = 127) value"

definition validTicketSubject :: "string \<Rightarrow> bool" where
  "validTicketSubject value =
     (let cnt = RuneCountInString value in cnt > 0 \<and> cnt \<le> 255 \<and> \<not> containsUnsafeTicketControl value False)"

definition validTicketMessage :: "string \<Rightarrow> bool" where
  "validTicketMessage value =
     (value \<noteq> [] \<and> length value \<le> maxTicketMessageBytes \<and> \<not> containsUnsafeTicketControl value True)"

definition validTicketLevel :: "int \<Rightarrow> bool" where
  "validTicketLevel level = (level \<ge> 0 \<and> level \<le> 2)"

text \<open>The location an empty one stands for, \<^verbatim>\<open>U+672A U+77E5\<close>.\<close>

definition unknown_location :: string where
  "unknown_location = map char_of [230, 156, 170, 231, 159, 165 :: nat]"

definition normalizeTelegramNotificationLocation :: "string \<Rightarrow> string \<times> bool" where
  "normalizeTelegramNotificationLocation raw =
     (let value = TrimSpace raw in
      if value = [] then (unknown_location, True)
      else if \<not> ValidString value \<or> length value > 512 \<or> list_ex (\<lambda>ch. byte ch = 0) value then ([], False)
      else if has_control value then ([], False) else (value, True))"

section \<open>Views\<close>

record commission_withdrawal =
  cw_id :: int
  cw_user_id :: int
  cw_ticket_id :: int
  cw_amount :: int
  cw_status :: string
  cw_method :: string
  cw_account :: string
  cw_payment_reference :: string
  cw_created_at :: int
  cw_updated_at :: int

text \<open>A ticket as the API shows it; each message says whether the viewer wrote it.\<close>

record ticket_view =
  tv_withdrawal :: "commission_withdrawal option"
  tv_ticket :: ticket
  tv_user_email :: string
  tv_messages :: "(bool \<times> ticket_message) list"

definition scanCommissionWithdrawal :: "withdrawal \<Rightarrow> commission_withdrawal" where
  "scanCommissionWithdrawal w =
     \<lparr>cw_id = w_id w, cw_user_id = w_user_id w, cw_ticket_id = w_ticket_id w, cw_amount = w_amount w,
      cw_status = w_status w, cw_method = w_method w, cw_account = w_account w,
      cw_payment_reference = w_payment_reference w, cw_created_at = w_created_at w, cw_updated_at = w_updated_at w\<rparr>"

definition scanTicket :: "string \<Rightarrow> ticket \<Rightarrow> ticket_view" where
  "scanTicket email t = \<lparr>tv_withdrawal = None, tv_ticket = t, tv_user_email = email, tv_messages = []\<rparr>"

definition loadTicketWithdrawal :: "ticket_view \<Rightarrow> desk \<Rightarrow> ticket_view" where
  "loadTicketWithdrawal v k =
     (case List.find (\<lambda>w. w_ticket_id w = t_id (tv_ticket v) \<and> w_user_id w = t_user_id (tv_ticket v)) (dk_withdrawals k) of
        None \<Rightarrow> v
      | Some w \<Rightarrow> v\<lparr>tv_withdrawal := Some (scanCommissionWithdrawal w)\<rparr>)"

definition loadTicketMessages :: "ticket_view \<Rightarrow> int \<Rightarrow> desk \<Rightarrow> ticket_view" where
  "loadTicketMessages v viewerUserID k =
     v\<lparr>tv_messages := map (\<lambda>m. (tm_user_id m = viewerUserID, m))
        (order_by tm_id (filter (\<lambda>m. tm_ticket_id m = t_id (tv_ticket v)) (dk_messages k)))\<rparr>"

definition getTicketTx :: "int \<Rightarrow> bool \<Rightarrow> desk \<Rightarrow> store_error + ticket_view" where
  "getTicketTx ticketID includeEmail k =
     ebind (of_option ErrDatabase (List.find (\<lambda>t. t_id t = ticketID) (dk_tickets k))) (\<lambda>t.
     ebind (if includeEmail
            then ebind (of_option ErrDatabase (List.find (\<lambda>u. u_id u = t_user_id t) (db_users (dk_db k)))) (\<lambda>u.
                 Inr (scanTicket (u_email u) t))
            else Inr (scanTicket [] t)) (\<lambda>v.
     Inr (loadTicketWithdrawal v k)))"

definition GetUserTicket :: "int \<Rightarrow> int \<Rightarrow> desk \<Rightarrow> store_error + ticket_view" where
  "GetUserTicket userID ticketID k =
     (if userID < 1 \<or> ticketID < 1 then Inl ErrInvalidInput else
      ebind (of_option ErrNotFound
        (List.find (\<lambda>t. t_id t = ticketID \<and> t_user_id t = userID) (dk_tickets k))) (\<lambda>t.
      Inr (loadTicketWithdrawal (loadTicketMessages (scanTicket [] t) userID k) k)))"

definition GetAdminTicket :: "int \<Rightarrow> desk \<Rightarrow> store_error + ticket_view" where
  "GetAdminTicket ticketID k =
     (if ticketID < 1 then Inl ErrInvalidInput else
      ebind (of_option ErrNotFound (List.find (\<lambda>t. t_id t = ticketID) (dk_tickets k))) (\<lambda>t.
      ebind (of_option ErrNotFound
        (List.find (\<lambda>u. u_id u = t_user_id t \<and> u_account_kind u = AccountKindHuman) (db_users (dk_db k)))) (\<lambda>u.
      Inr (loadTicketWithdrawal (loadTicketMessages (scanTicket (u_email u) t) (t_user_id t) k) k))))"

section \<open>Listings\<close>

record ticket_filter =
  tf_page :: int
  tf_page_size :: int
  tf_status :: "int option"
  tf_reply_status :: "int option"
  tf_level :: "int option"
  tf_query :: string

record ticket_page =
  tp_items :: "ticket_view list"
  tp_total :: int
  tp_page :: int
  tp_page_size :: int

definition ticket_status_code :: "ticket_status \<Rightarrow> int" where
  "ticket_status_code s = (case s of TicketStatusOpen \<Rightarrow> 0 | TicketStatusClosed \<Rightarrow> 1)"

definition ticket_reply_code :: "ticket_reply_status \<Rightarrow> int" where
  "ticket_reply_code s = (case s of TicketReplyWaiting \<Rightarrow> 0 | TicketReplyAnswered \<Rightarrow> 1)"

definition validTicketStatus :: "int \<Rightarrow> bool" where
  "validTicketStatus status = (status \<ge> 0 \<and> status \<le> 1)"

definition validTicketReplyStatus :: "int \<Rightarrow> bool" where
  "validTicketReplyStatus status = (status \<ge> 0 \<and> status \<le> 1)"

definition validTicketFilter :: "ticket_filter \<Rightarrow> bool" where
  "validTicketFilter fl =
     (length (tf_query fl) \<le> 320 \<and> opt_all validTicketStatus (tf_status fl) \<and>
      opt_all validTicketReplyStatus (tf_reply_status fl) \<and> opt_all validTicketLevel (tf_level fl))"

definition normalizeTicketPage :: "int \<Rightarrow> int \<Rightarrow> store_error + int \<times> int \<times> int" where
  "normalizeTicketPage page0 size0 =
     (let page = (if page0 = 0 then 1 else page0); pageSize = (if size0 = 0 then 20 else size0) in
      if page < 1 \<or> pageSize < 1 \<or> pageSize > 100 \<or> i64 (page - 1) > max_i64 sdiv pageSize then Inl ErrInvalidInput
      else Inr (page, pageSize, i64 (i64 (page - 1) * pageSize)))"

text \<open>\<^verbatim>\<open>LIMIT n OFFSET k\<close>.\<close>

definition page_of :: "int \<Rightarrow> int \<Rightarrow> 'r list \<Rightarrow> 'r list" where
  "page_of limit offset rows = take (nat limit) (drop (nat offset) rows)"

definition ListUserTickets :: "int \<Rightarrow> int \<Rightarrow> int \<Rightarrow> desk \<Rightarrow> store_error + ticket_page" where
  "ListUserTickets userID page0 size0 k =
     (case normalizeTicketPage page0 size0 of
        Inl _ \<Rightarrow> Inl ErrInvalidInput
      | Inr (page, pageSize, offset) \<Rightarrow>
          if userID < 1 then Inl ErrInvalidInput else
          let own = filter (\<lambda>t. t_user_id t = userID) (dk_tickets k) in
          Inr \<lparr>tp_items = map (scanTicket []) (page_of pageSize offset (rev (order_by t_created_at own))),
               tp_total = int (length own), tp_page = page, tp_page_size = pageSize\<rparr>)"

text \<open>
  Each \<^verbatim>\<open>strings.ReplaceAll\<close> replaces one byte. The operator \<^verbatim>\<open>LIKE\<close> of SQLite, with the backslash as escape,
  is the argument \<open>like\<close> of the pattern and the text.
\<close>

definition escape_byte :: "char \<Rightarrow> string \<Rightarrow> string" where
  "escape_byte c s = concat (map (\<lambda>ch. if ch = c then [char_of (92 :: nat), ch] else [ch]) s)"

definition escapeLike :: "string \<Rightarrow> string" where
  "escapeLike value = escape_byte (CHR ''_'') (escape_byte (CHR ''%'') (escape_byte (char_of (92 :: nat)) value))"

definition ticket_matches :: "(string \<Rightarrow> string \<Rightarrow> bool) \<Rightarrow> ticket_filter \<Rightarrow> string \<Rightarrow> ticket \<times> user \<Rightarrow> bool" where
  "ticket_matches like fl query = (\<lambda>(t, u).
     u_account_kind u = AccountKindHuman \<and>
     opt_all (\<lambda>s. ticket_status_code (t_status t) = s) (tf_status fl) \<and>
     opt_all (\<lambda>s. ticket_reply_code (t_reply_status t) = s) (tf_reply_status fl) \<and>
     opt_all (\<lambda>l. t_level t = l) (tf_level fl) \<and>
     (query = [] \<or>
      like (''%'' @ escapeLike query @ ''%'') (map ascii_lower (t_subject t)) \<or>
      like (''%'' @ escapeLike query @ ''%'') (map ascii_lower (u_email u))))"

definition tickets_with_users :: "desk \<Rightarrow> (ticket \<times> user) list" where
  "tickets_with_users k =
     concat (map (\<lambda>t. map (Pair t) (filter (\<lambda>u. u_id u = t_user_id t) (db_users (dk_db k)))) (dk_tickets k))"

definition ListAdminTickets ::
  "(string \<Rightarrow> string) \<Rightarrow> (string \<Rightarrow> string \<Rightarrow> bool) \<Rightarrow> ticket_filter \<Rightarrow> desk \<Rightarrow> store_error + ticket_page" where
  "ListAdminTickets uni like fl k =
     (case normalizeTicketPage (tf_page fl) (tf_page_size fl) of
        Inl _ \<Rightarrow> Inl ErrInvalidInput
      | Inr (page, pageSize, offset) \<Rightarrow>
          if \<not> validTicketFilter fl then Inl ErrInvalidInput else
          let query = ToLower uni (TrimSpace (tf_query fl));
              found = filter (ticket_matches like fl query) (tickets_with_users k) in
          Inr \<lparr>tp_items = map (\<lambda>(t, u). scanTicket (u_email u) t)
                 (page_of pageSize offset (rev (order_by (\<lambda>(t, u). t_updated_at t) found))),
               tp_total = int (length found), tp_page = page, tp_page_size = pageSize\<rparr>)"

section \<open>Opening a ticket\<close>

text \<open>The insertion of a ticket tells a violated unique key from the other failures.\<close>

definition insert_open_ticket :: "ticket \<Rightarrow> desk \<Rightarrow> store_error + int \<times> desk" where
  "insert_open_ticket t k =
     map_error (\<lambda>e. if tickets_unique (dk_tickets k @ [t\<lparr>t_id := dk_ticket_seq k + 1\<rparr>]) then e else ErrOpenTicketExists)
       (insert_ticket t k)"

definition createTicketTx ::
  "ticket_notify \<Rightarrow> int \<Rightarrow> save_ticket_input \<Rightarrow> instant \<Rightarrow> desk \<Rightarrow> store_error + ticket_view \<times> desk" where
  "createTicketTx notify userID inp now k =
     (if exists_where (\<lambda>t. t_user_id t = userID \<and> t_status t = TicketStatusOpen) (dk_tickets k)
      then Inl ErrOpenTicketExists else
      ebind (insert_open_ticket
        \<lparr>t_id = 0, t_user_id = userID, t_subject = ti_subject inp, t_level = ti_level inp, t_status = TicketStatusOpen,
         t_reply_status = TicketReplyWaiting, t_last_reply_user_id = userID, t_created_at = unix now,
         t_updated_at = unix now\<rparr> k) (\<lambda>(ticketID, k1).
      ebind (insert_message
        \<lparr>tm_id = 0, tm_ticket_id = ticketID, tm_user_id = userID, tm_message = ti_message inp, tm_created_at = unix now,
         tm_updated_at = unix now\<rparr> k1) (\<lambda>(messageID, k2).
      ebind (getTicketTx ticketID False k2) (\<lambda>v.
      ebind (notify userID ticketID messageID (ti_subject inp) (ti_message inp) (ti_notification_location inp) now) (\<lambda>_.
      Inr (v, k2))))))"

definition CreateTicket ::
  "ticket_notify \<Rightarrow> int \<Rightarrow> save_ticket_input \<Rightarrow> instant \<Rightarrow> desk \<Rightarrow> store_error + ticket_view \<times> desk" where
  "CreateTicket notify userID raw now k =
     (let inp = raw\<lparr>ti_subject := TrimSpace (ti_subject raw), ti_message := TrimSpace (ti_message raw)\<rparr> in
      case normalizeTelegramNotificationLocation (ti_notification_location raw) of (location, validLocation) \<Rightarrow>
      if userID < 1 \<or> \<not> validTicketSubject (ti_subject inp) \<or> \<not> validTicketLevel (ti_level inp) \<or>
         \<not> validTicketMessage (ti_message inp) \<or> \<not> validLocation then Inl ErrInvalidInput else
      createTicketTx notify userID (inp\<lparr>ti_notification_location := location\<rparr>) now k)"

section \<open>Replies\<close>

definition replyTicketTx ::
  "ticket_notify \<Rightarrow> ticket_mail \<Rightarrow> int \<Rightarrow> int \<Rightarrow> int \<Rightarrow> bool \<Rightarrow> string \<Rightarrow> string \<Rightarrow> instant \<Rightarrow> desk \<Rightarrow>
   store_error + ticket_view \<times> desk" where
  "replyTicketTx notify mail ownerID ticketID authorID requireOpen message location now k =
     ebind (of_option ErrNotFound (List.find (\<lambda>t. t_id t = ticketID \<and> (ownerID > 0 \<longrightarrow> t_user_id t = ownerID)) (dk_tickets k))) (\<lambda>t.
     if requireOpen \<and> t_status t = TicketStatusClosed then Inl ErrTicketClosed
     else if requireOpen \<and> t_last_reply_user_id t = t_user_id t \<and> dk_ticket_must_wait_reply k then Inl ErrTicketReplyPending
     else if count_where (\<lambda>m. tm_ticket_id m = ticketID) (dk_messages k) \<ge> maxTicketMessages then Inl ErrTicketMessageLimit else
     ebind (insert_message
       \<lparr>tm_id = 0, tm_ticket_id = ticketID, tm_user_id = authorID, tm_message = message, tm_created_at = unix now,
        tm_updated_at = unix now\<rparr> k) (\<lambda>(messageID, k1).
     let replyStatus = (if authorID \<noteq> t_user_id t then TicketReplyAnswered else TicketReplyWaiting) in
     ebind (update_tickets (\<lambda>r. t_id r = ticketID)
       (\<lambda>r. r\<lparr>t_reply_status := replyStatus, t_last_reply_user_id := authorID, t_updated_at := unix now\<rparr>) k1) (\<lambda>k2.
     ebind (if authorID \<noteq> t_user_id t then mail (t_user_id t) messageID now else Inr ()) (\<lambda>_.
     ebind (getTicketTx ticketID False k2) (\<lambda>v.
     ebind (if requireOpen then notify (t_user_id t) (t_id t) messageID (t_subject t) message location now else Inr ()) (\<lambda>_.
     Inr (v, k2)))))))"

definition replyTicket ::
  "ticket_notify \<Rightarrow> ticket_mail \<Rightarrow> int \<Rightarrow> int \<Rightarrow> int \<Rightarrow> bool \<Rightarrow> string \<Rightarrow> string \<Rightarrow> instant \<Rightarrow> desk \<Rightarrow>
   store_error + ticket_view \<times> desk" where
  "replyTicket notify mail ownerID ticketID authorID requireOpen raw rawLocation now k =
     (let message = TrimSpace raw in
      case normalizeTelegramNotificationLocation rawLocation of (location, validLocation) \<Rightarrow>
      if ticketID < 1 \<or> authorID < 1 \<or> ownerID < 1 \<and> requireOpen \<or> \<not> validTicketMessage message \<or> \<not> validLocation
      then Inl ErrInvalidInput
      else replyTicketTx notify mail ownerID ticketID authorID requireOpen message location now k)"

definition ReplyTicketAsUserWithNotificationLocation ::
  "ticket_notify \<Rightarrow> ticket_mail \<Rightarrow> int \<Rightarrow> int \<Rightarrow> string \<Rightarrow> string \<Rightarrow> instant \<Rightarrow> desk \<Rightarrow> store_error + ticket_view \<times> desk" where
  "ReplyTicketAsUserWithNotificationLocation notify mail userID ticketID message location now k =
     replyTicket notify mail userID ticketID userID True message location now k"

definition ReplyTicketAsUser ::
  "ticket_notify \<Rightarrow> ticket_mail \<Rightarrow> int \<Rightarrow> int \<Rightarrow> string \<Rightarrow> instant \<Rightarrow> desk \<Rightarrow> store_error + ticket_view \<times> desk" where
  "ReplyTicketAsUser notify mail userID ticketID message now k =
     ReplyTicketAsUserWithNotificationLocation notify mail userID ticketID message [] now k"

definition ReplyTicketAsAdmin ::
  "ticket_notify \<Rightarrow> ticket_mail \<Rightarrow> int \<Rightarrow> int \<Rightarrow> string \<Rightarrow> instant \<Rightarrow> desk \<Rightarrow> store_error + ticket_view \<times> desk" where
  "ReplyTicketAsAdmin notify mail adminID ticketID message now k =
     replyTicket notify mail 0 ticketID adminID False message [] now k"

section \<open>Closing\<close>

definition closeTicket :: "int \<Rightarrow> int \<Rightarrow> instant \<Rightarrow> desk \<Rightarrow> store_error + ticket_view \<times> desk" where
  "closeTicket ticketID ownerID now k =
     (if ticketID < 1 \<or> ownerID < 0 then Inl ErrInvalidInput else
      ebind (of_option ErrNotFound (List.find (\<lambda>t. t_id t = ticketID \<and> (ownerID > 0 \<longrightarrow> t_user_id t = ownerID)) (dk_tickets k))) (\<lambda>t.
      ebind (if t_status t = TicketStatusOpen
             then update_tickets (\<lambda>r. t_id r = ticketID \<and> t_status r = TicketStatusOpen)
                    (\<lambda>r. r\<lparr>t_status := TicketStatusClosed, t_updated_at := unix now\<rparr>) k
             else Inr k) (\<lambda>k1.
      ebind (getTicketTx ticketID False k1) (\<lambda>v.
      Inr (v, k1)))))"

definition CloseTicketAsUser :: "int \<Rightarrow> int \<Rightarrow> instant \<Rightarrow> desk \<Rightarrow> store_error + ticket_view \<times> desk" where
  "CloseTicketAsUser userID ticketID now k = closeTicket ticketID userID now k"

definition CloseTicketAsAdmin :: "int \<Rightarrow> instant \<Rightarrow> desk \<Rightarrow> store_error + ticket_view \<times> desk" where
  "CloseTicketAsAdmin ticketID now k = closeTicket ticketID 0 now k"

definition stale_answered :: "instant \<Rightarrow> ticket \<Rightarrow> bool" where
  "stale_answered cutoff t \<longleftrightarrow>
     t_status t = TicketStatusOpen \<and> t_reply_status t = TicketReplyAnswered \<and>
     t_last_reply_user_id t \<noteq> t_user_id t \<and> t_updated_at t \<le> unix cutoff"

definition CloseStaleAnsweredTickets :: "instant \<Rightarrow> instant \<Rightarrow> int \<Rightarrow> desk \<Rightarrow> store_error + int \<times> desk" where
  "CloseStaleAnsweredTickets cutoff now limit k =
     (if limit < 1 \<or> limit > maxTicketCloseBatch then Inl ErrInvalidInput else
      let batch = map t_id (take (nat limit) (order_by t_updated_at (filter (stale_answered cutoff) (dk_tickets k))));
          due = (\<lambda>t. t_id t \<in> set batch \<and> stale_answered cutoff t) in
      ebind (update_tickets due (\<lambda>t. t\<lparr>t_status := TicketStatusClosed, t_updated_at := unix now\<rparr>) k) (\<lambda>k1.
      Inr (int (count_where due (dk_tickets k)), k1)))"

end
