(* ===== verification/Withdrawals.thy ===== *)
theory Withdrawals
  imports Tickets
begin

text \<open>
  Withdrawals of commission (\<^verbatim>\<open>internal/store/tickets.go\<close>, \<^verbatim>\<open>commission_withdrawals.go\<close>): a request freezes the whole
  commission balance of a user behind a ticket, an administrator approves, pays or rejects it, and each change of
  state is an event of the ledger. The argument \<open>digest\<close> is \<^verbatim>\<open>sha256.Sum256\<close> printed in hexadecimal; \<open>upper\<close> and
  \<open>lower\<close> are the Unicode tables.
\<close>

section \<open>Inputs\<close>

record commission_withdrawal_input =
  wi_request_key :: string
  wi_method :: string
  wi_account :: string
  wi_notification_location :: string

record withdrawal_transition_input =
  wt_status :: string
  wt_payment_reference :: string

definition maxWithdrawalAccountBytes :: nat where
  "maxWithdrawalAccountBytes = 512"

definition commissionWithdrawalSubject :: string where
  "commissionWithdrawalSubject = ''['' @
     map char_of [230, 143, 144, 231, 142, 176, 231, 148, 179, 232, 175, 183 :: nat] @ ''] '' @
     map char_of [230, 156, 172, 229, 183, 165, 229, 141, 149, 231, 148, 177, 231, 179, 187, 231, 187, 159,
       229, 143, 145, 229, 135, 186 :: nat]"

text \<open>The two labels of the message are written in Chinese.\<close>

definition withdrawal_message :: "string \<Rightarrow> string \<Rightarrow> string" where
  "withdrawal_message meth account =
     map char_of [230, 143, 144, 231, 142, 176, 230, 150, 185, 229, 188, 143, 239, 188, 154 :: nat] @ meth @
     map char_of [13, 10, 230, 143, 144, 231, 142, 176, 232, 180, 166, 229, 143, 183, 239, 188, 154 :: nat] @ account"

definition validWithdrawalField :: "string \<Rightarrow> nat \<Rightarrow> bool" where
  "validWithdrawalField value maximumBytes =
     (value \<noteq> [] \<and> length value \<le> maximumBytes \<and> \<not> containsUnsafeTicketControl value False)"

definition request_key_char :: "char \<Rightarrow> bool" where
  "request_key_char ch \<longleftrightarrow>
     97 \<le> byte ch \<and> byte ch \<le> 122 \<or> 65 \<le> byte ch \<and> byte ch \<le> 90 \<or> is_digit ch \<or> ch = CHR ''-'' \<or> ch = CHR ''_''"

definition validWithdrawalRequestKey :: "string \<Rightarrow> bool" where
  "validWithdrawalRequestKey value =
     (value = [] \<or> 8 \<le> length value \<and> length value \<le> 128 \<and> list_all request_key_char value)"

definition validCommissionWithdrawMethods :: "string list \<Rightarrow> bool" where
  "validCommissionWithdrawMethods methods =
     (length methods \<le> 32 \<and>
      list_all (\<lambda>m. m \<noteq> [] \<and> m = TrimSpace m \<and> length m \<le> 64 \<and> \<not> list_ex (\<lambda>ch. byte ch = 0) m) methods)"

section \<open>The audit log\<close>

record admin_audit_input =
  aa_administrator_id :: int
  aa_administrator_email :: string
  aa_method :: string
  aa_route :: string
  aa_status_code :: int

definition has_prefix :: "string \<Rightarrow> string \<Rightarrow> bool" where
  "has_prefix s p \<longleftrightarrow> take (length p) s = p"

definition insertAdminAudit ::
  "(string \<Rightarrow> string) \<Rightarrow> (string \<Rightarrow> string) \<Rightarrow> admin_audit_input \<Rightarrow> instant \<Rightarrow> desk \<Rightarrow> store_error + desk" where
  "insertAdminAudit upper lower raw now k =
     (let email = ToLower lower (TrimSpace (aa_administrator_email raw));
          meth = ToUpper upper (TrimSpace (aa_method raw));
          route = TrimSpace (aa_route raw);
          validRoute = has_prefix route ''/api/v1/admin/'' \<or> has_prefix route ''/api/v2/{secure_admin}/'' in
      if aa_administrator_id raw < 1 \<or> email = [] \<or> length email > 320 \<or> \<not> isMutationMethod meth \<or> \<not> validRoute \<or>
         length route > 512 \<or> list_ex (\<lambda>ch. byte ch \<in> {13, 10, 0}) route \<or> aa_status_code raw < 100 \<or>
         aa_status_code raw > 599 \<or> now = seconds (- 62135596800) then Inl ErrInvalidInput else
      insert_audit_log \<lparr>al_administrator_id = aa_administrator_id raw, al_administrator_email = email, al_method = meth,
        al_route = route, al_status_code = aa_status_code raw, al_created_at = unix now\<rparr> k)"

definition RecordAdminAudit ::
  "(string \<Rightarrow> string) \<Rightarrow> (string \<Rightarrow> string) \<Rightarrow> admin_audit_input \<Rightarrow> instant \<Rightarrow> desk \<Rightarrow> store_error + desk" where
  "RecordAdminAudit upper lower raw now k = insertAdminAudit upper lower raw now k"

section \<open>Requesting a withdrawal\<close>

text \<open>
  A request repeats an earlier one when the user has an open withdrawal or, with a key, one with that key; a
  withdrawal with the key comes first. Comparing a null key gives null, which sorts last.
\<close>

definition replay_rank :: "string \<Rightarrow> withdrawal \<Rightarrow> int" where
  "replay_rank key w = (case w_request_key w of None \<Rightarrow> 2 | Some s \<Rightarrow> (if s = key then 0 else 1))"

definition findCommissionWithdrawalReplay ::
  "int \<Rightarrow> commission_withdrawal_input \<Rightarrow> desk \<Rightarrow> store_error + ticket_view option" where
  "findCommissionWithdrawalReplay userID inp k =
     (let key = wi_request_key inp;
          candidates = filter (\<lambda>w. w_user_id w = userID \<and> (key \<noteq> [] \<and> w_request_key w = Some key \<or> withdrawal_open w))
            (dk_withdrawals k) in
      case order_by (replay_rank key) candidates of
        [] \<Rightarrow> Inr None
      | w # _ \<Rightarrow>
          if w_method w \<noteq> wi_method inp \<or> w_account w \<noteq> wi_account inp \<or>
             key \<noteq> [] \<and> (case w_request_key w of None \<Rightarrow> [] | Some s \<Rightarrow> s) \<noteq> key
          then Inl ErrCommissionWithdrawalReplay
          else ebind (getTicketTx (w_ticket_id w) False k) (\<lambda>v. Inr (Some v)))"

definition insertWithdrawalEvent ::
  "int \<Rightarrow> int \<Rightarrow> string \<Rightarrow> int \<Rightarrow> int \<Rightarrow> int \<Rightarrow> instant \<Rightarrow> desk \<Rightarrow> store_error + desk" where
  "insertWithdrawalEvent withdrawalID actorID status available frozen paid now k =
     insert_withdrawal_event \<lparr>we_withdrawal_id = withdrawalID, we_actor_id = actorID, we_status = status,
       we_available_delta = available, we_frozen_delta = frozen, we_paid_delta = paid, we_created_at = unix now\<rparr> k"

definition freezeCommissionWithdrawalTx ::
  "int \<Rightarrow> commission_withdrawal_input \<Rightarrow> ticket_view \<Rightarrow> int \<Rightarrow> instant \<Rightarrow> desk \<Rightarrow> store_error + ticket_view \<times> desk" where
  "freezeCommissionWithdrawalTx userID inp v amount now k =
     (let payer = (\<lambda>u. u_id u = userID \<and> u_commission_balance u \<ge> amount \<and> u_account_kind u = AccountKindHuman \<and> \<not> u_banned u) in
      ebind (update_desk_users payer
        (\<lambda>u. u\<lparr>u_commission_balance := u_commission_balance u - amount, u_updated_at := unix now\<rparr>) k) (\<lambda>k1.
      if count_where payer (db_users (dk_db k)) \<noteq> 1 then Inl ErrInsufficientCommission else
      let requestKey = (if wi_request_key inp = [] then None else Some (wi_request_key inp)) in
      ebind (insert_withdrawal
        \<lparr>w_id = 0, w_user_id = userID, w_ticket_id = t_id (tv_ticket v), w_amount = amount, w_status = ''pending'',
         w_request_key = requestKey, w_method = wi_method inp, w_account = wi_account inp, w_payment_reference = [],
         w_payment_reference_hash = [], w_anonymized_at = None, w_created_at = unix now, w_updated_at = unix now\<rparr> k1)
        (\<lambda>(i, k2).
      ebind (insertWithdrawalEvent i userID ''pending'' (i64 (- amount)) amount 0 now k2) (\<lambda>k3.
      Inr (loadTicketWithdrawal v k3, k3)))))"

text \<open>What follows the replay check of a request: the policy, the ticket and the freeze.\<close>

definition request_withdrawal ::
  "ticket_notify \<Rightarrow> int \<Rightarrow> commission_withdrawal_input \<Rightarrow> int \<Rightarrow> instant \<Rightarrow> desk \<Rightarrow> store_error + ticket_view \<times> desk" where
  "request_withdrawal notify userID inp balance now k =
     (if \<not> validCommissionWithdrawMethods (dk_withdraw_methods k) then Inl ErrInternal
      else if wi_method inp \<notin> set (dk_withdraw_methods k) then Inl ErrCommissionWithdrawalMethodUnsupported
      else if balance < dk_withdraw_limit k \<or> balance \<le> 0 then Inl ErrCommissionWithdrawalBelowLimit
      else if balance > maxOrderMoneyCents then Inl ErrInvalidInput else
      ebind (createTicketTx notify userID
        \<lparr>ti_subject = commissionWithdrawalSubject, ti_level = 2,
         ti_message = withdrawal_message (wi_method inp) (wi_account inp),
         ti_notification_location = wi_notification_location inp\<rparr> now k) (\<lambda>(v, k1).
      freezeCommissionWithdrawalTx userID inp v balance now k1))"

definition withdrawal_input :: "commission_withdrawal_input \<Rightarrow> commission_withdrawal_input" where
  "withdrawal_input raw = raw\<lparr>wi_method := TrimSpace (wi_method raw), wi_account := TrimSpace (wi_account raw),
     wi_notification_location := fst (normalizeTelegramNotificationLocation (wi_notification_location raw))\<rparr>"

definition CreateCommissionWithdrawalTicket ::
  "ticket_notify \<Rightarrow> int \<Rightarrow> commission_withdrawal_input \<Rightarrow> instant \<Rightarrow> desk \<Rightarrow> store_error + ticket_view \<times> desk" where
  "CreateCommissionWithdrawalTicket notify userID raw now k =
     (let inp = withdrawal_input raw in
      if userID < 1 \<or> unix now < 0 \<or> \<not> validWithdrawalField (wi_method inp) 64 \<or>
         \<not> validWithdrawalField (wi_account inp) maxWithdrawalAccountBytes \<or>
         \<not> snd (normalizeTelegramNotificationLocation (wi_notification_location raw)) \<or>
         \<not> validWithdrawalRequestKey (wi_request_key inp) then Inl ErrInvalidInput else
      ebind (of_option ErrNotFound (List.find (\<lambda>u. u_id u = userID \<and> u_account_kind u = AccountKindHuman \<and> \<not> u_banned u)
        (db_users (dk_db k)))) (\<lambda>u.
      if s_withdraw_close_enable (db_settings (dk_db k)) then Inl ErrCommissionWithdrawalDisabled else
      ebind (findCommissionWithdrawalReplay userID inp k) (\<lambda>replay.
      case replay of
        Some v \<Rightarrow> Inr (v, k)
      | None \<Rightarrow> request_withdrawal notify userID inp (u_commission_balance u) now k)))"

section \<open>Settling a withdrawal\<close>

text \<open>The receipt digest a repeated payment has to match.\<close>

definition replayed_transition ::
  "(string \<Rightarrow> string) \<Rightarrow> withdrawal_transition_input \<Rightarrow> withdrawal \<Rightarrow> int \<Rightarrow> desk \<Rightarrow> store_error + ticket_view" where
  "replayed_transition digest inp w ticketID k =
     (if wt_status inp = ''paid'' \<and> digest (wt_payment_reference inp) \<noteq> w_payment_reference_hash w
      then Inl ErrCommissionWithdrawalReplay else getTicketTx ticketID True k)"

definition transition_allowed :: "string \<Rightarrow> string \<Rightarrow> bool" where
  "transition_allowed old new \<longleftrightarrow>
     old = ''pending'' \<and> (new = ''approved'' \<or> new = ''rejected'') \<or>
     old = ''approved'' \<and> (new = ''paid'' \<or> new = ''rejected'')"

definition release_funds :: "withdrawal \<Rightarrow> instant \<Rightarrow> desk \<Rightarrow> store_error + desk" where
  "release_funds w now k =
     (let owner = (\<lambda>u. u_id u = w_user_id w \<and> u_commission_balance u \<le> i64 (maxOrderMoneyCents - w_amount w)) in
      ebind (update_desk_users owner
        (\<lambda>u. u\<lparr>u_commission_balance := u_commission_balance u + w_amount w, u_updated_at := unix now\<rparr>) k) (\<lambda>k1.
      if count_where owner (db_users (dk_db k)) \<noteq> 1 then Inl ErrCommissionWithdrawalState else Inr k1))"

definition settle_withdrawal ::
  "(string \<Rightarrow> string) \<Rightarrow> (string \<Rightarrow> string) \<Rightarrow> (string \<Rightarrow> string) \<Rightarrow> int \<Rightarrow> string \<Rightarrow> withdrawal_transition_input \<Rightarrow> withdrawal \<Rightarrow>
   int \<Rightarrow> instant \<Rightarrow> desk \<Rightarrow> store_error + ticket_view \<times> desk" where
  "settle_withdrawal digest upper lower adminID email inp w ticketID now k =
     (let status = wt_status inp; amount = w_amount w;
          available = (if status = ''rejected'' then amount else 0);
          frozen = (if status = ''rejected'' \<or> status = ''paid'' then i64 (- amount) else 0);
          paid = (if status = ''paid'' then amount else 0);
          receiptHash = (if status = ''paid'' then digest (wt_payment_reference inp) else []) in
      ebind (if status = ''rejected'' then release_funds w now k else Inr k) (\<lambda>k1.
      if status = ''paid'' \<and> exists_where (\<lambda>r. w_method r = w_method w \<and> w_payment_reference_hash r = receiptHash \<and>
           w_status r = ''paid'') (dk_withdrawals k1)
      then Inl ErrCommissionWithdrawalReplay else
      ebind (update_withdrawals (\<lambda>r. w_id r = w_id w \<and> w_status r = w_status w)
        (\<lambda>r. r\<lparr>w_status := status, w_payment_reference := wt_payment_reference inp,
               w_payment_reference_hash := receiptHash, w_updated_at := unix now\<rparr>) k1) (\<lambda>k2.
      ebind (insertWithdrawalEvent (w_id w) adminID status available frozen paid now k2) (\<lambda>k3.
      ebind (insertAdminAudit upper lower \<lparr>aa_administrator_id = adminID, aa_administrator_email = email, aa_method = ''POST'',
        aa_route = ''/api/v1/admin/tickets/{ticketID}/withdrawal'', aa_status_code = 200\<rparr> now k3) (\<lambda>k4.
      ebind (getTicketTx ticketID True k4) (\<lambda>v.
      Inr (v, k4)))))))"

definition TransitionCommissionWithdrawal ::
  "(string \<Rightarrow> string) \<Rightarrow> (string \<Rightarrow> string) \<Rightarrow> (string \<Rightarrow> string) \<Rightarrow> int \<Rightarrow> int \<Rightarrow> withdrawal_transition_input \<Rightarrow> instant \<Rightarrow>
   desk \<Rightarrow> store_error + ticket_view \<times> desk" where
  "TransitionCommissionWithdrawal digest upper lower adminID ticketID raw now k =
     (let inp = raw\<lparr>wt_payment_reference := TrimSpace (wt_payment_reference raw)\<rparr> in
      if adminID < 1 \<or> ticketID < 1 \<or> unix now < 0 \<or>
         wt_status inp \<noteq> ''approved'' \<and> wt_status inp \<noteq> ''paid'' \<and> wt_status inp \<noteq> ''rejected'' \<or>
         wt_status inp = ''paid'' \<and> \<not> validWithdrawalField (wt_payment_reference inp) 128 \<or>
         wt_status inp \<noteq> ''paid'' \<and> wt_payment_reference inp \<noteq> [] then Inl ErrInvalidInput else
      ebind (of_option ErrNotFound (List.find (\<lambda>u. u_id u = adminID \<and> u_account_kind u = AccountKindHuman \<and> u_is_admin u \<and>
        \<not> u_banned u) (db_users (dk_db k)))) (\<lambda>admin.
      ebind (of_option ErrNotFound (List.find (\<lambda>w. w_ticket_id w = ticketID) (dk_withdrawals k))) (\<lambda>w.
      if wt_status inp = w_status w \<or> wt_status inp = ''approved'' \<and> w_status w = ''paid''
      then ebind (replayed_transition digest inp w ticketID k) (\<lambda>v. Inr (v, k))
      else if now < seconds (w_updated_at w) \<or> \<not> transition_allowed (w_status w) (wt_status inp)
      then Inl ErrCommissionWithdrawalState
      else settle_withdrawal digest upper lower adminID (u_email admin) inp w ticketID now k)))"

text \<open>Part of the anonymization of an account (\<^verbatim>\<open>user_lifecycle.go\<close>).\<close>

definition anonymizeCommissionWithdrawalsTx :: "int \<Rightarrow> instant \<Rightarrow> desk \<Rightarrow> store_error + desk" where
  "anonymizeCommissionWithdrawalsTx userID now k =
     update_withdrawals (\<lambda>w. w_user_id w = userID \<and> withdrawal_settled w \<and> w_anonymized_at w = None)
       (\<lambda>w. w\<lparr>w_account := ''[anonymized]'',
              w_payment_reference := (if w_status w = ''paid'' then ''[anonymized]'' else []),
              w_anonymized_at := Some (unix now)\<rparr>) k"

end
