(* ===== verification/Desk_Correct.thy ===== *)
theory Desk_Correct
  imports Withdrawals Evolution Commissions_Correct
begin

text \<open>
  The lemmas of the support desk: what every statement keeps, how a desk may change (\<open>desk_history\<close>, one more
  interpretation of the locale \<open>evolution\<close>), the audit trail of a withdrawal as an inductive relation, and what a
  withdrawal moves between the commission of its user and the ledger.
\<close>

section \<open>Batches\<close>

text \<open>A batch in the order of a column takes the smallest values of the column.\<close>

lemma batch_oldest:
  assumes t: "t \<in> set (take n (order_by c rows))" and t': "t' \<in> set rows" "t' \<notin> set (take n (order_by c rows))"
  shows "c t \<le> c t'"
proof -
  define ordered where "ordered = order_by c rows"
  have "t' \<in> set (take n ordered @ drop n ordered)" using t'(1) by (simp add: ordered_def)
  then have "t' \<in> set (drop n ordered)" using t'(2) by (simp only: set_append Un_iff ordered_def simp_thms)
  moreover have "sorted (map c (take n ordered @ drop n ordered))" by (simp add: ordered_def order_by_def)
  then have "\<forall>x\<in>c ` set (take n ordered). \<forall>y\<in>c ` set (drop n ordered). x \<le> y"
    unfolding map_append sorted_append set_map by blast
  ultimately show ?thesis using t by (simp add: ordered_def)
qed

section \<open>Statements\<close>

lemma update_desk_users_Inr:
  "update_desk_users p f k = Inr k' \<longleftrightarrow> (\<exists>d. update_users p f (dk_db k) = Inr d \<and> k' = k\<lparr>dk_db := d\<rparr>)"
  by (auto simp: update_desk_users_def)

lemma update_tickets_Inr:
  "update_tickets p f k = Inr k' \<longleftrightarrow>
     (\<forall>t\<in>set (dk_tickets k). p t \<longrightarrow> ticket_check k (f t)) \<and> tickets_unique (update_where p f (dk_tickets k)) \<and>
     k' = k\<lparr>dk_tickets := update_where p f (dk_tickets k)\<rparr>"
  by (simp add: update_tickets_def tickets.update_Inr put_tickets_def)

lemma insert_ticket_Inr:
  "insert_ticket t k = Inr (i, k') \<longleftrightarrow>
     dk_ticket_seq k \<noteq> max_i64 \<and> i = dk_ticket_seq k + 1 \<and> ticket_check k (t\<lparr>t_id := i\<rparr>) \<and>
     tickets_unique (dk_tickets k @ [t\<lparr>t_id := i\<rparr>]) \<and>
     k' = k\<lparr>dk_tickets := dk_tickets k @ [t\<lparr>t_id := i\<rparr>], dk_ticket_seq := i\<rparr>"
  by (auto simp: insert_ticket_def tickets.insert_Inr put_tickets_def)

lemma insert_message_Inr:
  "insert_message m k = Inr (i, k') \<longleftrightarrow>
     dk_message_seq k \<noteq> max_i64 \<and> i = dk_message_seq k + 1 \<and> message_check k (m\<lparr>tm_id := i\<rparr>) \<and>
     messages_unique (dk_messages k @ [m\<lparr>tm_id := i\<rparr>]) \<and>
     k' = k\<lparr>dk_messages := dk_messages k @ [m\<lparr>tm_id := i\<rparr>], dk_message_seq := i\<rparr>"
  by (auto simp: insert_message_def messages.insert_Inr put_messages_def)

lemma update_withdrawals_Inr:
  "update_withdrawals p f k = Inr k' \<longleftrightarrow>
     (\<forall>w\<in>set (dk_withdrawals k). p w \<longrightarrow> withdrawal_guard w (f w) \<and> withdrawal_check k (f w)) \<and>
     withdrawals_unique (update_where p f (dk_withdrawals k)) \<and>
     k' = k\<lparr>dk_withdrawals := update_where p f (dk_withdrawals k)\<rparr>"
  by (auto simp: update_withdrawals_def withdrawals.update_Inr put_withdrawals_def list_all_iff)

lemma insert_withdrawal_Inr:
  "insert_withdrawal w k = Inr (i, k') \<longleftrightarrow>
     i = coalesce_max 0 (map w_id (dk_withdrawals k)) + 1 \<and> withdrawal_check k (w\<lparr>w_id := i\<rparr>) \<and>
     withdrawals_unique (dk_withdrawals k @ [w\<lparr>w_id := i\<rparr>]) \<and>
     k' = k\<lparr>dk_withdrawals := dk_withdrawals k @ [w\<lparr>w_id := i\<rparr>]\<rparr>"
  by (auto simp: insert_withdrawal_def Let_def withdrawals.insert_Inr put_withdrawals_def)

lemma insert_withdrawal_event_Inr:
  "insert_withdrawal_event e k = Inr k' \<longleftrightarrow>
     withdrawal_event_check k e \<and> withdrawal_events_unique (dk_withdrawal_events k @ [e]) \<and>
     k' = k\<lparr>dk_withdrawal_events := dk_withdrawal_events k @ [e]\<rparr>"
  by (simp add: insert_withdrawal_event_def withdrawal_events.insert_Inr put_withdrawal_events_def)

lemma insert_audit_log_Inr:
  "insert_audit_log l k = Inr k' \<longleftrightarrow> audit_log_check k l \<and> k' = k\<lparr>dk_audit_logs := dk_audit_logs k @ [l]\<rparr>"
  by (simp add: insert_audit_log_def audit_logs.insert_Inr put_audit_logs_def)

lemmas desk_statements_Inr = update_desk_users_Inr update_tickets_Inr insert_ticket_Inr insert_message_Inr
  update_withdrawals_Inr insert_withdrawal_Inr insert_withdrawal_event_Inr insert_audit_log_Inr

section \<open>The constraints of the desk\<close>

definition desk_ok :: "desk \<Rightarrow> bool" where
  "desk_ok k \<longleftrightarrow>
     db_ok (dk_db k) \<and> tickets.holds k \<and> messages.holds k \<and> withdrawals.holds k \<and> withdrawal_events.holds k \<and>
     audit_logs.holds k \<and> list_all (\<lambda>t. t_id t \<le> dk_ticket_seq k) (dk_tickets k) \<and>
     list_all (\<lambda>m. tm_id m \<le> dk_message_seq k \<and> tm_ticket_id m \<le> dk_ticket_seq k) (dk_messages k)"

lemmas desk_holds_defs = tickets.holds_def messages.holds_def withdrawals.holds_def withdrawal_events.holds_def
  audit_logs.holds_def

lemma desk_ok_store: "desk_ok k \<Longrightarrow> db_ok (dk_db k)"
  by (simp add: desk_ok_def)

lemma desk_ok_change_store:
  assumes "desk_ok k" and "db_ok d" and "map u_id (db_users d) = map u_id (db_users (dk_db k))"
  shows "desk_ok (k\<lparr>dk_db := d\<rparr>)"
proof -
  have "u_id ` set (db_users d) = u_id ` set (db_users (dk_db k))" using assms(3) by (metis list.set_map)
  then show ?thesis using assms(1,2) by (simp add: desk_ok_def desk_holds_defs desk_check_defs list_all_iff)
qed

lemma update_desk_users_ok:
  assumes "update_desk_users p f k = Inr k'" and "\<And>u. u_id (f u) = u_id u" and "desk_ok k"
  shows "desk_ok k'"
proof -
  obtain d where d: "update_users p f (dk_db k) = Inr d" "k' = k\<lparr>dk_db := d\<rparr>"
    using assms(1) by (auto simp: update_desk_users_Inr)
  have "history (dk_db k) d" by (rule update_users_history [OF d(1) assms(2)])
  then show ?thesis
    using desk_ok_change_store [OF assms(3)] history_ok [OF _ desk_ok_store [OF assms(3)]] history_users d(2) by blast
qed

lemma update_tickets_ok:
  assumes "update_tickets p f k = Inr k'" and ids: "\<And>t. t_id (f t) = t_id t" and "desk_ok k"
  shows "desk_ok k'"
proof -
  have "tickets.holds k'" using assms by (auto simp: desk_ok_def update_tickets_def intro: tickets.update_keeps)
  moreover have "t_id ` set (dk_tickets k') = t_id ` set (dk_tickets k)"
    using assms(1) ids by (simp add: update_tickets_Inr set_ids_update_where)
  moreover obtain rs where "k' = k\<lparr>dk_tickets := rs\<rparr>" using assms(1) by (simp add: update_tickets_Inr)
  moreover have "list_all (\<lambda>t. t_id t \<le> dk_ticket_seq k) (dk_tickets k')"
    using assms(1,3) ids by (auto simp: update_tickets_Inr desk_ok_def list_all_iff update_where_def)
  ultimately show ?thesis using assms(3) by (simp add: desk_ok_def desk_holds_defs desk_check_defs list_all_iff)
qed

lemma insert_ticket_ok:
  assumes "insert_ticket t k = Inr (i, k')" and "desk_ok k"
  shows "desk_ok k'"
  using assms unfolding insert_ticket_Inr desk_ok_def desk_holds_defs
  by (auto simp: desk_check_defs list_all_iff)

lemma insert_message_ok:
  assumes "insert_message m k = Inr (i, k')" and "desk_ok k"
  shows "desk_ok k'"
  using assms unfolding insert_message_Inr desk_ok_def desk_holds_defs
  by (auto simp: desk_check_defs list_all_iff)

lemma update_withdrawals_ok:
  assumes "update_withdrawals p f k = Inr k'" and ids: "\<And>w. w_id (f w) = w_id w" and "desk_ok k"
  shows "desk_ok k'"
proof -
  have "withdrawals.holds k'"
    using assms(1,3) by (auto simp: update_withdrawals_def desk_ok_def intro: withdrawals.update_keeps split: if_splits)
  moreover have "w_id ` set (dk_withdrawals k') = w_id ` set (dk_withdrawals k)"
    using assms(1) ids by (simp add: update_withdrawals_Inr set_ids_update_where)
  moreover obtain rs where "k' = k\<lparr>dk_withdrawals := rs\<rparr>" using assms(1) by (simp add: update_withdrawals_Inr)
  ultimately show ?thesis using assms(3) by (simp add: desk_ok_def desk_holds_defs desk_check_defs list_all_iff)
qed

lemma withdrawal_event_check_mono:
  "withdrawal_event_check k e \<Longrightarrow> desk_users k' = desk_users k \<Longrightarrow>
   set (map w_id (dk_withdrawals k)) \<subseteq> set (map w_id (dk_withdrawals k')) \<Longrightarrow> withdrawal_event_check k' e"
  unfolding withdrawal_event_check_def by (elim conjE, intro conjI) (auto dest: subsetD)

lemma insert_withdrawal_ok:
  assumes "insert_withdrawal w k = Inr (i, k')" and "desk_ok k"
  shows "desk_ok k'"
proof -
  have "withdrawals.holds k'"
    using assms by (auto simp: insert_withdrawal_def Let_def desk_ok_def intro: withdrawals.insert_keeps)
  moreover obtain r where "k' = k\<lparr>dk_withdrawals := dk_withdrawals k @ [r]\<rparr>" using assms(1) by (auto simp: insert_withdrawal_Inr)
  moreover from this have "withdrawal_event_check k' e" if "withdrawal_event_check k e" for e
    by (intro withdrawal_event_check_mono [OF that]) (auto simp: desk_users_def)
  ultimately show ?thesis
    using assms(2) by (simp add: desk_ok_def desk_holds_defs ticket_check_def message_check_def audit_log_check_def
        desk_users_def list_all_iff)
qed

lemma insert_withdrawal_event_ok: "insert_withdrawal_event e k = Inr k' \<Longrightarrow> desk_ok k \<Longrightarrow> desk_ok k'"
  unfolding insert_withdrawal_event_Inr desk_ok_def desk_holds_defs by (auto simp: desk_check_defs list_all_iff)

lemma insert_audit_log_ok: "insert_audit_log l k = Inr k' \<Longrightarrow> desk_ok k \<Longrightarrow> desk_ok k'"
  unfolding insert_audit_log_Inr desk_ok_def desk_holds_defs by (auto simp: desk_check_defs list_all_iff)

section \<open>How a desk changes\<close>

definition ticket_evolves :: "ticket \<Rightarrow> ticket \<Rightarrow> bool" where
  "ticket_evolves t t' \<longleftrightarrow>
     t_id t' = t_id t \<and> t_user_id t' = t_user_id t \<and> t_subject t' = t_subject t \<and> t_level t' = t_level t \<and>
     t_created_at t' = t_created_at t \<and> (t_status t = TicketStatusClosed \<longrightarrow> t_status t' = TicketStatusClosed)"

text \<open>The life of a withdrawal: pending, then approved or rejected; approved, then paid or rejected.\<close>

inductive withdrawal_step :: "string \<Rightarrow> string \<Rightarrow> bool" where
  approve: "withdrawal_step ''pending'' ''approved''"
| refuse: "withdrawal_step ''pending'' ''rejected''"
| pay_out: "withdrawal_step ''approved'' ''paid''"
| give_back: "withdrawal_step ''approved'' ''rejected''"

inductive_cases withdrawal_step_paidE: "withdrawal_step ''paid'' s"
inductive_cases withdrawal_step_rejectedE: "withdrawal_step ''rejected'' s"

definition withdrawal_reach :: "string \<Rightarrow> string \<Rightarrow> bool" where
  "withdrawal_reach = withdrawal_step\<^sup>*\<^sup>*"

lemma withdrawal_reach_refl [simp, intro]: "withdrawal_reach s s"
  by (simp add: withdrawal_reach_def)

lemma withdrawal_reach_trans: "withdrawal_reach a b \<Longrightarrow> withdrawal_reach b c \<Longrightarrow> withdrawal_reach a c"
  unfolding withdrawal_reach_def by (rule rtranclp_trans)

lemma withdrawal_reach_step: "withdrawal_step a b \<Longrightarrow> withdrawal_reach a b"
  by (simp add: withdrawal_reach_def r_into_rtranclp)

lemmas withdrawal_reach_steps = withdrawal_step.intros [THEN withdrawal_reach_step]

lemma withdrawal_reach_final:
  "withdrawal_reach ''paid'' s \<longleftrightarrow> s = ''paid''"
  "withdrawal_reach ''rejected'' s \<longleftrightarrow> s = ''rejected''"
  unfolding withdrawal_reach_def
  by (auto elim: converse_rtranclpE withdrawal_step_paidE withdrawal_step_rejectedE)

lemma transition_allowed_step: "transition_allowed a b \<Longrightarrow> withdrawal_step a b"
  by (auto simp: transition_allowed_def intro: withdrawal_step.intros)

definition withdrawal_evolves :: "withdrawal \<Rightarrow> withdrawal \<Rightarrow> bool" where
  "withdrawal_evolves w w' \<longleftrightarrow>
     w_id w' = w_id w \<and> withdrawal_immutable w w' \<and> withdrawal_reach (w_status w) (w_status w') \<and>
     (w_status w = ''paid'' \<longrightarrow> w_payment_reference_hash w' = w_payment_reference_hash w)"

lemma withdrawal_evolves_refl [simp, intro]: "withdrawal_evolves w w"
  by (simp add: withdrawal_evolves_def withdrawal_immutable_def)

lemma withdrawal_evolves_trans: "withdrawal_evolves a b \<Longrightarrow> withdrawal_evolves b c \<Longrightarrow> withdrawal_evolves a c"
  unfolding withdrawal_evolves_def withdrawal_immutable_def
  by (auto simp: withdrawal_reach_final intro: withdrawal_reach_trans)

text \<open>The triggers alone make every update of a withdrawal a move along its life.\<close>

lemma withdrawal_guard_evolves:
  assumes "withdrawal_guard w w'" and "w_id w' = w_id w"
  shows "withdrawal_evolves w w'"
proof -
  have "withdrawal_reach (w_status w) (w_status w')"
    using assms(1) unfolding withdrawal_guard_def withdrawal_transition_def
    by (auto intro: withdrawal_reach_steps)
  then show ?thesis
    using assms by (auto simp: withdrawal_evolves_def withdrawal_guard_def withdrawal_receipt_guard_def)
qed

definition desk_history :: "desk \<Rightarrow> desk \<Rightarrow> bool" where
  "desk_history k k' \<longleftrightarrow>
     (desk_ok k \<longrightarrow> desk_ok k' \<and> history (dk_db k) (dk_db k')) \<and>
     (\<forall>t\<in>set (dk_tickets k). \<exists>t'\<in>set (dk_tickets k'). ticket_evolves t t') \<and>
     (\<forall>w\<in>set (dk_withdrawals k). \<exists>w'\<in>set (dk_withdrawals k'). withdrawal_evolves w w') \<and>
     (\<exists>ms. dk_messages k' = dk_messages k @ ms) \<and> (\<exists>es. dk_withdrawal_events k' = dk_withdrawal_events k @ es) \<and>
     (\<exists>ls. dk_audit_logs k' = dk_audit_logs k @ ls)"

interpretation desk_history: evolution desk_history
proof
  show "desk_history k k" for k
    by (auto simp: desk_history_def ticket_evolves_def intro: history.refl)
  fix k1 k2 k3 assume a: "desk_history k1 k2" and b: "desk_history k2 k3"
  have "\<forall>t\<in>set (dk_tickets k1). \<exists>t'\<in>set (dk_tickets k3). ticket_evolves t t'"
    using a b unfolding desk_history_def ticket_evolves_def by metis
  moreover have "\<forall>w\<in>set (dk_withdrawals k1). \<exists>w'\<in>set (dk_withdrawals k3). withdrawal_evolves w w'"
    using a b unfolding desk_history_def by (meson withdrawal_evolves_trans)
  moreover have "desk_ok k1 \<longrightarrow> desk_ok k3 \<and> history (dk_db k1) (dk_db k3)"
    using a b unfolding desk_history_def by (meson history.trans)
  ultimately show "desk_history k1 k3"
    using a b unfolding desk_history_def by (metis append_assoc)
qed

lemma desk_history_frame:
  assumes "desk_ok k \<Longrightarrow> desk_ok k'" and "dk_db k' = dk_db k" and "dk_tickets k' = dk_tickets k"
    and "dk_withdrawals k' = dk_withdrawals k" and "\<exists>ms. dk_messages k' = dk_messages k @ ms"
    and "\<exists>es. dk_withdrawal_events k' = dk_withdrawal_events k @ es" and "\<exists>ls. dk_audit_logs k' = dk_audit_logs k @ ls"
  shows "desk_history k k'"
  using assms by (auto simp: desk_history_def ticket_evolves_def intro: history.refl)

lemma desk_history_ok: "desk_history k k' \<Longrightarrow> desk_ok k \<Longrightarrow> desk_ok k'"
  by (simp add: desk_history_def)

lemma store_desk_history:
  assumes "desk_ok k \<Longrightarrow> history (dk_db k) d"
  shows "desk_history k (k\<lparr>dk_db := d\<rparr>)"
proof -
  have "desk_ok (k\<lparr>dk_db := d\<rparr>)" if "desk_ok k"
    using desk_ok_change_store [OF that] history_ok [OF assms [OF that] desk_ok_store [OF that]] history_users assms that
    by blast
  then show ?thesis using assms by (auto simp: desk_history_def ticket_evolves_def)
qed

lemma update_desk_users_history:
  assumes "update_desk_users p f k = Inr k'" and "\<And>u. u_id (f u) = u_id u"
  shows "desk_history k k'"
  using assms unfolding update_desk_users_Inr by (auto intro!: store_desk_history update_users_history)

lemma update_tickets_history:
  assumes up: "update_tickets p f k = Inr k'" and ev: "\<And>t. p t \<Longrightarrow> ticket_evolves t (f t)" and ids: "\<And>t. t_id (f t) = t_id t"
  shows "desk_history k k'"
proof -
  have "\<forall>t\<in>set (dk_tickets k). \<exists>t'\<in>set (update_where p f (dk_tickets k)). ticket_evolves t t'"
    by (rule update_where_related) (use ev in \<open>auto simp: ticket_evolves_def\<close>)
  then show ?thesis using up update_tickets_ok [OF up ids]
    by (auto simp: desk_history_def update_tickets_Inr intro: history.refl)
qed

lemma update_withdrawals_history:
  assumes up: "update_withdrawals p f k = Inr k'" and ids: "\<And>w. w_id (f w) = w_id w"
  shows "desk_history k k'"
proof -
  have "\<forall>w\<in>set (dk_withdrawals k). \<exists>w'\<in>set (update_where p f (dk_withdrawals k)). withdrawal_evolves w w'"
    by (rule update_where_related) (use up ids in \<open>auto simp: update_withdrawals_Inr intro: withdrawal_guard_evolves\<close>)
  then show ?thesis using up update_withdrawals_ok [OF up ids]
    by (auto simp: desk_history_def update_withdrawals_Inr ticket_evolves_def intro: history.refl)
qed

lemma insert_ticket_history: "insert_ticket t k = Inr (i, k') \<Longrightarrow> desk_history k k'"
  using insert_ticket_ok [of t k i k']
  by (auto simp: desk_history_def insert_ticket_Inr ticket_evolves_def intro: history.refl)

lemma insert_message_history: "insert_message m k = Inr (i, k') \<Longrightarrow> desk_history k k'"
  using insert_message_ok [of m k i k'] by (auto simp: insert_message_Inr intro!: desk_history_frame)

lemma insert_withdrawal_history: "insert_withdrawal w k = Inr (i, k') \<Longrightarrow> desk_history k k'"
  using insert_withdrawal_ok [of w k i k']
  by (auto simp: desk_history_def insert_withdrawal_Inr ticket_evolves_def intro: history.refl)

lemma insert_withdrawal_event_history: "insert_withdrawal_event e k = Inr k' \<Longrightarrow> desk_history k k'"
  using insert_withdrawal_event_ok [of e k k'] by (auto simp: insert_withdrawal_event_Inr intro!: desk_history_frame)

lemma insert_audit_log_history: "insert_audit_log l k = Inr k' \<Longrightarrow> desk_history k k'"
  using insert_audit_log_ok [of l k k'] by (auto simp: insert_audit_log_Inr intro!: desk_history_frame)

section \<open>Tickets\<close>

text \<open>What the operations on tickets leave alone, and the bound on a thread they keep.\<close>

definition threads_bounded :: "desk \<Rightarrow> bool" where
  "threads_bounded k \<longleftrightarrow>
     list_all (\<lambda>t. count_where (\<lambda>m. tm_ticket_id m = t_id t) (dk_messages k) \<le> maxTicketMessages) (dk_tickets k)"

lemma threads_bounded_ids:
  "threads_bounded k \<longleftrightarrow>
     list_all (\<lambda>i. count_where (\<lambda>m. tm_ticket_id m = i) (dk_messages k) \<le> maxTicketMessages) (map t_id (dk_tickets k))"
  by (simp add: threads_bounded_def list_all_iff)

definition ledger_untouched :: "desk \<Rightarrow> desk \<Rightarrow> bool" where
  "ledger_untouched k k' \<longleftrightarrow>
     dk_db k' = dk_db k \<and> dk_withdrawals k' = dk_withdrawals k \<and> dk_withdrawal_events k' = dk_withdrawal_events k"

lemma getTicketTx_Inr:
  assumes "getTicketTx i b k = Inr v"
  shows "t_id (tv_ticket v) = i" and "tv_ticket v \<in> set (dk_tickets k)"
proof -
  have same: "tv_ticket (loadTicketWithdrawal x k) = tv_ticket x" "tv_ticket (scanTicket e t) = t" for x e t
    by (simp_all add: loadTicketWithdrawal_def scanTicket_def split: option.split)
  obtain t where "List.find (\<lambda>t. t_id t = i) (dk_tickets k) = Some t" "tv_ticket v = t"
    using assms by (auto simp: getTicketTx_def same split: if_splits)
  then show "t_id (tv_ticket v) = i" and "tv_ticket v \<in> set (dk_tickets k)" using find_eq_Some_set by fastforce+
qed

lemma insert_open_ticket_Inr [simp]: "insert_open_ticket t k = Inr r \<longleftrightarrow> insert_ticket t k = Inr r"
  by (simp add: insert_open_ticket_def)

lemma createTicketTx_stages:
  assumes "createTicketTx notify userID inp now k = Inr (v, k')"
  obtains i j k1 where
    "\<not> exists_where (\<lambda>t. t_user_id t = userID \<and> t_status t = TicketStatusOpen) (dk_tickets k)"
    "insert_ticket \<lparr>t_id = 0, t_user_id = userID, t_subject = ti_subject inp, t_level = ti_level inp, t_status = TicketStatusOpen,
         t_reply_status = TicketReplyWaiting, t_last_reply_user_id = userID, t_created_at = unix now,
         t_updated_at = unix now\<rparr> k = Inr (i, k1)"
    "insert_message \<lparr>tm_id = 0, tm_ticket_id = i, tm_user_id = userID, tm_message = ti_message inp, tm_created_at = unix now,
         tm_updated_at = unix now\<rparr> k1 = Inr (j, k')"
    "getTicketTx i False k' = Inr v"
    "notify userID i j (ti_subject inp) (ti_message inp) (ti_notification_location inp) now = Inr ()"
  using assms unfolding createTicketTx_def
  by (elim stageE) (auto intro: that)

lemma createTicketTx_history:
  assumes "createTicketTx notify userID inp now k = Inr (v, k')"
  shows "desk_history k k'" and "ledger_untouched k k'"
  by (rule createTicketTx_stages [OF assms],
      blast intro: desk_history.trans insert_ticket_history insert_message_history)
     (rule createTicketTx_stages [OF assms],
      auto simp: ledger_untouched_def insert_ticket_Inr insert_message_Inr)

lemma createTicketTx_threads:
  assumes r: "createTicketTx notify userID inp now k = Inr (v, k')" and ok: "desk_ok k" and b: "threads_bounded k"
  shows "threads_bounded k'"
proof -
  obtain i j k1 t m where t: "insert_ticket t k = Inr (i, k1)" and m: "insert_message m k1 = Inr (j, k')" "tm_ticket_id m = i"
    by (rule createTicketTx_stages [OF r]) simp
  have "tm_ticket_id x \<noteq> i" if "x \<in> set (dk_messages k)" for x
    using ok that t by (auto simp: desk_ok_def list_all_iff insert_ticket_Inr)
  then have "count_where (\<lambda>x. tm_ticket_id x = i) (dk_messages k) = 0" by (simp add: count_where_0)
  moreover have "t_id x \<noteq> i" if "x \<in> set (dk_tickets k)" for x
    using ok that t by (auto simp: desk_ok_def list_all_iff insert_ticket_Inr)
  ultimately show ?thesis
    using b t m by (auto simp: threads_bounded_def list_all_iff insert_ticket_Inr insert_message_Inr maxTicketMessages_def)
qed

lemma createTicketTx_row:
  assumes r: "createTicketTx notify userID inp now k = Inr (v, k')" and ok: "desk_ok k"
  shows "dk_tickets k' = dk_tickets k @ [tv_ticket v]" and "t_user_id (tv_ticket v) = userID"
    and "t_status (tv_ticket v) = TicketStatusOpen" and "t_level (tv_ticket v) = ti_level inp"
proof -
  obtain i j k1 where t: "insert_ticket \<lparr>t_id = 0, t_user_id = userID, t_subject = ti_subject inp, t_level = ti_level inp,
         t_status = TicketStatusOpen, t_reply_status = TicketReplyWaiting, t_last_reply_user_id = userID, t_created_at = unix now,
         t_updated_at = unix now\<rparr> k = Inr (i, k1)"
    and m: "insert_message \<lparr>tm_id = 0, tm_ticket_id = i, tm_user_id = userID, tm_message = ti_message inp, tm_created_at = unix now,
         tm_updated_at = unix now\<rparr> k1 = Inr (j, k')"
    and v: "getTicketTx i False k' = Inr v"
    by (rule createTicketTx_stages [OF r])
  define tk :: ticket where "tk = \<lparr>t_id = i, t_user_id = userID, t_subject = ti_subject inp, t_level = ti_level inp,
    t_status = TicketStatusOpen, t_reply_status = TicketReplyWaiting, t_last_reply_user_id = userID, t_created_at = unix now,
    t_updated_at = unix now\<rparr>"
  have k': "dk_tickets k' = dk_tickets k @ [tk]" using t m by (simp add: tk_def insert_ticket_Inr insert_message_Inr)
  have "t_id x \<noteq> i" if "x \<in> set (dk_tickets k)" for x
    using ok that t by (auto simp: desk_ok_def list_all_iff insert_ticket_Inr)
  then have "tv_ticket v = tk" using getTicketTx_Inr [OF v] k' by auto
  then show "dk_tickets k' = dk_tickets k @ [tv_ticket v]" and "t_user_id (tv_ticket v) = userID"
    and "t_status (tv_ticket v) = TicketStatusOpen" and "t_level (tv_ticket v) = ti_level inp"
    using k' by (simp_all add: tk_def)
qed

lemma CreateTicket_Tx:
  assumes "CreateTicket notify userID raw now k = Inr (v, k')"
  obtains inp where "createTicketTx notify userID inp now k = Inr (v, k')" "ti_subject inp = TrimSpace (ti_subject raw)"
    "ti_message inp = TrimSpace (ti_message raw)" "ti_level inp = ti_level raw"
    "validTicketSubject (ti_subject inp)" "validTicketMessage (ti_message inp)" "validTicketLevel (ti_level inp)"
  using assms unfolding CreateTicket_def Let_def
  by (cases "normalizeTelegramNotificationLocation (ti_notification_location raw)") (auto split: if_splits)

lemma replyTicketTx_stages:
  assumes "replyTicketTx notify mail ownerID ticketID authorID requireOpen message location now k = Inr (v, k')"
  obtains t k1 j where
    "t \<in> set (dk_tickets k)" "t_id t = ticketID" "ownerID > 0 \<longrightarrow> t_user_id t = ownerID"
    "requireOpen \<longrightarrow> t_status t = TicketStatusOpen"
    "requireOpen \<longrightarrow> t_last_reply_user_id t \<noteq> t_user_id t \<or> \<not> dk_ticket_must_wait_reply k"
    "count_where (\<lambda>m. tm_ticket_id m = ticketID) (dk_messages k) < maxTicketMessages"
    "insert_message \<lparr>tm_id = 0, tm_ticket_id = ticketID, tm_user_id = authorID, tm_message = message, tm_created_at = unix now,
        tm_updated_at = unix now\<rparr> k = Inr (j, k1)"
    "update_tickets (\<lambda>r. t_id r = ticketID)
       (\<lambda>r. r\<lparr>t_reply_status := (if authorID \<noteq> t_user_id t then TicketReplyAnswered else TicketReplyWaiting),
          t_last_reply_user_id := authorID, t_updated_at := unix now\<rparr>) k1 = Inr k'"
    "getTicketTx ticketID False k' = Inr v"
proof -
  from assms obtain t where t: "List.find (\<lambda>t. t_id t = ticketID \<and> (ownerID > 0 \<longrightarrow> t_user_id t = ownerID)) (dk_tickets k) = Some t"
    and g: "\<not> (requireOpen \<and> t_status t = TicketStatusClosed)"
      "\<not> (requireOpen \<and> t_last_reply_user_id t = t_user_id t \<and> dk_ticket_must_wait_reply k)"
      "\<not> count_where (\<lambda>m. tm_ticket_id m = ticketID) (dk_messages k) \<ge> maxTicketMessages"
    and rest: "\<exists>j k1. insert_message \<lparr>tm_id = 0, tm_ticket_id = ticketID, tm_user_id = authorID, tm_message = message,
        tm_created_at = unix now, tm_updated_at = unix now\<rparr> k = Inr (j, k1) \<and>
      update_tickets (\<lambda>r. t_id r = ticketID)
       (\<lambda>r. r\<lparr>t_reply_status := (if authorID \<noteq> t_user_id t then TicketReplyAnswered else TicketReplyWaiting),
          t_last_reply_user_id := authorID, t_updated_at := unix now\<rparr>) k1 = Inr k' \<and> getTicketTx ticketID False k' = Inr v"
    unfolding replyTicketTx_def Let_def by (elim stageE) auto
  have "t_status t = TicketStatusOpen" if requireOpen using g(1) that by (cases "t_status t") auto
  then show thesis using rest that find_eq_Some_set [OF t] g(2,3) by force
qed

lemma replyTicketTx_history:
  assumes r: "replyTicketTx notify mail ownerID ticketID authorID requireOpen message location now k = Inr (v, k')"
  shows "desk_history k k'" and "ledger_untouched k k'" and "threads_bounded k \<Longrightarrow> threads_bounded k'"
proof -
  obtain k1 j f where n: "count_where (\<lambda>m. tm_ticket_id m = ticketID) (dk_messages k) < maxTicketMessages"
    and m: "insert_message \<lparr>tm_id = 0, tm_ticket_id = ticketID, tm_user_id = authorID, tm_message = message,
        tm_created_at = unix now, tm_updated_at = unix now\<rparr> k = Inr (j, k1)"
    and u: "update_tickets (\<lambda>r. t_id r = ticketID) f k1 = Inr k'"
    and f: "\<And>t. ticket_evolves t (f t)" "\<And>t. t_id (f t) = t_id t"
    by (rule replyTicketTx_stages [OF r]) (auto simp: ticket_evolves_def)
  show "desk_history k k'"
    by (rule desk_history.trans [OF insert_message_history [OF m] update_tickets_history [OF u f]])
  show "ledger_untouched k k'" using m u by (auto simp: ledger_untouched_def insert_message_Inr update_tickets_Inr)
  show "threads_bounded k'" if "threads_bounded k"
  proof -
    have "map t_id (dk_tickets k') = map t_id (dk_tickets k)"
      and "count_where (\<lambda>x. tm_ticket_id x = i) (dk_messages k') =
        count_where (\<lambda>x. tm_ticket_id x = i) (dk_messages k) + (if i = ticketID then 1 else 0)" for i
      using m u f(2) by (auto simp: insert_message_Inr update_tickets_Inr ids_update_where)
    then show ?thesis using that n by (auto simp: threads_bounded_ids list_all_iff)
  qed
qed

lemma replyTicket_Tx:
  assumes "replyTicket notify mail ownerID ticketID authorID requireOpen raw rawLocation now k = Inr (v, k')"
  obtains location where "replyTicketTx notify mail ownerID ticketID authorID requireOpen (TrimSpace raw) location now k = Inr (v, k')"
    "validTicketMessage (TrimSpace raw)" "0 < authorID" "requireOpen \<longrightarrow> 0 < ownerID"
  using assms unfolding replyTicket_def Let_def
  by (cases "normalizeTelegramNotificationLocation rawLocation") (auto split: if_splits)

lemma closeTicket_stages:
  assumes "closeTicket ticketID ownerID now k = Inr (v, k')"
  obtains t where "t \<in> set (dk_tickets k)" "t_id t = ticketID" "ownerID > 0 \<longrightarrow> t_user_id t = ownerID"
    "t_status t = TicketStatusOpen \<longrightarrow>
       update_tickets (\<lambda>r. t_id r = ticketID \<and> t_status r = TicketStatusOpen)
         (\<lambda>r. r\<lparr>t_status := TicketStatusClosed, t_updated_at := unix now\<rparr>) k = Inr k'"
    "t_status t = TicketStatusClosed \<longrightarrow> k' = k" "getTicketTx ticketID False k' = Inr v"
proof -
  from assms obtain t where t: "List.find (\<lambda>t. t_id t = ticketID \<and> (ownerID > 0 \<longrightarrow> t_user_id t = ownerID)) (dk_tickets k) = Some t"
    and rest: "(if t_status t = TicketStatusOpen
             then update_tickets (\<lambda>r. t_id r = ticketID \<and> t_status r = TicketStatusOpen)
                    (\<lambda>r. r\<lparr>t_status := TicketStatusClosed, t_updated_at := unix now\<rparr>) k
             else Inr k) = Inr k'" "getTicketTx ticketID False k' = Inr v"
    unfolding closeTicket_def by (elim stageE) auto
  then show thesis using that [of t] find_eq_Some_set [OF t] by (auto split: if_splits)
qed

lemma close_tickets_history:
  assumes u: "update_tickets p (\<lambda>t. t\<lparr>t_status := TicketStatusClosed, t_updated_at := unix now\<rparr>) k = Inr k'"
  shows "desk_history k k'" and "ledger_untouched k k'" and "threads_bounded k \<Longrightarrow> threads_bounded k'"
proof -
  show "desk_history k k'" by (rule update_tickets_history [OF u]) (auto simp: ticket_evolves_def)
  show "ledger_untouched k k'" using u by (auto simp: ledger_untouched_def update_tickets_Inr)
  show "threads_bounded k'" if "threads_bounded k"
    using that u by (auto simp: threads_bounded_def list_all_iff update_tickets_Inr update_where_def)
qed

lemma closeTicket_history:
  assumes r: "closeTicket ticketID ownerID now k = Inr (v, k')"
  shows "desk_history k k'" and "ledger_untouched k k'" and "threads_bounded k \<Longrightarrow> threads_bounded k'"
proof -
  obtain t :: ticket where "t_status t = TicketStatusOpen \<longrightarrow>
       update_tickets (\<lambda>r. t_id r = ticketID \<and> t_status r = TicketStatusOpen)
         (\<lambda>r. r\<lparr>t_status := TicketStatusClosed, t_updated_at := unix now\<rparr>) k = Inr k'"
    "t_status t = TicketStatusClosed \<longrightarrow> k' = k"
    by (rule closeTicket_stages [OF r])
  then consider p where "update_tickets p (\<lambda>r. r\<lparr>t_status := TicketStatusClosed, t_updated_at := unix now\<rparr>) k = Inr k'"
    | "k' = k" by (cases "t_status t") auto
  note c = this
  from c show "desk_history k k'" by cases (erule close_tickets_history, simp add: desk_history.refl)
  from c show "ledger_untouched k k'" by cases (erule close_tickets_history, simp add: ledger_untouched_def)
  from c show "threads_bounded k \<Longrightarrow> threads_bounded k'" by cases (erule close_tickets_history, simp_all)
qed

lemma CloseStaleAnsweredTickets_update:
  assumes "CloseStaleAnsweredTickets cutoff now limit k = Inr (n, k')"
  obtains p where "update_tickets p (\<lambda>t. t\<lparr>t_status := TicketStatusClosed, t_updated_at := unix now\<rparr>) k = Inr k'"
    "n = int (count_where p (dk_tickets k))" "0 < limit" "limit \<le> maxTicketCloseBatch"
    "p = (\<lambda>t. t_id t \<in> t_id ` set (take (nat limit) (order_by t_updated_at (filter (stale_answered cutoff) (dk_tickets k)))) \<and>
       stale_answered cutoff t)"
  using assms unfolding CloseStaleAnsweredTickets_def Let_def by (elim stageE) auto

end
