(* ===== verification/Withdrawals_Correct.thy ===== *)
theory Withdrawals_Correct
  imports Desk_Correct
begin

text \<open>
  What the ledger of commission withdrawals guarantees. The relation \<open>settlement\<close> says which sequence of events
  a withdrawal of an amount may have in a status; \<open>withdrawals_audited\<close> says that every withdrawal has one.
  The \<open>estate\<close> of the users is what they hold together with what they have withdrawn: no withdrawal changes it.
\<close>

section \<open>The trail of a withdrawal\<close>

type_synonym ledger_entry = "string \<times> int \<times> int \<times> int"

inductive settlement :: "int \<Rightarrow> string \<Rightarrow> ledger_entry list \<Rightarrow> bool" for amount :: int where
  requested: "settlement amount ''pending'' [(''pending'', - amount, amount, 0)]"
| approved: "settlement amount ''pending'' es \<Longrightarrow> settlement amount ''approved'' (es @ [(''approved'', 0, 0, 0)])"
| paid: "settlement amount ''approved'' es \<Longrightarrow> settlement amount ''paid'' (es @ [(''paid'', 0, - amount, amount)])"
| refused: "settlement amount ''pending'' es \<Longrightarrow> settlement amount ''rejected'' (es @ [(''rejected'', amount, - amount, 0)])"
| returned: "settlement amount ''approved'' es \<Longrightarrow> settlement amount ''rejected'' (es @ [(''rejected'', amount, - amount, 0)])"

definition trail :: "int \<Rightarrow> withdrawal_event list \<Rightarrow> ledger_entry list" where
  "trail i es = map (\<lambda>e. (we_status e, we_available_delta e, we_frozen_delta e, we_paid_delta e))
     (filter (\<lambda>e. we_withdrawal_id e = i) es)"

definition withdrawals_audited :: "desk \<Rightarrow> bool" where
  "withdrawals_audited k \<longleftrightarrow>
     list_all (\<lambda>w. settlement (w_amount w) (w_status w) (trail (w_id w) (dk_withdrawal_events k))) (dk_withdrawals k)"

lemma trail_append: "trail i (es @ es') = trail i es @ trail i es'"
  by (simp add: trail_def)

text \<open>The columns of a trail add up to where the money is.\<close>

lemma settlement_sums:
  assumes "settlement a s es"
  shows "sum_list (map (\<lambda>(_, x, _, _). x) es) = (if s = ''rejected'' then 0 else - a) \<and>
    sum_list (map (\<lambda>(_, _, f, _). f) es) = (if s = ''pending'' \<or> s = ''approved'' then a else 0) \<and>
    sum_list (map (\<lambda>(_, _, _, p). p) es) = (if s = ''paid'' then a else 0)"
  using assms by induction simp_all

lemma settlement_move:
  assumes "settlement a s es" and "transition_allowed s s'"
  shows "settlement a s' (es @ [(s', if s' = ''rejected'' then a else 0,
    if s' = ''rejected'' \<or> s' = ''paid'' then - a else 0, if s' = ''paid'' then a else 0)])"
  using assms by (auto simp: transition_allowed_def intro: settlement.intros)

section \<open>What the users own\<close>

definition withdrawn :: "withdrawal list \<Rightarrow> int \<Rightarrow> int" where
  "withdrawn ws i = sum_list (map (\<lambda>w. if w_user_id w = i \<and> w_status w \<noteq> ''rejected'' then w_amount w else 0) ws)"

definition estate :: "desk \<Rightarrow> (int \<times> int) list" where
  "estate k = credits (withdrawn (dk_withdrawals k)) (holdings (dk_db k))"

lemma ledger_untouched_books:
  assumes "ledger_untouched k k'"
  shows "withdrawals_audited k' \<longleftrightarrow> withdrawals_audited k" and "estate k' = estate k"
  using assms by (simp_all add: ledger_untouched_def withdrawals_audited_def estate_def)

lemma estate_moves:
  assumes "holdings (dk_db k') = credits g (holdings (dk_db k))"
    and "\<And>i. withdrawn (dk_withdrawals k') i = withdrawn (dk_withdrawals k) i - g i"
  shows "estate k' = estate k"
  using assms by (simp add: estate_def credits_credits)

lemma withdrawn_append: "withdrawn (ws @ [w]) i =
  withdrawn ws i + (if w_user_id w = i \<and> w_status w \<noteq> ''rejected'' then w_amount w else 0)"
  by (simp add: withdrawn_def)

lemma desk_withdrawal_unique:
  assumes "desk_ok k" and "w \<in> set (dk_withdrawals k)" and "w' \<in> set (dk_withdrawals k)" and "w_id w' = w_id w"
  shows "w' = w"
  using assms by (auto simp: desk_ok_def withdrawals.holds_def withdrawals_unique_def distinct_map intro: inj_onD [of w_id])

section \<open>Freezing\<close>

lemma coalesce_max_less:
  assumes "x \<in> set xs"
  shows "x < coalesce_max 0 xs + 1"
proof (cases xs)
  case (Cons y ys)
  then have "coalesce_max 0 xs = Max (set xs)" by (simp only: coalesce_max_def list.case Max.set_eq_fold)
  then show ?thesis using Max_ge [OF finite_set assms] by linarith
qed (use assms in simp)

lemma freezeCommissionWithdrawalTx_stages:
  assumes "freezeCommissionWithdrawalTx userID inp v amount now k = Inr (v', k')"
  obtains k1 i k2 w where
    "update_desk_users (\<lambda>u. u_id u = userID \<and> u_commission_balance u \<ge> amount \<and> u_account_kind u = AccountKindHuman \<and> \<not> u_banned u)
      (\<lambda>u. u\<lparr>u_commission_balance := u_commission_balance u - amount, u_updated_at := unix now\<rparr>) k = Inr k1"
    "count_where (\<lambda>u. u_id u = userID \<and> u_commission_balance u \<ge> amount \<and> u_account_kind u = AccountKindHuman \<and> \<not> u_banned u)
      (db_users (dk_db k)) = 1"
    "insert_withdrawal w k1 = Inr (i, k2)"
    "w = \<lparr>w_id = 0, w_user_id = userID, w_ticket_id = t_id (tv_ticket v), w_amount = amount, w_status = ''pending'',
         w_request_key = (if wi_request_key inp = [] then None else Some (wi_request_key inp)), w_method = wi_method inp,
         w_account = wi_account inp, w_payment_reference = [], w_payment_reference_hash = [], w_anonymized_at = None,
         w_created_at = unix now, w_updated_at = unix now\<rparr>"
    "insertWithdrawalEvent i userID ''pending'' (i64 (- amount)) amount 0 now k2 = Inr k'"
    "v' = loadTicketWithdrawal v k'"
  using assms unfolding freezeCommissionWithdrawalTx_def Let_def by (elim stageE) (auto intro: that)

lemma freezeCommissionWithdrawalTx_history:
  assumes "freezeCommissionWithdrawalTx userID inp v amount now k = Inr (v', k')"
  shows "desk_history k k'" and "dk_tickets k' = dk_tickets k" and "dk_messages k' = dk_messages k"
proof -
  obtain p f k1 i k2 w e where u: "update_desk_users p f k = Inr k1" "\<And>u. u_id (f u) = u_id u"
    and w: "insert_withdrawal w k1 = Inr (i, k2)" and e: "insert_withdrawal_event e k2 = Inr k'"
    by (rule freezeCommissionWithdrawalTx_stages [OF assms]) (auto simp: insertWithdrawalEvent_def)
  show "desk_history k k'"
    by (rule desk_history.trans [OF update_desk_users_history [OF u]
          desk_history.trans [OF insert_withdrawal_history [OF w] insert_withdrawal_event_history [OF e]]])
  show "dk_tickets k' = dk_tickets k" and "dk_messages k' = dk_messages k"
    using u(1) w e by (auto simp: desk_statements_Inr)
qed

text \<open>
  A frozen withdrawal opens the ledger with one pending entry, and what leaves the commission of the user is
  exactly what the ledger holds for the user.
\<close>

lemma freezeCommissionWithdrawalTx_books:
  assumes r: "freezeCommissionWithdrawalTx userID inp v amount now k = Inr (v', k')" and ok: "desk_ok k"
    and amount: "0 < amount" "amount \<le> maxOrderMoneyCents"
  shows "estate k' = estate k" and "withdrawals_audited k \<Longrightarrow> withdrawals_audited k'"
proof -
  let ?p = "\<lambda>u. u_id u = userID \<and> u_commission_balance u \<ge> amount \<and> u_account_kind u = AccountKindHuman \<and> \<not> u_banned u"
  let ?f = "\<lambda>u. u\<lparr>u_commission_balance := u_commission_balance u - amount, u_updated_at := unix now\<rparr>"
  obtain k1 i k2 w where u: "update_desk_users ?p ?f k = Inr k1" and one: "count_where ?p (db_users (dk_db k)) = 1"
    and w: "insert_withdrawal w k1 = Inr (i, k2)" "w_user_id w = userID" "w_amount w = amount" "w_status w = ''pending''"
    and e: "insertWithdrawalEvent i userID ''pending'' (i64 (- amount)) amount 0 now k2 = Inr k'"
    by (rule freezeCommissionWithdrawalTx_stages [OF r]) simp
  obtain d where d: "update_users ?p ?f (dk_db k) = Inr d" "k1 = k\<lparr>dk_db := d\<rparr>" using u by (auto simp: update_desk_users_Inr)
  have exact: "i64 (- amount) = - amount"
    using amount by (simp add: maxOrderMoneyCents_def i64_id)
  have "?p u" if "u \<in> set (db_users (dk_db k))" "u_id u = userID" for u
  proof -
    obtain x where "x \<in> set (db_users (dk_db k))" "?p x" using one count_where_pos [of ?p "db_users (dk_db k)"] by auto
    then show ?thesis using user_member_unique [OF desk_ok_store [OF ok] that(1), of x] that(2) by auto
  qed
  then have "holdings d = credits (\<lambda>j. if j = userID then - amount else 0) (holdings (dk_db k))"
    by (intro holdings_update_users [OF d(1)]) auto
  then show "estate k' = estate k"
    using w d(2) e by (intro estate_moves) (auto simp: insertWithdrawalEvent_def desk_statements_Inr withdrawn_append)
  have fresh: "x < i" if "x \<in> w_id ` set (dk_withdrawals k)" for x
    using w(1) d(2) coalesce_max_less [of x "map w_id (dk_withdrawals k)"] that by (simp add: insert_withdrawal_Inr)
  then have "we_withdrawal_id e \<noteq> i" if "e \<in> set (dk_withdrawal_events k)" for e
    using ok that by (fastforce simp: desk_ok_def withdrawal_events.holds_def list_all_iff withdrawal_event_check_def)
  then have new: "trail i (dk_withdrawal_events k) = []" by (simp add: trail_def)
  show "withdrawals_audited k'" if "withdrawals_audited k"
    using that w d(2) e exact fresh new settlement.requested [of amount]
    by (fastforce simp: withdrawals_audited_def insertWithdrawalEvent_def desk_statements_Inr list_all_iff trail_append
        trail_def [of _ "[_]"])
qed

section \<open>Settling\<close>

lemma release_funds_effect:
  assumes r: "release_funds w now k = Inr k'" and ok: "desk_ok k"
  shows "desk_history k k'" and "\<exists>d. k' = k\<lparr>dk_db := d\<rparr> \<and>
    holdings d = credits (\<lambda>j. if j = w_user_id w then w_amount w else 0) (holdings (dk_db k))"
proof -
  let ?p = "\<lambda>u. u_id u = w_user_id w \<and> u_commission_balance u \<le> i64 (maxOrderMoneyCents - w_amount w)"
  let ?f = "\<lambda>u. u\<lparr>u_commission_balance := u_commission_balance u + w_amount w, u_updated_at := unix now\<rparr>"
  have u: "update_desk_users ?p ?f k = Inr k'" and one: "count_where ?p (db_users (dk_db k)) = 1"
    using r by (auto simp: release_funds_def Let_def)
  show "desk_history k k'" by (rule update_desk_users_history [OF u]) simp
  obtain d where d: "update_users ?p ?f (dk_db k) = Inr d" "k' = k\<lparr>dk_db := d\<rparr>" using u by (auto simp: update_desk_users_Inr)
  have "?p u" if "u \<in> set (db_users (dk_db k))" "u_id u = w_user_id w" for u
  proof -
    obtain x where "x \<in> set (db_users (dk_db k))" "?p x" using one count_where_pos [of ?p "db_users (dk_db k)"] by auto
    then show ?thesis using user_member_unique [OF desk_ok_store [OF ok] that(1), of x] that(2) by auto
  qed
  then have "holdings d = credits (\<lambda>j. if j = w_user_id w then w_amount w else 0) (holdings (dk_db k))"
    by (intro holdings_update_users [OF d(1)]) auto
  then show "\<exists>d. k' = k\<lparr>dk_db := d\<rparr> \<and>
    holdings d = credits (\<lambda>j. if j = w_user_id w then w_amount w else 0) (holdings (dk_db k))" using d(2) by blast
qed

lemma insertAdminAudit_log:
  assumes "insertAdminAudit upper lower raw now k = Inr k'"
  obtains l where "insert_audit_log l k = Inr k'"
  using assms unfolding insertAdminAudit_def Let_def by (elim stageE) (rule that)

lemma settle_withdrawal_stages:
  assumes "settle_withdrawal digest upper lower adminID email inp w ticketID now k = Inr (v, k')"
  obtains k1 k2 k3 hash where
    "if wt_status inp = ''rejected'' then release_funds w now k = Inr k1 else k1 = k"
    "hash = (if wt_status inp = ''paid'' then digest (wt_payment_reference inp) else [])"
    "wt_status inp = ''paid'' \<longrightarrow> \<not> exists_where (\<lambda>r. w_method r = w_method w \<and> w_payment_reference_hash r = hash \<and>
       w_status r = ''paid'') (dk_withdrawals k)"
    "update_withdrawals (\<lambda>r. w_id r = w_id w \<and> w_status r = w_status w)
       (\<lambda>r. r\<lparr>w_status := wt_status inp, w_payment_reference := wt_payment_reference inp,
          w_payment_reference_hash := hash, w_updated_at := unix now\<rparr>) k1 = Inr k2"
    "insertWithdrawalEvent (w_id w) adminID (wt_status inp) (if wt_status inp = ''rejected'' then w_amount w else 0)
       (if wt_status inp = ''rejected'' \<or> wt_status inp = ''paid'' then i64 (- w_amount w) else 0)
       (if wt_status inp = ''paid'' then w_amount w else 0) now k2 = Inr k3"
    "insertAdminAudit upper lower \<lparr>aa_administrator_id = adminID, aa_administrator_email = email, aa_method = ''POST'',
        aa_route = ''/api/v1/admin/tickets/{ticketID}/withdrawal'', aa_status_code = 200\<rparr> now k3 = Inr k'"
    "getTicketTx ticketID True k' = Inr v"
proof -
  let ?hash = "if wt_status inp = ''paid'' then digest (wt_payment_reference inp) else []"
  from assms obtain k1 where a: "(if wt_status inp = ''rejected'' then release_funds w now k else Inr k) = Inr k1"
    and b: "\<not> (wt_status inp = ''paid'' \<and> exists_where (\<lambda>r. w_method r = w_method w \<and> w_payment_reference_hash r = ?hash \<and>
       w_status r = ''paid'') (dk_withdrawals k1))"
    and c: "\<exists>k2 k3. update_withdrawals (\<lambda>r. w_id r = w_id w \<and> w_status r = w_status w)
       (\<lambda>r. r\<lparr>w_status := wt_status inp, w_payment_reference := wt_payment_reference inp,
          w_payment_reference_hash := ?hash, w_updated_at := unix now\<rparr>) k1 = Inr k2 \<and>
      insertWithdrawalEvent (w_id w) adminID (wt_status inp) (if wt_status inp = ''rejected'' then w_amount w else 0)
       (if wt_status inp = ''rejected'' \<or> wt_status inp = ''paid'' then i64 (- w_amount w) else 0)
       (if wt_status inp = ''paid'' then w_amount w else 0) now k2 = Inr k3 \<and>
      insertAdminAudit upper lower \<lparr>aa_administrator_id = adminID, aa_administrator_email = email, aa_method = ''POST'',
        aa_route = ''/api/v1/admin/tickets/{ticketID}/withdrawal'', aa_status_code = 200\<rparr> now k3 = Inr k' \<and>
      getTicketTx ticketID True k' = Inr v"
    unfolding settle_withdrawal_def Let_def by (elim stageE) blast
  have k1: "if wt_status inp = ''rejected'' then release_funds w now k = Inr k1 else k1 = k" using a by (simp split: if_splits)
  have "wt_status inp = ''paid'' \<longrightarrow> \<not> exists_where (\<lambda>r. w_method r = w_method w \<and> w_payment_reference_hash r = ?hash \<and>
       w_status r = ''paid'') (dk_withdrawals k)" using b k1 by auto
  with c show thesis using that [OF k1 refl] by blast
qed

lemma settle_withdrawal_core:
  assumes r: "settle_withdrawal digest upper lower adminID email inp w ticketID now k = Inr (v, k')" and ok: "desk_ok k"
  shows "desk_history k k'" and "dk_tickets k' = dk_tickets k" and "dk_messages k' = dk_messages k"
    and "\<exists>hash e. dk_withdrawals k' = update_where (\<lambda>r. w_id r = w_id w \<and> w_status r = w_status w)
       (\<lambda>r. r\<lparr>w_status := wt_status inp, w_payment_reference := wt_payment_reference inp,
          w_payment_reference_hash := hash, w_updated_at := unix now\<rparr>) (dk_withdrawals k) \<and>
      dk_withdrawal_events k' = dk_withdrawal_events k @ [e] \<and> we_withdrawal_id e = w_id w \<and> we_status e = wt_status inp \<and>
      we_available_delta e = (if wt_status inp = ''rejected'' then w_amount w else 0) \<and>
      we_frozen_delta e = (if wt_status inp = ''rejected'' \<or> wt_status inp = ''paid'' then i64 (- w_amount w) else 0) \<and>
      we_paid_delta e = (if wt_status inp = ''paid'' then w_amount w else 0)"
    and "holdings (dk_db k') = credits (\<lambda>j. if wt_status inp = ''rejected'' \<and> j = w_user_id w then w_amount w else 0)
      (holdings (dk_db k))"
proof -
  obtain k1 k2 k3 hash l where
    a: "if wt_status inp = ''rejected'' then release_funds w now k = Inr k1 else k1 = k"
    and b: "update_withdrawals (\<lambda>r. w_id r = w_id w \<and> w_status r = w_status w)
       (\<lambda>r. r\<lparr>w_status := wt_status inp, w_payment_reference := wt_payment_reference inp,
          w_payment_reference_hash := hash, w_updated_at := unix now\<rparr>) k1 = Inr k2"
    and c: "insertWithdrawalEvent (w_id w) adminID (wt_status inp) (if wt_status inp = ''rejected'' then w_amount w else 0)
       (if wt_status inp = ''rejected'' \<or> wt_status inp = ''paid'' then i64 (- w_amount w) else 0)
       (if wt_status inp = ''paid'' then w_amount w else 0) now k2 = Inr k3"
    and l: "insert_audit_log l k3 = Inr k'"
    by (rule settle_withdrawal_stages [OF r]) (auto elim!: insertAdminAudit_log)
  have h1: "desk_history k k1"
    using a release_funds_effect(1) [OF _ ok] by (auto intro: desk_history.refl split: if_splits)
  have d1: "\<exists>d. k1 = k\<lparr>dk_db := d\<rparr> \<and> holdings d =
      credits (\<lambda>j. if wt_status inp = ''rejected'' \<and> j = w_user_id w then w_amount w else 0) (holdings (dk_db k))"
    using a release_funds_effect(2) [OF _ ok] by (cases "wt_status inp = ''rejected''") (auto intro: exI [of _ "dk_db k"])
  have h2: "desk_history k1 k2" by (rule update_withdrawals_history [OF b]) simp
  show "desk_history k k'"
    using c h1 h2 insert_withdrawal_event_history insert_audit_log_history [OF l]
    unfolding insertWithdrawalEvent_def by (blast intro: desk_history.trans)
  show "dk_tickets k' = dk_tickets k" and "dk_messages k' = dk_messages k"
    using d1 b c l by (auto simp: insertWithdrawalEvent_def desk_statements_Inr)
  show "holdings (dk_db k') = credits (\<lambda>j. if wt_status inp = ''rejected'' \<and> j = w_user_id w then w_amount w else 0)
      (holdings (dk_db k))"
    using d1 b c l by (auto simp: insertWithdrawalEvent_def desk_statements_Inr)
  have "dk_withdrawals k' = update_where (\<lambda>r. w_id r = w_id w \<and> w_status r = w_status w)
       (\<lambda>r. r\<lparr>w_status := wt_status inp, w_payment_reference := wt_payment_reference inp,
          w_payment_reference_hash := hash, w_updated_at := unix now\<rparr>) (dk_withdrawals k)"
    using d1 b c l by (auto simp: insertWithdrawalEvent_def desk_statements_Inr)
  moreover have "dk_withdrawal_events k' = dk_withdrawal_events k @
      [\<lparr>we_withdrawal_id = w_id w, we_actor_id = adminID, we_status = wt_status inp,
        we_available_delta = (if wt_status inp = ''rejected'' then w_amount w else 0),
        we_frozen_delta = (if wt_status inp = ''rejected'' \<or> wt_status inp = ''paid'' then i64 (- w_amount w) else 0),
        we_paid_delta = (if wt_status inp = ''paid'' then w_amount w else 0), we_created_at = unix now\<rparr>]"
    using d1 b c l by (simp add: insertWithdrawalEvent_def desk_statements_Inr) (elim exE conjE, simp)
  ultimately show "\<exists>hash e. dk_withdrawals k' = update_where (\<lambda>r. w_id r = w_id w \<and> w_status r = w_status w)
       (\<lambda>r. r\<lparr>w_status := wt_status inp, w_payment_reference := wt_payment_reference inp,
          w_payment_reference_hash := hash, w_updated_at := unix now\<rparr>) (dk_withdrawals k) \<and>
      dk_withdrawal_events k' = dk_withdrawal_events k @ [e] \<and> we_withdrawal_id e = w_id w \<and> we_status e = wt_status inp \<and>
      we_available_delta e = (if wt_status inp = ''rejected'' then w_amount w else 0) \<and>
      we_frozen_delta e = (if wt_status inp = ''rejected'' \<or> wt_status inp = ''paid'' then i64 (- w_amount w) else 0) \<and>
      we_paid_delta e = (if wt_status inp = ''paid'' then w_amount w else 0)"
    by (intro exI conjI) (assumption | simp)+
qed

lemma withdrawal_amount_bounds:
  "desk_ok k \<Longrightarrow> w \<in> set (dk_withdrawals k) \<Longrightarrow> 0 < w_amount w \<and> w_amount w \<le> maxOrderMoneyCents"
  by (auto simp: desk_ok_def withdrawals.holds_def list_all_iff withdrawal_check_def)

text \<open>A decision continues the trail of its withdrawal and moves no money but back to the user.\<close>

lemma settle_withdrawal_books:
  assumes r: "settle_withdrawal digest upper lower adminID email inp w ticketID now k = Inr (v, k')" and ok: "desk_ok k"
    and w: "w \<in> set (dk_withdrawals k)" and t: "transition_allowed (w_status w) (wt_status inp)"
  shows "estate k' = estate k" and "withdrawals_audited k \<Longrightarrow> withdrawals_audited k'"
proof -
  let ?p = "\<lambda>r. w_id r = w_id w \<and> w_status r = w_status w"
  obtain f e where ws: "dk_withdrawals k' = update_where ?p f (dk_withdrawals k)"
    and f: "\<And>r. w_id (f r) = w_id r \<and> w_user_id (f r) = w_user_id r \<and> w_amount (f r) = w_amount r \<and> w_status (f r) = wt_status inp"
    and es: "dk_withdrawal_events k' = dk_withdrawal_events k @ [e]" "we_withdrawal_id e = w_id w" "we_status e = wt_status inp"
      "we_available_delta e = (if wt_status inp = ''rejected'' then w_amount w else 0)"
      "we_frozen_delta e = (if wt_status inp = ''rejected'' \<or> wt_status inp = ''paid'' then i64 (- w_amount w) else 0)"
      "we_paid_delta e = (if wt_status inp = ''paid'' then w_amount w else 0)"
    using settle_withdrawal_core(4) [OF r ok] by fastforce
  have one: "?p x \<longleftrightarrow> w_id x = w_id w" if "x \<in> set (dk_withdrawals k)" for x
    using desk_withdrawal_unique [OF ok w that] by auto
  have exact: "i64 (- w_amount w) = - w_amount w"
    using withdrawal_amount_bounds [OF ok w] by (simp add: maxOrderMoneyCents_def i64_id)
  have dist: "distinct (map w_id (dk_withdrawals k))" using ok by (simp add: desk_ok_def withdrawals.holds_def withdrawals_unique_def)
  have "w_status w \<noteq> ''rejected''" using t by (auto simp: transition_allowed_def)
  then have "withdrawn (dk_withdrawals k') i = withdrawn (dk_withdrawals k) i -
      (if wt_status inp = ''rejected'' \<and> i = w_user_id w then w_amount w else 0)" for i
    unfolding withdrawn_def ws
    by (subst sum_update_one [OF dist w one]) (use f in auto)
  then show "estate k' = estate k" by (rule estate_moves [OF settle_withdrawal_core(5) [OF r ok]])
  show "withdrawals_audited k'" if aud: "withdrawals_audited k"
  proof -
    have old: "settlement (w_amount x) (w_status x) (trail (w_id x) (dk_withdrawal_events k))" if "x \<in> set (dk_withdrawals k)" for x
      using aud that by (simp add: withdrawals_audited_def list_all_iff)
    have "settlement (w_amount y) (w_status y) (trail (w_id y) (dk_withdrawal_events k'))" if y: "y \<in> set (dk_withdrawals k')" for y
    proof -
      obtain x where x: "x \<in> set (dk_withdrawals k)" "y = (if ?p x then f x else x)" using y ws by (auto simp: update_where_def)
      show ?thesis
      proof (cases "x = w")
        case True
        then show ?thesis
          using settlement_move [OF old [OF w] t] f [of w] x(2) es exact
          by (auto simp: trail_append trail_def [of _ "[_]"] split: if_splits)
      next
        case False
        then have "w_id x \<noteq> w_id w" using desk_withdrawal_unique [OF ok w x(1)] by auto
        then show ?thesis using old [OF x(1)] x(2) es by (simp add: trail_append trail_def [of _ "[_]"])
      qed
    qed
    then show ?thesis by (simp add: withdrawals_audited_def list_all_iff)
  qed
qed

section \<open>The operations\<close>

lemma request_withdrawal_stages:
  assumes "request_withdrawal notify userID inp balance now k = Inr (v, k')"
  obtains v1 k1 where "wi_method inp \<in> set (dk_withdraw_methods k)" "dk_withdraw_limit k \<le> balance" "0 < balance"
    "balance \<le> maxOrderMoneyCents"
    "createTicketTx notify userID \<lparr>ti_subject = commissionWithdrawalSubject, ti_level = 2,
         ti_message = withdrawal_message (wi_method inp) (wi_account inp),
         ti_notification_location = wi_notification_location inp\<rparr> now k = Inr (v1, k1)"
    "freezeCommissionWithdrawalTx userID inp v1 balance now k1 = Inr (v, k')"
  using assms unfolding request_withdrawal_def by (elim stageE) (auto intro: that)

lemma CreateCommissionWithdrawalTicket_cases:
  assumes "CreateCommissionWithdrawalTicket notify userID raw now k = Inr (v, k')"
  obtains (replay) "findCommissionWithdrawalReplay userID (withdrawal_input raw) k = Inr (Some v)" "k' = k"
  | (fresh) u where "u \<in> set (db_users (dk_db k))" "u_id u = userID" "u_account_kind u = AccountKindHuman" "\<not> u_banned u"
    "findCommissionWithdrawalReplay userID (withdrawal_input raw) k = Inr None"
    "request_withdrawal notify userID (withdrawal_input raw) (u_commission_balance u) now k = Inr (v, k')"
proof -
  from assms obtain u rep where u: "List.find (\<lambda>u. u_id u = userID \<and> u_account_kind u = AccountKindHuman \<and> \<not> u_banned u)
        (db_users (dk_db k)) = Some u" and rep: "findCommissionWithdrawalReplay userID (withdrawal_input raw) k = Inr rep"
    and rest: "(case rep of Some v \<Rightarrow> Inr (v, k)
      | None \<Rightarrow> request_withdrawal notify userID (withdrawal_input raw) (u_commission_balance u) now k) = Inr (v, k')"
    unfolding CreateCommissionWithdrawalTicket_def Let_def by (elim stageE) auto
  show thesis using replay fresh find_eq_Some_set [OF u] rep rest by (cases rep) auto
qed

lemma TransitionCommissionWithdrawal_cases:
  assumes "TransitionCommissionWithdrawal digest upper lower adminID ticketID raw now k = Inr (v, k')"
  obtains (replay) w where "w \<in> set (dk_withdrawals k)" "w_ticket_id w = ticketID" "k' = k" "getTicketTx ticketID True k = Inr v"
    "wt_status raw = w_status w \<or> wt_status raw = ''approved'' \<and> w_status w = ''paid''"
  | (settle) admin w inp where "admin \<in> set (db_users (dk_db k))" "u_id admin = adminID" "u_is_admin admin" "\<not> u_banned admin"
    "w \<in> set (dk_withdrawals k)" "w_ticket_id w = ticketID" "transition_allowed (w_status w) (wt_status inp)"
    "inp = raw\<lparr>wt_payment_reference := TrimSpace (wt_payment_reference raw)\<rparr>"
    "settle_withdrawal digest upper lower adminID (u_email admin) inp w ticketID now k = Inr (v, k')"
proof -
  let ?inp = "raw\<lparr>wt_payment_reference := TrimSpace (wt_payment_reference raw)\<rparr>"
  from assms obtain admin w where a: "List.find (\<lambda>u. u_id u = adminID \<and> u_account_kind u = AccountKindHuman \<and> u_is_admin u \<and>
        \<not> u_banned u) (db_users (dk_db k)) = Some admin"
    and w: "List.find (\<lambda>w. w_ticket_id w = ticketID) (dk_withdrawals k) = Some w"
    and rest: "(if wt_status ?inp = w_status w \<or> wt_status ?inp = ''approved'' \<and> w_status w = ''paid''
      then ebind (replayed_transition digest ?inp w ticketID k) (\<lambda>v. Inr (v, k))
      else if now < seconds (w_updated_at w) \<or> \<not> transition_allowed (w_status w) (wt_status ?inp)
      then Inl ErrCommissionWithdrawalState
      else settle_withdrawal digest upper lower adminID (u_email admin) ?inp w ticketID now k) = Inr (v, k')"
    unfolding TransitionCommissionWithdrawal_def Let_def by (elim stageE) (simp only: of_option_eq_Inr)
  note found = find_eq_Some_set [OF a] find_eq_Some_set [OF w]
  show thesis
  proof (cases "wt_status raw = w_status w \<or> wt_status raw = ''approved'' \<and> w_status w = ''paid''")
    case True
    then have "replayed_transition digest ?inp w ticketID k = Inr v \<and> k' = k" using rest by auto
    then show thesis using replay [of w] True found by (auto simp: replayed_transition_def split: if_splits)
  next
    case False
    then show thesis using settle [of admin w ?inp] found rest by (auto split: if_splits)
  qed
qed

text \<open>
  What every operation of the desk keeps: the history of its tables, the audit trails, the bound on threads. The
  withdrawals among them move no money in or out of the estate.
\<close>

definition desk_kept :: "desk \<Rightarrow> desk \<Rightarrow> bool" where
  "desk_kept k k' \<longleftrightarrow>
     desk_history k k' \<and> (withdrawals_audited k \<longrightarrow> withdrawals_audited k') \<and> (threads_bounded k \<longrightarrow> threads_bounded k')"

lemma threads_bounded_same:
  "dk_tickets k' = dk_tickets k \<Longrightarrow> dk_messages k' = dk_messages k \<Longrightarrow> threads_bounded k' \<longleftrightarrow> threads_bounded k"
  by (simp add: threads_bounded_def)

lemma request_withdrawal_kept:
  assumes r: "request_withdrawal notify userID inp balance now k = Inr (v, k')" and ok: "desk_ok k"
  shows "desk_kept k k'" and "estate k' = estate k"
proof -
  obtain inp' v1 k1 where b: "0 < balance" "balance \<le> maxOrderMoneyCents"
    and t: "createTicketTx notify userID inp' now k = Inr (v1, k1)"
    and f: "freezeCommissionWithdrawalTx userID inp v1 balance now k1 = Inr (v, k')"
    by (rule request_withdrawal_stages [OF r])
  note h1 = createTicketTx_history(1) [OF t] and l1 = ledger_untouched_books [OF createTicketTx_history(2) [OF t]]
  note ok1 = desk_history_ok [OF h1 ok]
  note bk = freezeCommissionWithdrawalTx_books [OF f ok1 b]
  show "estate k' = estate k" using l1 bk by simp
  show "desk_kept k k'"
    unfolding desk_kept_def
    using desk_history.trans [OF h1 freezeCommissionWithdrawalTx_history(1) [OF f]] l1 bk(2)
      createTicketTx_threads [OF t ok] threads_bounded_same [OF freezeCommissionWithdrawalTx_history(2,3) [OF f]] by blast
qed

lemma desk_kept_refl: "desk_kept k k"
  by (simp add: desk_kept_def desk_history.refl)

lemma CreateCommissionWithdrawalTicket_kept:
  assumes r: "CreateCommissionWithdrawalTicket notify userID raw now k = Inr (v, k')" and ok: "desk_ok k"
  shows "desk_kept k k'" and "estate k' = estate k"
  using CreateCommissionWithdrawalTicket_cases [OF r] request_withdrawal_kept [OF _ ok] desk_kept_refl by metis+

lemma TransitionCommissionWithdrawal_kept:
  assumes r: "TransitionCommissionWithdrawal digest upper lower adminID ticketID raw now k = Inr (v, k')" and ok: "desk_ok k"
  shows "desk_kept k k'" and "estate k' = estate k"
proof -
  consider "k' = k" | email w inp where "w \<in> set (dk_withdrawals k)" "transition_allowed (w_status w) (wt_status inp)"
    "settle_withdrawal digest upper lower adminID email inp w ticketID now k = Inr (v, k')"
    by (rule TransitionCommissionWithdrawal_cases [OF r]) blast+
  note c = this
  from c show "estate k' = estate k" by cases (simp, erule (2) settle_withdrawal_books(1) [OF _ ok])
  from c show "desk_kept k k'"
  proof cases
    case 2
    then show ?thesis unfolding desk_kept_def
      using settle_withdrawal_core(1) [OF 2(3) ok] settle_withdrawal_books(2) [OF 2(3) ok 2(1,2)]
        threads_bounded_same [OF settle_withdrawal_core(2,3) [OF 2(3) ok]] by blast
  qed (simp add: desk_kept_refl)
qed

lemma anonymizeCommissionWithdrawalsTx_kept:
  assumes r: "anonymizeCommissionWithdrawalsTx userID now k = Inr k'"
  shows "desk_kept k k'" and "estate k' = estate k"
proof -
  obtain p f where u: "update_withdrawals p f k = Inr k'"
    and f: "\<And>w. w_id (f w) = w_id w \<and> w_user_id (f w) = w_user_id w \<and> w_amount (f w) = w_amount w \<and> w_status (f w) = w_status w"
    using r unfolding anonymizeCommissionWithdrawalsTx_def by fastforce
  have h: "desk_history k k'" by (rule update_withdrawals_history [OF u]) (simp add: f)
  have k': "k' = k\<lparr>dk_withdrawals := update_where p f (dk_withdrawals k)\<rparr>" using u by (simp add: update_withdrawals_Inr)
  have "map (\<lambda>w. if w_user_id w = i \<and> w_status w \<noteq> ''rejected'' then w_amount w else 0) (update_where p f (dk_withdrawals k)) =
      map (\<lambda>w. if w_user_id w = i \<and> w_status w \<noteq> ''rejected'' then w_amount w else 0) (dk_withdrawals k)" for i
    by (rule map_update_where_inv) (simp add: f)
  then show "estate k' = estate k" using k' by (simp add: estate_def withdrawn_def [abs_def])
  show "desk_kept k k'"
    using h f k' by (auto simp: desk_kept_def withdrawals_audited_def threads_bounded_def list_all_iff update_where_def)
qed

lemma findCommissionWithdrawalReplay_keyed:
  assumes ok: "desk_ok k" and w: "w \<in> set (dk_withdrawals k)" "w_user_id w = userID" "w_request_key w = Some (wi_request_key inp)"
    and key: "wi_request_key inp \<noteq> []" and r: "findCommissionWithdrawalReplay userID inp k = Inr res"
  shows "\<exists>v. res = Some v \<and> t_id (tv_ticket v) = w_ticket_id w"
proof -
  let ?key = "wi_request_key inp"
  let ?c = "filter (\<lambda>w. w_user_id w = userID \<and> (?key \<noteq> [] \<and> w_request_key w = Some ?key \<or> withdrawal_open w)) (dk_withdrawals k)"
  have mem: "w \<in> set (order_by (replay_rank ?key) ?c)" using w key by simp
  then obtain x xs where x: "order_by (replay_rank ?key) ?c = x # xs" by (cases "order_by (replay_rank ?key) ?c") auto
  have "sorted (map (replay_rank ?key) (x # xs))" by (simp add: x [symmetric] order_by_def)
  moreover have "w \<in> set (x # xs)" using mem unfolding x .
  ultimately have "replay_rank ?key x \<le> replay_rank ?key w" by auto
  then have kx: "w_request_key x = Some ?key" using w(3) by (auto simp: replay_rank_def split: option.splits if_splits)
  have "x \<in> set (order_by (replay_rank ?key) ?c)" unfolding x by simp
  then have "x \<in> set ?c" unfolding set_order_by .
  then have "x \<in> set (dk_withdrawals k)" "w_user_id x = userID" by auto
  moreover have "distinct (map (\<lambda>w. (w_user_id w, w_request_key w)) (filter (\<lambda>w. w_request_key w \<noteq> None) (dk_withdrawals k)))"
    using ok by (simp add: desk_ok_def withdrawals.holds_def withdrawals_unique_def)
  ultimately have "x = w" using w kx by (auto simp: distinct_map dest: inj_onD)
  then have "\<exists>v. res = Some v \<and> getTicketTx (w_ticket_id w) False k = Inr v"
    using r x by (auto simp: findCommissionWithdrawalReplay_def Let_def split: if_splits)
  then show ?thesis using getTicketTx_Inr(1) by blast
qed

lemma findCommissionWithdrawalReplay_found:
  assumes "findCommissionWithdrawalReplay userID inp k = Inr (Some v)" and "wi_request_key inp \<noteq> []"
  obtains w where "w \<in> set (dk_withdrawals k)" "w_user_id w = userID" "w_request_key w = Some (wi_request_key inp)"
    "t_id (tv_ticket v) = w_ticket_id w"
proof -
  let ?key = "wi_request_key inp"
  let ?c = "filter (\<lambda>w. w_user_id w = userID \<and> (?key \<noteq> [] \<and> w_request_key w = Some ?key \<or> withdrawal_open w)) (dk_withdrawals k)"
  obtain x xs where x: "order_by (replay_rank ?key) ?c = x # xs"
    using assms(1) by (cases "order_by (replay_rank ?key) ?c") (auto simp: findCommissionWithdrawalReplay_def Let_def)
  then have r: "(case w_request_key x of None \<Rightarrow> [] | Some s \<Rightarrow> s) = ?key" "getTicketTx (w_ticket_id x) False k = Inr v"
    using assms by (auto simp: findCommissionWithdrawalReplay_def Let_def split: if_splits)
  have "x \<in> set (order_by (replay_rank ?key) ?c)" unfolding x by simp
  then have "x \<in> set ?c" unfolding set_order_by .
  moreover have "w_request_key x = Some ?key" using r(1) assms(2) by (auto split: option.splits)
  ultimately show thesis using that [of x] getTicketTx_Inr(1) [OF r(2)] by auto
qed

lemma request_withdrawal_recorded:
  assumes r: "request_withdrawal notify userID inp balance now k = Inr (v, k')"
  obtains w where "w \<in> set (dk_withdrawals k')" "w_user_id w = userID" "w_amount w = balance"
    "w_request_key w = (if wi_request_key inp = [] then None else Some (wi_request_key inp))" "w_ticket_id w = t_id (tv_ticket v)"
proof -
  obtain v1 k1 where f: "freezeCommissionWithdrawalTx userID inp v1 balance now k1 = Inr (v, k')"
    by (rule request_withdrawal_stages [OF r])
  obtain w k2 k3 i where w: "insert_withdrawal w k2 = Inr (i, k3)" "w_user_id w = userID" "w_amount w = balance"
      "w_request_key w = (if wi_request_key inp = [] then None else Some (wi_request_key inp))" "w_ticket_id w = t_id (tv_ticket v1)"
    and e: "insertWithdrawalEvent i userID ''pending'' (i64 (- balance)) balance 0 now k3 = Inr k'"
    and v: "v = loadTicketWithdrawal v1 k'"
    by (rule freezeCommissionWithdrawalTx_stages [OF f]) simp
  have "w\<lparr>w_id := i\<rparr> \<in> set (dk_withdrawals k')" using w(1) e by (simp add: insertWithdrawalEvent_def desk_statements_Inr)
  moreover have "tv_ticket v = tv_ticket v1" using v by (simp add: loadTicketWithdrawal_def split: option.split)
  ultimately show thesis using that [of "w\<lparr>w_id := i\<rparr>"] w(2-5) by simp
qed

text \<open>What the freeze writes, and the one withdrawal behind a ticket.\<close>

lemma withdrawal_frozen_rows:
  assumes r: "freezeCommissionWithdrawalTx userID inp v amount now k = Inr (v', k')" and ok: "desk_ok k"
    and u: "u \<in> set (db_users (dk_db k))" "u_id u = userID"
  shows "\<exists>w. dk_withdrawals k' = dk_withdrawals k @ [w] \<and> w_user_id w = userID \<and> w_amount w = amount \<and>
      w_status w = ''pending'' \<and> w_method w = wi_method inp \<and> w_account w = wi_account inp \<and> w_ticket_id w = t_id (tv_ticket v)"
    and "\<exists>x\<in>set (db_users (dk_db k')). u_id x = userID \<and> u_commission_balance x = u_commission_balance u - amount \<and>
      u_balance x = u_balance u"
    and "v' = loadTicketWithdrawal v k'"
proof -
  let ?p = "\<lambda>u. u_id u = userID \<and> u_commission_balance u \<ge> amount \<and> u_account_kind u = AccountKindHuman \<and> \<not> u_banned u"
  let ?f = "\<lambda>u. u\<lparr>u_commission_balance := u_commission_balance u - amount, u_updated_at := unix now\<rparr>"
  obtain k1 i k2 w where s: "update_desk_users ?p ?f k = Inr k1" "count_where ?p (db_users (dk_db k)) = 1"
    and w: "insert_withdrawal w k1 = Inr (i, k2)" "w_user_id w = userID" "w_amount w = amount" "w_status w = ''pending''"
      "w_method w = wi_method inp" "w_account w = wi_account inp" "w_ticket_id w = t_id (tv_ticket v)"
    and e: "insertWithdrawalEvent i userID ''pending'' (i64 (- amount)) amount 0 now k2 = Inr k'"
    and v': "v' = loadTicketWithdrawal v k'"
    by (rule freezeCommissionWithdrawalTx_stages [OF r]) simp
  obtain d where d: "update_users ?p ?f (dk_db k) = Inr d" "k1 = k\<lparr>dk_db := d\<rparr>" using s(1) by (auto simp: update_desk_users_Inr)
  have k': "dk_db k' = d" "dk_withdrawals k' = dk_withdrawals k @ [w\<lparr>w_id := i\<rparr>]"
    using w(1) e d(2) by (auto simp: insertWithdrawalEvent_def desk_statements_Inr)
  show "\<exists>w. dk_withdrawals k' = dk_withdrawals k @ [w] \<and> w_user_id w = userID \<and> w_amount w = amount \<and>
      w_status w = ''pending'' \<and> w_method w = wi_method inp \<and> w_account w = wi_account inp \<and> w_ticket_id w = t_id (tv_ticket v)"
    using k'(2) w(2-7) by (intro exI [of _ "w\<lparr>w_id := i\<rparr>"]) simp
  obtain x where "x \<in> set (db_users (dk_db k))" "?p x" using s(2) count_where_pos [of ?p "db_users (dk_db k)"] by auto
  then have "?p u" using user_member_unique [OF desk_ok_store [OF ok] u(1), of x] u(2) by auto
  then have "money_trigger u (?f u) \<in> set (db_users d)"
    using d(1) u(1) by (auto simp: update_users_Inr update_where_def image_iff intro!: bexI [of _ u])
  then show "\<exists>x\<in>set (db_users (dk_db k')). u_id x = userID \<and> u_commission_balance x = u_commission_balance u - amount \<and>
      u_balance x = u_balance u"
    using u(2) k'(1) by (intro bexI [of _ "money_trigger u (?f u)"]) simp_all
  show "v' = loadTicketWithdrawal v k'" by (rule v')
qed

lemma desk_ticket_withdrawal:
  assumes "desk_ok k" and "w \<in> set (dk_withdrawals k)"
  shows "List.find (\<lambda>x. w_ticket_id x = w_ticket_id w \<and> w_user_id x = w_user_id w) (dk_withdrawals k) = Some w"
proof (cases "List.find (\<lambda>x. w_ticket_id x = w_ticket_id w \<and> w_user_id x = w_user_id w) (dk_withdrawals k)")
  case None
  then show ?thesis using assms(2) by (auto simp: find_eq_None_iff)
next
  case (Some x)
  then show ?thesis using find_eq_Some_set [OF Some] assms
    by (auto simp: desk_ok_def withdrawals.holds_def withdrawals_unique_def distinct_map dest: inj_onD)
qed

end
