(* ===== verification/Store_Runs.thy ===== *)
theory Store_Runs
  imports Completion_Correct Checkout_Correct Commissions_Correct Plans_Correct Coupons_Correct Gift_Cards_Correct
begin

text \<open>
  The operations of the store as one step relation, its runs, and that every run is a \<open>history\<close>.
\<close>

section \<open>The operations of the store as steps\<close>

text \<open>
  One step of the store is one committed operation: any caller, any input, any time, any random
  choice. An operation that returns an error rolls its transaction back and is no step.
\<close>

inductive store_step :: "location \<Rightarrow> db \<Rightarrow> db \<Rightarrow> bool" for loc :: location where
  create_order: "CreateOrder loc random oi now d = Inr (ord, d') \<Longrightarrow> store_step loc d d'"
| assign_order: "AssignOrder uni bytes ai now d = Inr (ord, d') \<Longrightarrow> store_step loc d d'"
| cancel_order: "CancelOrder userID tradeNo now d = Inr (ord, d') \<Longrightarrow> store_step loc d d'"
| cancel_admin: "CancelAdminOrder tradeNo now d = Inr (ord, d') \<Longrightarrow> store_step loc d d'"
| commission_status: "UpdateAdminOrderCommissionStatus tradeNo nxt now d = Inr (ord, d') \<Longrightarrow> store_step loc d d'"
| complete_order: "CompleteOrder loc tradeNo callbackNo now d = Inr ((ord, ch), d') \<Longrightarrow> store_step loc d d'"
| complete_pending: "CompletePendingOrder loc tradeNo callbackNo now d = Inr ((ord, ch), d') \<Longrightarrow> store_step loc d d'"
| stale_orders: "ProcessStaleOrders loc now limit d = Inr (sr, d') \<Longrightarrow> store_step loc d d'"
| start_checkout: "StartPaymentCheckout bytes si now d = Inr (st, d') \<Longrightarrow> store_step loc d d'"
| complete_checkout: "CompletePaymentCheckout attemptID key rt rd ext now d = Inr (a, d') \<Longrightarrow> store_step loc d d'"
| fail_checkout: "FailPaymentCheckout attemptID key code now d = Inr d' \<Longrightarrow> store_step loc d d'"
| webhook: "CompletePaymentWebhook loc upper lower notify raw now d = Inr (ord, d') \<Longrightarrow> store_step loc d d'"
| transfer: "TransferCommission userID amount now d = Inr ((cb, b), d') \<Longrightarrow> store_step loc d d'"
| commissions: "ProcessCommissions now limit d = Inr (cr, d') \<Longrightarrow> store_step loc d d'"
| create_plan: "CreatePlan pin now d = Inr (info, d') \<Longrightarrow> store_step loc d d'"
| update_plan: "UpdatePlan loc planID revision pin force now d = Inr (info, d') \<Longrightarrow> store_step loc d d'"
| plan_state: "SetPlanState planID revision pst now d = Inr (info, d') \<Longrightarrow> store_step loc d d'"
| delete_plan: "DeletePlan planID d = Inr d' \<Longrightarrow> store_step loc d d'"
| reorder_plans: "ReorderPlans ids now d = Inr (infos, d') \<Longrightarrow> store_step loc d d'"
| plan_visibility: "SavePlanVisibility vin now d = Inr d' \<Longrightarrow> store_step loc d d'"
| traffic_resets: "ProcessDueTrafficResets loc now limit d = Inr ((processed, remaining), d') \<Longrightarrow> store_step loc d d'"
| create_coupon: "CreateCoupon draw cin now d = Inr (c, d') \<Longrightarrow> store_step loc d d'"
| coupon_batch: "CreateCouponBatch draw cin cnt now d = Inr (cs, d') \<Longrightarrow> store_step loc d d'"
| update_coupon: "UpdateCoupon couponID cin now d = Inr (c, d') \<Longrightarrow> store_step loc d d'"
| coupon_visibility: "SetCouponVisibility couponID visible now d = Inr (c, d') \<Longrightarrow> store_step loc d d'"
| delete_coupon: "DeleteCoupon couponID d = Inr d' \<Longrightarrow> store_step loc d d'"
| create_template: "CreateGiftCardTemplate parse tin adminID now d = Inr (t, d') \<Longrightarrow> store_step loc d d'"
| update_template: "UpdateGiftCardTemplate parse templateID revision tin adminID now d = Inr (t, d') \<Longrightarrow> store_step loc d d'"
| delete_template: "DeleteGiftCardTemplate templateID d = Inr d' \<Longrightarrow> store_step loc d d'"
| gift_codes: "GenerateGiftCardCodes uni batch draw2 templateID gin now d = Inr (gcs, d') \<Longrightarrow> store_step loc d d'"
| update_gift_code: "UpdateGiftCardCode uni codeID kin now d = Inr (gc, d') \<Longrightarrow> store_step loc d d'"
| toggle_gift_code: "ToggleGiftCardCode codeID now d = Inr (gc, d') \<Longrightarrow> store_step loc d d'"
| delete_gift_code: "DeleteGiftCardCode codeID d = Inr d' \<Longrightarrow> store_step loc d d'"
| redeem: "RedeemGiftCard uni loc zone local pick random rin now d = Inr (redemption, d') \<Longrightarrow> store_step loc d d'"

lemma store_step_history:
  assumes "store_step loc d d'" and "db_ok d"
  shows "history d d'"
  using assms
proof (induction rule: store_step.induct)
  case (transfer userID amount now d cb b d')
  then show ?case by (auto elim: TransferCommission_effect)
qed (blast intro: CreateOrder_history AssignOrder_history CancelOrder_history CancelAdminOrder_history
  UpdateAdminOrderCommissionStatus_history CompleteOrder_history CompletePendingOrder_history
  ProcessStaleOrders_history StartPaymentCheckout_history CompletePaymentCheckout_history
  FailPaymentCheckout_history CompletePaymentWebhook_history ProcessCommissions_history
  CreatePlan_history UpdatePlan_history SetPlanState_history DeletePlan_history ReorderPlans_history
  SavePlanVisibility_history ProcessDueTrafficResets_history CreateCoupon_history CreateCouponBatch_history
  UpdateCoupon_history SetCouponVisibility_history DeleteCoupon_history
  CreateGiftCardTemplate_history UpdateGiftCardTemplate_history DeleteGiftCardTemplate_history
  GenerateGiftCardCodes_history UpdateGiftCardCode_history ToggleGiftCardCode_history DeleteGiftCardCode_history
  RedeemGiftCard_history)+

definition store_run :: "location \<Rightarrow> db \<Rightarrow> db \<Rightarrow> bool" where
  "store_run loc = (store_step loc)\<^sup>*\<^sup>*"

lemma store_run_history:
  assumes "store_run loc d d'" and "db_ok d"
  shows "history d d'"
  using assms unfolding store_run_def
proof (induction rule: rtranclp_induct)
  case base
  show ?case by (rule history.refl)
next
  case (step d1 d2)
  then show ?case using history.trans [OF step.IH] store_step_history [OF step.hyps(2)] history_ok by blast
qed

lemma store_run_step: "store_run loc d d1 \<Longrightarrow> store_step loc d1 d2 \<Longrightarrow> store_run loc d d2"
  unfolding store_run_def by (rule rtranclp.rtrancl_into_rtrancl)

lemma store_run_refl: "store_run loc d d"
  by (simp add: store_run_def)

end
