(* ===== verification/Desk_Properties.thy ===== *)
theory Desk_Properties
  imports Withdrawals_Correct Store_Runs Sample_Store
begin

text \<open>
  The properties of the support desk: its operations as steps beside those of the store, what holds in every run,
  and what a request, a decision and the closing of stale tickets do. The witnesses run a request and its approval.
\<close>

section \<open>The operations of the desk as steps\<close>

inductive desk_step :: "location \<Rightarrow> desk \<Rightarrow> desk \<Rightarrow> bool" for loc :: location where
  store: "store_step loc (dk_db k) d \<Longrightarrow> desk_step loc k (k\<lparr>dk_db := d\<rparr>)"
| create_ticket: "CreateTicket notify userID tin now k = Inr (v, k') \<Longrightarrow> desk_step loc k k'"
| reply: "replyTicket notify mail ownerID ticketID authorID requireOpen message location now k = Inr (v, k') \<Longrightarrow>
    desk_step loc k k'"
| close: "closeTicket ticketID ownerID now k = Inr (v, k') \<Longrightarrow> desk_step loc k k'"
| close_stale: "CloseStaleAnsweredTickets cutoff now limit k = Inr (n, k') \<Longrightarrow> desk_step loc k k'"
| withdraw: "CreateCommissionWithdrawalTicket notify userID win now k = Inr (v, k') \<Longrightarrow> desk_step loc k k'"
| settle: "TransitionCommissionWithdrawal digest upper lower adminID ticketID tin2 now k = Inr (v, k') \<Longrightarrow> desk_step loc k k'"
| anonymize: "anonymizeCommissionWithdrawalsTx userID now k = Inr k' \<Longrightarrow> desk_step loc k k'"
| audit: "RecordAdminAudit upper lower ain now k = Inr k' \<Longrightarrow> desk_step loc k k'"

lemma desk_keptI:
  assumes "desk_history k k'" and "ledger_untouched k k'" and "threads_bounded k \<Longrightarrow> threads_bounded k'"
  shows "desk_kept k k'"
  using assms ledger_untouched_books(1) by (simp add: desk_kept_def)

lemma desk_step_kept:
  assumes "desk_step loc k k'" and "desk_ok k"
  shows "desk_kept k k'"
  using assms
proof (induction rule: desk_step.induct)
  case (store k d)
  then have "desk_history k (k\<lparr>dk_db := d\<rparr>)"
    by (intro store_desk_history store_step_history [OF store.hyps] desk_ok_store)
  then show ?case by (simp add: desk_kept_def withdrawals_audited_def threads_bounded_def)
next
  case (create_ticket notify userID tin now k v k')
  obtain inp where "createTicketTx notify userID inp now k = Inr (v, k')" by (rule CreateTicket_Tx [OF create_ticket.hyps])
  note r = this
  show ?case by (rule desk_keptI [OF createTicketTx_history [OF r] createTicketTx_threads [OF r create_ticket.prems]])
next
  case (reply notify mail ownerID ticketID authorID requireOpen message location now k v k')
  obtain loc' where "replyTicketTx notify mail ownerID ticketID authorID requireOpen (TrimSpace message) loc' now k = Inr (v, k')"
    by (rule replyTicket_Tx [OF reply.hyps])
  note r = this
  show ?case by (rule desk_keptI [OF replyTicketTx_history [OF r]])
next
  case (close ticketID ownerID now k v k')
  show ?case by (rule desk_keptI [OF closeTicket_history [OF close.hyps]])
next
  case (close_stale cutoff now limit k n k')
  show ?case
    by (rule CloseStaleAnsweredTickets_update [OF close_stale.hyps]) (rule desk_keptI; rule close_tickets_history)
next
  case (audit upper lower ain now k k')
  then obtain l where l: "insert_audit_log l k = Inr k'" by (auto simp: RecordAdminAudit_def elim: insertAdminAudit_log)
  then show ?case
    by (intro desk_keptI insert_audit_log_history [OF l]) (auto simp: insert_audit_log_Inr ledger_untouched_def threads_bounded_def)
qed (erule CreateCommissionWithdrawalTicket_kept TransitionCommissionWithdrawal_kept anonymizeCommissionWithdrawalsTx_kept; assumption)+

definition desk_run :: "location \<Rightarrow> desk \<Rightarrow> desk \<Rightarrow> bool" where
  "desk_run loc = (desk_step loc)\<^sup>*\<^sup>*"

lemma desk_run_kept:
  assumes "desk_run loc k k'" and "desk_ok k"
  shows "desk_kept k k'"
  using assms unfolding desk_run_def
proof (induction rule: rtranclp_induct)
  case base
  show ?case by (rule desk_kept_refl)
next
  case (step k1 k2)
  then have "desk_kept k k1" by simp
  moreover from this have "desk_kept k1 k2"
    using step.hyps(2) step.prems by (intro desk_step_kept) (auto simp: desk_kept_def intro: desk_history_ok)
  ultimately show ?case by (auto simp: desk_kept_def intro: desk_history.trans)
qed

section \<open>A sample desk\<close>

definition sample_desk :: desk where
  "sample_desk =
     \<lparr>dk_db = sample_db\<lparr>db_users := [(sample_user 1 ''inviter@example.com'')\<lparr>u_commission_balance := 5000\<rparr>,
        sample_user 2 ''customer@example.com'', (sample_user 3 ''admin@example.com'')\<lparr>u_is_admin := True\<rparr>]\<rparr>,
      dk_tickets = [], dk_messages = [], dk_withdrawals = [], dk_withdrawal_events = [], dk_audit_logs = [],
      dk_ticket_must_wait_reply = True, dk_withdraw_limit = 1000, dk_withdraw_methods = [''alipay'', ''usdt''],
      dk_ticket_seq = 0, dk_message_seq = 0\<rparr>"

definition sample_notify :: ticket_notify where
  "sample_notify userID ticketID messageID subject message location now = Inr ()"

definition sample_request :: commission_withdrawal_input where
  "sample_request = \<lparr>wi_request_key = ''request-0001'', wi_method = '' alipay '', wi_account = ''inviter@example.com'',
     wi_notification_location = []\<rparr>"

definition sample_ticket :: ticket where
  "sample_ticket = \<lparr>t_id = 1, t_user_id = 1, t_subject = commissionWithdrawalSubject, t_level = 2, t_status = TicketStatusOpen,
     t_reply_status = TicketReplyWaiting, t_last_reply_user_id = 1, t_created_at = 1700000000, t_updated_at = 1700000000\<rparr>"

definition sample_withdrawal :: withdrawal where
  "sample_withdrawal = \<lparr>w_id = 1, w_user_id = 1, w_ticket_id = 1, w_amount = 5000, w_status = ''pending'',
     w_request_key = Some ''request-0001'', w_method = ''alipay'', w_account = ''inviter@example.com'',
     w_payment_reference = [], w_payment_reference_hash = [], w_anonymized_at = None, w_created_at = 1700000000,
     w_updated_at = 1700000000\<rparr>"

definition sample_requested :: desk where
  "sample_requested = sample_desk
     \<lparr>dk_db := sample_db\<lparr>db_users := [(sample_user 1 ''inviter@example.com'')\<lparr>u_admin_revision := 2, u_updated_at := 1700000000\<rparr>,
        sample_user 2 ''customer@example.com'', (sample_user 3 ''admin@example.com'')\<lparr>u_is_admin := True\<rparr>]\<rparr>,
      dk_tickets := [sample_ticket],
      dk_messages := [\<lparr>tm_id = 1, tm_ticket_id = 1, tm_user_id = 1,
        tm_message = withdrawal_message ''alipay'' ''inviter@example.com'', tm_created_at = 1700000000, tm_updated_at = 1700000000\<rparr>],
      dk_withdrawals := [sample_withdrawal],
      dk_withdrawal_events := [\<lparr>we_withdrawal_id = 1, we_actor_id = 1, we_status = ''pending'', we_available_delta = - 5000,
        we_frozen_delta = 5000, we_paid_delta = 0, we_created_at = 1700000000\<rparr>],
      dk_ticket_seq := 1, dk_message_seq := 1\<rparr>"

definition sample_view :: "string \<Rightarrow> string \<Rightarrow> ticket_view" where
  "sample_view email status =
     \<lparr>tv_withdrawal = Some (scanCommissionWithdrawal (sample_withdrawal\<lparr>w_status := status\<rparr>)), tv_ticket = sample_ticket,
      tv_user_email = email, tv_messages = []\<rparr>"

lemma sample_desk_request:
  "CreateCommissionWithdrawalTicket sample_notify 1 sample_request sample_now sample_desk =
     Inr (sample_view [] ''pending'', sample_requested)"
  by code_simp

definition sample_rejected :: desk where
  "sample_rejected = sample_requested
     \<lparr>dk_db := sample_db\<lparr>db_users := [(sample_user 1 ''inviter@example.com'')
          \<lparr>u_commission_balance := 5000, u_admin_revision := 3, u_updated_at := 1700000000\<rparr>,
        sample_user 2 ''customer@example.com'', (sample_user 3 ''admin@example.com'')\<lparr>u_is_admin := True\<rparr>]\<rparr>,
      dk_withdrawals := [sample_withdrawal\<lparr>w_status := ''rejected''\<rparr>],
      dk_withdrawal_events := dk_withdrawal_events sample_requested @ [\<lparr>we_withdrawal_id = 1, we_actor_id = 3,
        we_status = ''rejected'', we_available_delta = 5000, we_frozen_delta = - 5000, we_paid_delta = 0, we_created_at = 1700000000\<rparr>],
      dk_audit_logs := [\<lparr>al_administrator_id = 3, al_administrator_email = ''admin@example.com'', al_method = ''POST'',
        al_route = ''/api/v1/admin/tickets/{ticketID}/withdrawal'', al_status_code = 200, al_created_at = 1700000000\<rparr>]\<rparr>"

lemma sample_desk_reject:
  "TransitionCommissionWithdrawal id id id 3 1 \<lparr>wt_status = ''rejected'', wt_payment_reference = []\<rparr> sample_now sample_requested =
     Inr (sample_view ''inviter@example.com'' ''rejected'', sample_rejected)"
  by code_simp

lemma sample_desk_ok: "desk_ok sample_desk"
  unfolding desk_ok_def db_ok_def holds_defs desk_holds_defs seqs_ok_def check_defs by code_simp

lemma sample_desk_run: "desk_run sample_zone sample_desk sample_rejected"
  unfolding desk_run_def
  by (rule rtranclp.rtrancl_into_rtrancl [OF r_into_rtranclp [where r = "desk_step sample_zone"]])
     (rule desk_step.withdraw [OF sample_desk_request], rule desk_step.settle [OF sample_desk_reject])

lemma sample_requested_ok: "desk_ok sample_requested"
  by (rule desk_history_ok [OF _ sample_desk_ok])
     (use CreateCommissionWithdrawalTicket_kept(1) [OF sample_desk_request sample_desk_ok] in \<open>simp add: desk_kept_def\<close>)

section \<open>Every run\<close>

text \<open>C35: However the operations of the desk and of the store are interleaved, the constraints and triggers of the desk hold, no
  ticket has more than a thousand messages, and every withdrawal has a complete audit trail in the ledger: its events are a
  legal sequence of decisions ending in its status, what they took from the available commission is its amount until it is
  rejected, what they froze is its amount while it is open, and what they paid is its amount once it is paid.\<close>

theorem desk_stays_consistent:
  assumes "desk_run loc k k'" and "desk_ok k" and "withdrawals_audited k" and "threads_bounded k"
  shows "desk_ok k' \<and> threads_bounded k' \<and>
    (\<forall>w\<in>set (dk_withdrawals k'). \<exists>es. es = trail (w_id w) (dk_withdrawal_events k') \<and> settlement (w_amount w) (w_status w) es \<and>
       sum_list (map (\<lambda>(_, x, _, _). x) es) = (if w_status w = ''rejected'' then 0 else - w_amount w) \<and>
       sum_list (map (\<lambda>(_, _, f, _). f) es) = (if w_status w = ''pending'' \<or> w_status w = ''approved'' then w_amount w else 0) \<and>
       sum_list (map (\<lambda>(_, _, _, p). p) es) = (if w_status w = ''paid'' then w_amount w else 0))"
proof -
  have kept: "desk_kept k k'" by (rule desk_run_kept [OF assms(1,2)])
  then have "withdrawals_audited k'" using assms(3) by (simp add: desk_kept_def)
  then have "settlement (w_amount w) (w_status w) (trail (w_id w) (dk_withdrawal_events k'))" if "w \<in> set (dk_withdrawals k')" for w
    using that by (simp add: withdrawals_audited_def list_all_iff)
  then show ?thesis
    using kept desk_history_ok assms(2,4) settlement_sums unfolding desk_kept_def by blast
qed

theorem desk_stays_consistent_witness:
  "desk_ok sample_rejected \<and> settlement 5000 ''rejected'' (trail 1 (dk_withdrawal_events sample_rejected))"
proof -
  have "withdrawals_audited sample_desk" "threads_bounded sample_desk"
    by (simp_all add: withdrawals_audited_def threads_bounded_def sample_desk_def)
  from desk_stays_consistent [OF sample_desk_run sample_desk_ok this] show ?thesis
    by (simp add: sample_rejected_def [THEN arg_cong [where f = dk_withdrawals]] sample_withdrawal_def)
qed

text \<open>C36: Nothing is lost on the desk: in every run of the desk and the store, tickets and withdrawals stay, a ticket keeps its
  user, subject and level and, once closed, is never opened again; a withdrawal keeps its user, ticket, amount, method and
  request key, moves only from pending to approved to paid or to rejected, and, once paid, keeps the digest of its receipt;
  messages, ledger events and audit logs are only appended.\<close>

theorem desk_life_cycle:
  assumes "desk_run loc k k'" and "desk_ok k"
  shows "(\<forall>t\<in>set (dk_tickets k). \<exists>t'\<in>set (dk_tickets k'). t_id t' = t_id t \<and> t_user_id t' = t_user_id t \<and>
       t_subject t' = t_subject t \<and> t_level t' = t_level t \<and> (t_status t = TicketStatusClosed \<longrightarrow> t_status t' = TicketStatusClosed)) \<and>
    (\<forall>w\<in>set (dk_withdrawals k). \<exists>w'\<in>set (dk_withdrawals k'). w_id w' = w_id w \<and> withdrawal_immutable w w' \<and>
       withdrawal_reach (w_status w) (w_status w') \<and> (w_status w = ''rejected'' \<longrightarrow> w_status w' = ''rejected'') \<and>
       (w_status w = ''paid'' \<longrightarrow> w_status w' = ''paid'' \<and> w_payment_reference_hash w' = w_payment_reference_hash w)) \<and>
    (\<exists>ms. dk_messages k' = dk_messages k @ ms) \<and> (\<exists>es. dk_withdrawal_events k' = dk_withdrawal_events k @ es) \<and>
    (\<exists>ls. dk_audit_logs k' = dk_audit_logs k @ ls)"
proof -
  have h: "desk_history k k'" using desk_run_kept [OF assms] by (simp add: desk_kept_def)
  have "\<exists>w'\<in>set (dk_withdrawals k'). w_id w' = w_id w \<and> withdrawal_immutable w w' \<and>
       withdrawal_reach (w_status w) (w_status w') \<and> (w_status w = ''rejected'' \<longrightarrow> w_status w' = ''rejected'') \<and>
       (w_status w = ''paid'' \<longrightarrow> w_status w' = ''paid'' \<and> w_payment_reference_hash w' = w_payment_reference_hash w)"
    if "w \<in> set (dk_withdrawals k)" for w
  proof -
    obtain w' where "w' \<in> set (dk_withdrawals k')" "withdrawal_evolves w w'" using h \<open>w \<in> set (dk_withdrawals k)\<close>
      unfolding desk_history_def by blast
    then show ?thesis by (intro bexI [of _ w']) (auto simp: withdrawal_evolves_def withdrawal_reach_final)
  qed
  moreover have "\<forall>t\<in>set (dk_tickets k). \<exists>t'\<in>set (dk_tickets k'). ticket_evolves t t'" using h by (simp add: desk_history_def)
  ultimately show ?thesis using h unfolding desk_history_def ticket_evolves_def by blast
qed

theorem desk_life_cycle_witness:
  "\<exists>ls. dk_audit_logs sample_rejected = dk_audit_logs sample_desk @ ls"
  using desk_life_cycle [OF sample_desk_run sample_desk_ok] by blast

section \<open>Requests and decisions\<close>

text \<open>C37: A withdrawal neither creates nor destroys money: a request and a decision of an administrator leave what each user owns
  unchanged, the balance and commission together with every withdrawal that was not rejected.\<close>

theorem withdrawal_conserves_money:
  assumes "desk_ok k"
    and "CreateCommissionWithdrawalTicket notify userID win now k = Inr (v, k') \<or>
      TransitionCommissionWithdrawal digest upper lower adminID ticketID tin now k = Inr (v, k')"
  shows "credits (withdrawn (dk_withdrawals k')) (holdings (dk_db k')) = credits (withdrawn (dk_withdrawals k)) (holdings (dk_db k))"
  using assms(2) CreateCommissionWithdrawalTicket_kept(2) [OF _ assms(1)] TransitionCommissionWithdrawal_kept(2) [OF _ assms(1)]
  unfolding estate_def by blast

theorem withdrawal_conserves_money_witness:
  "credits (withdrawn (dk_withdrawals sample_requested)) (holdings (dk_db sample_requested)) = [(1, 5000), (2, 0), (3, 0)]"
proof -
  have "credits (withdrawn (dk_withdrawals sample_requested)) (holdings (dk_db sample_requested)) =
      credits (withdrawn (dk_withdrawals sample_desk)) (holdings (dk_db sample_desk))"
    by (rule withdrawal_conserves_money [OF sample_desk_ok disjI1 [OF sample_desk_request]])
  also have "\<dots> = [(1, 5000), (2, 0), (3, 0)]" by code_simp
  finally show ?thesis .
qed

text \<open>C38: A request that repeats no earlier one freezes the whole commission of the user: the user's method and balance satisfy the
  policy, afterwards the user has no commission left, one pending withdrawal of the old commission is recorded under the
  trimmed method, account and key, behind a new open ticket of the highest level, and the answer shows it.\<close>

theorem withdrawal_request_freezes:
  assumes ok: "desk_ok k" and r: "CreateCommissionWithdrawalTicket notify userID win now k = Inr (v, k')"
    and new: "findCommissionWithdrawalReplay userID (withdrawal_input win) k = Inr None"
  shows "\<exists>u\<in>set (db_users (dk_db k)). \<exists>w t. u_id u = userID \<and> \<not> u_banned u \<and>
    TrimSpace (wi_method win) \<in> set (dk_withdraw_methods k) \<and> dk_withdraw_limit k \<le> u_commission_balance u \<and> 0 < u_commission_balance u \<and>
    (\<exists>x\<in>set (db_users (dk_db k')). u_id x = userID \<and> u_commission_balance x = 0 \<and> u_balance x = u_balance u) \<and>
    dk_withdrawals k' = dk_withdrawals k @ [w] \<and> w_user_id w = userID \<and> w_amount w = u_commission_balance u \<and>
    w_status w = ''pending'' \<and> w_method w = TrimSpace (wi_method win) \<and> w_account w = TrimSpace (wi_account win) \<and>
    dk_tickets k' = dk_tickets k @ [t] \<and> t_user_id t = userID \<and> t_status t = TicketStatusOpen \<and> t_level t = 2 \<and>
    w_ticket_id w = t_id t \<and> t_id (tv_ticket v) = t_id t \<and> tv_withdrawal v = Some (scanCommissionWithdrawal w)"
proof -
  let ?inp = "withdrawal_input win"
  obtain u where u: "u \<in> set (db_users (dk_db k))" "u_id u = userID" "\<not> u_banned u"
    and rq: "request_withdrawal notify userID ?inp (u_commission_balance u) now k = Inr (v, k')"
    by (rule CreateCommissionWithdrawalTicket_cases [OF r]) (use new in auto)
  obtain inp v1 k1 where pol: "wi_method ?inp \<in> set (dk_withdraw_methods k)" "dk_withdraw_limit k \<le> u_commission_balance u"
      "0 < u_commission_balance u"
    and t: "createTicketTx notify userID inp now k = Inr (v1, k1)" "ti_level inp = 2"
    and f: "freezeCommissionWithdrawalTx userID ?inp v1 (u_commission_balance u) now k1 = Inr (v, k')"
    by (rule request_withdrawal_stages [OF rq]) simp
  note tk = createTicketTx_row [OF t(1) ok]
  have db1: "dk_db k1 = dk_db k" and ws1: "dk_withdrawals k1 = dk_withdrawals k"
    using createTicketTx_history(2) [OF t(1)] by (simp_all add: ledger_untouched_def)
  have ok1: "desk_ok k1" by (rule desk_history_ok [OF createTicketTx_history(1) [OF t(1)] ok])
  have rows: "\<exists>w. dk_withdrawals k' = dk_withdrawals k @ [w] \<and> w_user_id w = userID \<and> w_amount w = u_commission_balance u \<and>
      w_status w = ''pending'' \<and> w_method w = TrimSpace (wi_method win) \<and> w_account w = TrimSpace (wi_account win) \<and>
      w_ticket_id w = t_id (tv_ticket v1)"
    and users: "\<exists>x\<in>set (db_users (dk_db k')). u_id x = userID \<and> u_commission_balance x = 0 \<and> u_balance x = u_balance u"
    and v: "v = loadTicketWithdrawal v1 k'"
    using withdrawal_frozen_rows [OF f ok1, of u] u(1,2) db1 ws1 by (simp_all add: withdrawal_input_def)
  from rows obtain w where w: "dk_withdrawals k' = dk_withdrawals k @ [w]" "w_user_id w = userID" "w_amount w = u_commission_balance u"
      "w_status w = ''pending''" "w_method w = TrimSpace (wi_method win)" "w_account w = TrimSpace (wi_account win)"
      "w_ticket_id w = t_id (tv_ticket v1)" by blast
  have ok': "desk_ok k'" by (rule desk_history_ok [OF freezeCommissionWithdrawalTx_history(1) [OF f] ok1])
  have "List.find (\<lambda>x. w_ticket_id x = t_id (tv_ticket v1) \<and> w_user_id x = userID) (dk_withdrawals k') = Some w"
    using desk_ticket_withdrawal [OF ok', of w] w by simp
  then have "tv_withdrawal v = Some (scanCommissionWithdrawal w)" "tv_ticket v = tv_ticket v1"
    using v tk(2) by (simp_all add: loadTicketWithdrawal_def)
  then show ?thesis
    using u pol users w tk t(2) freezeCommissionWithdrawalTx_history(2) [OF f]
    by (intro bexI [of _ u] exI [of _ w] exI [of _ "tv_ticket v1"]) (simp_all add: withdrawal_input_def)
qed

theorem withdrawal_request_freezes_witness:
  "\<exists>w t. dk_withdrawals sample_requested = [w] \<and> w_amount w = 5000 \<and> w_method w = TrimSpace '' alipay '' \<and>
     dk_tickets sample_requested = [t] \<and> w_ticket_id w = t_id t"
proof -
  have new: "findCommissionWithdrawalReplay 1 (withdrawal_input sample_request) sample_desk = Inr None" by code_simp
  obtain u w t where "u \<in> set (db_users (dk_db sample_desk))" "u_id u = 1" "w_amount w = u_commission_balance u"
    "dk_withdrawals sample_requested = dk_withdrawals sample_desk @ [w]" "w_method w = TrimSpace (wi_method sample_request)"
    "dk_tickets sample_requested = dk_tickets sample_desk @ [t]" "w_ticket_id w = t_id t"
    using withdrawal_request_freezes [OF sample_desk_ok sample_desk_request new] by blast
  then show ?thesis by (auto simp: sample_desk_def sample_user_def sample_request_def)
qed

text \<open>C39: A withdrawal request with a key is carried out at most once, ever: after it succeeded, and whatever the desk and the store
  did since, another request of the same user with the same key, however its other fields read, changes nothing when it
  succeeds, and is answered with the ticket of the first one.\<close>

theorem withdrawal_request_at_most_once:
  assumes ok: "desk_ok k" and r: "CreateCommissionWithdrawalTicket notify userID win now k = Inr (v, k1)"
    and key: "wi_request_key win \<noteq> []" "wi_request_key win' = wi_request_key win" and run: "desk_run loc k1 k2"
    and again: "CreateCommissionWithdrawalTicket notify' userID win' now' k2 = Inr (v', k3)"
  shows "k3 = k2 \<and> t_id (tv_ticket v') = t_id (tv_ticket v)"
proof -
  have keys: "wi_request_key (withdrawal_input x) = wi_request_key x" for x by (simp add: withdrawal_input_def)
  have ok1: "desk_ok k1"
    using CreateCommissionWithdrawalTicket_kept(1) [OF r ok] desk_history_ok ok unfolding desk_kept_def by blast
  have kept: "desk_kept k1 k2" by (rule desk_run_kept [OF run ok1])
  then have ok2: "desk_ok k2" using ok1 desk_history_ok unfolding desk_kept_def by blast
  obtain w where w: "w \<in> set (dk_withdrawals k1)" "w_user_id w = userID" "w_request_key w = Some (wi_request_key win)"
    "t_id (tv_ticket v) = w_ticket_id w"
  proof (cases rule: CreateCommissionWithdrawalTicket_cases [OF r])
    case 1
    then show thesis
      using findCommissionWithdrawalReplay_found [OF 1(1)] key(1) that unfolding keys by blast
  next
    case (2 u)
    obtain w where "w \<in> set (dk_withdrawals k1)" "w_user_id w = userID"
      "w_request_key w = (if wi_request_key win = [] then None else Some (wi_request_key win))" "w_ticket_id w = t_id (tv_ticket v)"
      by (rule request_withdrawal_recorded [OF 2(6)]) (simp add: keys)
    then show thesis using that key(1) by simp
  qed
  obtain w2 where w2: "w2 \<in> set (dk_withdrawals k2)" "withdrawal_evolves w w2"
    using kept w(1) unfolding desk_kept_def desk_history_def by blast
  then have "w_user_id w2 = userID" "w_request_key w2 = Some (wi_request_key (withdrawal_input win'))" "w_ticket_id w2 = w_ticket_id w"
    using w key(2) by (auto simp: withdrawal_evolves_def withdrawal_immutable_def keys)
  note found = findCommissionWithdrawalReplay_keyed [OF ok2 w2(1) this(1,2)]
  show ?thesis
    by (rule CreateCommissionWithdrawalTicket_cases [OF again])
       (use found key w(4) \<open>w_ticket_id w2 = w_ticket_id w\<close> in \<open>fastforce simp: keys\<close>)+
qed

theorem withdrawal_request_at_most_once_witness:
  "\<exists>v' k3. CreateCommissionWithdrawalTicket sample_notify 1 sample_request (sample_now + 1) sample_rejected = Inr (v', k3) \<and>
     k3 = sample_rejected \<and> t_id (tv_ticket v') = 1"
proof -
  have again: "CreateCommissionWithdrawalTicket sample_notify 1 sample_request (sample_now + 1) sample_rejected =
      Inr (sample_view [] ''rejected'', sample_rejected)" by code_simp
  have run: "desk_run sample_zone sample_requested sample_rejected"
    unfolding desk_run_def by (rule r_into_rtranclp) (rule desk_step.settle [OF sample_desk_reject])
  have "wi_request_key sample_request \<noteq> []" by (simp add: sample_request_def)
  from withdrawal_request_at_most_once [OF sample_desk_ok sample_desk_request this refl run again]
  show ?thesis using again by (auto simp: sample_view_def sample_ticket_def)
qed

section \<open>Stale tickets\<close>

text \<open>C40: The scheduled closing of tickets closes only open tickets the desk has answered and that have rested until the cut-off,
  as many as there are up to the limit, those that have rested longest first, leaves every other ticket as it was, and
  reports their number; when it reports fewer than the limit, none is left.\<close>

theorem stale_tickets_closed:
  assumes ok: "desk_ok k" and r: "CloseStaleAnsweredTickets cutoff now limit k = Inr (n, k')"
  shows "\<exists>closed. closed \<subseteq> {t \<in> set (dk_tickets k). stale_answered cutoff t} \<and> int (card closed) = n \<and>
    dk_tickets k' = map (\<lambda>t. if t \<in> closed then t\<lparr>t_status := TicketStatusClosed, t_updated_at := unix now\<rparr> else t) (dk_tickets k) \<and>
    n = min limit (int (count_where (stale_answered cutoff) (dk_tickets k))) \<and>
    (\<forall>t\<in>closed. \<forall>t'\<in>set (dk_tickets k). stale_answered cutoff t' \<and> t' \<notin> closed \<longrightarrow> t_updated_at t \<le> t_updated_at t') \<and>
    (n < limit \<longrightarrow> count_where (stale_answered cutoff) (dk_tickets k') = 0) \<and> ledger_untouched k k'"
proof -
  let ?S = "filter (stale_answered cutoff) (dk_tickets k)"
  let ?O = "order_by t_updated_at ?S"
  let ?B = "take (nat limit) ?O"
  obtain p where u: "update_tickets p (\<lambda>t. t\<lparr>t_status := TicketStatusClosed, t_updated_at := unix now\<rparr>) k = Inr k'"
    and n: "n = int (count_where p (dk_tickets k))" and limit: "0 < limit"
    and p: "p = (\<lambda>t. t_id t \<in> t_id ` set ?B \<and> stale_answered cutoff t)"
    by (rule CloseStaleAnsweredTickets_update [OF r])
  have dist: "distinct (map t_id (dk_tickets k))" using ok by (simp add: desk_ok_def tickets.holds_def tickets_unique_def)
  have sub: "set ?B \<subseteq> {t \<in> set (dk_tickets k). stale_answered cutoff t}" by (rule batch_subset)
  have mem: "p t \<longleftrightarrow> t \<in> set ?B" if "t \<in> set (dk_tickets k)" for t
    using sub dist that unfolding p by (auto simp: distinct_map dest: inj_onD)
  have dB: "distinct ?B" using batch_distinct [OF dist] by (simp add: distinct_map)
  have "set (filter p (dk_tickets k)) = set ?B" using mem sub by auto
  moreover have "distinct (filter p (dk_tickets k))" using dist by (simp add: distinct_map)
  ultimately have count: "count_where p (dk_tickets k) = length ?B"
    using dB by (metis count_where_def distinct_card)
  have lenO: "length ?O = count_where (stale_answered cutoff) (dk_tickets k)" by (simp add: order_by_def count_where_def)
  have card: "int (card (set ?B)) = n" using n count dB by (simp add: distinct_card)
  have len: "n = min limit (int (count_where (stale_answered cutoff) (dk_tickets k)))"
    using limit unfolding n count length_take lenO by linarith
  have oldest: "t_updated_at t \<le> t_updated_at t'"
    if "t \<in> set ?B" "t' \<in> set (dk_tickets k)" "stale_answered cutoff t'" "t' \<notin> set ?B" for t t'
    by (rule batch_oldest [OF that(1) _ that(4)]) (use that(2,3) in simp)
  have k': "dk_tickets k' = map (\<lambda>t. if t \<in> set ?B then t\<lparr>t_status := TicketStatusClosed, t_updated_at := unix now\<rparr> else t) (dk_tickets k)"
    using u mem by (simp add: update_tickets_Inr update_where_def)
  have left: "count_where (stale_answered cutoff) (dk_tickets k') = 0" if "n < limit"
  proof -
    have "set ?B = set ?O" using that len lenO limit by (simp add: min_def split: if_splits)
    then show ?thesis by (auto simp: k' count_where_0 stale_answered_def)
  qed
  show ?thesis
    using sub card k' len oldest left close_tickets_history(2) [OF u] by (intro exI [of _ "set ?B"]) blast
qed

definition sample_answered :: desk where
  "sample_answered = sample_requested\<lparr>dk_tickets := [sample_ticket\<lparr>t_reply_status := TicketReplyAnswered, t_last_reply_user_id := 3\<rparr>]\<rparr>"

theorem stale_tickets_closed_witness:
  "\<exists>k'. CloseStaleAnsweredTickets sample_now (sample_now + seconds 60) 100 sample_answered = Inr (1, k') \<and>
     count_where (stale_answered sample_now) (dk_tickets k') = 0"
proof -
  have ok: "desk_ok sample_answered"
    unfolding desk_ok_def db_ok_def holds_defs desk_holds_defs seqs_ok_def check_defs by code_simp
  have r: "CloseStaleAnsweredTickets sample_now (sample_now + seconds 60) 100 sample_answered =
      Inr (1, sample_answered\<lparr>dk_tickets := [sample_ticket\<lparr>t_reply_status := TicketReplyAnswered, t_last_reply_user_id := 3,
        t_status := TicketStatusClosed, t_updated_at := 1700000060\<rparr>]\<rparr>)" by code_simp
  from stale_tickets_closed [OF ok r] r show ?thesis by auto
qed

end
