(* ===== verification/Meter_Schema.thy ===== *)
theory Meter_Schema
  imports Store_Tables Go_Strings
begin

text \<open>
  The tables behind the nodes' reports (\<^verbatim>\<open>internal/store/sqlite.go\<close>): nodes and their rates, group memberships, the
  receipts of reports, the daily statistics, the devices seen and the connections of each user. A meter holds a
  store; the columns \<^verbatim>\<open>online_count\<close> and \<^verbatim>\<open>last_online_at\<close> of the users are kept in \<open>presence\<close> rows beside it.
\<close>

section \<open>Rows\<close>

record node =
  n_id :: int
  n_name :: string
  n_enabled :: bool
  n_machine_id :: "int option"
  n_rate_micros :: int
  n_runtime_config :: "string option"
  n_traffic_u :: int
  n_traffic_d :: int
  n_last_check_at :: "int option"
  n_last_push_at :: "int option"

text \<open>
  A range of the rate schedule, decoded from its JSON; the rate is the value of
  \<^verbatim>\<open>int64(math.Round(item.Rate * 1e6))\<close>.
\<close>

record node_rate_range =
  rr_start :: string
  rr_end :: string
  rr_rate_micros :: int

record node_definition =
  nd_node_id :: int
  nd_configured_rate_micros :: int
  nd_rate_time_enabled :: bool
  nd_rate_time_ranges :: "node_rate_range list"

record report_receipt =
  nr_node_id :: int
  nr_report_id :: string
  nr_traffic_hash :: string
  nr_created_at :: int

record user_stat =
  us_user_id :: int
  us_rate_micros :: int
  us_record_at :: int
  us_record_type :: string
  us_upload :: int
  us_download :: int
  us_created_at :: int
  us_updated_at :: int

record node_stat =
  ns_node_id :: int
  ns_record_at :: int
  ns_record_type :: string
  ns_upload :: int
  ns_download :: int
  ns_created_at :: int
  ns_updated_at :: int

record device =
  dv_node_id :: int
  dv_user_id :: int
  dv_ip :: string
  dv_expires_at :: int

record user_online =
  uo_node_id :: int
  uo_user_id :: int
  uo_connections :: int
  uo_expires_at :: int

record presence =
  pr_user_id :: int
  pr_online_count :: int
  pr_last_online_at :: "int option"

record runtime_state =
  rs_node_id :: int
  rs_status :: "string option"
  rs_metrics :: "string option"
  rs_updated_at :: int

record subscription =
  sb_subscriber_user_id :: int
  sb_config_issued_at :: "int option"
  sb_connected_at :: "int option"
  sb_connected_node_id :: "int option"
  sb_connected_node_name :: "string option"
  sb_revision :: int
  sb_created_at :: int
  sb_updated_at :: int

record meter =
  mt_db :: db
  mt_nodes :: "node list"
  mt_definitions :: "node_definition list"
  mt_memberships :: "(int \<times> int) list"
  mt_receipts :: "report_receipt list"
  mt_user_stats :: "user_stat list"
  mt_node_stats :: "node_stat list"
  mt_devices :: "device list"
  mt_online :: "user_online list"
  mt_presence :: "presence list"
  mt_states :: "runtime_state list"
  mt_subscriptions :: "subscription list"

section \<open>Constraints\<close>

definition meter_users :: "meter \<Rightarrow> int list" where
  "meter_users m = map u_id (db_users (mt_db m))"

definition meter_nodes :: "meter \<Rightarrow> int list" where
  "meter_nodes m = map n_id (mt_nodes m)"

definition node_check :: "meter \<Rightarrow> node \<Rightarrow> bool" where
  "node_check m n \<longleftrightarrow>
     1 \<le> n_rate_micros n \<and> n_rate_micros n \<le> 1000000000 \<and> 0 \<le> n_traffic_u n \<and> 0 \<le> n_traffic_d n"

definition definition_ok :: "node_definition \<Rightarrow> bool" where
  "definition_ok nd \<longleftrightarrow> 0 \<le> nd_configured_rate_micros nd \<and> nd_configured_rate_micros nd \<le> 1000000000"

text \<open>What \<^verbatim>\<open>validateLegacyRateRanges\<close> demands of the rates of a schedule that is switched on.\<close>

definition schedule_ok :: "node_definition \<Rightarrow> bool" where
  "schedule_ok nd \<longleftrightarrow>
     nd_rate_time_enabled nd \<longrightarrow> list_all (\<lambda>r. 0 \<le> rr_rate_micros r \<and> rr_rate_micros r \<le> 1000000000) (nd_rate_time_ranges nd)"

definition receipt_row_check :: "meter \<Rightarrow> report_receipt \<Rightarrow> bool" where
  "receipt_row_check m r \<longleftrightarrow> nr_node_id r \<in> set (meter_nodes m) \<and> length (nr_traffic_hash r) = 32"

definition receipts_distinct :: "report_receipt list \<Rightarrow> bool" where
  "receipts_distinct rows \<longleftrightarrow> distinct (map (\<lambda>r. (nr_node_id r, nr_report_id r)) rows)"

definition user_stat_check :: "meter \<Rightarrow> user_stat \<Rightarrow> bool" where
  "user_stat_check m r \<longleftrightarrow>
     us_user_id r \<in> set (meter_users m) \<and> us_record_type r \<in> {''d'', ''m''} \<and> 0 \<le> us_upload r \<and> 0 \<le> us_download r"

definition user_stat_key :: "user_stat \<Rightarrow> int \<times> int \<times> int \<times> string" where
  "user_stat_key r = (us_user_id r, us_rate_micros r, us_record_at r, us_record_type r)"

definition user_stats_distinct :: "user_stat list \<Rightarrow> bool" where
  "user_stats_distinct rows \<longleftrightarrow> distinct (map user_stat_key rows)"

definition node_stat_check :: "meter \<Rightarrow> node_stat \<Rightarrow> bool" where
  "node_stat_check m r \<longleftrightarrow>
     ns_node_id r \<in> set (meter_nodes m) \<and> ns_record_type r \<in> {''d'', ''m''} \<and> 0 \<le> ns_upload r \<and> 0 \<le> ns_download r"

definition node_stat_key :: "node_stat \<Rightarrow> int \<times> int \<times> string" where
  "node_stat_key r = (ns_node_id r, ns_record_at r, ns_record_type r)"

definition node_stats_distinct :: "node_stat list \<Rightarrow> bool" where
  "node_stats_distinct rows \<longleftrightarrow> distinct (map node_stat_key rows)"

definition device_check :: "meter \<Rightarrow> device \<Rightarrow> bool" where
  "device_check m v \<longleftrightarrow> dv_node_id v \<in> set (meter_nodes m) \<and> dv_user_id v \<in> set (meter_users m)"

definition devices_distinct :: "device list \<Rightarrow> bool" where
  "devices_distinct rows \<longleftrightarrow> distinct (map (\<lambda>v. (dv_node_id v, dv_user_id v, dv_ip v)) rows)"

definition online_check :: "meter \<Rightarrow> user_online \<Rightarrow> bool" where
  "online_check m r \<longleftrightarrow> uo_node_id r \<in> set (meter_nodes m) \<and> uo_user_id r \<in> set (meter_users m) \<and> 0 \<le> uo_connections r"

definition online_distinct :: "user_online list \<Rightarrow> bool" where
  "online_distinct rows \<longleftrightarrow> distinct (map (\<lambda>r. (uo_node_id r, uo_user_id r)) rows)"

definition subscription_check :: "meter \<Rightarrow> subscription \<Rightarrow> bool" where
  "subscription_check m b \<longleftrightarrow>
     sb_subscriber_user_id b \<in> set (meter_users m) \<and> opt_all (\<lambda>t. 0 \<le> t) (sb_config_issued_at b) \<and>
     opt_all (\<lambda>t. 0 \<le> t) (sb_connected_at b) \<and> opt_all (\<lambda>i. i \<in> set (meter_nodes m)) (sb_connected_node_id b) \<and>
     opt_all (\<lambda>s. 1 \<le> length s \<and> length s \<le> 255) (sb_connected_node_name b) \<and> 0 < sb_revision b \<and>
     0 \<le> sb_created_at b \<and> sb_created_at b \<le> sb_updated_at b"

definition subscriptions_distinct :: "subscription list \<Rightarrow> bool" where
  "subscriptions_distinct rows \<longleftrightarrow> distinct (map sb_subscriber_user_id rows)"

definition nodes_distinct :: "node list \<Rightarrow> bool" where
  "nodes_distinct rows \<longleftrightarrow> distinct (map n_id rows)"

section \<open>Tables\<close>

definition put_nodes :: "node list \<Rightarrow> meter \<Rightarrow> meter" where
  "put_nodes rs m = m\<lparr>mt_nodes := rs\<rparr>"

definition put_report_receipts :: "report_receipt list \<Rightarrow> meter \<Rightarrow> meter" where
  "put_report_receipts rs m = m\<lparr>mt_receipts := rs\<rparr>"

definition put_user_stats :: "user_stat list \<Rightarrow> meter \<Rightarrow> meter" where
  "put_user_stats rs m = m\<lparr>mt_user_stats := rs\<rparr>"

definition put_node_stats :: "node_stat list \<Rightarrow> meter \<Rightarrow> meter" where
  "put_node_stats rs m = m\<lparr>mt_node_stats := rs\<rparr>"

definition put_devices :: "device list \<Rightarrow> meter \<Rightarrow> meter" where
  "put_devices rs m = m\<lparr>mt_devices := rs\<rparr>"

definition put_online :: "user_online list \<Rightarrow> meter \<Rightarrow> meter" where
  "put_online rs m = m\<lparr>mt_online := rs\<rparr>"

definition put_subscriptions :: "subscription list \<Rightarrow> meter \<Rightarrow> meter" where
  "put_subscriptions rs m = m\<lparr>mt_subscriptions := rs\<rparr>"

lemmas meter_put_defs = put_nodes_def put_report_receipts_def put_user_stats_def put_node_stats_def put_devices_def
  put_online_def put_subscriptions_def

lemmas meter_check_defs = node_check_def receipt_row_check_def user_stat_check_def node_stat_check_def device_check_def
  online_check_def subscription_check_def meter_users_def meter_nodes_def

lemmas meter_unique_defs = nodes_distinct_def receipts_distinct_def user_stats_distinct_def node_stats_distinct_def
  devices_distinct_def online_distinct_def subscriptions_distinct_def

text \<open>The constraints on nodes do not mention other rows.\<close>

interpretation nodes: db_table mt_nodes put_nodes node_check nodes_distinct
  by unfold_locales (simp_all add: meter_put_defs meter_check_defs meter_unique_defs fun_eq_iff)

interpretation report_receipts: db_table mt_receipts put_report_receipts receipt_row_check receipts_distinct
  by unfold_locales (simp_all add: meter_put_defs meter_check_defs meter_unique_defs fun_eq_iff)

interpretation user_stats: db_table mt_user_stats put_user_stats user_stat_check user_stats_distinct
  by unfold_locales (simp_all add: meter_put_defs meter_check_defs meter_unique_defs fun_eq_iff)

interpretation node_stats: db_table mt_node_stats put_node_stats node_stat_check node_stats_distinct
  by unfold_locales (simp_all add: meter_put_defs meter_check_defs meter_unique_defs fun_eq_iff)

interpretation devices: db_table mt_devices put_devices device_check devices_distinct
  by unfold_locales (simp_all add: meter_put_defs meter_check_defs meter_unique_defs fun_eq_iff)

interpretation online: db_table mt_online put_online online_check online_distinct
  by unfold_locales (simp_all add: meter_put_defs meter_check_defs meter_unique_defs fun_eq_iff)

interpretation subscriptions: db_table mt_subscriptions put_subscriptions subscription_check subscriptions_distinct
  by unfold_locales (simp_all add: meter_put_defs meter_check_defs meter_unique_defs fun_eq_iff)

section \<open>Statements\<close>

definition update_meter_users :: "(user \<Rightarrow> bool) \<Rightarrow> (user \<Rightarrow> user) \<Rightarrow> meter \<Rightarrow> store_error + meter" where
  "update_meter_users p f m = ebind (update_users p f (mt_db m)) (\<lambda>d. Inr (m\<lparr>mt_db := d\<rparr>))"

definition update_nodes :: "(node \<Rightarrow> bool) \<Rightarrow> (node \<Rightarrow> node) \<Rightarrow> meter \<Rightarrow> store_error + meter" where
  "update_nodes = exec_update mt_nodes put_nodes node_check nodes_distinct"

definition insert_report_receipt :: "report_receipt \<Rightarrow> meter \<Rightarrow> store_error + meter" where
  "insert_report_receipt = exec_insert mt_receipts put_report_receipts receipt_row_check receipts_distinct"

definition update_user_stats :: "(user_stat \<Rightarrow> bool) \<Rightarrow> (user_stat \<Rightarrow> user_stat) \<Rightarrow> meter \<Rightarrow> store_error + meter" where
  "update_user_stats = exec_update mt_user_stats put_user_stats user_stat_check user_stats_distinct"

definition insert_user_stat :: "user_stat \<Rightarrow> meter \<Rightarrow> store_error + meter" where
  "insert_user_stat = exec_insert mt_user_stats put_user_stats user_stat_check user_stats_distinct"

definition update_node_stats :: "(node_stat \<Rightarrow> bool) \<Rightarrow> (node_stat \<Rightarrow> node_stat) \<Rightarrow> meter \<Rightarrow> store_error + meter" where
  "update_node_stats = exec_update mt_node_stats put_node_stats node_stat_check node_stats_distinct"

definition insert_node_stat :: "node_stat \<Rightarrow> meter \<Rightarrow> store_error + meter" where
  "insert_node_stat = exec_insert mt_node_stats put_node_stats node_stat_check node_stats_distinct"

definition insert_device :: "device \<Rightarrow> meter \<Rightarrow> store_error + meter" where
  "insert_device = exec_insert mt_devices put_devices device_check devices_distinct"

definition update_online :: "(user_online \<Rightarrow> bool) \<Rightarrow> (user_online \<Rightarrow> user_online) \<Rightarrow> meter \<Rightarrow> store_error + meter" where
  "update_online = exec_update mt_online put_online online_check online_distinct"

definition insert_online :: "user_online \<Rightarrow> meter \<Rightarrow> store_error + meter" where
  "insert_online = exec_insert mt_online put_online online_check online_distinct"

definition update_subscriptions ::
  "(subscription \<Rightarrow> bool) \<Rightarrow> (subscription \<Rightarrow> subscription) \<Rightarrow> meter \<Rightarrow> store_error + meter" where
  "update_subscriptions = exec_update mt_subscriptions put_subscriptions subscription_check subscriptions_distinct"

end
