(* ===== verification/Meter.thy ===== *)
theory Meter
  imports Meter_Schema
begin

text \<open>
  Reports of the nodes (\<^verbatim>\<open>internal/store/runtime.go\<close>): weighting the traffic by the rate of the node, claiming the id of a
  report so that it is counted once, adding it to users, nodes and daily statistics, and keeping devices and
  connections. A map of the report is the list of its entries in the order the loop meets them. The argument
  \<open>digest\<close> is \<^verbatim>\<open>sha256\<close>. The stage table lives only inside one transaction and is a list of rows.
\<close>

section \<open>Inputs and results\<close>

record traffic_usage =
  tu_upload :: int
  tu_download :: int

record node_report_input =
  np_machine_id :: int
  np_legacy_auth :: bool
  np_node_id :: int
  np_report_id :: string
  np_traffic :: "(int \<times> traffic_usage) list"
  np_alive :: "(int \<times> string list) list"
  np_replace_all_devices :: bool
  np_external_device_state :: bool
  np_online :: "(int \<times> int) list"
  np_status :: string
  np_metrics :: string
  np_now :: instant

record node_report_result =
  nx_duplicate_traffic :: bool
  nx_device_user_ids :: "int list"
  nx_exceeded_users :: "(int \<times> int) list"

definition nodeRateLocation :: location where
  "nodeRateLocation t = 28800"

definition deviceStateTTL :: int where
  "deviceStateTTL = seconds 300"

section \<open>Rates\<close>

fun str_le :: "string \<Rightarrow> string \<Rightarrow> bool" where
  "str_le [] bs = True"
| "str_le (a # as) [] = False"
| "str_le (a # as) (b # bs) = (byte a < byte b \<or> byte a = byte b \<and> str_le as bs)"

definition clock_text :: "instant \<Rightarrow> string" where
  "clock_text now =
     (let s = clock_seconds nodeRateLocation (unix now) in zero_pad 2 (nat (s div 3600)) @ '':'' @ zero_pad 2 (nat (s div 60 mod 60)))"

definition nodeRateMicrosAt :: "int \<Rightarrow> bool \<Rightarrow> node_rate_range list \<Rightarrow> instant \<Rightarrow> int" where
  "nodeRateMicrosAt configured enabled ranges now =
     (if \<not> enabled then configured else
      case List.find (\<lambda>r. str_le (rr_start r) (clock_text now) \<and> str_le (clock_text now) (rr_end r)) ranges of
        Some r \<Rightarrow> rr_rate_micros r
      | None \<Rightarrow> configured)"

definition weightedTraffic :: "int \<Rightarrow> int \<Rightarrow> store_error + int" where
  "weightedTraffic value rateMicros =
     (if value < 0 \<or> rateMicros < 0 then Inl ErrInvalidInput
      else if rateMicros = 0 then Inr 0 else
      let whole = value sdiv 1000000; remainder = value smod 1000000 in
      if whole > max_i64 sdiv rateMicros then Inl ErrInvalidInput else
      let weightedWhole = i64 (whole * rateMicros); weightedRemainder = i64 (remainder * rateMicros) sdiv 1000000 in
      if weightedWhole > i64 (max_i64 - weightedRemainder) then Inl ErrInvalidInput
      else Inr (i64 (weightedWhole + weightedRemainder)))"

section \<open>The digest of a report\<close>

text \<open>\<^verbatim>\<open>binary.BigEndian.PutUint64(uint64(v))\<close>.\<close>

fun be_bytes :: "nat \<Rightarrow> nat \<Rightarrow> string" where
  "be_bytes 0 n = []"
| "be_bytes (Suc w) n = be_bytes w (n div 256) @ [char_of (n mod 256)]"

definition be64 :: "int \<Rightarrow> string" where
  "be64 v = be_bytes 8 (nat (v mod 18446744073709551616))"

definition encode_traffic :: "(int \<times> traffic_usage) list \<Rightarrow> string" where
  "encode_traffic traffic =
     concat (map (\<lambda>(userID, usage). be64 userID @ be64 (tu_upload usage) @ be64 (tu_download usage)) (sort_key fst traffic))"

definition reportTrafficHash :: "(string \<Rightarrow> string) \<Rightarrow> (int \<times> traffic_usage) list \<Rightarrow> string" where
  "reportTrafficHash digest traffic = digest (encode_traffic traffic)"

section \<open>Who may be reported\<close>

function batches :: "nat \<Rightarrow> 'a list \<Rightarrow> 'a list list" where
  "batches n xs = (if xs = [] \<or> n = 0 then [] else take n xs # batches n (drop n xs))"
  by pat_completeness auto
termination by (relation "measure (\<lambda>(n, xs). length xs)") auto

declare batches.simps [simp del]

definition reported_users :: "node_report_input \<Rightarrow> int list" where
  "reported_users inp =
     (let keys = map fst (np_traffic inp) @ map fst (np_alive inp) @ map fst (np_online inp);
          countNonEmpty = length (filter (\<lambda>b. b) [np_traffic inp \<noteq> [], np_alive inp \<noteq> [], np_online inp \<noteq> []]) in
      sort (if countNonEmpty = 1 then keys else remdups keys))"

definition in_node_groups :: "int \<Rightarrow> meter \<Rightarrow> user \<Rightarrow> bool" where
  "in_node_groups nodeID m u \<longleftrightarrow> list_ex (\<lambda>(n, g). n = nodeID \<and> u_group_id u = Some g) (mt_memberships m)"

definition authorizeReportedUsers :: "node_report_input \<Rightarrow> meter \<Rightarrow> store_error + unit" where
  "authorizeReportedUsers inp m =
     (let userIDs = reported_users inp in
      if userIDs = [] then Inr ()
      else if list_ex (\<lambda>i. i < 1) userIDs then Inl ErrInvalidInput
      else if list_all (\<lambda>batch. length (remdups (map u_id (filter (\<lambda>u. in_node_groups (np_node_id inp) m u \<and> u_id u \<in> set batch)
             (db_users (mt_db m))))) = length batch) (batches 500 userIDs)
      then Inr () else Inl ErrInvalidInput)"

section \<open>Users beyond their quota\<close>

definition exceeded_traffic :: "user \<Rightarrow> bool" where
  "exceeded_traffic u \<longleftrightarrow>
     u_group_id u \<noteq> None \<and> u_transfer_enable u > 0 \<and> \<not> u_banned u \<and> u_traffic_u u \<ge> u_transfer_enable u - u_traffic_d u"

definition exceeded_row :: "user \<Rightarrow> int \<times> int" where
  "exceeded_row u = (u_id u, case u_group_id u of None \<Rightarrow> 0 | Some g \<Rightarrow> g)"

definition listExceededTrafficUsers :: "(int \<times> traffic_usage) list \<Rightarrow> meter \<Rightarrow> (int \<times> int) list" where
  "listExceededTrafficUsers traffic m =
     concat (map (\<lambda>batch. map exceeded_row (order_by u_id (filter (\<lambda>u. u_id u \<in> set batch \<and> exceeded_traffic u) (db_users (mt_db m)))))
       (batches 500 (sort (map fst traffic))))"

section \<open>Counting traffic\<close>

record staged_traffic =
  sg_user_id :: int
  sg_upload :: int
  sg_download :: int
  sg_weighted_upload :: int
  sg_weighted_download :: int

definition staged_ok :: "staged_traffic list \<Rightarrow> staged_traffic \<Rightarrow> bool" where
  "staged_ok staged s \<longleftrightarrow>
     0 < sg_user_id s \<and> 0 \<le> sg_upload s \<and> 0 \<le> sg_download s \<and> 0 \<le> sg_weighted_upload s \<and> 0 \<le> sg_weighted_download s \<and>
     sg_user_id s \<notin> set (map sg_user_id staged)"

fun stage_traffic ::
  "int \<Rightarrow> (int \<times> traffic_usage) list \<Rightarrow> int \<Rightarrow> int \<Rightarrow> staged_traffic list \<Rightarrow> store_error + int \<times> int \<times> staged_traffic list" where
  "stage_traffic rateMicros [] totalUpload totalDownload staged = Inr (totalUpload, totalDownload, staged)"
| "stage_traffic rateMicros ((userID, usage) # rest) totalUpload totalDownload staged =
     ebind (weightedTraffic (tu_upload usage) rateMicros) (\<lambda>weightedUpload.
     ebind (weightedTraffic (tu_download usage) rateMicros) (\<lambda>weightedDownload.
     if totalUpload > i64 (max_i64 - tu_upload usage) \<or> totalDownload > i64 (max_i64 - tu_download usage) then Inl ErrInvalidInput else
     let s = \<lparr>sg_user_id = userID, sg_upload = tu_upload usage, sg_download = tu_download usage,
              sg_weighted_upload = weightedUpload, sg_weighted_download = weightedDownload\<rparr> in
     if \<not> staged_ok staged s then Inl ErrDatabase else
     stage_traffic rateMicros rest (i64 (totalUpload + tu_upload usage)) (i64 (totalDownload + tu_download usage)) (staged @ [s])))"

definition staged_for :: "staged_traffic list \<Rightarrow> int \<Rightarrow> staged_traffic option" where
  "staged_for staged userID = List.find (\<lambda>s. sg_user_id s = userID) staged"

definition weighted_for :: "(staged_traffic \<Rightarrow> int) \<Rightarrow> staged_traffic list \<Rightarrow> int \<Rightarrow> int" where
  "weighted_for sel staged userID = (case staged_for staged userID of None \<Rightarrow> 0 | Some s \<Rightarrow> sel s)"

definition add_user_traffic :: "staged_traffic list \<Rightarrow> instant \<Rightarrow> meter \<Rightarrow> store_error + meter" where
  "add_user_traffic staged now m =
     (if exists_where (\<lambda>s. exists_where (\<lambda>u. u_id u = sg_user_id s \<and>
            u_traffic_u u > ((max_i64 - sg_weighted_upload s) - u_traffic_d u) - sg_weighted_download s) (db_users (mt_db m))) staged
      then Inl ErrInvalidInput else
      update_meter_users (\<lambda>u. u_id u \<in> set (map sg_user_id staged))
        (\<lambda>u. u\<lparr>u_traffic_u := u_traffic_u u + weighted_for sg_weighted_upload staged (u_id u),
               u_traffic_d := u_traffic_d u + weighted_for sg_weighted_download staged (u_id u), u_updated_at := unix now\<rparr>) m)"

definition record_day :: "instant \<Rightarrow> int" where
  "record_day now = (case civil_date nodeRateLocation (unix now) of (y, mo, d) \<Rightarrow> go_date nodeRateLocation y mo d 0)"

text \<open>The upsert of one staged row into the daily statistics of its user.\<close>

definition upsert_user_stat :: "int \<Rightarrow> int \<Rightarrow> instant \<Rightarrow> staged_traffic \<Rightarrow> meter \<Rightarrow> store_error + meter" where
  "upsert_user_stat rateMicros recordAt now s m =
     (let key = (sg_user_id s, rateMicros, recordAt, ''d'') in
      if exists_where (\<lambda>r. user_stat_key r = key) (mt_user_stats m)
      then update_user_stats (\<lambda>r. user_stat_key r = key)
        (\<lambda>r. r\<lparr>us_upload := us_upload r + sg_weighted_upload s, us_download := us_download r + sg_weighted_download s,
               us_updated_at := unix now\<rparr>) m
      else insert_user_stat \<lparr>us_user_id = sg_user_id s, us_rate_micros = rateMicros, us_record_at = recordAt,
        us_record_type = ''d'', us_upload = sg_weighted_upload s, us_download = sg_weighted_download s,
        us_created_at = unix now, us_updated_at = unix now\<rparr> m)"

definition add_user_stats :: "int \<Rightarrow> int \<Rightarrow> staged_traffic list \<Rightarrow> instant \<Rightarrow> meter \<Rightarrow> store_error + meter" where
  "add_user_stats rateMicros recordAt staged now m =
     (if exists_where (\<lambda>s. exists_where (\<lambda>r. user_stat_key r = (sg_user_id s, rateMicros, recordAt, ''d'') \<and>
            us_upload r > ((max_i64 - sg_weighted_upload s) - us_download r) - sg_weighted_download s) (mt_user_stats m)) staged
      then Inl ErrInvalidInput else
      efold (upsert_user_stat rateMicros recordAt now)
        (filter (\<lambda>s. sg_user_id s \<in> set (meter_users m)) (order_by sg_user_id staged)) m)"

definition add_node_traffic :: "int \<Rightarrow> int \<Rightarrow> int \<Rightarrow> meter \<Rightarrow> store_error + meter" where
  "add_node_traffic nodeID totalUpload totalDownload m =
     ebind (of_option ErrDatabase (List.find (\<lambda>n. n_id n = nodeID) (mt_nodes m))) (\<lambda>n.
     if n_traffic_u n > i64 (max_i64 - totalUpload) \<or> n_traffic_d n > i64 (max_i64 - totalDownload) then Inl ErrInvalidInput else
     update_nodes (\<lambda>n. n_id n = nodeID)
       (\<lambda>n. n\<lparr>n_traffic_u := n_traffic_u n + totalUpload, n_traffic_d := n_traffic_d n + totalDownload\<rparr>) m)"

definition add_node_stats :: "int \<Rightarrow> int \<Rightarrow> int \<Rightarrow> int \<Rightarrow> instant \<Rightarrow> meter \<Rightarrow> store_error + meter" where
  "add_node_stats nodeID recordAt totalUpload totalDownload now m =
     (let key = (nodeID, recordAt, ''d'') in
      case List.find (\<lambda>r. node_stat_key r = key) (mt_node_stats m) of
        Some r \<Rightarrow>
          if ns_upload r > i64 (max_i64 - totalUpload) \<or> ns_download r > i64 (max_i64 - totalDownload) then Inl ErrInvalidInput else
          update_node_stats (\<lambda>r. node_stat_key r = key)
            (\<lambda>r. r\<lparr>ns_upload := ns_upload r + totalUpload, ns_download := ns_download r + totalDownload, ns_updated_at := unix now\<rparr>) m
      | None \<Rightarrow> insert_node_stat \<lparr>ns_node_id = nodeID, ns_record_at = recordAt, ns_record_type = ''d'', ns_upload = totalUpload,
          ns_download = totalDownload, ns_created_at = unix now, ns_updated_at = unix now\<rparr> m)"

definition connect_subscriptions :: "int \<Rightarrow> staged_traffic list \<Rightarrow> instant \<Rightarrow> meter \<Rightarrow> store_error + meter" where
  "connect_subscriptions nodeID staged now m =
     (let used = map sg_user_id (filter (\<lambda>s. sg_upload s > 0 \<or> sg_download s > 0) staged) in
      update_subscriptions (\<lambda>b. sb_connected_at b = None \<and> sb_config_issued_at b \<noteq> None \<and> sb_subscriber_user_id b \<in> set used)
        (\<lambda>b. b\<lparr>sb_connected_at := Some (unix now), sb_connected_node_id := Some nodeID,
               sb_connected_node_name := map_option n_name (List.find (\<lambda>n. n_id n = nodeID) (mt_nodes m)),
               sb_revision := sb_revision b + 1, sb_updated_at := unix now\<rparr>) m)"

definition listStagedExceededTrafficUsers :: "staged_traffic list \<Rightarrow> meter \<Rightarrow> (int \<times> int) list" where
  "listStagedExceededTrafficUsers staged m =
     map exceeded_row (order_by u_id (filter (\<lambda>u. u_id u \<in> set (map sg_user_id staged) \<and> exceeded_traffic u) (db_users (mt_db m))))"

definition applyTraffic :: "node_report_input \<Rightarrow> int \<Rightarrow> meter \<Rightarrow> store_error + (int \<times> int) list \<times> meter" where
  "applyTraffic inp rateMicros m =
     (let nodeID = np_node_id inp; now = np_now inp; recordAt = record_day now in
      ebind (stage_traffic rateMicros (np_traffic inp) 0 0 []) (\<lambda>(totalUpload, totalDownload, staged).
      ebind (add_user_traffic staged now m) (\<lambda>m1.
      ebind (add_user_stats rateMicros recordAt staged now m1) (\<lambda>m2.
      ebind (add_node_traffic nodeID totalUpload totalDownload m2) (\<lambda>m3.
      ebind (add_node_stats nodeID recordAt totalUpload totalDownload now m3) (\<lambda>m4.
      ebind (connect_subscriptions nodeID staged now m4) (\<lambda>m5.
      Inr (listStagedExceededTrafficUsers staged m5, m5))))))))"

section \<open>Devices and connections\<close>

definition live_ips :: "int \<Rightarrow> instant \<Rightarrow> device list \<Rightarrow> string list" where
  "live_ips userID now vs = remdups (map dv_ip (filter (\<lambda>v. dv_user_id v = userID \<and> dv_expires_at v > unix now) vs))"

text \<open>\<^verbatim>\<open>UPDATE users SET online_count = (SELECT COUNT(DISTINCT ip) ...)\<close> for the users of a list.\<close>

definition recount_devices :: "int list \<Rightarrow> instant \<Rightarrow> meter \<Rightarrow> meter" where
  "recount_devices userIDs now m =
     m\<lparr>mt_presence := update_where (\<lambda>p. pr_user_id p \<in> set userIDs)
        (\<lambda>p. p\<lparr>pr_online_count := int (length (live_ips (pr_user_id p) now (mt_devices m)))\<rparr>) (mt_presence m)\<rparr>"

definition insert_user_device :: "int \<Rightarrow> int \<Rightarrow> instant \<Rightarrow> string \<Rightarrow> meter \<Rightarrow> store_error + meter" where
  "insert_user_device nodeID userID now ip m =
     (if userID \<in> set (meter_users m)
      then insert_device \<lparr>dv_node_id = nodeID, dv_user_id = userID, dv_ip = ip, dv_expires_at = unix (now + deviceStateTTL)\<rparr> m
      else Inr m)"

definition alive_step :: "int \<Rightarrow> instant \<Rightarrow> int \<times> string list \<Rightarrow> meter \<Rightarrow> store_error + meter" where
  "alive_step nodeID now = (\<lambda>(userID, ips) m.
     ebind (efold (insert_user_device nodeID userID now) ips
       (m\<lparr>mt_devices := filter (\<lambda>v. \<not> (dv_node_id v = nodeID \<and> dv_user_id v = userID)) (mt_devices m)\<rparr>)) (\<lambda>m1.
     let m2 = recount_devices [userID] now m1 in
     Inr (m2\<lparr>mt_presence := update_where (\<lambda>p. pr_user_id p = userID) (\<lambda>p. p\<lparr>pr_last_online_at := Some (unix now)\<rparr>) (mt_presence m2)\<rparr>)))"

definition applyAlive :: "int \<Rightarrow> (int \<times> string list) list \<Rightarrow> instant \<Rightarrow> meter \<Rightarrow> store_error + meter" where
  "applyAlive nodeID alive now m = efold (alive_step nodeID now) alive m"

definition online_step :: "int \<Rightarrow> instant \<Rightarrow> int \<times> int \<Rightarrow> meter \<Rightarrow> store_error + meter" where
  "online_step nodeID now = (\<lambda>(userID, connections) m.
     let here = (\<lambda>r. uo_node_id r = nodeID \<and> uo_user_id r = userID) in
     if userID \<notin> set (meter_users m) then Inr m
     else if exists_where here (mt_online m)
     then update_online here (\<lambda>r. r\<lparr>uo_connections := connections, uo_expires_at := unix (now + deviceStateTTL)\<rparr>) m
     else insert_online \<lparr>uo_node_id = nodeID, uo_user_id = userID, uo_connections = connections,
       uo_expires_at = unix (now + deviceStateTTL)\<rparr> m)"

definition applyOnline :: "int \<Rightarrow> (int \<times> int) list \<Rightarrow> instant \<Rightarrow> meter \<Rightarrow> store_error + meter" where
  "applyOnline nodeID entries now m = efold (online_step nodeID now) entries m"

definition expireNodeDevices :: "instant \<Rightarrow> meter \<Rightarrow> int list \<times> meter" where
  "expireNodeDevices now m =
     (let userIDs = remdups (map dv_user_id (filter (\<lambda>v. dv_expires_at v \<le> unix now) (mt_devices m)));
          m1 = m\<lparr>mt_devices := filter (\<lambda>v. \<not> dv_expires_at v \<le> unix now) (mt_devices m)\<rparr> in
      (userIDs, fold (\<lambda>batch. recount_devices batch now) (batches 500 userIDs) m1))"

definition nullableJSON :: "string \<Rightarrow> string option" where
  "nullableJSON value = (if value = [] then None else Some value)"

definition coalesce :: "'a option \<Rightarrow> 'a option \<Rightarrow> 'a option" where
  "coalesce a b = (case a of None \<Rightarrow> b | Some x \<Rightarrow> Some x)"

definition save_runtime_state :: "node_report_input \<Rightarrow> meter \<Rightarrow> store_error + meter" where
  "save_runtime_state inp m =
     (let here = (\<lambda>r. rs_node_id r = np_node_id inp); status = nullableJSON (np_status inp); metrics = nullableJSON (np_metrics inp) in
      if np_status inp = [] \<and> np_metrics inp = [] then Inr m
      else if exists_where here (mt_states m)
      then Inr (m\<lparr>mt_states := update_where here (\<lambda>r. r\<lparr>rs_status := coalesce status (rs_status r),
             rs_metrics := coalesce metrics (rs_metrics r), rs_updated_at := unix (np_now inp)\<rparr>) (mt_states m)\<rparr>)
      else if np_node_id inp \<in> set (meter_nodes m)
      then Inr (m\<lparr>mt_states := mt_states m @ [\<lparr>rs_node_id = np_node_id inp, rs_status = status, rs_metrics = metrics,
             rs_updated_at = unix (np_now inp)\<rparr>]\<rparr>)
      else Inl ErrDatabase)"

section \<open>A report\<close>

text \<open>
  Whether the reporter may report for the node. The column \<^verbatim>\<open>machine_id\<close> may be null; then the condition of a reporting
  machine is null unless it is false, and scanning it into a \<^verbatim>\<open>bool\<close> fails.
\<close>

definition report_allowed :: "node_report_input \<Rightarrow> node \<Rightarrow> store_error + bool" where
  "report_allowed inp n =
     (let ready = n_enabled n \<and> n_runtime_config n \<noteq> None in
      if np_legacy_auth inp then Inr ready
      else case n_machine_id n of
             Some i \<Rightarrow> Inr (i = np_machine_id inp \<and> ready)
           | None \<Rightarrow> (if ready then Inl ErrDatabase else Inr False))"

definition node_rate :: "node_report_input \<Rightarrow> node \<Rightarrow> meter \<Rightarrow> int" where
  "node_rate inp n m =
     (case List.find (\<lambda>nd. nd_node_id nd = n_id n) (mt_definitions m) of
        None \<Rightarrow> nodeRateMicrosAt (n_rate_micros n) False [] (np_now inp)
      | Some nd \<Rightarrow> nodeRateMicrosAt (nd_configured_rate_micros nd) (nd_rate_time_enabled nd) (nd_rate_time_ranges nd) (np_now inp))"

text \<open>Claiming the id of a report: whether it was already counted, and the receipt.\<close>

definition claim_report :: "(string \<Rightarrow> string) \<Rightarrow> node_report_input \<Rightarrow> meter \<Rightarrow> store_error + bool \<times> meter" where
  "claim_report digest inp m =
     (if np_report_id inp = [] \<or> np_traffic inp = [] then Inr (False, m) else
      let hash = reportTrafficHash digest (np_traffic inp) in
      case List.find (\<lambda>r. nr_node_id r = np_node_id inp \<and> nr_report_id r = np_report_id inp) (mt_receipts m) of
        Some r \<Rightarrow>
          if length hash \<noteq> 32 then Inl ErrDatabase
          else if nr_traffic_hash r \<noteq> hash then Inl ErrInvalidInput else Inr (True, m)
      | None \<Rightarrow>
          ebind (insert_report_receipt \<lparr>nr_node_id = np_node_id inp, nr_report_id = np_report_id inp, nr_traffic_hash = hash,
            nr_created_at = unix (np_now inp)\<rparr> m) (\<lambda>m1. Inr (False, m1)))"

definition count_report ::
  "bool \<Rightarrow> node_report_input \<Rightarrow> int \<Rightarrow> meter \<Rightarrow> store_error + (int \<times> int) list \<times> meter" where
  "count_report duplicate inp rateMicros m =
     (if np_traffic inp = [] then Inr ([], m)
      else if duplicate then Inr (listExceededTrafficUsers (np_traffic inp) m, m)
      else applyTraffic inp rateMicros m)"

text \<open>What of a repeated report is still applied.\<close>

definition effective_report :: "bool \<Rightarrow> node_report_input \<Rightarrow> node_report_input" where
  "effective_report duplicate inp =
     (if duplicate then inp\<lparr>np_alive := (if np_external_device_state inp then np_alive inp else []), np_online := []\<rparr> else inp)"

definition authorize_report :: "bool \<Rightarrow> node_report_input \<Rightarrow> meter \<Rightarrow> store_error + unit" where
  "authorize_report duplicate inp m =
     (if \<not> duplicate then authorizeReportedUsers inp m
      else if np_external_device_state inp \<and> np_alive inp \<noteq> []
      then authorizeReportedUsers (inp\<lparr>np_traffic := [], np_online := []\<rparr>) m else Inr ())"

definition replace_devices :: "node_report_input \<Rightarrow> meter \<Rightarrow> int list \<times> meter" where
  "replace_devices inp m =
     (if np_replace_all_devices inp \<and> \<not> np_external_device_state inp
      then (remdups (map dv_user_id (filter (\<lambda>v. dv_node_id v = np_node_id inp) (mt_devices m))),
            m\<lparr>mt_devices := filter (\<lambda>v. dv_node_id v \<noteq> np_node_id inp) (mt_devices m)\<rparr>)
      else ([], m))"

definition touch_node :: "node_report_input \<Rightarrow> meter \<Rightarrow> store_error + meter" where
  "touch_node inp m =
     update_nodes (\<lambda>n. n_id n = np_node_id inp)
       (\<lambda>n. n\<lparr>n_last_check_at := Some (unix (np_now inp)),
              n_last_push_at := (if np_traffic inp \<noteq> [] then Some (unix (np_now inp)) else n_last_push_at n)\<rparr>) m"

definition expire_receipts :: "node_report_input \<Rightarrow> meter \<Rightarrow> meter" where
  "expire_receipts inp m =
     m\<lparr>mt_receipts := filter (\<lambda>r. \<not> (nr_created_at r < unix (np_now inp - seconds 604800) \<and>
        (nr_node_id r \<noteq> np_node_id inp \<or> nr_report_id r \<noteq> np_report_id inp))) (mt_receipts m)\<rparr>"

definition expire_online :: "instant \<Rightarrow> meter \<Rightarrow> meter" where
  "expire_online now m = m\<lparr>mt_online := filter (\<lambda>r. \<not> uo_expires_at r \<le> unix now) (mt_online m)\<rparr>"

definition ApplyNodeReport ::
  "(string \<Rightarrow> string) \<Rightarrow> node_report_input \<Rightarrow> meter \<Rightarrow> store_error + node_report_result \<times> meter" where
  "ApplyNodeReport digest raw m =
     (if list_ex (\<lambda>(userID, usage). userID < 1 \<or> tu_upload usage < 0 \<or> tu_download usage < 0) (np_traffic raw)
      then Inl ErrInvalidInput else
      ebind (of_option ErrNotFound (List.find (\<lambda>n. n_id n = np_node_id raw) (mt_nodes m))) (\<lambda>n.
      ebind (report_allowed raw n) (\<lambda>allowed.
      if \<not> allowed then Inl ErrNodeNotLinked else
      ebind (claim_report digest raw m) (\<lambda>(duplicate, m1).
      let inp = effective_report duplicate raw in
      ebind (authorize_report duplicate inp m1) (\<lambda>_.
      ebind (count_report duplicate inp (node_rate raw n m) m1) (\<lambda>(exceeded, m2).
      let (replaced, m3) = replace_devices inp m2 in
      ebind (if np_external_device_state inp then Inr m3 else applyAlive (np_node_id inp) (np_alive inp) (np_now inp) m3) (\<lambda>m4.
      ebind (applyOnline (np_node_id inp) (np_online inp) (np_now inp) m4) (\<lambda>m5.
      ebind (save_runtime_state inp m5) (\<lambda>m6.
      ebind (touch_node inp m6) (\<lambda>m7.
      let m8 = expire_receipts inp m7;
          (expired, m9) = (if np_external_device_state inp then ([], m8) else expireNodeDevices (np_now inp) m8);
          m10 = expire_online (np_now inp) m9 in
      Inr (\<lparr>nx_duplicate_traffic = duplicate, nx_device_user_ids = sort (remdups (map fst (np_alive inp) @ replaced @ expired)),
            nx_exceeded_users = exceeded\<rparr>, m10)))))))))))"

section \<open>Other operations on devices\<close>

definition clear_node_step :: "instant \<Rightarrow> int \<Rightarrow> int list \<times> meter \<Rightarrow> store_error + int list \<times> meter" where
  "clear_node_step now nodeID = (\<lambda>(affected, m).
     if nodeID < 1 then Inl ErrInvalidInput else
     let userIDs = remdups (map dv_user_id (filter (\<lambda>v. dv_node_id v = nodeID) (mt_devices m)));
         m1 = m\<lparr>mt_devices := filter (\<lambda>v. dv_node_id v \<noteq> nodeID) (mt_devices m)\<rparr> in
     Inr (affected @ userIDs, fold (\<lambda>userID. recount_devices [userID] now) userIDs m1))"

definition ClearNodeDevices :: "int list \<Rightarrow> instant \<Rightarrow> meter \<Rightarrow> store_error + int list \<times> meter" where
  "ClearNodeDevices nodeIDs now m =
     (if nodeIDs = [] then Inr ([], m) else
      ebind (efold (clear_node_step now) nodeIDs ([], m)) (\<lambda>(affected, m1). Inr (sort (remdups affected), m1)))"

record user_device_summary =
  sd_user_id :: int
  sd_online_count :: int
  sd_observed_at :: instant

definition UpdateUserDeviceSummaries :: "user_device_summary list \<Rightarrow> meter \<Rightarrow> store_error + meter" where
  "UpdateUserDeviceSummaries summaries m =
     (if summaries = [] then Inr m
      else if length summaries > 5000 then Inl ErrInvalidInput
      else if list_ex (\<lambda>s. sd_user_id s < 1 \<or> sd_online_count s < 0 \<or> unix (sd_observed_at s) < 0) summaries \<or>
              \<not> distinct (map sd_user_id summaries) then Inl ErrInvalidInput
      else Inr (fold (\<lambda>s m. m\<lparr>mt_presence := update_where (\<lambda>p. pr_user_id p = sd_user_id s)
             (\<lambda>p. p\<lparr>pr_online_count := sd_online_count s, pr_last_online_at := Some (unix (sd_observed_at s))\<rparr>) (mt_presence m)\<rparr>) summaries m))"

definition GetRuntimeUserTraffic :: "int \<Rightarrow> meter \<Rightarrow> store_error + traffic_usage" where
  "GetRuntimeUserTraffic userID m =
     ebind (of_option ErrNotFound (List.find (\<lambda>u. u_id u = userID) (db_users (mt_db m)))) (\<lambda>u.
     Inr \<lparr>tu_upload = u_traffic_u u, tu_download = u_traffic_d u\<rparr>)"

text \<open>The query of \<^verbatim>\<open>ListNodeRuntimeUsers\<close>: the users a node serves.\<close>

definition served_by :: "int \<Rightarrow> instant \<Rightarrow> meter \<Rightarrow> user \<Rightarrow> bool" where
  "served_by nodeID now m u \<longleftrightarrow>
     in_node_groups nodeID m u \<and> u_uuid u \<noteq> None \<and> \<not> u_banned u \<and> u_traffic_u u + u_traffic_d u < u_transfer_enable u \<and>
     opt_all (\<lambda>t. t \<ge> unix now) (u_expired_at u)"

end
