(* ===== verification/Meter_Correct.thy ===== *)
theory Meter_Correct
  imports Meter Evolution
begin

text \<open>
  The lemmas of the meter: exact weights, what staging a report yields whatever the order of its entries, what counting it
  adds to users, nodes and statistics, and that everything else a report does leaves the counters alone
  (\<open>traffic_same\<close>, an interpretation of the locale \<open>evolution\<close>).
\<close>

section \<open>Statements\<close>

lemma update_meter_users_Inr:
  "update_meter_users p f m = Inr m' \<longleftrightarrow> (\<exists>d. update_users p f (mt_db m) = Inr d \<and> m' = m\<lparr>mt_db := d\<rparr>)"
  by (auto simp: update_meter_users_def)

lemma update_nodes_Inr:
  "update_nodes p f m = Inr m' \<longleftrightarrow>
     (\<forall>n\<in>set (mt_nodes m). p n \<longrightarrow> node_check m (f n)) \<and> nodes_distinct (update_where p f (mt_nodes m)) \<and>
     m' = m\<lparr>mt_nodes := update_where p f (mt_nodes m)\<rparr>"
  by (simp add: update_nodes_def nodes.update_Inr put_nodes_def)

lemma insert_report_receipt_Inr:
  "insert_report_receipt r m = Inr m' \<longleftrightarrow>
     receipt_row_check m r \<and> receipts_distinct (mt_receipts m @ [r]) \<and> m' = m\<lparr>mt_receipts := mt_receipts m @ [r]\<rparr>"
  by (simp add: insert_report_receipt_def report_receipts.insert_Inr put_report_receipts_def)

lemma update_user_stats_Inr:
  "update_user_stats p f m = Inr m' \<longleftrightarrow>
     (\<forall>r\<in>set (mt_user_stats m). p r \<longrightarrow> user_stat_check m (f r)) \<and> user_stats_distinct (update_where p f (mt_user_stats m)) \<and>
     m' = m\<lparr>mt_user_stats := update_where p f (mt_user_stats m)\<rparr>"
  by (simp add: update_user_stats_def user_stats.update_Inr put_user_stats_def)

lemma insert_user_stat_Inr:
  "insert_user_stat r m = Inr m' \<longleftrightarrow>
     user_stat_check m r \<and> user_stats_distinct (mt_user_stats m @ [r]) \<and> m' = m\<lparr>mt_user_stats := mt_user_stats m @ [r]\<rparr>"
  by (simp add: insert_user_stat_def user_stats.insert_Inr put_user_stats_def)

lemma update_node_stats_Inr:
  "update_node_stats p f m = Inr m' \<longleftrightarrow>
     (\<forall>r\<in>set (mt_node_stats m). p r \<longrightarrow> node_stat_check m (f r)) \<and> node_stats_distinct (update_where p f (mt_node_stats m)) \<and>
     m' = m\<lparr>mt_node_stats := update_where p f (mt_node_stats m)\<rparr>"
  by (simp add: update_node_stats_def node_stats.update_Inr put_node_stats_def)

lemma insert_node_stat_Inr:
  "insert_node_stat r m = Inr m' \<longleftrightarrow>
     node_stat_check m r \<and> node_stats_distinct (mt_node_stats m @ [r]) \<and> m' = m\<lparr>mt_node_stats := mt_node_stats m @ [r]\<rparr>"
  by (simp add: insert_node_stat_def node_stats.insert_Inr put_node_stats_def)

lemma update_subscriptions_Inr:
  "update_subscriptions p f m = Inr m' \<Longrightarrow> m' = m\<lparr>mt_subscriptions := update_where p f (mt_subscriptions m)\<rparr>"
  by (simp add: update_subscriptions_def subscriptions.update_Inr put_subscriptions_def)

lemma insert_device_Inr: "insert_device r m = Inr m' \<Longrightarrow> m' = m\<lparr>mt_devices := mt_devices m @ [r]\<rparr>"
  by (simp add: insert_device_def devices.insert_Inr put_devices_def)

lemma online_statements_Inr:
  "update_online p f m = Inr m' \<Longrightarrow> m' = m\<lparr>mt_online := update_where p f (mt_online m)\<rparr>"
  "insert_online r m = Inr m' \<Longrightarrow> m' = m\<lparr>mt_online := mt_online m @ [r]\<rparr>"
  by (simp_all add: update_online_def insert_online_def online.update_Inr online.insert_Inr put_online_def)

section \<open>Weights\<close>

lemma weightedTraffic_exact:
  assumes v: "0 \<le> value" "value \<le> max_i64" and r: "0 \<le> rate" "rate \<le> 1000000000"
  shows "weightedTraffic value rate =
    (if value * rate div 1000000 \<le> max_i64 then Inr (value * rate div 1000000) else Inl ErrInvalidInput)"
proof (cases "rate = 0")
  case True
  then show ?thesis using v by (simp add: weightedTraffic_def max_i64_def)
next
  case False
  define w where "w = value div 1000000"
  define s where "s = value mod 1000000"
  define x where "x = s * rate div 1000000"
  have rate: "0 < rate" using False r by simp
  have split: "value = w * 1000000 + s" and s: "0 \<le> s" "s < 1000000" and w: "0 \<le> w"
    using v by (simp_all add: w_def s_def pos_imp_zdiv_nonneg_iff)
  have "value * rate = s * rate + (w * rate) * 1000000" by (simp add: split algebra_simps)
  then have exact: "value * rate div 1000000 = w * rate + x" by (simp add: x_def)
  have sr: "0 \<le> s * rate" "s * rate \<le> 999999 * 1000000000"
    using s r rate mult_mono [of s 999999 rate 1000000000] by simp_all
  then have x: "0 \<le> x" "x \<le> 999999 * 1000" unfolding x_def by (simp_all add: pos_imp_zdiv_nonneg_iff)
  have whole: "w > max_i64 div rate \<longleftrightarrow> w * rate > max_i64"
  proof -
    have "w * rate \<le> max_i64" if "w \<le> max_i64 div rate"
      using mult_right_mono [OF that, of rate] rate div_mult_mod_eq [of max_i64 rate] pos_mod_sign [OF rate, of max_i64] by linarith
    moreover have "w \<le> max_i64 div rate" if "w * rate \<le> max_i64"
      using zdiv_mono1 [OF that rate] rate by simp
    ultimately show ?thesis by linarith
  qed
  have div: "max_i64 sdiv rate = max_i64 div rate" using rate by (simp add: sdiv_nonneg max_i64_def)
  have ops: "value sdiv 1000000 = w" "value smod 1000000 = s"
    using v by (simp_all add: sdiv_nonneg smod_nonneg w_def s_def)
  have rem: "i64 (s * rate) sdiv 1000000 = x"
    using sr by (simp add: i64_id sdiv_nonneg x_def)
  show ?thesis
  proof (cases "w * rate > max_i64")
    case True
    then show ?thesis using whole x v r False by (simp add: weightedTraffic_def ops div exact Let_def)
  next
    case False
    then have le: "\<not> w > max_i64 div rate" "0 \<le> w * rate" using whole w rate by auto
    have i: "i64 (w * rate) = w * rate" "i64 (max_i64 - x) = max_i64 - x"
      using False le(2) x by (simp_all add: i64_id max_i64_def)
    have "weightedTraffic value rate =
        (if w * rate > max_i64 - x then Inl ErrInvalidInput else Inr (i64 (w * rate + x)))"
      using v r le(1) \<open>rate \<noteq> 0\<close> by (simp add: weightedTraffic_def ops div rem i Let_def)
    moreover have "i64 (w * rate + x) = w * rate + x" if "\<not> w * rate > max_i64 - x"
      using that le(2) x by (simp add: i64_id max_i64_def)
    ultimately show ?thesis by (simp add: exact)
  qed
qed

section \<open>Staging\<close>

text \<open>
  The values of a report are 64-bit integers and its users are the keys of a map. \<open>charged\<close> is what the report
  charges a user in one direction.
\<close>

definition traffic_typed :: "(int \<times> traffic_usage) list \<Rightarrow> bool" where
  "traffic_typed ts \<longleftrightarrow>
     distinct (map fst ts) \<and> list_all (\<lambda>(i, t). in_i64 i \<and> in_i64 (tu_upload t) \<and> in_i64 (tu_download t)) ts"

definition traffic_valid :: "(int \<times> traffic_usage) list \<Rightarrow> bool" where
  "traffic_valid ts \<longleftrightarrow>
     distinct (map fst ts) \<and>
     list_all (\<lambda>(i, t). 1 \<le> i \<and> 0 \<le> tu_upload t \<and> tu_upload t \<le> max_i64 \<and> 0 \<le> tu_download t \<and> tu_download t \<le> max_i64) ts"

definition weight :: "int \<Rightarrow> int \<Rightarrow> int" where
  "weight rate value = value * rate div 1000000"

definition staged_row :: "int \<Rightarrow> int \<times> traffic_usage \<Rightarrow> staged_traffic" where
  "staged_row rate = (\<lambda>(i, t). \<lparr>sg_user_id = i, sg_upload = tu_upload t, sg_download = tu_download t,
     sg_weighted_upload = weight rate (tu_upload t), sg_weighted_download = weight rate (tu_download t)\<rparr>)"

definition charged :: "int \<Rightarrow> (traffic_usage \<Rightarrow> int) \<Rightarrow> (int \<times> traffic_usage) list \<Rightarrow> int \<Rightarrow> int" where
  "charged rate sel ts i = (case map_of ts i of None \<Rightarrow> 0 | Some t \<Rightarrow> weight rate (sel t))"

definition sum_traffic :: "(traffic_usage \<Rightarrow> int) \<Rightarrow> (int \<times> traffic_usage) list \<Rightarrow> int" where
  "sum_traffic sel ts = sum_list (map (sel \<circ> snd) ts)"

definition stageable :: "int \<Rightarrow> (int \<times> traffic_usage) list \<Rightarrow> bool" where
  "stageable rate ts \<longleftrightarrow>
     list_all (\<lambda>(i, t). weight rate (tu_upload t) \<le> max_i64 \<and> weight rate (tu_download t) \<le> max_i64) ts \<and>
     sum_traffic tu_upload ts \<le> max_i64 \<and> sum_traffic tu_download ts \<le> max_i64"

lemma staged_row_user [simp]: "sg_user_id (staged_row rate x) = fst x"
  by (cases x) (simp add: staged_row_def)

lemma sum_traffic_nonneg: "traffic_valid ts \<Longrightarrow> 0 \<le> sum_traffic tu_upload ts \<and> 0 \<le> sum_traffic tu_download ts"
  by (induction ts) (auto simp: traffic_valid_def sum_traffic_def)

lemma weight_nonneg: "0 \<le> rate \<Longrightarrow> 0 \<le> value \<Longrightarrow> 0 \<le> weight rate value"
  by (simp add: weight_def pos_imp_zdiv_nonneg_iff)

lemma stage_traffic_exact:
  assumes "traffic_valid ts" and "0 \<le> rate" "rate \<le> 1000000000" and "0 \<le> tu" "tu \<le> max_i64" "0 \<le> td" "td \<le> max_i64"
    and "set (map sg_user_id staged) \<inter> set (map fst ts) = {}"
  shows "stage_traffic rate ts tu td staged =
    (if list_all (\<lambda>(i, t). weight rate (tu_upload t) \<le> max_i64 \<and> weight rate (tu_download t) \<le> max_i64) ts \<and>
        tu + sum_traffic tu_upload ts \<le> max_i64 \<and> td + sum_traffic tu_download ts \<le> max_i64
     then Inr (tu + sum_traffic tu_upload ts, td + sum_traffic tu_download ts, staged @ map (staged_row rate) ts) else Inl ErrInvalidInput)"
  using assms
proof (induction ts arbitrary: tu td staged)
  case Nil
  then show ?case by (simp add: sum_traffic_def)
next
  case (Cons x ts)
  obtain i t where x: "x = (i, t)" by (cases x)
  have t: "1 \<le> i" "0 \<le> tu_upload t" "tu_upload t \<le> max_i64" "0 \<le> tu_download t" "tu_download t \<le> max_i64"
    and valid: "traffic_valid ts" "i \<notin> set (map fst ts)"
    using Cons.prems(1) by (auto simp: x traffic_valid_def)
  note ws = weightedTraffic_exact [OF t(2,3) Cons.prems(2,3), folded weight_def]
    weightedTraffic_exact [OF t(4,5) Cons.prems(2,3), folded weight_def]
  have tot: "sum_traffic tu_upload ((i, t) # ts) = tu_upload t + sum_traffic tu_upload ts" "sum_traffic tu_download ((i, t) # ts) = tu_download t + sum_traffic tu_download ts"
    by (simp_all add: sum_traffic_def)
  note nn = sum_traffic_nonneg [OF valid(1)]
  have room: "i64 (max_i64 - tu_upload t) = max_i64 - tu_upload t" "i64 (max_i64 - tu_download t) = max_i64 - tu_download t"
    using t by (simp_all add: i64_id max_i64_def)
  let ?s = "staged_row rate (i, t)"
  have ok: "staged_ok staged ?s"
    using t Cons.prems(2,8) by (auto simp: staged_ok_def staged_row_def x weight_nonneg)
  show ?case
  proof (cases "weight rate (tu_upload t) \<le> max_i64 \<and> weight rate (tu_download t) \<le> max_i64 \<and>
      tu + tu_upload t \<le> max_i64 \<and> td + tu_download t \<le> max_i64")
    case True
    have sums: "i64 (tu + tu_upload t) = tu + tu_upload t" "i64 (td + tu_download t) = td + tu_download t"
      using True t Cons.prems(4,6) by (simp_all add: i64_id max_i64_def)
    have "stage_traffic rate (x # ts) tu td staged = stage_traffic rate ts (tu + tu_upload t) (td + tu_download t) (staged @ [?s])"
      using True ok by (simp add: x ws room sums staged_row_def Let_def not_less)
    moreover have "set (map sg_user_id (staged @ [?s])) \<inter> set (map fst ts) = {}"
      using Cons.prems(8) valid(2) by (auto simp: x)
    ultimately have "stage_traffic rate (x # ts) tu td staged =
      (if list_all (\<lambda>(i, t). weight rate (tu_upload t) \<le> max_i64 \<and> weight rate (tu_download t) \<le> max_i64) ts \<and>
          tu + tu_upload t + sum_traffic tu_upload ts \<le> max_i64 \<and> td + tu_download t + sum_traffic tu_download ts \<le> max_i64
       then Inr (tu + tu_upload t + sum_traffic tu_upload ts, td + tu_download t + sum_traffic tu_download ts,
         (staged @ [?s]) @ map (staged_row rate) ts) else Inl ErrInvalidInput)"
      using Cons.IH [OF valid(1) Cons.prems(2,3), of "tu + tu_upload t" "td + tu_download t" "staged @ [?s]"] True t Cons.prems(4,6)
      by simp
    then show ?thesis using True unfolding x tot by (simp add: add.assoc)
  next
    case False
    then have "stage_traffic rate (x # ts) tu td staged = Inl ErrInvalidInput"
      by (auto simp: x ws room not_le)
    moreover have "\<not> (list_all (\<lambda>(i, t). weight rate (tu_upload t) \<le> max_i64 \<and> weight rate (tu_download t) \<le> max_i64) (x # ts) \<and>
        tu + sum_traffic tu_upload (x # ts) \<le> max_i64 \<and> td + sum_traffic tu_download (x # ts) \<le> max_i64)"
      using False nn by (auto simp: x tot)
    ultimately show ?thesis by simp
  qed
qed

lemma stage_traffic_report:
  assumes "traffic_valid ts" and "0 \<le> rate" "rate \<le> 1000000000"
  shows "stage_traffic rate ts 0 0 [] =
    (if stageable rate ts then Inr (sum_traffic tu_upload ts, sum_traffic tu_download ts, map (staged_row rate) ts) else Inl ErrInvalidInput)"
  using stage_traffic_exact [OF assms, of 0 0 "[]"] by (simp add: stageable_def max_i64_def)

lemma staged_for_row:
  "staged_for (map (staged_row rate) ts) i = map_option (\<lambda>t. staged_row rate (i, t)) (map_of ts i)"
  by (induction ts) (auto simp: staged_for_def)

lemma weighted_for_charged:
  "weighted_for sg_weighted_upload (map (staged_row rate) ts) i = charged rate tu_upload ts i"
  "weighted_for sg_weighted_download (map (staged_row rate) ts) i = charged rate tu_download ts i"
  unfolding weighted_for_def staged_for_row charged_def
  by (cases "map_of ts i"; simp add: staged_row_def)+

section \<open>What leaves the counters alone\<close>

definition node_counters :: "meter \<Rightarrow> (int \<times> int \<times> int) list" where
  "node_counters m = map (\<lambda>n. (n_id n, n_traffic_u n, n_traffic_d n)) (mt_nodes m)"

definition user_counters :: "meter \<Rightarrow> (int \<times> int \<times> int) list" where
  "user_counters m = map (\<lambda>u. (u_id u, u_traffic_u u, u_traffic_d u)) (db_users (mt_db m))"

definition traffic_same :: "meter \<Rightarrow> meter \<Rightarrow> bool" where
  "traffic_same m m' \<longleftrightarrow>
     mt_db m' = mt_db m \<and> mt_user_stats m' = mt_user_stats m \<and> mt_node_stats m' = mt_node_stats m \<and>
     node_counters m' = node_counters m \<and> mt_receipts m' = mt_receipts m"

interpretation traffic_same: evolution traffic_same
  by unfold_locales (auto simp: traffic_same_def)

lemma recount_devices_same: "traffic_same m (recount_devices ids now m)"
  by (simp add: traffic_same_def recount_devices_def node_counters_def)

lemma fold_recount_same: "traffic_same m (fold (\<lambda>batch. recount_devices (f batch) now) xs m)"
  by (induction xs arbitrary: m) (auto intro: traffic_same.refl traffic_same.trans recount_devices_same)

lemma insert_user_device_same: "insert_user_device nodeID userID now ip m = Inr m' \<Longrightarrow> traffic_same m m'"
  by (auto simp: insert_user_device_def traffic_same_def node_counters_def dest!: insert_device_Inr split: if_splits)

lemma alive_step_same:
  assumes "alive_step nodeID now x m = Inr m'"
  shows "traffic_same m m'"
proof -
  obtain userID ips where x: "x = (userID, ips)" by (cases x)
  let ?m = "m\<lparr>mt_devices := filter (\<lambda>v. \<not> (dv_node_id v = nodeID \<and> dv_user_id v = userID)) (mt_devices m)\<rparr>"
  obtain m1 where m1: "efold (insert_user_device nodeID userID now) ips ?m = Inr m1"
    and m': "m' = (recount_devices [userID] now m1)\<lparr>mt_presence := update_where (\<lambda>p. pr_user_id p = userID)
        (\<lambda>p. p\<lparr>pr_last_online_at := Some (unix now)\<rparr>) (mt_presence (recount_devices [userID] now m1))\<rparr>"
    using assms by (auto simp: alive_step_def x Let_def)
  have "traffic_same m ?m" by (simp add: traffic_same_def node_counters_def)
  moreover have "traffic_same ?m m1" by (rule traffic_same.fold_respects [OF m1]) (rule insert_user_device_same)
  moreover have "traffic_same m1 m'" by (simp add: m' traffic_same_def recount_devices_def node_counters_def)
  ultimately show ?thesis by (blast intro: traffic_same.trans)
qed

lemma applyAlive_same: "applyAlive nodeID alive now m = Inr m' \<Longrightarrow> traffic_same m m'"
  unfolding applyAlive_def by (erule traffic_same.fold_respects) (rule alive_step_same)

lemma online_step_same: "online_step nodeID now x m = Inr m' \<Longrightarrow> traffic_same m m'"
  by (cases x) (auto simp: online_step_def Let_def traffic_same_def node_counters_def dest!: online_statements_Inr split: if_splits)

lemma applyOnline_same: "applyOnline nodeID entries now m = Inr m' \<Longrightarrow> traffic_same m m'"
  unfolding applyOnline_def by (erule traffic_same.fold_respects) (rule online_step_same)

lemma save_runtime_state_same: "save_runtime_state inp m = Inr m' \<Longrightarrow> traffic_same m m'"
  by (auto simp: save_runtime_state_def Let_def traffic_same_def node_counters_def split: if_splits)

lemma touch_node_same: "touch_node inp m = Inr m' \<Longrightarrow> traffic_same m m'"
  by (auto simp: touch_node_def update_nodes_Inr traffic_same_def node_counters_def intro!: map_update_where_inv)

lemma replace_devices_same: "traffic_same m (snd (replace_devices inp m))"
  by (simp add: replace_devices_def traffic_same_def node_counters_def)

lemma expireNodeDevices_same: "traffic_same m (snd (expireNodeDevices now m))"
proof -
  let ?m = "m\<lparr>mt_devices := filter (\<lambda>v. \<not> dv_expires_at v \<le> unix now) (mt_devices m)\<rparr>"
  have "traffic_same m ?m" by (simp add: traffic_same_def node_counters_def)
  then show ?thesis
    unfolding expireNodeDevices_def Let_def snd_conv by (rule traffic_same.trans) (rule fold_recount_same)
qed

section \<open>The stages of a report\<close>

text \<open>A report that succeeds: who sent it, whether it was a repetition, what it counted, and its receipts.\<close>

lemma ApplyNodeReport_stages:
  assumes "ApplyNodeReport digest raw m = Inr (res, m')"
  obtains n m1 m2 inp where
    "list_all (\<lambda>(i, t). 1 \<le> i \<and> 0 \<le> tu_upload t \<and> 0 \<le> tu_download t) (np_traffic raw)"
    "n \<in> set (mt_nodes m)" "n_id n = np_node_id raw" "report_allowed raw n = Inr True"
    "claim_report digest raw m = Inr (nx_duplicate_traffic res, m1)"
    "inp = effective_report (nx_duplicate_traffic res) raw"
    "authorize_report (nx_duplicate_traffic res) inp m1 = Inr ()"
    "count_report (nx_duplicate_traffic res) inp (node_rate raw n m) m1 = Inr (nx_exceeded_users res, m2)"
    "traffic_same m2 (m'\<lparr>mt_receipts := mt_receipts m2\<rparr>)"
    "mt_receipts m' = mt_receipts (expire_receipts inp m2)"
proof -
  from assms obtain n duplicate m1 inp exceeded m2 m4 m5 m6 m7 where
    a: "\<not> list_ex (\<lambda>(userID, usage). userID < 1 \<or> tu_upload usage < 0 \<or> tu_download usage < 0) (np_traffic raw)"
    and n: "List.find (\<lambda>n. n_id n = np_node_id raw) (mt_nodes m) = Some n"
    and al: "report_allowed raw n = Inr True"
    and cl: "claim_report digest raw m = Inr (duplicate, m1)"
    and inp: "inp = effective_report duplicate raw"
    and au: "authorize_report duplicate inp m1 = Inr ()"
    and co: "count_report duplicate inp (node_rate raw n m) m1 = Inr (exceeded, m2)"
    and m4: "(if np_external_device_state inp then Inr (snd (replace_devices inp m2))
       else applyAlive (np_node_id inp) (np_alive inp) (np_now inp) (snd (replace_devices inp m2))) = Inr m4"
    and m5: "applyOnline (np_node_id inp) (np_online inp) (np_now inp) m4 = Inr m5"
    and m6: "save_runtime_state inp m5 = Inr m6" and m7: "touch_node inp m6 = Inr m7"
    and m': "m' = expire_online (np_now inp) (if np_external_device_state inp then expire_receipts inp m7
       else snd (expireNodeDevices (np_now inp) (expire_receipts inp m7)))"
    and res: "nx_duplicate_traffic res = duplicate" "nx_exceeded_users res = exceeded"
    unfolding ApplyNodeReport_def Let_def split_def by (elim stageE) (auto split: if_splits)
  have "traffic_same (snd (replace_devices inp m2)) m4"
    using m4 by (auto intro: applyAlive_same traffic_same.refl split: if_splits)
  then have s7: "traffic_same m2 m7"
    using replace_devices_same applyOnline_same [OF m5] save_runtime_state_same [OF m6] touch_node_same [OF m7]
    by (blast intro: traffic_same.trans)
  have "traffic_same (expire_receipts inp m7) m'"
    using expireNodeDevices_same [of "expire_receipts inp m7" "np_now inp"]
    by (simp add: m' expire_online_def traffic_same_def node_counters_def split: if_splits)
  then have "traffic_same m2 (m'\<lparr>mt_receipts := mt_receipts m2\<rparr>)" "mt_receipts m' = mt_receipts (expire_receipts inp m2)"
    using s7 by (simp_all add: traffic_same_def expire_receipts_def node_counters_def)
  moreover have "list_all (\<lambda>(i, t). 1 \<le> i \<and> 0 \<le> tu_upload t \<and> 0 \<le> tu_download t) (np_traffic raw)"
    using a by (auto simp: list_all_iff list_ex_iff not_less)
  ultimately show thesis using that [of n m1 inp m2] find_eq_Some_set [OF n] al cl inp au co res by blast
qed

end
