(* ===== verification/Meter_Accounts.thy ===== *)
theory Meter_Accounts
  imports Meter_Correct
begin

text \<open>
  What counting a report adds: the counters of users and nodes and the sums of the daily statistics all grow by what
  the report charges. The invariant of the tables keeps every rate of a node below one billion millionths, so
  that the weights are exact.
\<close>

section \<open>What counting a report adds\<close>

definition meter_ok :: "meter \<Rightarrow> bool" where
  "meter_ok m \<longleftrightarrow>
     db_ok (mt_db m) \<and> nodes.holds m \<and> report_receipts.holds m \<and> user_stats.holds m \<and> node_stats.holds m \<and>
     devices.holds m \<and> online.holds m \<and> subscriptions.holds m \<and> list_all (\<lambda>nd. definition_ok nd \<and> schedule_ok nd) (mt_definitions m)"

lemma node_rate_bounds:
  assumes "meter_ok m" and "n \<in> set (mt_nodes m)"
  shows "0 \<le> node_rate inp n m" and "node_rate inp n m \<le> 1000000000"
proof -
  have at: "0 \<le> nodeRateMicrosAt c e rs now \<and> nodeRateMicrosAt c e rs now \<le> 1000000000"
    if "0 \<le> c" "c \<le> 1000000000" "e \<longrightarrow> list_all (\<lambda>r. 0 \<le> rr_rate_micros r \<and> rr_rate_micros r \<le> 1000000000) rs" for c e rs now
    using that by (auto simp: nodeRateMicrosAt_def list_all_iff dest!: find_eq_Some_set split: option.splits)
  have "0 \<le> node_rate inp n m \<and> node_rate inp n m \<le> 1000000000"
  proof (cases "List.find (\<lambda>nd. nd_node_id nd = n_id n) (mt_definitions m)")
    case None
    then show ?thesis using assms at [of "n_rate_micros n" False "[]"]
      by (auto simp: node_rate_def meter_ok_def nodes.holds_def list_all_iff node_check_def)
  next
    case (Some nd)
    then have "definition_ok nd" "schedule_ok nd"
      using assms find_eq_Some_set [OF Some] by (auto simp: meter_ok_def list_all_iff)
    then show ?thesis using Some at by (simp add: node_rate_def definition_ok_def schedule_ok_def)
  qed
  then show "0 \<le> node_rate inp n m" and "node_rate inp n m \<le> 1000000000" by simp_all
qed

lemma add_user_traffic_effect:
  assumes r: "add_user_traffic (map (staged_row rate) ts) now m = Inr m'"
  shows "user_counters m' =
      map (\<lambda>(i, u, d). (i, u + charged rate tu_upload ts i, d + charged rate tu_download ts i)) (user_counters m)"
    and "\<exists>d. m' = m\<lparr>mt_db := d\<rparr> \<and> history (mt_db m) d"
proof -
  let ?staged = "map (staged_row rate) ts"
  let ?p = "\<lambda>u. u_id u \<in> set (map sg_user_id ?staged)"
  let ?f = "\<lambda>u. u\<lparr>u_traffic_u := u_traffic_u u + weighted_for sg_weighted_upload ?staged (u_id u),
      u_traffic_d := u_traffic_d u + weighted_for sg_weighted_download ?staged (u_id u), u_updated_at := unix now\<rparr>"
  obtain d where d: "update_users ?p ?f (mt_db m) = Inr d" "m' = m\<lparr>mt_db := d\<rparr>"
    using r by (auto simp: add_user_traffic_def update_meter_users_Inr split: if_splits)
  have none: "charged rate sel ts i = 0" if "i \<notin> fst ` set ts" for sel i
    using that by (simp add: charged_def map_of_eq_None_iff [THEN iffD2])
  define g where "g u = (if ?p u then money_trigger u (?f u) else u)" for u
  have rows: "db_users d = map g (db_users (mt_db m))"
    using d(1) by (simp add: update_users_Inr update_where_def g_def [abs_def])
  have g: "(u_id (g u), u_traffic_u (g u), u_traffic_d (g u)) =
      (u_id u, u_traffic_u u + charged rate tu_upload ts (u_id u), u_traffic_d u + charged rate tu_download ts (u_id u))" for u
  proof (cases "?p u")
    case True
    then show ?thesis unfolding g_def by (simp only: if_True) (simp add: weighted_for_charged)
  next
    case False
    then have "charged rate sel ts (u_id u) = 0" for sel by (intro none) (simp add: image_iff)
    then show ?thesis using False by (simp add: g_def)
  qed
  show "user_counters m' =
      map (\<lambda>(i, u, d). (i, u + charged rate tu_upload ts i, d + charged rate tu_download ts i)) (user_counters m)"
    unfolding user_counters_def d(2) by (simp add: rows g comp_def del: prod.inject)
  show "\<exists>d. m' = m\<lparr>mt_db := d\<rparr> \<and> history (mt_db m) d"
    using d(2) update_users_history [OF d(1)] by (intro exI [of _ d]) simp
qed

definition user_stat_sum :: "(user_stat \<Rightarrow> int) \<Rightarrow> int \<Rightarrow> user_stat list \<Rightarrow> int" where
  "user_stat_sum sel i rs = sum_list (map (\<lambda>r. if us_user_id r = i then sel r else 0) rs)"

definition node_stat_sum :: "(node_stat \<Rightarrow> int) \<Rightarrow> int \<Rightarrow> node_stat list \<Rightarrow> int" where
  "node_stat_sum sel i rs = sum_list (map (\<lambda>r. if ns_node_id r = i then sel r else 0) rs)"

lemma upsert_user_stat_effect:
  assumes r: "upsert_user_stat rate day now s m = Inr m'" and d: "user_stats_distinct (mt_user_stats m)"
  shows "user_stats_distinct (mt_user_stats m')" and "\<exists>rs. m' = m\<lparr>mt_user_stats := rs\<rparr>"
    and "user_stat_sum us_upload i (mt_user_stats m') =
      user_stat_sum us_upload i (mt_user_stats m) + (if sg_user_id s = i then sg_weighted_upload s else 0)"
    and "user_stat_sum us_download i (mt_user_stats m') =
      user_stat_sum us_download i (mt_user_stats m) + (if sg_user_id s = i then sg_weighted_download s else 0)"
proof -
  let ?k = "(sg_user_id s, rate, day, ''d'')"
  have "user_stats_distinct (mt_user_stats m') \<and> (\<exists>rs. m' = m\<lparr>mt_user_stats := rs\<rparr>) \<and>
    user_stat_sum us_upload i (mt_user_stats m') =
      user_stat_sum us_upload i (mt_user_stats m) + (if sg_user_id s = i then sg_weighted_upload s else 0) \<and>
    user_stat_sum us_download i (mt_user_stats m') =
      user_stat_sum us_download i (mt_user_stats m) + (if sg_user_id s = i then sg_weighted_download s else 0)"
  proof (cases "exists_where (\<lambda>r. user_stat_key r = ?k) (mt_user_stats m)")
    case True
    then obtain w where w: "w \<in> set (mt_user_stats m)" "user_stat_key w = ?k" by (auto simp: exists_where_iff)
    let ?f = "\<lambda>r. r\<lparr>us_upload := us_upload r + sg_weighted_upload s, us_download := us_download r + sg_weighted_download s,
        us_updated_at := unix now\<rparr>"
    have u: "update_user_stats (\<lambda>r. user_stat_key r = ?k) ?f m = Inr m'" using r True by (simp add: upsert_user_stat_def)
    have one: "sum_list (map g (mt_user_stats m')) = sum_list (map g (mt_user_stats m)) - g w + g (?f w)" for g :: "user_stat \<Rightarrow> int"
      using u sum_update_one [OF d [unfolded user_stats_distinct_def] w(1), of "\<lambda>r. user_stat_key r = ?k" g ?f] w(2)
      by (simp add: update_user_stats_Inr)
    have id: "us_user_id w = sg_user_id s" using w(2) by (simp add: user_stat_key_def)
    have "user_stats_distinct (mt_user_stats m')" "\<exists>rs. m' = m\<lparr>mt_user_stats := rs\<rparr>"
      using u by (auto simp: update_user_stats_Inr)
    then show ?thesis unfolding user_stat_sum_def one by (simp add: id)
  next
    case False
    then show ?thesis using r by (auto simp: upsert_user_stat_def insert_user_stat_Inr user_stat_sum_def)
  qed
  then show "user_stats_distinct (mt_user_stats m')" and "\<exists>rs. m' = m\<lparr>mt_user_stats := rs\<rparr>"
    and "user_stat_sum us_upload i (mt_user_stats m') =
      user_stat_sum us_upload i (mt_user_stats m) + (if sg_user_id s = i then sg_weighted_upload s else 0)"
    and "user_stat_sum us_download i (mt_user_stats m') =
      user_stat_sum us_download i (mt_user_stats m) + (if sg_user_id s = i then sg_weighted_download s else 0)"
    by blast+
qed

lemma upsert_user_stats_effect:
  assumes "efold (upsert_user_stat rate day now) ss m = Inr m'" and "user_stats_distinct (mt_user_stats m)"
  shows "\<exists>rs. m' = m\<lparr>mt_user_stats := rs\<rparr>"
    and "user_stat_sum us_upload i (mt_user_stats m') = user_stat_sum us_upload i (mt_user_stats m) +
      sum_list (map (\<lambda>s. if sg_user_id s = i then sg_weighted_upload s else 0) ss)"
    and "user_stat_sum us_download i (mt_user_stats m') = user_stat_sum us_download i (mt_user_stats m) +
      sum_list (map (\<lambda>s. if sg_user_id s = i then sg_weighted_download s else 0) ss)"
proof -
  have "(\<exists>rs. m' = m\<lparr>mt_user_stats := rs\<rparr>) \<and>
    user_stat_sum us_upload i (mt_user_stats m') = user_stat_sum us_upload i (mt_user_stats m) +
      sum_list (map (\<lambda>s. if sg_user_id s = i then sg_weighted_upload s else 0) ss) \<and>
    user_stat_sum us_download i (mt_user_stats m') = user_stat_sum us_download i (mt_user_stats m) +
      sum_list (map (\<lambda>s. if sg_user_id s = i then sg_weighted_download s else 0) ss)"
    using assms
  proof (induction ss arbitrary: m)
    case Nil
    then show ?case by (auto intro: exI [of _ "mt_user_stats m"])
  next
    case (Cons s ss)
    then obtain m1 where m1: "upsert_user_stat rate day now s m = Inr m1" "efold (upsert_user_stat rate day now) ss m1 = Inr m'"
      by auto
    note e = upsert_user_stat_effect [OF m1(1) Cons.prems(2)]
    show ?case using Cons.IH [OF m1(2) e(1)] e(2) e(3,4) [of i] by auto
  qed
  then show "\<exists>rs. m' = m\<lparr>mt_user_stats := rs\<rparr>"
    and "user_stat_sum us_upload i (mt_user_stats m') = user_stat_sum us_upload i (mt_user_stats m) +
      sum_list (map (\<lambda>s. if sg_user_id s = i then sg_weighted_upload s else 0) ss)"
    and "user_stat_sum us_download i (mt_user_stats m') = user_stat_sum us_download i (mt_user_stats m) +
      sum_list (map (\<lambda>s. if sg_user_id s = i then sg_weighted_download s else 0) ss)" by blast+
qed

lemma sum_staged_charged:
  assumes "distinct (map fst ts)"
  shows "sum_list (map (\<lambda>s. if sg_user_id s = i then sg_weighted_upload s else 0)
      (filter (\<lambda>s. sg_user_id s \<in> A) (order_by sg_user_id (map (staged_row rate) ts)))) = (if i \<in> A then charged rate tu_upload ts i else 0)"
    and "sum_list (map (\<lambda>s. if sg_user_id s = i then sg_weighted_download s else 0)
      (filter (\<lambda>s. sg_user_id s \<in> A) (order_by sg_user_id (map (staged_row rate) ts)))) = (if i \<in> A then charged rate tu_download ts i else 0)"
proof -
  have perm: "sum_list (map g (filter q (order_by sg_user_id xs))) = sum_list (map g (filter q xs))" for g :: "staged_traffic \<Rightarrow> int" and q xs
  proof -
    have "mset (map g (filter q (order_by sg_user_id xs))) = mset (map g (filter q xs))" by (simp add: order_by_def mset_filter)
    then show ?thesis by (metis sum_mset_sum_list)
  qed
  show "sum_list (map (\<lambda>s. if sg_user_id s = i then sg_weighted_upload s else 0)
      (filter (\<lambda>s. sg_user_id s \<in> A) (order_by sg_user_id (map (staged_row rate) ts)))) = (if i \<in> A then charged rate tu_upload ts i else 0)"
    unfolding perm using assms by (induction ts) (auto simp: charged_def staged_row_def dom_map_of_conv_image_fst [symmetric] split: option.splits)
  show "sum_list (map (\<lambda>s. if sg_user_id s = i then sg_weighted_download s else 0)
      (filter (\<lambda>s. sg_user_id s \<in> A) (order_by sg_user_id (map (staged_row rate) ts)))) = (if i \<in> A then charged rate tu_download ts i else 0)"
    unfolding perm using assms by (induction ts) (auto simp: charged_def staged_row_def dom_map_of_conv_image_fst [symmetric] split: option.splits)
qed

lemma add_user_stats_effect:
  assumes r: "add_user_stats rate day (map (staged_row rate) ts) now m = Inr m'"
    and d: "user_stats_distinct (mt_user_stats m)" and t: "distinct (map fst ts)"
  shows "\<exists>rs. m' = m\<lparr>mt_user_stats := rs\<rparr>"
    and "i \<in> set (meter_users m) \<Longrightarrow>
      user_stat_sum us_upload i (mt_user_stats m') = user_stat_sum us_upload i (mt_user_stats m) + charged rate tu_upload ts i"
    and "i \<in> set (meter_users m) \<Longrightarrow>
      user_stat_sum us_download i (mt_user_stats m') = user_stat_sum us_download i (mt_user_stats m) + charged rate tu_download ts i"
proof -
  have f: "efold (upsert_user_stat rate day now)
      (filter (\<lambda>s. sg_user_id s \<in> set (meter_users m)) (order_by sg_user_id (map (staged_row rate) ts))) m = Inr m'"
    using r by (simp add: add_user_stats_def split: if_splits)
  note e = upsert_user_stats_effect [OF f d]
  show "\<exists>rs. m' = m\<lparr>mt_user_stats := rs\<rparr>" by (rule e(1))
  show "user_stat_sum us_upload i (mt_user_stats m') = user_stat_sum us_upload i (mt_user_stats m) + charged rate tu_upload ts i"
    if "i \<in> set (meter_users m)"
    using e(2) [of i] that unfolding sum_staged_charged [OF t] by simp
  show "user_stat_sum us_download i (mt_user_stats m') = user_stat_sum us_download i (mt_user_stats m) + charged rate tu_download ts i"
    if "i \<in> set (meter_users m)"
    using e(3) [of i] that unfolding sum_staged_charged [OF t] by simp
qed

lemma add_node_traffic_effect:
  assumes "add_node_traffic nodeID u d m = Inr m'"
  shows "node_counters m' = map (\<lambda>(i, a, b). if i = nodeID then (i, a + u, b + d) else (i, a, b)) (node_counters m)"
    and "\<exists>ns. m' = m\<lparr>mt_nodes := ns\<rparr>"
proof -
  from assms obtain ns where "m' = m\<lparr>mt_nodes := ns\<rparr>"
    and "ns = update_where (\<lambda>n. n_id n = nodeID) (\<lambda>n. n\<lparr>n_traffic_u := n_traffic_u n + u, n_traffic_d := n_traffic_d n + d\<rparr>) (mt_nodes m)"
    unfolding add_node_traffic_def by (elim stageE) (auto simp: update_nodes_Inr)
  then show "node_counters m' = map (\<lambda>(i, a, b). if i = nodeID then (i, a + u, b + d) else (i, a, b)) (node_counters m)"
    and "\<exists>ns. m' = m\<lparr>mt_nodes := ns\<rparr>"
    by (auto simp: node_counters_def update_where_def)
qed

lemma add_node_stats_effect:
  assumes r: "add_node_stats nodeID day u d now m = Inr m'" and ds: "node_stats_distinct (mt_node_stats m)"
  shows "\<exists>rs. m' = m\<lparr>mt_node_stats := rs\<rparr>"
    and "node_stat_sum ns_upload i (mt_node_stats m') = node_stat_sum ns_upload i (mt_node_stats m) + (if i = nodeID then u else 0)"
    and "node_stat_sum ns_download i (mt_node_stats m') = node_stat_sum ns_download i (mt_node_stats m) + (if i = nodeID then d else 0)"
proof -
  let ?k = "(nodeID, day, ''d'')"
  have "(\<exists>rs. m' = m\<lparr>mt_node_stats := rs\<rparr>) \<and>
    node_stat_sum ns_upload i (mt_node_stats m') = node_stat_sum ns_upload i (mt_node_stats m) + (if i = nodeID then u else 0) \<and>
    node_stat_sum ns_download i (mt_node_stats m') = node_stat_sum ns_download i (mt_node_stats m) + (if i = nodeID then d else 0)"
  proof (cases "List.find (\<lambda>r. node_stat_key r = ?k) (mt_node_stats m)")
    case (Some w)
    note w = find_eq_Some_set [OF Some]
    let ?f = "\<lambda>r. r\<lparr>ns_upload := ns_upload r + u, ns_download := ns_download r + d, ns_updated_at := unix now\<rparr>"
    have up: "update_node_stats (\<lambda>r. node_stat_key r = ?k) ?f m = Inr m'"
      using r Some by (simp add: add_node_stats_def split: if_splits)
    have one: "sum_list (map g (mt_node_stats m')) = sum_list (map g (mt_node_stats m)) - g w + g (?f w)" for g :: "node_stat \<Rightarrow> int"
      using up sum_update_one [OF ds [unfolded node_stats_distinct_def], of w "\<lambda>r. node_stat_key r = ?k" g ?f] w
      by (simp add: update_node_stats_Inr)
    have id: "ns_node_id w = nodeID" using w by (simp add: node_stat_key_def)
    have "\<exists>rs. m' = m\<lparr>mt_node_stats := rs\<rparr>" using up by (auto simp: update_node_stats_Inr)
    then show ?thesis unfolding node_stat_sum_def one by (simp add: id)
  next
    case None
    then show ?thesis using r by (auto simp: add_node_stats_def insert_node_stat_Inr node_stat_sum_def)
  qed
  then show "\<exists>rs. m' = m\<lparr>mt_node_stats := rs\<rparr>"
    and "node_stat_sum ns_upload i (mt_node_stats m') = node_stat_sum ns_upload i (mt_node_stats m) + (if i = nodeID then u else 0)"
    and "node_stat_sum ns_download i (mt_node_stats m') = node_stat_sum ns_download i (mt_node_stats m) + (if i = nodeID then d else 0)"
    by blast+
qed

lemma connect_subscriptions_frame: "connect_subscriptions nodeID staged now m = Inr m' \<Longrightarrow> \<exists>bs. m' = m\<lparr>mt_subscriptions := bs\<rparr>"
  unfolding connect_subscriptions_def Let_def by (drule update_subscriptions_Inr) blast

text \<open>The stages of counting, for a report whose values are valid and a rate within its bounds.\<close>

lemma applyTraffic_stages:
  assumes r: "applyTraffic inp rate m = Inr (x, m')" and v: "traffic_valid (np_traffic inp)" and b: "0 \<le> rate" "rate \<le> 1000000000"
  obtains m1 m2 m3 m4 bs where
    "stageable rate (np_traffic inp)"
    "add_user_traffic (map (staged_row rate) (np_traffic inp)) (np_now inp) m = Inr m1"
    "add_user_stats rate (record_day (np_now inp)) (map (staged_row rate) (np_traffic inp)) (np_now inp) m1 = Inr m2"
    "add_node_traffic (np_node_id inp) (sum_traffic tu_upload (np_traffic inp)) (sum_traffic tu_download (np_traffic inp)) m2 = Inr m3"
    "add_node_stats (np_node_id inp) (record_day (np_now inp)) (sum_traffic tu_upload (np_traffic inp))
       (sum_traffic tu_download (np_traffic inp)) (np_now inp) m3 = Inr m4"
    "m' = m4\<lparr>mt_subscriptions := bs\<rparr>"
    "x = listStagedExceededTrafficUsers (map (staged_row rate) (np_traffic inp)) m'"
proof -
  from r obtain u d staged m1 m2 m3 m4 where
    s: "stage_traffic rate (np_traffic inp) 0 0 [] = Inr (u, d, staged)"
    and a: "add_user_traffic staged (np_now inp) m = Inr m1"
      "add_user_stats rate (record_day (np_now inp)) staged (np_now inp) m1 = Inr m2"
      "add_node_traffic (np_node_id inp) u d m2 = Inr m3"
      "add_node_stats (np_node_id inp) (record_day (np_now inp)) u d (np_now inp) m3 = Inr m4"
    and c: "connect_subscriptions (np_node_id inp) staged (np_now inp) m4 = Inr m'"
    and x: "x = listStagedExceededTrafficUsers staged m'"
    unfolding applyTraffic_def Let_def split_def by (elim stageE) (auto simp: split_def)
  have st: "stageable rate (np_traffic inp)" and u: "u = sum_traffic tu_upload (np_traffic inp)"
    and d: "d = sum_traffic tu_download (np_traffic inp)" and sg: "staged = map (staged_row rate) (np_traffic inp)"
    using s unfolding stage_traffic_report [OF v b] by (auto split: if_splits)
  obtain bs where "m' = m4\<lparr>mt_subscriptions := bs\<rparr>" using connect_subscriptions_frame [OF c] by blast
  then show thesis using that [OF st a(1) [unfolded sg] a(2) [unfolded sg] a(3) [unfolded u d] a(4) [unfolded u d] _ x [unfolded sg]] by blast
qed

lemma applyTraffic_effect:
  assumes r: "applyTraffic inp rate m = Inr (x, m')" and v: "traffic_valid (np_traffic inp)" and b: "0 \<le> rate" "rate \<le> 1000000000"
    and us: "user_stats_distinct (mt_user_stats m)" and ns: "node_stats_distinct (mt_node_stats m)"
  shows "user_counters m' = map (\<lambda>(i, u, d). (i, u + charged rate tu_upload (np_traffic inp) i,
      d + charged rate tu_download (np_traffic inp) i)) (user_counters m)"
    and "node_counters m' = map (\<lambda>(i, a, b). if i = np_node_id inp then (i, a + sum_traffic tu_upload (np_traffic inp),
      b + sum_traffic tu_download (np_traffic inp)) else (i, a, b)) (node_counters m)"
    and "i \<in> set (meter_users m) \<Longrightarrow> user_stat_sum us_upload i (mt_user_stats m') =
      user_stat_sum us_upload i (mt_user_stats m) + charged rate tu_upload (np_traffic inp) i"
    and "i \<in> set (meter_users m) \<Longrightarrow> user_stat_sum us_download i (mt_user_stats m') =
      user_stat_sum us_download i (mt_user_stats m) + charged rate tu_download (np_traffic inp) i"
    and "node_stat_sum ns_upload k (mt_node_stats m') =
      node_stat_sum ns_upload k (mt_node_stats m) + (if k = np_node_id inp then sum_traffic tu_upload (np_traffic inp) else 0)"
    and "node_stat_sum ns_download k (mt_node_stats m') =
      node_stat_sum ns_download k (mt_node_stats m) + (if k = np_node_id inp then sum_traffic tu_download (np_traffic inp) else 0)"
    and "mt_receipts m' = mt_receipts m"
proof -
  obtain m1 m2 m3 m4 bs where
    a1: "add_user_traffic (map (staged_row rate) (np_traffic inp)) (np_now inp) m = Inr m1"
    and a2: "add_user_stats rate (record_day (np_now inp)) (map (staged_row rate) (np_traffic inp)) (np_now inp) m1 = Inr m2"
    and a3: "add_node_traffic (np_node_id inp) (sum_traffic tu_upload (np_traffic inp)) (sum_traffic tu_download (np_traffic inp)) m2 = Inr m3"
    and a4: "add_node_stats (np_node_id inp) (record_day (np_now inp)) (sum_traffic tu_upload (np_traffic inp))
       (sum_traffic tu_download (np_traffic inp)) (np_now inp) m3 = Inr m4"
    and m': "m' = m4\<lparr>mt_subscriptions := bs\<rparr>"
    by (rule applyTraffic_stages [OF r v b])
  have dist: "distinct (map fst (np_traffic inp))" using v by (simp add: traffic_valid_def)
  obtain d where m1: "m1 = m\<lparr>mt_db := d\<rparr>" using add_user_traffic_effect(2) [OF a1] by blast
  have us1: "user_stats_distinct (mt_user_stats m1)" using us by (simp add: m1)
  obtain rs where m2: "m2 = m1\<lparr>mt_user_stats := rs\<rparr>" using add_user_stats_effect(1) [OF a2 us1 dist] by blast
  obtain nds where m3: "m3 = m2\<lparr>mt_nodes := nds\<rparr>" using add_node_traffic_effect(2) [OF a3] by blast
  have ns3: "node_stats_distinct (mt_node_stats m3)" using ns by (simp add: m1 m2 m3)
  obtain qs where m4: "m4 = m3\<lparr>mt_node_stats := qs\<rparr>" using add_node_stats_effect(1) [OF a4 ns3] by blast
  have users: "set (meter_users m1) = set (meter_users m)"
  proof -
    have "map fst (user_counters m1) = map fst (user_counters m)"
      unfolding add_user_traffic_effect(1) [OF a1] by (simp add: split_def comp_def)
    then show ?thesis by (simp add: user_counters_def meter_users_def comp_def)
  qed
  show "user_counters m' = map (\<lambda>(i, u, d). (i, u + charged rate tu_upload (np_traffic inp) i,
      d + charged rate tu_download (np_traffic inp) i)) (user_counters m)"
    using add_user_traffic_effect(1) [OF a1] by (simp add: user_counters_def m' m4 m3 m2)
  show "node_counters m' = map (\<lambda>(i, a, b). if i = np_node_id inp then (i, a + sum_traffic tu_upload (np_traffic inp),
      b + sum_traffic tu_download (np_traffic inp)) else (i, a, b)) (node_counters m)"
    using add_node_traffic_effect(1) [OF a3] by (simp add: node_counters_def m' m4 m2 m1)
  show "i \<in> set (meter_users m) \<Longrightarrow> user_stat_sum us_upload i (mt_user_stats m') =
      user_stat_sum us_upload i (mt_user_stats m) + charged rate tu_upload (np_traffic inp) i"
    using add_user_stats_effect(2) [OF a2 us1 dist, of i] unfolding users by (simp add: m' m4 m3 m1)
  show "i \<in> set (meter_users m) \<Longrightarrow> user_stat_sum us_download i (mt_user_stats m') =
      user_stat_sum us_download i (mt_user_stats m) + charged rate tu_download (np_traffic inp) i"
    using add_user_stats_effect(3) [OF a2 us1 dist, of i] unfolding users by (simp add: m' m4 m3 m1)
  show "node_stat_sum ns_upload k (mt_node_stats m') =
      node_stat_sum ns_upload k (mt_node_stats m) + (if k = np_node_id inp then sum_traffic tu_upload (np_traffic inp) else 0)"
    using add_node_stats_effect(2) [OF a4 ns3, of k] by (simp add: m' m3 m2 m1)
  show "node_stat_sum ns_download k (mt_node_stats m') =
      node_stat_sum ns_download k (mt_node_stats m) + (if k = np_node_id inp then sum_traffic tu_download (np_traffic inp) else 0)"
    using add_node_stats_effect(3) [OF a4 ns3, of k] by (simp add: m' m3 m2 m1)
  show "mt_receipts m' = mt_receipts m" by (simp add: m' m4 m3 m2 m1)
qed

end
