(* ===== verification/Meter_Reports.thy ===== *)
theory Meter_Reports
  imports Meter_Accounts
begin

text \<open>
  Repeated and reordered reports: the receipt of a report and how long it is kept, what a report's digest identifies, who
  may be reported, and that the order in which the entries of a report are met does not matter.
\<close>

section \<open>Receipts\<close>

definition receipts_same :: "meter \<Rightarrow> meter \<Rightarrow> bool" where
  "receipts_same m m' \<longleftrightarrow> mt_receipts m' = mt_receipts m"

interpretation receipts_same: evolution receipts_same
  by unfold_locales (auto simp: receipts_same_def)

lemma upsert_user_stat_receipts: "upsert_user_stat rate day now s m = Inr m' \<Longrightarrow> receipts_same m m'"
  by (auto simp: upsert_user_stat_def Let_def receipts_same_def update_user_stats_Inr insert_user_stat_Inr split: if_splits)

lemma add_user_stats_receipts: "add_user_stats rate day staged now m = Inr m' \<Longrightarrow> receipts_same m m'"
  unfolding add_user_stats_def by (erule if_Inl_InrE) (erule receipts_same.fold_respects, rule upsert_user_stat_receipts)

lemma add_user_traffic_receipts: "add_user_traffic staged now m = Inr m' \<Longrightarrow> receipts_same m m'"
  by (auto simp: add_user_traffic_def receipts_same_def update_meter_users_Inr split: if_splits)

lemma add_node_stats_receipts: "add_node_stats nodeID day u d now m = Inr m' \<Longrightarrow> receipts_same m m'"
  by (auto simp: add_node_stats_def Let_def receipts_same_def update_node_stats_Inr insert_node_stat_Inr split: option.splits if_splits)

lemma add_node_traffic_receipts: "add_node_traffic nodeID u d m = Inr m' \<Longrightarrow> receipts_same m m'"
  using add_node_traffic_effect(2) by (fastforce simp: receipts_same_def)

lemma connect_subscriptions_receipts: "connect_subscriptions nodeID staged now m = Inr m' \<Longrightarrow> receipts_same m m'"
  using connect_subscriptions_frame by (fastforce simp: receipts_same_def)

lemma applyTraffic_receipts:
  assumes "applyTraffic inp rate m = Inr (x, m')"
  shows "receipts_same m m'"
proof -
  from assms obtain u d staged m1 m2 m3 m4 where
    "add_user_traffic staged (np_now inp) m = Inr m1"
    "add_user_stats rate (record_day (np_now inp)) staged (np_now inp) m1 = Inr m2"
    "add_node_traffic (np_node_id inp) u d m2 = Inr m3"
    "add_node_stats (np_node_id inp) (record_day (np_now inp)) u d (np_now inp) m3 = Inr m4"
    "connect_subscriptions (np_node_id inp) staged (np_now inp) m4 = Inr m'"
    unfolding applyTraffic_def Let_def split_def by (elim stageE) (auto simp: split_def)
  then show ?thesis
    by (meson add_user_traffic_receipts add_user_stats_receipts add_node_traffic_receipts add_node_stats_receipts
        connect_subscriptions_receipts receipts_same.trans)
qed

lemma count_report_receipts: "count_report dup inp rate m = Inr (x, m') \<Longrightarrow> mt_receipts m' = mt_receipts m"
  using applyTraffic_receipts [of inp rate m x m'] by (auto simp: count_report_def receipts_same_def split: if_splits)

lemma claim_report_cases:
  assumes "claim_report digest inp m = Inr (dup, m1)"
  obtains (none) "\<not> dup" "m1 = m" "np_report_id inp = [] \<or> np_traffic inp = []"
    | (again) r where "dup" "m1 = m" "np_report_id inp \<noteq> []" "np_traffic inp \<noteq> []" "r \<in> set (mt_receipts m)" "nr_node_id r = np_node_id inp"
        "nr_report_id r = np_report_id inp" "nr_traffic_hash r = reportTrafficHash digest (np_traffic inp)"
    | (first) r where "\<not> dup" "m1 = m\<lparr>mt_receipts := mt_receipts m @ [r]\<rparr>" "receipts_distinct (mt_receipts m @ [r])"
        "nr_node_id r = np_node_id inp" "nr_report_id r = np_report_id inp"
        "nr_traffic_hash r = reportTrafficHash digest (np_traffic inp)" "nr_created_at r = unix (np_now inp)"
proof -
  let ?q = "\<lambda>r. nr_node_id r = np_node_id inp \<and> nr_report_id r = np_report_id inp"
  consider "np_report_id inp = [] \<or> np_traffic inp = []"
    | r where "np_report_id inp \<noteq> []" "np_traffic inp \<noteq> []" "List.find ?q (mt_receipts m) = Some r"
    | "np_report_id inp \<noteq> []" "np_traffic inp \<noteq> []" "List.find ?q (mt_receipts m) = None"
    by (cases "List.find ?q (mt_receipts m)") blast+
  then show thesis
  proof cases
    case 1
    then show thesis using assms none by (simp add: claim_report_def)
  next
    case (2 r)
    then show thesis using assms again [of r] find_eq_Some_set [OF 2(3)] by (simp add: claim_report_def Let_def split: if_splits)
  next
    case 3
    then show thesis using assms first by (auto simp: claim_report_def Let_def insert_report_receipt_Inr)
  qed
qed

text \<open>The receipts after a report that succeeded.\<close>

lemma ApplyNodeReport_receipts:
  assumes "ApplyNodeReport digest raw m = Inr (res, m')"
  obtains m1 where "claim_report digest raw m = Inr (nx_duplicate_traffic res, m1)"
    "mt_receipts m' = filter (\<lambda>r. \<not> (nr_created_at r < unix (np_now raw - seconds 604800) \<and>
        (nr_node_id r \<noteq> np_node_id raw \<or> nr_report_id r \<noteq> np_report_id raw))) (mt_receipts m1)"
proof (rule ApplyNodeReport_stages [OF assms])
  fix n m1 m2 inp
  assume cl: "claim_report digest raw m = Inr (nx_duplicate_traffic res, m1)"
    and inp: "inp = effective_report (nx_duplicate_traffic res) raw"
    and co: "count_report (nx_duplicate_traffic res) inp (node_rate raw n m) m1 = Inr (nx_exceeded_users res, m2)"
    and rc: "mt_receipts m' = mt_receipts (expire_receipts inp m2)"
  show thesis
    using that [OF cl] rc count_report_receipts [OF co] by (simp add: expire_receipts_def inp effective_report_def)
qed

definition report_claimed :: "(string \<Rightarrow> string) \<Rightarrow> node_report_input \<Rightarrow> meter \<Rightarrow> bool" where
  "report_claimed digest raw m \<longleftrightarrow>
     (\<exists>r\<in>set (mt_receipts m). nr_node_id r = np_node_id raw \<and> nr_report_id r = np_report_id raw \<and>
        nr_traffic_hash r = reportTrafficHash digest (np_traffic raw) \<and> nr_created_at r = unix (np_now raw))"

lemma first_report_claims:
  assumes r: "ApplyNodeReport digest raw m = Inr (res, m')" and "\<not> nx_duplicate_traffic res"
    and "np_report_id raw \<noteq> []" "np_traffic raw \<noteq> []"
  shows "report_claimed digest raw m'"
proof (rule ApplyNodeReport_receipts [OF r])
  fix m1
  assume cl: "claim_report digest raw m = Inr (nx_duplicate_traffic res, m1)"
    and rc: "mt_receipts m' = filter (\<lambda>r. \<not> (nr_created_at r < unix (np_now raw - seconds 604800) \<and>
        (nr_node_id r \<noteq> np_node_id raw \<or> nr_report_id r \<noteq> np_report_id raw))) (mt_receipts m1)"
  show ?thesis by (rule claim_report_cases [OF cl]) (use assms(2-) in \<open>auto simp: report_claimed_def rc\<close>)
qed

lemma unix_week: "unix (t - seconds 604800) = unix t - 604800"
  by (simp add: unix_def seconds_def)

lemma report_keeps_claimed:
  assumes r: "ApplyNodeReport digest x m = Inr (res, m')" and c: "report_claimed digest raw m" and "np_now x \<le> np_now raw + seconds 604800"
  shows "report_claimed digest raw m'"
proof (rule ApplyNodeReport_receipts [OF r])
  fix m1
  assume cl: "claim_report digest x m = Inr (nx_duplicate_traffic res, m1)"
    and rc: "mt_receipts m' = filter (\<lambda>r. \<not> (nr_created_at r < unix (np_now x - seconds 604800) \<and>
        (nr_node_id r \<noteq> np_node_id x \<or> nr_report_id r \<noteq> np_report_id x))) (mt_receipts m1)"
  have "set (mt_receipts m) \<subseteq> set (mt_receipts m1)"
    by (rule claim_report_cases [OF cl]) auto
  moreover have "\<not> unix (np_now raw) < unix (np_now x - seconds 604800)"
    using assms(3) zdiv_mono1 [of "np_now x - seconds 604800" "np_now raw" 1000000000] by (simp add: unix_def not_less)
  ultimately show ?thesis using c by (auto simp: report_claimed_def rc)
qed

lemma report_receipts_distinct:
  assumes r: "ApplyNodeReport digest x m = Inr (res, m')" and d: "receipts_distinct (mt_receipts m)"
  shows "receipts_distinct (mt_receipts m')"
proof (rule ApplyNodeReport_receipts [OF r])
  fix m1
  assume cl: "claim_report digest x m = Inr (nx_duplicate_traffic res, m1)"
    and rc: "mt_receipts m' = filter (\<lambda>r. \<not> (nr_created_at r < unix (np_now x - seconds 604800) \<and>
        (nr_node_id r \<noteq> np_node_id x \<or> nr_report_id r \<noteq> np_report_id x))) (mt_receipts m1)"
  have "receipts_distinct (mt_receipts m1)" by (rule claim_report_cases [OF cl]) (use d in auto)
  then show ?thesis by (simp add: rc receipts_distinct_def distinct_map_filter)
qed

lemma repeated_report:
  assumes r: "ApplyNodeReport digest x m = Inr (res, m')" and c: "report_claimed digest raw m" and d: "receipts_distinct (mt_receipts m)"
    and "np_node_id x = np_node_id raw" "np_report_id x = np_report_id raw" "np_report_id x \<noteq> []" "np_traffic x \<noteq> []"
  shows "nx_duplicate_traffic res \<and> reportTrafficHash digest (np_traffic x) = reportTrafficHash digest (np_traffic raw) \<and>
    mt_db m' = mt_db m \<and> mt_user_stats m' = mt_user_stats m \<and> mt_node_stats m' = mt_node_stats m \<and> node_counters m' = node_counters m"
proof (rule ApplyNodeReport_stages [OF r])
  fix n m1 m2 inp
  assume cl: "claim_report digest x m = Inr (nx_duplicate_traffic res, m1)"
    and inp: "inp = effective_report (nx_duplicate_traffic res) x"
    and co: "count_report (nx_duplicate_traffic res) inp (node_rate x n m) m1 = Inr (nx_exceeded_users res, m2)"
    and same: "traffic_same m2 (m'\<lparr>mt_receipts := mt_receipts m2\<rparr>)"
  obtain w where w: "w \<in> set (mt_receipts m)" "nr_node_id w = np_node_id x" "nr_report_id w = np_report_id x"
      "nr_traffic_hash w = reportTrafficHash digest (np_traffic raw)"
    using c assms(4,5) by (auto simp: report_claimed_def)
  have uniq: "v = w" if "v \<in> set (mt_receipts m)" "nr_node_id v = np_node_id x" "nr_report_id v = np_report_id x" for v
    using d that w by (auto simp: receipts_distinct_def distinct_map inj_on_def)
  have claim: "nx_duplicate_traffic res \<and> m1 = m \<and> reportTrafficHash digest (np_traffic x) = reportTrafficHash digest (np_traffic raw)"
  proof (rule claim_report_cases [OF cl])
    assume "np_report_id x = [] \<or> np_traffic x = []"
    then show ?thesis using assms(6,7) by simp
  next
    fix v
    assume "nx_duplicate_traffic res" "m1 = m" "v \<in> set (mt_receipts m)" "nr_node_id v = np_node_id x"
      "nr_report_id v = np_report_id x" "nr_traffic_hash v = reportTrafficHash digest (np_traffic x)"
    then show ?thesis using uniq [of v] w(4) by simp
  next
    fix v
    assume "receipts_distinct (mt_receipts m @ [v])" "nr_node_id v = np_node_id x" "nr_report_id v = np_report_id x"
    then show ?thesis using w by (force simp: receipts_distinct_def)
  qed
  have "m2 = m" using co claim by (auto simp: count_report_def split: if_splits)
  then have same': "traffic_same m (m'\<lparr>mt_receipts := mt_receipts m\<rparr>)" using same by simp
  show ?thesis using claim same' by (simp add: traffic_same_def node_counters_def)
qed

text \<open>A run of reports: one that fails leaves the store as it was.\<close>

definition run_reports :: "(string \<Rightarrow> string) \<Rightarrow> node_report_input list \<Rightarrow> meter \<Rightarrow> meter" where
  "run_reports digest rs m = fold (\<lambda>r m. case ApplyNodeReport digest r m of Inl e \<Rightarrow> m | Inr (res, m') \<Rightarrow> m') rs m"

lemma run_reports_keeps:
  assumes "report_claimed digest raw m" and "receipts_distinct (mt_receipts m)" and "list_all (\<lambda>x. np_now x \<le> np_now raw + seconds 604800) rs"
  shows "report_claimed digest raw (run_reports digest rs m) \<and> receipts_distinct (mt_receipts (run_reports digest rs m))"
  using assms
proof (induction rs arbitrary: m)
  case Nil
  then show ?case by (simp add: run_reports_def)
next
  case (Cons x rs)
  let ?m = "case ApplyNodeReport digest x m of Inl e \<Rightarrow> m | Inr (res, m') \<Rightarrow> m'"
  have "report_claimed digest raw ?m \<and> receipts_distinct (mt_receipts ?m)"
    using Cons.prems by (auto intro: report_keeps_claimed report_receipts_distinct split: sum.splits)
  then have "report_claimed digest raw (run_reports digest rs ?m) \<and> receipts_distinct (mt_receipts (run_reports digest rs ?m))"
    using Cons by simp
  then show ?case by (simp add: run_reports_def)
qed

section \<open>Who is charged\<close>

lemma concat_batches: "n \<noteq> 0 \<Longrightarrow> concat (batches n xs) = xs"
proof (induction n xs rule: batches.induct)
  case (1 n xs)
  then show ?case by (subst batches.simps) auto
qed

lemma authorizeReportedUsers_sound:
  assumes r: "authorizeReportedUsers inp m = Inr ()" and i: "i \<in> set (map fst (np_traffic inp))"
  shows "\<exists>u\<in>set (db_users (mt_db m)). u_id u = i \<and> in_node_groups (np_node_id inp) m u"
proof -
  let ?q = "\<lambda>batch u. in_node_groups (np_node_id inp) m u \<and> u_id u \<in> set batch"
  let ?found = "\<lambda>batch. map u_id (filter (?q batch) (db_users (mt_db m)))"
  have ids: "i \<in> set (reported_users inp)" using i by (auto simp: reported_users_def)
  then have "i \<in> set (concat (batches 500 (reported_users inp)))" by (simp add: concat_batches)
  then obtain batch where batch: "batch \<in> set (batches 500 (reported_users inp))" "i \<in> set batch" by auto
  have "list_all (\<lambda>batch. length (remdups (?found batch)) = length batch) (batches 500 (reported_users inp))"
    using r ids by (auto simp: authorizeReportedUsers_def Let_def split: if_splits)
  then have "card (set (?found batch)) = length batch"
    using batch(1) by (simp add: list_all_iff length_remdups_card_conv)
  moreover have "set (?found batch) \<subseteq> set batch" by auto
  ultimately have "set (?found batch) = set batch"
    by (intro card_subset_eq) (use card_length [of batch] card_mono [of "set batch" "set (?found batch)"] in auto)
  then have "i \<in> set (?found batch)" using batch(2) by blast
  then show ?thesis by auto
qed

section \<open>The digest\<close>

lemma length_be_bytes [simp]: "length (be_bytes w n) = w"
  by (induction w arbitrary: n) simp_all

lemma be_bytes_inj: "be_bytes w a = be_bytes w b \<Longrightarrow> a mod 256 ^ w = b mod 256 ^ w"
proof (induction w arbitrary: a b)
  case (Suc w)
  have "char_of (a mod 256) = (char_of (b mod 256) :: char)" and rest: "be_bytes w (a div 256) = be_bytes w (b div 256)"
    using Suc.prems by simp_all
  then have "of_char (char_of (a mod 256) :: char) = (of_char (char_of (b mod 256) :: char) :: nat)" by simp
  then have low: "a mod 256 = b mod 256" by (simp del: char_of_mod_256)
  show ?case using Suc.IH [OF rest] low by (simp add: mod_mult2_eq)
qed simp

lemma be64_inj:
  assumes "be64 a = be64 b" and "in_i64 a" and "in_i64 b"
  shows "a = b"
proof -
  have "nat (a mod 18446744073709551616) mod 256 ^ 8 = nat (b mod 18446744073709551616) mod 256 ^ 8"
    using assms(1) unfolding be64_def by (rule be_bytes_inj)
  moreover have "nat (v mod 18446744073709551616) mod 256 ^ 8 = nat (v mod 18446744073709551616)" for v :: int
    by (rule mod_less) (simp add: nat_less_iff)
  ultimately have "nat (a mod 18446744073709551616) = nat (b mod 18446744073709551616)" by metis
  then have "a mod 18446744073709551616 = b mod 18446744073709551616" by (simp only: eq_nat_nat_iff pos_mod_sign zero_less_numeral)
  then have "i64 a = i64 b"
    unfolding i64_def by (subst (1 2) mod_add_left_eq [symmetric]) (rule arg_cong [where f = "\<lambda>x. (x + _) mod _ - _"])
  then show ?thesis using assms(2,3) by (simp add: i64_id in_i64_def)
qed

lemma length_be64 [simp]: "length (be64 v) = 8"
  by (simp add: be64_def)

lemma concat_chunks_inj:
  assumes "concat (map f xs) = concat (map f ys)" and "\<And>x. length (f x) = Suc k" and "inj_on f (set xs \<union> set ys)"
  shows "xs = ys"
  using assms
proof (induction xs arbitrary: ys)
  case Nil
  have "f y \<noteq> []" for y using Nil.prems(2) [of y] by auto
  then show ?case using Nil.prems(1) by (cases ys) simp_all
next
  case (Cons x xs)
  have "f x \<noteq> []" using Cons.prems(2) [of x] by auto
  then obtain y zs where ys: "ys = y # zs" using Cons.prems(1) by (cases ys) simp_all
  have fxy: "f x = f y \<and> concat (map f xs) = concat (map f zs)"
    using Cons.prems(1,2) by (simp add: ys append_eq_append_conv)
  then have "x = y" by (intro inj_onD [OF Cons.prems(3)]) (simp_all add: ys)
  moreover have "xs = zs"
    using fxy Cons.prems(2) inj_on_subset [OF Cons.prems(3)] by (intro Cons.IH) (auto simp: ys)
  ultimately show ?case by (simp add: ys)
qed

lemma distinct_keys_perm:
  assumes "mset xs = mset ys" and "distinct (map f xs)"
  shows "distinct (map f ys)"
proof -
  have "mset (map f xs) = mset (map f ys)" by (simp add: assms(1))
  then show ?thesis using assms(2) mset_eq_imp_distinct_iff by blast
qed

lemma sort_key_perm:
  assumes "mset xs = mset ys" and "distinct (map f xs)"
  shows "sort_key f xs = sort_key f ys"
proof -
  have "distinct (map f ys)" by (rule distinct_keys_perm [OF assms])
  moreover have "set xs = set ys" using assms(1) by (rule mset_eq_setD)
  ultimately show ?thesis
    using assms by (intro map_sorted_distinct_set_unique [of f]) (auto simp: distinct_map)
qed

lemma traffic_chunk_inj:
  fixes s t :: traffic_usage
  assumes "in_i64 i" "in_i64 (tu_upload s)" "in_i64 (tu_download s)" "in_i64 j" "in_i64 (tu_upload t)" "in_i64 (tu_download t)"
    and "be64 i @ be64 (tu_upload s) @ be64 (tu_download s) = be64 j @ be64 (tu_upload t) @ be64 (tu_download t)"
  shows "i = j \<and> s = t"
proof -
  have "be64 i = be64 j" "be64 (tu_upload s) = be64 (tu_upload t)" "be64 (tu_download s) = be64 (tu_download t)"
    using assms(7) by (simp_all add: append_eq_append_conv)
  then have "i = j" "tu_upload s = tu_upload t" "tu_download s = tu_download t"
    using assms(1-6) by (blast intro: be64_inj)+
  then show ?thesis by simp
qed

lemma encode_traffic_iff:
  assumes "traffic_typed ts" and "traffic_typed us"
  shows "encode_traffic ts = encode_traffic us \<longleftrightarrow> mset ts = mset us"
proof
  let ?f = "\<lambda>(i, t). be64 i @ be64 (tu_upload t) @ be64 (tu_download t)"
  assume "encode_traffic ts = encode_traffic us"
  then have "concat (map ?f (sort_key fst ts)) = concat (map ?f (sort_key fst us))" by (simp add: encode_traffic_def)
  moreover have "length (?f x) = Suc 23" for x by (cases x) simp
  moreover have "inj_on ?f (set (sort_key fst ts) \<union> set (sort_key fst us))"
  proof (rule inj_onI)
    fix x y
    assume x: "x \<in> set (sort_key fst ts) \<union> set (sort_key fst us)" and y: "y \<in> set (sort_key fst ts) \<union> set (sort_key fst us)"
      and eq: "?f x = ?f y"
    obtain i s where xs: "x = (i, s)" by (cases x)
    obtain j t where yt: "y = (j, t)" by (cases y)
    have "in_i64 i \<and> in_i64 (tu_upload s) \<and> in_i64 (tu_download s)" "in_i64 j \<and> in_i64 (tu_upload t) \<and> in_i64 (tu_download t)"
      using assms x y by (auto simp: traffic_typed_def list_all_iff xs yt)
    then show "x = y" using traffic_chunk_inj [of i s j t] eq by (simp add: xs yt)
  qed
  ultimately have "sort_key fst ts = sort_key fst us" by (rule concat_chunks_inj)
  then show "mset ts = mset us" by (metis mset_sort)
next
  assume "mset ts = mset us"
  then have "sort_key fst ts = sort_key fst us" using assms(1) by (intro sort_key_perm) (simp_all add: traffic_typed_def)
  then show "encode_traffic ts = encode_traffic us" by (simp add: encode_traffic_def)
qed

section \<open>The order of the entries\<close>

lemma traffic_valid_perm:
  assumes "mset ts = mset us" and "traffic_valid ts"
  shows "traffic_valid us"
  using assms(2) distinct_keys_perm [OF assms(1), of fst] mset_eq_setD [OF assms(1)] by (simp add: traffic_valid_def list_all_iff)

lemma sum_traffic_perm: "mset ts = mset us \<Longrightarrow> sum_traffic sel ts = sum_traffic sel us"
  unfolding sum_traffic_def by (metis mset_map sum_mset_sum_list)

lemma stageable_perm:
  assumes "mset ts = mset us"
  shows "stageable rate ts = stageable rate us"
  using mset_eq_setD [OF assms] by (simp add: stageable_def list_all_iff sum_traffic_perm [OF assms])

lemma charged_perm:
  assumes "mset ts = mset us" and "distinct (map fst ts)"
  shows "charged rate sel ts = charged rate sel us"
proof -
  have "distinct (map fst us)" by (rule distinct_keys_perm [OF assms])
  then have "map_of ts = map_of us" using assms mset_eq_setD [OF assms(1)] by (simp add: map_of_inject_set)
  then show ?thesis by (simp add: charged_def fun_eq_iff)
qed

lemma exists_where_set: "set xs = set ys \<Longrightarrow> exists_where p xs = exists_where p ys"
  by (simp add: exists_where_iff)

lemma applyTraffic_perm:
  assumes perm: "mset (np_traffic inp) = mset us" and v: "traffic_valid (np_traffic inp)" and b: "0 \<le> rate" "rate \<le> 1000000000"
  shows "applyTraffic (inp\<lparr>np_traffic := us\<rparr>) rate m = applyTraffic inp rate m"
proof -
  let ?S = "map (staged_row rate) (np_traffic inp)" and ?T = "map (staged_row rate) us"
  have ms: "mset ?T = mset ?S" by (simp add: perm)
  have set: "set ?T = set ?S" by (rule mset_eq_setD [OF ms])
  have ids: "set (map sg_user_id ?T) = set (map sg_user_id ?S)" "set (map sg_user_id (filter q ?T)) = set (map sg_user_id (filter q ?S))" for q
    using set by (simp_all only: set_map set_filter)
  have d: "distinct (map fst (np_traffic inp))" using v by (simp add: traffic_valid_def)
  have w: "weighted_for sg_weighted_upload ?T = weighted_for sg_weighted_upload ?S"
    "weighted_for sg_weighted_download ?T = weighted_for sg_weighted_download ?S"
    using charged_perm [OF perm d] by (simp_all add: fun_eq_iff weighted_for_charged)
  have "distinct (map sg_user_id ?S)" using d by (simp add: comp_def)
  then have o: "order_by sg_user_id ?T = order_by sg_user_id ?S"
    unfolding order_by_def by (intro sort_key_perm [symmetric] ms [symmetric])
  have a: "add_user_traffic ?T now m = add_user_traffic ?S now m" for now m
    unfolding add_user_traffic_def w ids exists_where_set [OF set] ..
  have s: "add_user_stats rate day ?T now m = add_user_stats rate day ?S now m" for day now m
    unfolding add_user_stats_def o exists_where_set [OF set] ..
  have c: "connect_subscriptions nodeID ?T now m = connect_subscriptions nodeID ?S now m" for nodeID now m
    unfolding connect_subscriptions_def Let_def ids ..
  have l: "listStagedExceededTrafficUsers ?T m = listStagedExceededTrafficUsers ?S m" for m
    unfolding listStagedExceededTrafficUsers_def ids ..
  show ?thesis
  proof (cases "stageable rate (np_traffic inp)")
    case True
    then show ?thesis
      unfolding applyTraffic_def Let_def
      by (simp add: stage_traffic_report [OF v b] stage_traffic_report [OF traffic_valid_perm [OF perm v] b] stageable_perm [OF perm, symmetric]
          sum_traffic_perm [OF perm, symmetric] a s c l del: set_map map_map)
  next
    case False
    then show ?thesis
      by (simp add: applyTraffic_def stage_traffic_report [OF v b] stage_traffic_report [OF traffic_valid_perm [OF perm v] b]
          stageable_perm [OF perm, symmetric])
  qed
qed

text \<open>Every other use of the traffic of a report depends on its entries only as a set or after sorting.\<close>

lemma listExceededTrafficUsers_perm:
  assumes "mset ts = mset us"
  shows "listExceededTrafficUsers us m = listExceededTrafficUsers ts m"
proof -
  have "sort (map fst us) = sort (map fst ts)"
    by (rule properties_for_sort) (simp_all add: assms)
  then show ?thesis by (simp add: listExceededTrafficUsers_def)
qed

lemma authorizeReportedUsers_perm:
  assumes "mset (np_traffic inp) = mset us"
  shows "authorizeReportedUsers (inp\<lparr>np_traffic := us\<rparr>) m = authorizeReportedUsers inp m"
proof -
  let ?k = "\<lambda>ts. map fst ts @ map fst (np_alive inp) @ map fst (np_online inp)"
  have e: "us = [] \<longleftrightarrow> np_traffic inp = []" using assms by (metis mset_zero_iff)
  have "mset (?k us) = mset (?k (np_traffic inp))" by (simp add: assms)
  then have "sort (?k us) = sort (?k (np_traffic inp))" by (intro properties_for_sort) simp_all
  moreover have "sort (remdups (?k us)) = sort (remdups (?k (np_traffic inp)))"
    using mset_eq_setD [OF assms]
    by (intro sorted_distinct_set_unique) auto
  ultimately have "reported_users (inp\<lparr>np_traffic := us\<rparr>) = reported_users inp"
    by (simp add: reported_users_def Let_def e)
  then show ?thesis by (simp add: authorizeReportedUsers_def Let_def)
qed

lemma claim_report_perm:
  assumes "mset (np_traffic inp) = mset us" and "distinct (map fst (np_traffic inp))"
  shows "claim_report digest (inp\<lparr>np_traffic := us\<rparr>) m = claim_report digest inp m"
proof -
  have e: "us = [] \<longleftrightarrow> np_traffic inp = []" using assms(1) by (metis mset_zero_iff)
  have "reportTrafficHash digest us = reportTrafficHash digest (np_traffic inp)"
    by (simp add: reportTrafficHash_def encode_traffic_def sort_key_perm [OF assms])
  then show ?thesis by (simp add: claim_report_def e Let_def cong: option.case_cong)
qed

lemma count_report_perm:
  assumes "mset (np_traffic inp) = mset us" and "traffic_valid (np_traffic inp)" and "0 \<le> rate" "rate \<le> 1000000000"
  shows "count_report dup (inp\<lparr>np_traffic := us\<rparr>) rate m = count_report dup inp rate m"
proof -
  have e: "us = [] \<longleftrightarrow> np_traffic inp = []" using assms(1) by (metis mset_zero_iff)
  show ?thesis
    by (simp add: count_report_def e applyTraffic_perm [OF assms] listExceededTrafficUsers_perm [OF assms(1)])
qed

lemma ApplyNodeReport_perm:
  assumes perm: "mset (np_traffic raw) = mset us" and ok: "meter_ok m" and t: "traffic_typed (np_traffic raw)"
  shows "ApplyNodeReport digest (raw\<lparr>np_traffic := us\<rparr>) m = ApplyNodeReport digest raw m"
proof -
  let ?bad = "list_ex (\<lambda>(userID, usage). userID < 1 \<or> tu_upload usage < 0 \<or> tu_download usage < 0)"
  have bad: "?bad us \<longleftrightarrow> ?bad (np_traffic raw)" using mset_eq_setD [OF perm] by (simp add: list_ex_iff)
  have d: "distinct (map fst (np_traffic raw))" using t by (simp add: traffic_typed_def)
  have e: "us = [] \<longleftrightarrow> np_traffic raw = []" using perm by (metis mset_zero_iff)
  consider (bad) "?bad (np_traffic raw)" | (none) "List.find (\<lambda>n. n_id n = np_node_id raw) (mt_nodes m) = None"
    | (node) n where "\<not> ?bad (np_traffic raw)" "List.find (\<lambda>n. n_id n = np_node_id raw) (mt_nodes m) = Some n"
    by (cases "List.find (\<lambda>n. n_id n = np_node_id raw) (mt_nodes m)") blast+
  then show ?thesis
  proof cases
    case bad
    then show ?thesis using \<open>?bad us \<longleftrightarrow> ?bad (np_traffic raw)\<close> by (simp add: ApplyNodeReport_def)
  next
    case none
    then show ?thesis using bad by (simp add: ApplyNodeReport_def)
  next
    case (node n)
    note rate = node_rate_bounds [OF ok, of n raw]
    have n: "n \<in> set (mt_nodes m)" using find_eq_Some_set [OF node(2)] by simp
    have v: "traffic_valid (np_traffic raw)"
      using node(1) t by (auto simp: traffic_valid_def traffic_typed_def list_all_iff list_ex_iff in_i64_def max_i64_def)
    have eff: "effective_report dup (raw\<lparr>np_traffic := us\<rparr>) = (effective_report dup raw)\<lparr>np_traffic := us\<rparr>" for dup
      by (simp add: effective_report_def)
    have tr: "np_traffic (effective_report dup raw) = np_traffic raw" for dup by (simp add: effective_report_def)
    have au: "authorize_report dup ((effective_report dup raw)\<lparr>np_traffic := us\<rparr>) m1 = authorize_report dup (effective_report dup raw) m1" for dup m1
      using authorizeReportedUsers_perm [of "effective_report dup raw" us m1] perm
      by (cases dup) (simp_all add: authorize_report_def tr)
    have co: "count_report dup ((effective_report dup raw)\<lparr>np_traffic := us\<rparr>) (node_rate raw n m) m1 =
        count_report dup (effective_report dup raw) (node_rate raw n m) m1" for dup m1
      by (rule count_report_perm) (simp_all add: tr perm v rate n)
    have nr: "node_rate (raw\<lparr>np_traffic := us\<rparr>) n m = node_rate raw n m" by (simp add: node_rate_def cong: option.case_cong)
    have al: "report_allowed (raw\<lparr>np_traffic := us\<rparr>) n = report_allowed raw n"
      by (simp add: report_allowed_def Let_def cong: option.case_cong)
    have rp: "replace_devices (inp\<lparr>np_traffic := us\<rparr>) m1 = replace_devices inp m1" for inp m1 by (simp add: replace_devices_def)
    have sv: "save_runtime_state (inp\<lparr>np_traffic := us\<rparr>) m1 = save_runtime_state inp m1" for inp m1
      by (simp add: save_runtime_state_def Let_def)
    have to: "touch_node ((effective_report dup raw)\<lparr>np_traffic := us\<rparr>) m1 = touch_node (effective_report dup raw) m1" for dup m1
      by (simp add: touch_node_def tr e cong: if_cong)
    have ex: "expire_receipts (inp\<lparr>np_traffic := us\<rparr>) m1 = expire_receipts inp m1" for inp m1 by (simp add: expire_receipts_def)
    show ?thesis
      unfolding ApplyNodeReport_def Let_def using node
      by (simp add: bad [unfolded split_def] al claim_report_perm [OF perm d] eff au co nr rp sv to ex split_def cong: if_cong)
  qed
qed

end
