(* ===== verification/Meter_Invariant.thy ===== *)
theory Meter_Invariant
  imports Meter_Reports
begin

text \<open>
  Every report keeps the constraints of the tables (\<open>meter_ok\<close>), step by step: each statement keeps those of its own
  table, and the ids of users and nodes, to which the other tables refer, do not change.
\<close>

definition keeps_meter :: "meter \<Rightarrow> meter \<Rightarrow> bool" where
  "keeps_meter m m' \<longleftrightarrow> (meter_ok m \<longrightarrow> meter_ok m')"

interpretation keeps_meter: evolution keeps_meter
  by unfold_locales (auto simp: keeps_meter_def)

declare keeps_meter.trans [trans]

lemmas meter_holds_defs = nodes.holds_def report_receipts.holds_def user_stats.holds_def node_stats.holds_def devices.holds_def
  online.holds_def subscriptions.holds_def

text \<open>The constraints of the rows of \<open>m\<close> that refer to the users and nodes of \<open>m0\<close>.\<close>

definition tables_ok :: "meter \<Rightarrow> meter \<Rightarrow> bool" where
  "tables_ok m0 m \<longleftrightarrow>
     list_all (receipt_row_check m0) (mt_receipts m) \<and> receipts_distinct (mt_receipts m) \<and>
     list_all (user_stat_check m0) (mt_user_stats m) \<and> user_stats_distinct (mt_user_stats m) \<and>
     list_all (node_stat_check m0) (mt_node_stats m) \<and> node_stats_distinct (mt_node_stats m) \<and>
     list_all (device_check m0) (mt_devices m) \<and> devices_distinct (mt_devices m) \<and>
     list_all (online_check m0) (mt_online m) \<and> online_distinct (mt_online m) \<and>
     list_all (subscription_check m0) (mt_subscriptions m) \<and> subscriptions_distinct (mt_subscriptions m)"

lemma meter_ok_tables:
  "meter_ok m \<longleftrightarrow> db_ok (mt_db m) \<and> nodes.holds m \<and> tables_ok m m \<and>
     list_all (\<lambda>nd. definition_ok nd \<and> schedule_ok nd) (mt_definitions m)"
  unfolding meter_ok_def meter_holds_defs tables_ok_def by blast

lemma tables_ok_cong:
  assumes "set (meter_users m1) = set (meter_users m0)" and "set (meter_nodes m1) = set (meter_nodes m0)"
  shows "tables_ok m1 m = tables_ok m0 m"
proof -
  have "receipt_row_check m1 = receipt_row_check m0" "user_stat_check m1 = user_stat_check m0" "node_stat_check m1 = node_stat_check m0"
    "device_check m1 = device_check m0" "online_check m1 = online_check m0" "subscription_check m1 = subscription_check m0"
    by (simp_all add: fun_eq_iff receipt_row_check_def user_stat_check_def node_stat_check_def device_check_def online_check_def
        subscription_check_def assms)
  then show ?thesis by (simp add: tables_ok_def)
qed

lemma keeps_meterI:
  assumes "db_ok (mt_db m) \<Longrightarrow> db_ok (mt_db m')" and "nodes.holds m \<Longrightarrow> nodes.holds m'"
    and ids: "set (meter_users m') = set (meter_users m)" "set (meter_nodes m') = set (meter_nodes m)"
    and "tables_ok m m \<Longrightarrow> tables_ok m m'" and "mt_definitions m' = mt_definitions m"
  shows "keeps_meter m m'"
  using assms(1,2,5,6) tables_ok_cong [OF ids, of m'] unfolding keeps_meter_def meter_ok_tables by simp

lemma nodes_holds_cong: "mt_nodes m' = mt_nodes m \<Longrightarrow> nodes.holds m' = nodes.holds m"
  unfolding nodes.holds_def by (simp add: list_all_iff node_check_def)

lemma keeps_meter_same_ids:
  assumes "mt_db m' = mt_db m" "mt_nodes m' = mt_nodes m" "mt_definitions m' = mt_definitions m" and "tables_ok m m \<Longrightarrow> tables_ok m m'"
  shows "keeps_meter m m'"
  by (rule keeps_meterI) (use assms nodes_holds_cong [OF assms(2)] in \<open>simp_all add: meter_users_def meter_nodes_def\<close>)

lemma update_nodes_keeps:
  assumes r: "update_nodes p f m = Inr m'" and f: "\<And>n. n_id (f n) = n_id n"
  shows "keeps_meter m m'"
proof (rule keeps_meterI)
  have m': "m' = m\<lparr>mt_nodes := update_where p f (mt_nodes m)\<rparr>" using r by (simp add: update_nodes_Inr)
  show "set (meter_nodes m') = set (meter_nodes m)" by (simp add: m' meter_nodes_def set_ids_update_where f)
  show "nodes.holds m \<Longrightarrow> nodes.holds m'" using r unfolding update_nodes_def by (rule nodes.update_keeps)
qed (use r in \<open>auto simp: update_nodes_Inr meter_users_def tables_ok_def\<close>)

lemma add_user_traffic_keeps:
  assumes "add_user_traffic staged now m = Inr m'"
  shows "keeps_meter m m'"
proof -
  obtain p f d where d: "update_users p f (mt_db m) = Inr d" "m' = m\<lparr>mt_db := d\<rparr>" and f: "\<And>u. u_id (f u) = u_id u"
    using assms by (auto simp: add_user_traffic_def update_meter_users_Inr split: if_splits)
  have "history (mt_db m) d" by (rule update_users_history [OF d(1) f])
  then have "db_ok (mt_db m) \<Longrightarrow> db_ok d" using history_coreD by (auto simp: history_core_def keeps_ok_def)
  moreover have "set (map u_id (db_users d)) = set (map u_id (db_users (mt_db m)))"
    using d(1) by (simp add: update_users_Inr set_ids_update_where f)
  ultimately show ?thesis
    by (intro keeps_meterI) (simp_all add: d(2) meter_users_def meter_nodes_def tables_ok_def nodes_holds_cong [of "m\<lparr>mt_db := d\<rparr>" m])
qed

lemma upsert_user_stat_keeps:
  assumes "upsert_user_stat rate day now s m = Inr m'"
  shows "keeps_meter m m'"
proof (rule keeps_meter_same_ids)
  show "mt_db m' = mt_db m" "mt_nodes m' = mt_nodes m" "mt_definitions m' = mt_definitions m"
    using assms by (auto simp: upsert_user_stat_def Let_def update_user_stats_Inr insert_user_stat_Inr split: if_splits)
  show "tables_ok m m \<Longrightarrow> tables_ok m m'"
    using assms by (auto simp: upsert_user_stat_def Let_def update_user_stats_Inr insert_user_stat_Inr tables_ok_def list_all_iff
        update_where_def split: if_splits)
qed

lemma add_user_stats_keeps: "add_user_stats rate day staged now m = Inr m' \<Longrightarrow> keeps_meter m m'"
  unfolding add_user_stats_def by (erule if_Inl_InrE) (erule keeps_meter.fold_respects, rule upsert_user_stat_keeps)

lemma add_node_traffic_keeps:
  assumes "add_node_traffic nodeID u d m = Inr m'"
  shows "keeps_meter m m'"
  using assms unfolding add_node_traffic_def by (elim stageE) (erule update_nodes_keeps, simp)

lemma add_node_stats_keeps:
  assumes "add_node_stats nodeID day u d now m = Inr m'"
  shows "keeps_meter m m'"
proof (rule keeps_meter_same_ids)
  show "mt_db m' = mt_db m" "mt_nodes m' = mt_nodes m" "mt_definitions m' = mt_definitions m"
    using assms by (auto simp: add_node_stats_def Let_def update_node_stats_Inr insert_node_stat_Inr split: if_splits option.splits)
  show "tables_ok m m \<Longrightarrow> tables_ok m m'"
    using assms by (auto simp: add_node_stats_def Let_def update_node_stats_Inr insert_node_stat_Inr tables_ok_def list_all_iff
        update_where_def split: if_splits option.splits)
qed

lemma connect_subscriptions_keeps:
  assumes "connect_subscriptions nodeID staged now m = Inr m'"
  shows "keeps_meter m m'"
proof (rule keeps_meter_same_ids)
  obtain bs where m': "m' = m\<lparr>mt_subscriptions := bs\<rparr>" using connect_subscriptions_frame [OF assms] by blast
  then show "mt_db m' = mt_db m" "mt_nodes m' = mt_nodes m" "mt_definitions m' = mt_definitions m" by simp_all
  assume t: "tables_ok m m"
  then have "subscriptions.holds m" by (simp add: tables_ok_def subscriptions.holds_def)
  then have "subscriptions.holds m'"
    by (rule subscriptions.update_keeps [OF assms [unfolded connect_subscriptions_def Let_def update_subscriptions_def]])
  then show "tables_ok m m'"
    using t by (simp add: tables_ok_def subscriptions.holds_def m' subscriptions.check_put [unfolded put_subscriptions_def])
qed

lemma applyTraffic_keeps:
  assumes "applyTraffic inp rate m = Inr (x, m')"
  shows "keeps_meter m m'"
proof -
  from assms obtain u d staged m1 m2 m3 m4 where
    "add_user_traffic staged (np_now inp) m = Inr m1"
    "add_user_stats rate (record_day (np_now inp)) staged (np_now inp) m1 = Inr m2"
    "add_node_traffic (np_node_id inp) u d m2 = Inr m3"
    "add_node_stats (np_node_id inp) (record_day (np_now inp)) u d (np_now inp) m3 = Inr m4"
    "connect_subscriptions (np_node_id inp) staged (np_now inp) m4 = Inr m'"
    unfolding applyTraffic_def Let_def split_def by (elim stageE) (auto simp: split_def)
  then show ?thesis
    by (meson add_user_traffic_keeps add_user_stats_keeps add_node_traffic_keeps add_node_stats_keeps
        connect_subscriptions_keeps keeps_meter.trans)
qed

lemma insert_user_device_keeps:
  assumes "insert_user_device nodeID userID now ip m = Inr m'"
  shows "keeps_meter m m'"
proof (rule keeps_meter_same_ids)
  show "mt_db m' = mt_db m" "mt_nodes m' = mt_nodes m" "mt_definitions m' = mt_definitions m"
    using assms by (auto simp: insert_user_device_def dest!: insert_device_Inr split: if_splits)
  show "tables_ok m m \<Longrightarrow> tables_ok m m'"
    using assms by (auto simp: insert_user_device_def insert_device_def devices.insert_Inr put_devices_def tables_ok_def split: if_splits)
qed

lemma drop_devices_keeps: "keeps_meter m (m\<lparr>mt_devices := filter p (mt_devices m)\<rparr>)"
  by (rule keeps_meter_same_ids) (auto simp: tables_ok_def list_all_iff devices_distinct_def distinct_map_filter)

lemma presence_keeps: "keeps_meter m (m\<lparr>mt_presence := ps\<rparr>)"
  by (rule keeps_meter_same_ids) (auto simp: tables_ok_def)

lemma recount_devices_keeps: "keeps_meter m (recount_devices ids now m)"
  unfolding recount_devices_def by (rule presence_keeps)

lemma fold_recount_keeps: "keeps_meter m (fold (\<lambda>batch. recount_devices (f batch) now) xs m)"
  by (induction xs arbitrary: m) (auto intro: keeps_meter.refl keeps_meter.trans recount_devices_keeps)

lemma alive_step_keeps:
  assumes "alive_step nodeID now x m = Inr m'"
  shows "keeps_meter m m'"
proof -
  obtain userID ips where x: "x = (userID, ips)" by (cases x)
  let ?m = "m\<lparr>mt_devices := filter (\<lambda>v. \<not> (dv_node_id v = nodeID \<and> dv_user_id v = userID)) (mt_devices m)\<rparr>"
  obtain m1 ps where m1: "efold (insert_user_device nodeID userID now) ips ?m = Inr m1"
    and m': "m' = (recount_devices [userID] now m1)\<lparr>mt_presence := ps\<rparr>"
    using assms by (auto simp: alive_step_def x Let_def)
  have "keeps_meter m ?m" by (rule drop_devices_keeps)
  also have "keeps_meter ?m m1" by (rule keeps_meter.fold_respects [OF m1]) (rule insert_user_device_keeps)
  also have "keeps_meter m1 (recount_devices [userID] now m1)" by (rule recount_devices_keeps)
  also have "keeps_meter (recount_devices [userID] now m1) m'" unfolding m' by (rule presence_keeps)
  finally show ?thesis .
qed

lemma applyAlive_keeps: "applyAlive nodeID alive now m = Inr m' \<Longrightarrow> keeps_meter m m'"
  unfolding applyAlive_def by (erule keeps_meter.fold_respects) (rule alive_step_keeps)

lemma online_step_keeps:
  assumes "online_step nodeID now x m = Inr m'"
  shows "keeps_meter m m'"
proof (rule keeps_meter_same_ids)
  obtain userID c where x: "x = (userID, c)" by (cases x)
  show "mt_db m' = mt_db m" "mt_nodes m' = mt_nodes m" "mt_definitions m' = mt_definitions m"
    using assms by (auto simp: online_step_def x Let_def dest!: online_statements_Inr split: if_splits)
  show "tables_ok m m \<Longrightarrow> tables_ok m m'"
    using assms by (auto simp: online_step_def x Let_def insert_online_def update_online_def online.insert_Inr online.update_Inr put_online_def
        tables_ok_def list_all_iff update_where_def split: if_splits)
qed

lemma applyOnline_keeps: "applyOnline nodeID entries now m = Inr m' \<Longrightarrow> keeps_meter m m'"
  unfolding applyOnline_def by (erule keeps_meter.fold_respects) (rule online_step_keeps)

lemma save_runtime_state_keeps: "save_runtime_state inp m = Inr m' \<Longrightarrow> keeps_meter m m'"
  by (rule keeps_meter_same_ids) (auto simp: save_runtime_state_def Let_def tables_ok_def split: if_splits)

lemma touch_node_keeps: "touch_node inp m = Inr m' \<Longrightarrow> keeps_meter m m'"
  unfolding touch_node_def by (erule update_nodes_keeps) simp

lemma replace_devices_keeps: "keeps_meter m (snd (replace_devices inp m))"
  by (simp add: replace_devices_def keeps_meter.refl drop_devices_keeps)

lemma expire_receipts_keeps: "keeps_meter m (expire_receipts inp m)"
  unfolding expire_receipts_def
  by (rule keeps_meter_same_ids) (auto simp: tables_ok_def list_all_iff receipts_distinct_def distinct_map_filter)

lemma expire_online_keeps: "keeps_meter m (expire_online now m)"
  unfolding expire_online_def
  by (rule keeps_meter_same_ids) (auto simp: tables_ok_def list_all_iff online_distinct_def distinct_map_filter)

lemma expireNodeDevices_keeps: "keeps_meter m (snd (expireNodeDevices now m))"
  unfolding expireNodeDevices_def Let_def snd_conv by (rule keeps_meter.trans [OF drop_devices_keeps fold_recount_keeps])

lemma claim_report_keeps:
  assumes "claim_report digest inp m = Inr (dup, m')"
  shows "keeps_meter m m'"
proof (rule keeps_meter_same_ids)
  show "mt_db m' = mt_db m" "mt_nodes m' = mt_nodes m" "mt_definitions m' = mt_definitions m"
    by (rule claim_report_cases [OF assms]; simp)+
  show "tables_ok m m \<Longrightarrow> tables_ok m m'"
    using assms by (auto simp: claim_report_def Let_def insert_report_receipt_Inr tables_ok_def split: if_splits option.splits)
qed

lemma ApplyNodeReport_keeps:
  assumes "ApplyNodeReport digest raw m = Inr (res, m')"
  shows "keeps_meter m m'"
proof -
  from assms obtain rate dup m1 inp x m2 m4 m5 m6 m7 where
    cl: "claim_report digest raw m = Inr (dup, m1)"
    and co: "count_report dup inp rate m1 = Inr (x, m2)"
    and m4: "(if np_external_device_state inp then Inr (snd (replace_devices inp m2))
       else applyAlive (np_node_id inp) (np_alive inp) (np_now inp) (snd (replace_devices inp m2))) = Inr m4"
    and m5: "applyOnline (np_node_id inp) (np_online inp) (np_now inp) m4 = Inr m5"
    and m6: "save_runtime_state inp m5 = Inr m6" and m7: "touch_node inp m6 = Inr m7"
    and m': "m' = expire_online (np_now inp) (if np_external_device_state inp then expire_receipts inp m7
       else snd (expireNodeDevices (np_now inp) (expire_receipts inp m7)))"
    unfolding ApplyNodeReport_def Let_def split_def by (elim stageE) (auto split: if_splits)
  have "keeps_meter m m1" by (rule claim_report_keeps [OF cl])
  also have "keeps_meter m1 m2"
    using co by (auto simp: count_report_def intro: keeps_meter.refl applyTraffic_keeps split: if_splits)
  also have "keeps_meter m2 (snd (replace_devices inp m2))" by (rule replace_devices_keeps)
  also have "keeps_meter (snd (replace_devices inp m2)) m4"
    using m4 by (auto intro: applyAlive_keeps keeps_meter.refl split: if_splits)
  also have "keeps_meter m4 m5" by (rule applyOnline_keeps [OF m5])
  also have "keeps_meter m5 m6" by (rule save_runtime_state_keeps [OF m6])
  also have "keeps_meter m6 m7" by (rule touch_node_keeps [OF m7])
  also have "keeps_meter m7 (expire_receipts inp m7)" by (rule expire_receipts_keeps)
  also have "keeps_meter (expire_receipts inp m7) m'"
    unfolding m' using keeps_meter.trans [OF expireNodeDevices_keeps expire_online_keeps] by (simp add: expire_online_keeps)
  finally show ?thesis .
qed

text \<open>The other operations on devices.\<close>

lemma ClearNodeDevices_keeps:
  assumes "ClearNodeDevices nodeIDs now m = Inr (ids, m')"
  shows "keeps_meter m m'"
proof (cases "nodeIDs = []")
  case True
  then show ?thesis using assms by (simp add: ClearNodeDevices_def keeps_meter.refl)
next
  case False
  then obtain affected where f: "efold (clear_node_step now) nodeIDs ([], m) = Inr (affected, m')"
    using assms by (auto simp: ClearNodeDevices_def)
  have "keeps_meter d d'" if "clear_node_step now x (c, d) = Inr (c', d')" for x c d c' d'
    using that keeps_meter.trans [OF drop_devices_keeps fold_recount_keeps] by (auto simp: clear_node_step_def Let_def split: if_splits)
  then show ?thesis by (rule keeps_meter.fold_with_counter_respects [OF f])
qed

lemma UpdateUserDeviceSummaries_keeps:
  assumes "UpdateUserDeviceSummaries summaries m = Inr m'"
  shows "keeps_meter m m'"
proof -
  have "keeps_meter m (fold (\<lambda>s m. m\<lparr>mt_presence := f s (mt_presence m)\<rparr>) xs m)" for f :: "user_device_summary \<Rightarrow> _" and xs m
    by (induction xs arbitrary: m) (auto intro: keeps_meter.refl keeps_meter.trans presence_keeps)
  then show ?thesis using assms by (auto simp: UpdateUserDeviceSummaries_def keeps_meter.refl split: if_splits)
qed

section \<open>The store under the meter\<close>

text \<open>What happens to the store is a \<open>history\<close>: traffic changes counters of users and nothing else.\<close>

lemma add_user_traffic_history:
  assumes "add_user_traffic staged now m = Inr m'"
  shows "history (mt_db m) (mt_db m')"
proof -
  obtain p f d where d: "update_users p f (mt_db m) = Inr d" "m' = m\<lparr>mt_db := d\<rparr>" and f: "\<And>u. u_id (f u) = u_id u"
    using assms by (auto simp: add_user_traffic_def update_meter_users_Inr split: if_splits)
  then show ?thesis using update_users_history [OF d(1) f] by simp
qed

definition same_store :: "meter \<Rightarrow> meter \<Rightarrow> bool" where
  "same_store m m' \<longleftrightarrow> mt_db m' = mt_db m"

interpretation same_store: evolution same_store
  by unfold_locales (auto simp: same_store_def)

lemma upsert_user_stat_store: "upsert_user_stat rate day now s m = Inr m' \<Longrightarrow> same_store m m'"
  by (auto simp: upsert_user_stat_def Let_def same_store_def update_user_stats_Inr insert_user_stat_Inr split: if_splits)

lemma applyTraffic_history:
  assumes "applyTraffic inp rate m = Inr (x, m')"
  shows "history (mt_db m) (mt_db m')"
proof -
  from assms obtain u d staged m1 m2 m3 m4 where
    a1: "add_user_traffic staged (np_now inp) m = Inr m1"
    and a2: "add_user_stats rate (record_day (np_now inp)) staged (np_now inp) m1 = Inr m2"
    and a3: "add_node_traffic (np_node_id inp) u d m2 = Inr m3"
    and a4: "add_node_stats (np_node_id inp) (record_day (np_now inp)) u d (np_now inp) m3 = Inr m4"
    and a5: "connect_subscriptions (np_node_id inp) staged (np_now inp) m4 = Inr m'"
    unfolding applyTraffic_def Let_def split_def by (elim stageE) (auto simp: split_def)
  have "same_store m1 m2"
    using a2 unfolding add_user_stats_def by (rule if_Inl_InrE) (erule same_store.fold_respects, rule upsert_user_stat_store)
  moreover have "same_store m2 m3" using add_node_traffic_effect(2) [OF a3] by (auto simp: same_store_def)
  moreover have "same_store m3 m4"
    using a4 by (auto simp: add_node_stats_def Let_def same_store_def update_node_stats_Inr insert_node_stat_Inr split: if_splits option.splits)
  moreover have "same_store m4 m'" using connect_subscriptions_frame [OF a5] by (auto simp: same_store_def)
  ultimately have "mt_db m' = mt_db m1" by (simp add: same_store_def)
  then show ?thesis using add_user_traffic_history [OF a1] by simp
qed

lemma ApplyNodeReport_history:
  assumes "ApplyNodeReport digest raw m = Inr (res, m')"
  shows "history (mt_db m) (mt_db m')"
proof (rule ApplyNodeReport_stages [OF assms])
  fix n m1 m2 inp
  assume cl: "claim_report digest raw m = Inr (nx_duplicate_traffic res, m1)"
    and co: "count_report (nx_duplicate_traffic res) inp (node_rate raw n m) m1 = Inr (nx_exceeded_users res, m2)"
    and same: "traffic_same m2 (m'\<lparr>mt_receipts := mt_receipts m2\<rparr>)"
  have "mt_db m1 = mt_db m" by (rule claim_report_cases [OF cl]; simp)
  moreover have "mt_db m' = mt_db m2" using same by (simp add: traffic_same_def)
  moreover have "history (mt_db m1) (mt_db m2)"
    using co by (auto simp: count_report_def history.refl intro: applyTraffic_history split: if_splits)
  ultimately show ?thesis by simp
qed

lemma ClearNodeDevices_store:
  assumes "ClearNodeDevices nodeIDs now m = Inr (ids, m')"
  shows "mt_db m' = mt_db m"
proof (cases "nodeIDs = []")
  case True
  then show ?thesis using assms by (simp add: ClearNodeDevices_def)
next
  case False
  then obtain affected where f: "efold (clear_node_step now) nodeIDs ([], m) = Inr (affected, m')"
    using assms by (auto simp: ClearNodeDevices_def)
  have "same_store d d'" if "clear_node_step now x (c, d) = Inr (c', d')" for x c d c' d'
  proof -
    have "mt_db (fold (\<lambda>i. recount_devices [i] now) xs k) = mt_db k" for xs k
      using fold_recount_same [of k "\<lambda>i. [i]" now xs] by (simp add: traffic_same_def)
    then show ?thesis using that by (auto simp: clear_node_step_def Let_def same_store_def split: if_splits)
  qed
  then have "same_store m m'" by (rule same_store.fold_with_counter_respects [OF f])
  then show ?thesis by (simp add: same_store_def)
qed

lemma UpdateUserDeviceSummaries_store:
  assumes "UpdateUserDeviceSummaries summaries m = Inr m'"
  shows "mt_db m' = mt_db m"
proof -
  have "mt_db (fold (\<lambda>s m. m\<lparr>mt_presence := f s (mt_presence m)\<rparr>) xs m) = mt_db m" for f :: "user_device_summary \<Rightarrow> _" and xs m
    by (induction xs arbitrary: m) simp_all
  then show ?thesis using assms by (auto simp: UpdateUserDeviceSummaries_def split: if_splits)
qed

text \<open>A step of the store keeps the ids of its users, and with them the references of the meter.\<close>

lemma store_history_keeps:
  assumes "history (mt_db m) d"
  shows "keeps_meter m (m\<lparr>mt_db := d\<rparr>)"
proof (rule keeps_meterI)
  show "set (meter_users (m\<lparr>mt_db := d\<rparr>)) = set (meter_users m)"
    using history_coreD [OF assms] by (simp add: meter_users_def history_core_def users_stay_def flip: set_map)
  show "db_ok (mt_db m) \<Longrightarrow> db_ok (mt_db (m\<lparr>mt_db := d\<rparr>))" using history_ok [OF assms] by simp
qed (simp_all add: meter_nodes_def tables_ok_def nodes_holds_cong [of "m\<lparr>mt_db := d\<rparr>" m])

end
