(* ===== verification/Meter_Queries.thy ===== *)
theory Meter_Queries
  imports Meter_Invariant
begin

text \<open>
  The queries of \<^verbatim>\<open>internal/store/runtime.go\<close> behind the nodes' configuration: the users a node serves, the nodes of a
  group, and the last state of a node; and that a user beyond the quota is announced and no longer served. The pairs of
  node and group are the primary key of the memberships, so that a join meets each of them once. Diagnostic ids, which
  are attached to the listed users afterwards, are not modelled.
\<close>

section \<open>The queries\<close>

record runtime_user =
  ru_id :: int
  ru_uuid :: string
  ru_speed_limit :: int
  ru_device_limit :: int

definition runtime_user_row :: "user \<Rightarrow> runtime_user" where
  "runtime_user_row u = \<lparr>ru_id = u_id u, ru_uuid = (case u_uuid u of None \<Rightarrow> [] | Some s \<Rightarrow> s), ru_speed_limit = u_speed_limit u, ru_device_limit = u_device_limit u\<rparr>"

definition ListNodeRuntimeUsers :: "int \<Rightarrow> instant \<Rightarrow> meter \<Rightarrow> runtime_user list" where
  "ListNodeRuntimeUsers nodeID now m = map runtime_user_row (order_by u_id (filter (served_by nodeID now m) (db_users (mt_db m))))"

definition node_ready :: "node \<Rightarrow> bool" where
  "node_ready n \<longleftrightarrow> n_enabled n \<and> n_runtime_config n \<noteq> None"

definition GetNodeRuntimeUser :: "int \<Rightarrow> int \<Rightarrow> instant \<Rightarrow> meter \<Rightarrow> store_error + runtime_user" where
  "GetNodeRuntimeUser nodeID userID now m =
     (if exists_where (\<lambda>n. n_id n = nodeID \<and> node_ready n) (mt_nodes m)
      then ebind (of_option ErrNotFound (List.find (\<lambda>u. u_id u = userID \<and> served_by nodeID now m u) (db_users (mt_db m))))
             (\<lambda>u. Inr (runtime_user_row u))
      else Inl ErrNotFound)"

definition node_target :: "node \<Rightarrow> int \<times> int" where
  "node_target n = (n_id n, case n_machine_id n of None \<Rightarrow> 0 | Some i \<Rightarrow> i)"

definition ListAllRuntimeNodeTargets :: "meter \<Rightarrow> (int \<times> int) list" where
  "ListAllRuntimeNodeTargets m = map node_target (order_by n_id (filter node_ready (mt_nodes m)))"

definition ListRuntimeNodeTargetsForGroups :: "int list \<Rightarrow> meter \<Rightarrow> store_error + (int \<times> int) list" where
  "ListRuntimeNodeTargetsForGroups groupIDs m =
     (if groupIDs = [] then Inr []
      else if list_ex (\<lambda>g. g < 1) groupIDs then Inl ErrInvalidInput
      else Inr (map node_target (order_by n_id
        (filter (\<lambda>n. node_ready n \<and> list_ex (\<lambda>(i, g). i = n_id n \<and> g \<in> set groupIDs) (mt_memberships m)) (mt_nodes m)))))"

definition ListRuntimeNodeGroupTargetsForGroups :: "int list \<Rightarrow> meter \<Rightarrow> store_error + (int \<times> int \<times> int) list" where
  "ListRuntimeNodeGroupTargetsForGroups groupIDs m =
     (if groupIDs = [] then Inr []
      else if list_ex (\<lambda>g. g < 1) groupIDs then Inl ErrInvalidInput
      else Inr (order_by fst (order_by (snd \<circ> snd) (concat (map (\<lambda>(i, g).
        map (\<lambda>n. (n_id n, snd (node_target n), g)) (filter (\<lambda>n. n_id n = i \<and> node_ready n \<and> g \<in> set groupIDs) (mt_nodes m)))
        (mt_memberships m))))))"

definition GetNodeRuntimeState :: "int \<Rightarrow> meter \<Rightarrow> store_error + runtime_state" where
  "GetNodeRuntimeState nodeID m = of_option ErrNotFound (List.find (\<lambda>r. rs_node_id r = nodeID) (mt_states m))"

definition ListRuntimeNodeIDsForUsers :: "int list \<Rightarrow> meter \<Rightarrow> store_error + int list" where
  "ListRuntimeNodeIDsForUsers userIDs m =
     (if list_ex (\<lambda>i. i < 1) userIDs then Inl ErrInvalidInput
      else Inr (sort (remdups (concat (map (\<lambda>batch. map n_id (filter (\<lambda>n. node_ready n \<and>
        exists_where (\<lambda>u. u_id u \<in> set batch \<and> in_node_groups (n_id n) m u) (db_users (mt_db m))) (mt_nodes m))) (batches 500 userIDs))))))"

section \<open>Users beyond their quota\<close>

lemma set_listExceeded:
  "set (listExceededTrafficUsers ts m) = exceeded_row ` {u \<in> set (db_users (mt_db m)). u_id u \<in> set (map fst ts) \<and> exceeded_traffic u}"
proof -
  have all: "(\<exists>b\<in>set (batches 500 (sort (map fst ts))). i \<in> set b) \<longleftrightarrow> i \<in> set (map fst ts)" for i
  proof -
    have "i \<in> set (concat (batches 500 (sort (map fst ts)))) \<longleftrightarrow> i \<in> set (map fst ts)" by (simp add: concat_batches)
    then show ?thesis by (simp del: concat_batches)
  qed
  have "x \<in> set (listExceededTrafficUsers ts m) \<longleftrightarrow>
      (\<exists>u\<in>set (db_users (mt_db m)). x = exceeded_row u \<and> exceeded_traffic u \<and> (\<exists>b\<in>set (batches 500 (sort (map fst ts))). u_id u \<in> set b))" for x
    unfolding listExceededTrafficUsers_def by (auto simp: image_iff)
  then show ?thesis unfolding all set_eq_iff by blast
qed

lemma set_listStagedExceeded:
  "set (listStagedExceededTrafficUsers (map (staged_row rate) ts) m) =
     exceeded_row ` {u \<in> set (db_users (mt_db m)). u_id u \<in> set (map fst ts) \<and> exceeded_traffic u}"
  by (simp add: listStagedExceededTrafficUsers_def image_image)

text \<open>The users a successful report announces as exceeded.\<close>

lemma report_exceeded:
  assumes ok: "meter_ok m" and t: "traffic_typed (np_traffic raw)" and r: "ApplyNodeReport digest raw m = Inr (res, m')"
  shows "set (nx_exceeded_users res) =
    exceeded_row ` {u \<in> set (db_users (mt_db m')). u_id u \<in> set (map fst (np_traffic raw)) \<and> exceeded_traffic u}"
proof (rule ApplyNodeReport_stages [OF r])
  fix n m1 m2 inp
  assume valid: "list_all (\<lambda>(i, t). 1 \<le> i \<and> 0 \<le> tu_upload t \<and> 0 \<le> tu_download t) (np_traffic raw)"
    and n: "n \<in> set (mt_nodes m)" and inp: "inp = effective_report (nx_duplicate_traffic res) raw"
    and co: "count_report (nx_duplicate_traffic res) inp (node_rate raw n m) m1 = Inr (nx_exceeded_users res, m2)"
    and same: "traffic_same m2 (m'\<lparr>mt_receipts := mt_receipts m2\<rparr>)"
  have db: "mt_db m' = mt_db m2" using same by (simp add: traffic_same_def)
  have tr: "np_traffic inp = np_traffic raw" by (simp add: inp effective_report_def)
  have v: "traffic_valid (np_traffic inp)"
    using valid t by (auto simp: tr traffic_valid_def traffic_typed_def list_all_iff in_i64_def max_i64_def)
  consider (empty) "np_traffic raw = []" "nx_exceeded_users res = []"
    | (again) "m2 = m1" "nx_exceeded_users res = listExceededTrafficUsers (np_traffic raw) m1"
    | (counted) "applyTraffic inp (node_rate raw n m) m1 = Inr (nx_exceeded_users res, m2)"
    using co by (auto simp: count_report_def tr split: if_splits)
  then show ?thesis
  proof cases
    case empty
    then show ?thesis by simp
  next
    case again
    then show ?thesis by (simp add: set_listExceeded db)
  next
    case counted
    have "nx_exceeded_users res = listStagedExceededTrafficUsers (map (staged_row (node_rate raw n m)) (np_traffic inp)) m2"
      using applyTraffic_stages [OF counted v node_rate_bounds [OF ok n]] by blast
    then show ?thesis by (simp only: set_listStagedExceeded db tr)
  qed
qed

lemma exceeded_not_served:
  assumes "exceeded_traffic u"
  shows "\<not> served_by nodeID now m u"
  using assms by (simp add: exceeded_traffic_def served_by_def)

end
