(* ===== verification/Meter_Properties.thy ===== *)
theory Meter_Properties
  imports Meter_Queries Store_Runs Sample_Store
begin

text \<open>
  The properties of the traffic meter: what a report counts, that it counts once, that the order of its entries does not
  matter, what its digest identifies, and the invariant of its tables; with a sample node on which the
  witnesses evaluate the reports.
\<close>

section \<open>A sample node\<close>

definition sample_digest :: "string \<Rightarrow> string" where
  "sample_digest s = replicate 32 (CHR ''x'')"

definition sample_node :: node where
  "sample_node = \<lparr>n_id = 7, n_name = ''Tokyo'', n_enabled = True, n_machine_id = Some 5, n_rate_micros = 1000000, n_runtime_config = Some ''{}'',
     n_traffic_u = 10, n_traffic_d = 20, n_last_check_at = None, n_last_push_at = None\<rparr>"

definition sample_meter :: meter where
  "sample_meter =
     \<lparr>mt_db = sample_db\<lparr>db_users := [sample_user 1 ''inviter@example.com'',
        (sample_user 2 ''customer@example.com'')\<lparr>u_group_id := Some 1, u_transfer_enable := 1000, u_traffic_u := 5\<rparr>,
        (sample_user 3 ''second@example.com'')\<lparr>u_group_id := Some 1, u_transfer_enable := 1000\<rparr>]\<rparr>,
      mt_nodes = [sample_node],
      mt_definitions = [\<lparr>nd_node_id = 7, nd_configured_rate_micros = 1000000, nd_rate_time_enabled = True,
        nd_rate_time_ranges = [\<lparr>rr_start = ''00:00'', rr_end = ''12:00'', rr_rate_micros = 1500000\<rparr>]\<rparr>],
      mt_memberships = [(7, 1)], mt_receipts = [], mt_user_stats = [], mt_node_stats = [],
      mt_devices = [\<lparr>dv_node_id = 7, dv_user_id = 2, dv_ip = ''10.0.0.1'', dv_expires_at = 1600000000\<rparr>], mt_online = [],
      mt_presence = [\<lparr>pr_user_id = 2, pr_online_count = 1, pr_last_online_at = None\<rparr>], mt_states = [],
      mt_subscriptions = [\<lparr>sb_subscriber_user_id = 2, sb_config_issued_at = Some 1650000000, sb_connected_at = None, sb_connected_node_id = None,
        sb_connected_node_name = None, sb_revision = 1, sb_created_at = 1600000000, sb_updated_at = 1600000000\<rparr>]\<rparr>"

definition sample_report :: node_report_input where
  "sample_report =
     \<lparr>np_machine_id = 5, np_legacy_auth = False, np_node_id = 7, np_report_id = ''r-1'',
      np_traffic = [(3, \<lparr>tu_upload = 100, tu_download = 201\<rparr>), (2, \<lparr>tu_upload = 300, tu_download = 400\<rparr>)],
      np_alive = [(2, [''10.0.0.2''])], np_replace_all_devices = True, np_external_device_state = False, np_online = [(2, 1)],
      np_status = ''{}'', np_metrics = [], np_now = sample_now\<rparr>"

definition sample_receipt :: report_receipt where
  "sample_receipt = \<lparr>nr_node_id = 7, nr_report_id = ''r-1'', nr_traffic_hash = replicate 32 (CHR ''x''), nr_created_at = 1700000000\<rparr>"

definition sample_claimed :: meter where
  "sample_claimed = sample_meter\<lparr>mt_receipts := [sample_receipt]\<rparr>"

lemma sample_hash: "reportTrafficHash sample_digest ts = replicate 32 (CHR ''x'')"
  by (simp add: reportTrafficHash_def sample_digest_def)

lemma sample_claim: "claim_report sample_digest sample_report sample_meter = Inr (False, sample_claimed)"
  unfolding claim_report_def sample_hash by code_simp

lemma sample_meter_ok: "meter_ok sample_meter"
  unfolding meter_ok_def meter_holds_defs db_ok_def holds_defs seqs_ok_def check_defs by code_simp

lemma sample_traffic_typed: "traffic_typed (np_traffic sample_report)"
  by code_simp

section \<open>A report is counted\<close>

lemma claim_report_frame: "claim_report digest inp m = Inr (dup, m1) \<Longrightarrow> \<exists>rs. m1 = m\<lparr>mt_receipts := rs\<rparr>"
  by (erule claim_report_cases) (auto intro: exI [of _ "mt_receipts m"])

text \<open>A report that succeeds and is not a repetition: its counting stage, on the store with the new receipt.\<close>

lemma counted_report_stages:
  assumes ok: "meter_ok m" and t: "traffic_typed (np_traffic raw)" and r: "ApplyNodeReport digest raw m = Inr (res, m')"
    and new: "\<not> nx_duplicate_traffic res" and n: "n \<in> set (mt_nodes m)" "n_id n = np_node_id raw"
  obtains m1 m2 rs where "m1 = m\<lparr>mt_receipts := rs\<rparr>" "traffic_valid (np_traffic raw)" "report_allowed raw n = Inr True"
    "authorizeReportedUsers raw m1 = Inr ()" "count_report False raw (node_rate raw n m) m1 = Inr (nx_exceeded_users res, m2)"
    "traffic_same m2 (m'\<lparr>mt_receipts := mt_receipts m2\<rparr>)"
proof (rule ApplyNodeReport_stages [OF r])
  fix k m1 m2 inp
  assume valid: "list_all (\<lambda>(i, t). 1 \<le> i \<and> 0 \<le> tu_upload t \<and> 0 \<le> tu_download t) (np_traffic raw)"
    and k: "k \<in> set (mt_nodes m)" "n_id k = np_node_id raw" and al: "report_allowed raw k = Inr True"
    and cl: "claim_report digest raw m = Inr (nx_duplicate_traffic res, m1)"
    and inp: "inp = effective_report (nx_duplicate_traffic res) raw"
    and au: "authorize_report (nx_duplicate_traffic res) inp m1 = Inr ()"
    and co: "count_report (nx_duplicate_traffic res) inp (node_rate raw k m) m1 = Inr (nx_exceeded_users res, m2)"
    and same: "traffic_same m2 (m'\<lparr>mt_receipts := mt_receipts m2\<rparr>)"
  have "distinct (map n_id (mt_nodes m))" using ok by (simp add: meter_ok_def nodes.holds_def nodes_distinct_def)
  then have kn: "k = n" using k n by (metis distinct_map inj_onD)
  obtain rs where m1: "m1 = m\<lparr>mt_receipts := rs\<rparr>" using claim_report_frame [OF cl] by blast
  have raw: "inp = raw" using inp new by (simp add: effective_report_def)
  have "traffic_valid (np_traffic raw)"
    using valid t by (auto simp: traffic_valid_def traffic_typed_def list_all_iff in_i64_def max_i64_def)
  then show thesis
    using that [OF m1] al au co same new unfolding kn raw by (simp add: authorize_report_def)
qed

text \<open>C14: A report that is accepted and not a repetition comes from the machine of an enabled node and charges only users of
  the groups the node serves. The counters of every user and the sums of their daily statistics grow by exactly the
  reported bytes times the rate of the node at that time, rounded down; the counters and statistics of the node
  grow by the reported bytes, and no other node's change.\<close>

theorem node_report_accounts:
  assumes ok: "meter_ok m" and t: "traffic_typed (np_traffic raw)" and r: "ApplyNodeReport digest raw m = Inr (res, m')"
    and new: "\<not> nx_duplicate_traffic res" and n: "n \<in> set (mt_nodes m)" "n_id n = np_node_id raw"
  shows "report_allowed raw n = Inr True \<and>
    (\<forall>i\<in>set (map fst (np_traffic raw)). \<exists>u\<in>set (db_users (mt_db m)). u_id u = i \<and> in_node_groups (np_node_id raw) m u) \<and>
    user_counters m' = map (\<lambda>(i, u, d). (i, u + charged (node_rate raw n m) tu_upload (np_traffic raw) i,
      d + charged (node_rate raw n m) tu_download (np_traffic raw) i)) (user_counters m) \<and>
    (\<forall>i\<in>set (meter_users m).
      user_stat_sum us_upload i (mt_user_stats m') =
        user_stat_sum us_upload i (mt_user_stats m) + charged (node_rate raw n m) tu_upload (np_traffic raw) i \<and>
      user_stat_sum us_download i (mt_user_stats m') =
        user_stat_sum us_download i (mt_user_stats m) + charged (node_rate raw n m) tu_download (np_traffic raw) i) \<and>
    node_counters m' = map (\<lambda>(i, a, b). if i = np_node_id raw then (i, a + sum_traffic tu_upload (np_traffic raw),
      b + sum_traffic tu_download (np_traffic raw)) else (i, a, b)) (node_counters m) \<and>
    (\<forall>k. node_stat_sum ns_upload k (mt_node_stats m') =
        node_stat_sum ns_upload k (mt_node_stats m) + (if k = np_node_id raw then sum_traffic tu_upload (np_traffic raw) else 0) \<and>
      node_stat_sum ns_download k (mt_node_stats m') =
        node_stat_sum ns_download k (mt_node_stats m) + (if k = np_node_id raw then sum_traffic tu_download (np_traffic raw) else 0))"
proof (rule counted_report_stages [OF assms])
  fix m1 m2 rs
  let ?rate = "node_rate raw n m" and ?ts = "np_traffic raw"
  assume m1: "m1 = m\<lparr>mt_receipts := rs\<rparr>" and v: "traffic_valid ?ts" and al: "report_allowed raw n = Inr True"
    and au: "authorizeReportedUsers raw m1 = Inr ()" and co: "count_report False raw ?rate m1 = Inr (nx_exceeded_users res, m2)"
    and same: "traffic_same m2 (m'\<lparr>mt_receipts := mt_receipts m2\<rparr>)"
  have same': "user_counters m' = user_counters m2" "node_counters m' = node_counters m2" "mt_user_stats m' = mt_user_stats m2"
    "mt_node_stats m' = mt_node_stats m2"
    using same by (simp_all add: traffic_same_def node_counters_def user_counters_def)
  have frame: "user_counters m1 = user_counters m" "node_counters m1 = node_counters m" "mt_user_stats m1 = mt_user_stats m"
    "mt_node_stats m1 = mt_node_stats m" "meter_users m1 = meter_users m" "mt_db m1 = mt_db m" "in_node_groups k m1 = in_node_groups k m" for k
    by (simp_all add: m1 user_counters_def node_counters_def meter_users_def in_node_groups_def [abs_def])
  note served = authorizeReportedUsers_sound [OF au, unfolded frame]
  show ?thesis
  proof (cases "?ts = []")
    case True
    then have m2: "m2 = m1" using co by (simp add: count_report_def)
    have z: "charged ?rate sel ?ts i = 0" "sum_traffic sel ?ts = 0" for sel i using True by (simp_all add: charged_def sum_traffic_def)
    have "map (\<lambda>(i, a, b). if i = np_node_id raw then (i, a + 0, b + 0) else (i, a, b)) (node_counters m) = node_counters m"
      "map (\<lambda>(i, u, d). (i, u + 0, d + 0)) (user_counters m) = user_counters m"
      by (rule map_idI; auto)+
    then show ?thesis unfolding same' m2 frame z using al True by simp
  next
    case False
    then have ap: "applyTraffic raw ?rate m1 = Inr (nx_exceeded_users res, m2)" using co by (simp add: count_report_def)
    have us: "user_stats_distinct (mt_user_stats m1)" and ns: "node_stats_distinct (mt_node_stats m1)"
      using ok by (simp_all add: frame meter_ok_def user_stats.holds_def node_stats.holds_def)
    note e = applyTraffic_effect [OF ap v node_rate_bounds [OF ok n(1)] us ns, unfolded frame]
    show ?thesis unfolding same' using al served e(1-6) by blast
  qed
qed

theorem node_report_accounts_witness:
  "\<exists>res m'. ApplyNodeReport sample_digest sample_report sample_meter = Inr (res, m') \<and>
     user_counters m' = [(1, 0, 0), (2, 455, 600), (3, 150, 301)] \<and> node_counters m' = [(7, 410, 621)] \<and>
     nx_exceeded_users res = [(2, 1)]"
proof -
  obtain res m' where r: "ApplyNodeReport sample_digest sample_report sample_meter = Inr (res, m')"
    and new: "\<not> nx_duplicate_traffic res" and x: "nx_exceeded_users res = [(2, 1)]"
  proof -
    have "case ApplyNodeReport sample_digest sample_report sample_meter of Inl e \<Rightarrow> False
      | Inr (res, m') \<Rightarrow> \<not> nx_duplicate_traffic res \<and> nx_exceeded_users res = [(2, 1)]"
      unfolding ApplyNodeReport_def sample_claim by code_simp
    then show thesis using that by (auto split: sum.splits)
  qed
  have n: "sample_node \<in> set (mt_nodes sample_meter)" "n_id sample_node = np_node_id sample_report"
    by (simp_all add: sample_meter_def sample_node_def sample_report_def)
  have u: "map (\<lambda>(i, u, d). (i, u + charged (node_rate sample_report sample_node sample_meter) tu_upload (np_traffic sample_report) i,
      d + charged (node_rate sample_report sample_node sample_meter) tu_download (np_traffic sample_report) i)) (user_counters sample_meter)
      = [(1, 0, 0), (2, 455, 600), (3, 150, 301)]" by code_simp
  have k: "map (\<lambda>(i, a, b). if i = np_node_id sample_report then (i, a + sum_traffic tu_upload (np_traffic sample_report),
      b + sum_traffic tu_download (np_traffic sample_report)) else (i, a, b)) (node_counters sample_meter) = [(7, 410, 621)]" by code_simp
  show ?thesis
    using r x node_report_accounts [OF sample_meter_ok sample_traffic_typed r new n] unfolding u k by blast
qed

section \<open>A report is counted once\<close>

definition sample_after :: meter where
  "sample_after = sample_meter
     \<lparr>mt_db := sample_db\<lparr>db_users := [sample_user 1 ''inviter@example.com'',
        (sample_user 2 ''customer@example.com'')\<lparr>u_group_id := Some 1, u_transfer_enable := 1000, u_traffic_u := 455, u_traffic_d := 600,
          u_updated_at := 1700000000\<rparr>,
        (sample_user 3 ''second@example.com'')\<lparr>u_group_id := Some 1, u_transfer_enable := 1000, u_traffic_u := 150, u_traffic_d := 301,
          u_updated_at := 1700000000\<rparr>]\<rparr>,
      mt_nodes := [sample_node\<lparr>n_traffic_u := 410, n_traffic_d := 621, n_last_check_at := Some 1700000000, n_last_push_at := Some 1700000000\<rparr>],
      mt_receipts := [sample_receipt],
      mt_user_stats :=
        [\<lparr>us_user_id = 2, us_rate_micros = 1500000, us_record_at = 1699977600, us_record_type = ''d'', us_upload = 450, us_download = 600,
          us_created_at = 1700000000, us_updated_at = 1700000000\<rparr>,
         \<lparr>us_user_id = 3, us_rate_micros = 1500000, us_record_at = 1699977600, us_record_type = ''d'', us_upload = 150, us_download = 301,
          us_created_at = 1700000000, us_updated_at = 1700000000\<rparr>],
      mt_node_stats := [\<lparr>ns_node_id = 7, ns_record_at = 1699977600, ns_record_type = ''d'', ns_upload = 400, ns_download = 601,
        ns_created_at = 1700000000, ns_updated_at = 1700000000\<rparr>],
      mt_devices := [\<lparr>dv_node_id = 7, dv_user_id = 2, dv_ip = ''10.0.0.2'', dv_expires_at = 1700000300\<rparr>],
      mt_online := [\<lparr>uo_node_id = 7, uo_user_id = 2, uo_connections = 1, uo_expires_at = 1700000300\<rparr>],
      mt_presence := [\<lparr>pr_user_id = 2, pr_online_count = 1, pr_last_online_at = Some 1700000000\<rparr>],
      mt_states := [\<lparr>rs_node_id = 7, rs_status = Some ''{}'', rs_metrics = None, rs_updated_at = 1700000000\<rparr>],
      mt_subscriptions := [\<lparr>sb_subscriber_user_id = 2, sb_config_issued_at = Some 1650000000, sb_connected_at = Some 1700000000,
        sb_connected_node_id = Some 7, sb_connected_node_name = Some ''Tokyo'', sb_revision = 2, sb_created_at = 1600000000,
        sb_updated_at = 1700000000\<rparr>]\<rparr>"

definition sample_result :: node_report_result where
  "sample_result = \<lparr>nx_duplicate_traffic = False, nx_device_user_ids = [2], nx_exceeded_users = [(2, 1)]\<rparr>"

lemma sample_counted: "ApplyNodeReport sample_digest sample_report sample_meter = Inr (sample_result, sample_after)"
  unfolding ApplyNodeReport_def sample_claim by code_simp

lemma sample_claim_again: "claim_report sample_digest sample_report sample_after = Inr (True, sample_after)"
  unfolding claim_report_def sample_hash by code_simp

text \<open>C15: Once a report with an id has been counted, its id is remembered for a week: whatever reports arrive in that time,
  accepted or refused, a later report of the node with the same id that is accepted has the same digest of its
  traffic, is marked as a repetition, and changes no user, no node's traffic and no statistics.\<close>

theorem node_report_exactly_once:
  assumes ok: "meter_ok m" and first: "ApplyNodeReport digest raw m = Inr (res, m1)" and new: "\<not> nx_duplicate_traffic res"
    and id: "np_report_id raw \<noteq> []" "np_traffic raw \<noteq> []"
    and week: "list_all (\<lambda>x. np_now x \<le> np_now raw + seconds 604800) between"
    and again: "ApplyNodeReport digest x (run_reports digest between m1) = Inr (res', m')"
    and same: "np_node_id x = np_node_id raw" "np_report_id x = np_report_id raw" "np_traffic x \<noteq> []"
  shows "nx_duplicate_traffic res' \<and> reportTrafficHash digest (np_traffic x) = reportTrafficHash digest (np_traffic raw) \<and>
    mt_db m' = mt_db (run_reports digest between m1) \<and> mt_user_stats m' = mt_user_stats (run_reports digest between m1) \<and>
    mt_node_stats m' = mt_node_stats (run_reports digest between m1) \<and> node_counters m' = node_counters (run_reports digest between m1)"
proof -
  have "receipts_distinct (mt_receipts m)" using ok by (simp add: meter_ok_def report_receipts.holds_def)
  then have d: "receipts_distinct (mt_receipts m1)" by (rule report_receipts_distinct [OF first])
  have "report_claimed digest raw m1" by (rule first_report_claims [OF first new id])
  from run_reports_keeps [OF this d week] show ?thesis
    using repeated_report [OF again _ _ same(1,2)] same(2,3) id(1) by simp
qed

lemma sample_refused: "run_reports sample_digest [sample_report\<lparr>np_node_id := 9\<rparr>] sample_after = sample_after"
proof -
  have "ApplyNodeReport sample_digest (sample_report\<lparr>np_node_id := 9\<rparr>) sample_after = Inl ErrNotFound"
    by (simp add: ApplyNodeReport_def sample_report_def sample_after_def sample_node_def)
  then show ?thesis by (simp add: run_reports_def)
qed

theorem node_report_exactly_once_witness:
  "\<exists>res m'. ApplyNodeReport sample_digest sample_report (run_reports sample_digest [sample_report\<lparr>np_node_id := 9\<rparr>] sample_after) =
     Inr (res, m') \<and> nx_duplicate_traffic res \<and> mt_db m' = mt_db sample_after"
proof -
  let ?between = "[sample_report\<lparr>np_node_id := 9\<rparr>]"
  have "case ApplyNodeReport sample_digest sample_report sample_after of Inl e \<Rightarrow> False | Inr r \<Rightarrow> True"
    unfolding ApplyNodeReport_def sample_claim_again by code_simp
  then obtain res m' where again: "ApplyNodeReport sample_digest sample_report (run_reports sample_digest ?between sample_after) = Inr (res, m')"
    unfolding sample_refused by (auto split: sum.splits)
  have new: "\<not> nx_duplicate_traffic sample_result" by (simp add: sample_result_def)
  have id: "np_report_id sample_report \<noteq> []" "np_traffic sample_report \<noteq> []" by (simp_all add: sample_report_def)
  have week: "list_all (\<lambda>x. np_now x \<le> np_now sample_report + seconds 604800) ?between"
    by (simp add: sample_report_def seconds_def)
  have "nx_duplicate_traffic res \<and> mt_db m' = mt_db (run_reports sample_digest ?between sample_after)"
    using node_report_exactly_once [OF sample_meter_ok sample_counted new id week again refl refl id(2)] by blast
  then show ?thesis using again unfolding sample_refused by blast
qed

section \<open>The order of the entries\<close>



text \<open>C19: The bytes a report's digest is taken of identify its traffic: they are equal exactly when the reports have the same
  entries, in whatever order.\<close>

theorem report_digest_faithful:
  assumes "traffic_typed ts" and "traffic_typed us"
  shows "encode_traffic ts = encode_traffic us \<longleftrightarrow> mset ts = mset us"
  by (rule encode_traffic_iff [OF assms])

theorem report_digest_faithful_witness:
  "encode_traffic [(2, \<lparr>tu_upload = 1, tu_download = 0\<rparr>)] \<noteq> encode_traffic [(2, \<lparr>tu_upload = 0, tu_download = 1\<rparr>)]"
  using report_digest_faithful [of "[(2, \<lparr>tu_upload = 1, tu_download = 0\<rparr>)]" "[(2, \<lparr>tu_upload = 0, tu_download = 1\<rparr>)]"]
  by (simp add: traffic_typed_def in_i64_def)

section \<open>Runs of the panel\<close>

text \<open>The operations of the meter and of the store below it, in any order; an operation that fails is no step.\<close>

inductive panel_step :: "(string \<Rightarrow> string) \<Rightarrow> location \<Rightarrow> meter \<Rightarrow> meter \<Rightarrow> bool" for digest loc where
  report: "ApplyNodeReport digest raw m = Inr (res, m') \<Longrightarrow> panel_step digest loc m m'"
| clear: "ClearNodeDevices nodeIDs now m = Inr (ids, m') \<Longrightarrow> panel_step digest loc m m'"
| summaries: "UpdateUserDeviceSummaries rows m = Inr m' \<Longrightarrow> panel_step digest loc m m'"
| store: "store_step loc (mt_db m) d \<Longrightarrow> panel_step digest loc m (m\<lparr>mt_db := d\<rparr>)"

lemma panel_step_history:
  assumes "panel_step digest loc m m'" and "meter_ok m"
  shows "meter_ok m' \<and> history (mt_db m) (mt_db m')"
  using assms
proof (induction rule: panel_step.induct)
  case (report raw m res m')
  then show ?case using ApplyNodeReport_keeps ApplyNodeReport_history unfolding keeps_meter_def by blast
next
  case (clear nodeIDs now m ids m')
  then show ?case using ClearNodeDevices_keeps [OF clear(1)] ClearNodeDevices_store [OF clear(1)] by (simp add: keeps_meter_def history.refl)
next
  case (summaries rows m m')
  then show ?case
    using UpdateUserDeviceSummaries_keeps [OF summaries(1)] UpdateUserDeviceSummaries_store [OF summaries(1)]
    by (simp add: keeps_meter_def history.refl)
next
  case (store m d)
  have "db_ok (mt_db m)" using store(2) by (simp add: meter_ok_def)
  then have "history (mt_db m) d" by (rule store_step_history [OF store(1)])
  then show ?case using store_history_keeps store(2) by (simp add: keeps_meter_def)
qed

lemma panel_run_history:
  assumes "(panel_step digest loc)\<^sup>*\<^sup>* m m'" and "meter_ok m"
  shows "meter_ok m' \<and> history (mt_db m) (mt_db m')"
  using assms
proof (induction rule: rtranclp_induct)
  case base
  then show ?case by (simp add: history.refl)
next
  case (step m1 m2)
  then show ?case using panel_step_history [OF step.hyps(2)] history.trans by blast
qed

text \<open>C16: However reports, device clearings and device summaries are interleaved with the operations of the store, the
  constraints of all tables keep holding: unique keys, references to existing users and nodes, counters that are not
  negative, rates within their bounds. The books of commissions, receipts and gift cards stay exact.\<close>

theorem panel_stays_consistent:
  assumes "(panel_step digest loc)\<^sup>*\<^sup>* m m'" and "meter_ok m"
    and "commissions_booked (mt_db m)" "receipts_settled (mt_db m)" "gifts_counted (mt_db m)"
  shows "meter_ok m' \<and> commissions_booked (mt_db m') \<and> receipts_settled (mt_db m') \<and> gifts_counted (mt_db m')"
proof -
  have "db_ok (mt_db m)" using assms(2) by (simp add: meter_ok_def)
  then show ?thesis using panel_run_history [OF assms(1,2)] history_settled assms(3-5) by blast
qed

theorem panel_stays_consistent_witness: "meter_ok sample_after \<and> gifts_counted (mt_db sample_after)"
proof -
  have "panel_step sample_digest sample_zone sample_meter sample_after" by (rule panel_step.report [OF sample_counted])
  then have run: "(panel_step sample_digest sample_zone)\<^sup>*\<^sup>* sample_meter sample_after" by (rule r_into_rtranclp)
  have "commissions_booked (mt_db sample_meter)" "receipts_settled (mt_db sample_meter)" "gifts_counted (mt_db sample_meter)"
    by (simp_all add: commissions_booked_def receipts_settled_def gifts_counted_def sample_meter_def sample_db_def)
  then show ?thesis using panel_stays_consistent [OF run sample_meter_ok] by blast
qed

section \<open>Users beyond their quota\<close>

text \<open>C18: An accepted report announces exactly those of its users who have used up their quota afterwards, also when it is a
  repetition, and no node lists such a user any more.\<close>

theorem exceeded_users_cut_off:
  assumes ok: "meter_ok m" and t: "traffic_typed (np_traffic raw)" and r: "ApplyNodeReport digest raw m = Inr (res, m')"
    and u: "u \<in> set (db_users (mt_db m'))" "u_id u \<in> set (map fst (np_traffic raw))"
  shows "(u_id u \<in> set (map fst (nx_exceeded_users res)) \<longleftrightarrow> exceeded_traffic u) \<and>
    (exceeded_traffic u \<longrightarrow> (\<forall>k now. u_id u \<notin> set (map ru_id (ListNodeRuntimeUsers k now m'))))"
proof -
  have "meter_ok m'" using ok ApplyNodeReport_keeps [OF r] by (simp add: keeps_meter_def)
  then have "distinct (map u_id (db_users (mt_db m')))" by (simp add: meter_ok_def db_ok_def users.holds_def users_unique_def)
  then have uniq: "v = u" if "v \<in> set (db_users (mt_db m'))" "u_id v = u_id u" for v
    using that u(1) by (metis distinct_map inj_onD)
  have "u_id u \<in> set (map fst (nx_exceeded_users res)) \<longleftrightarrow>
      (\<exists>v\<in>set (db_users (mt_db m')). u_id v \<in> set (map fst (np_traffic raw)) \<and> exceeded_traffic v \<and> u_id v = u_id u)"
    unfolding set_map [of fst "nx_exceeded_users res"] report_exceeded [OF ok t r] by (auto simp: exceeded_row_def image_iff)
  then have "u_id u \<in> set (map fst (nx_exceeded_users res)) \<longleftrightarrow> exceeded_traffic u" using uniq u by blast
  moreover have "u_id u \<notin> set (map ru_id (ListNodeRuntimeUsers k now m'))" if "exceeded_traffic u" for k now
  proof
    assume "u_id u \<in> set (map ru_id (ListNodeRuntimeUsers k now m'))"
    then obtain v where "v \<in> set (db_users (mt_db m'))" "served_by k now m' v" "u_id v = u_id u"
      by (auto simp: ListNodeRuntimeUsers_def runtime_user_row_def)
    then show False using uniq [of v] exceeded_not_served [OF that] by simp
  qed
  ultimately show ?thesis by blast
qed

theorem exceeded_users_cut_off_witness:
  "exceeded_traffic (db_users (mt_db sample_after) ! 1) \<and> 2 \<notin> set (map ru_id (ListNodeRuntimeUsers 7 sample_now sample_after))"
proof -
  let ?u = "db_users (mt_db sample_after) ! 1"
  have u: "?u \<in> set (db_users (mt_db sample_after))" "u_id ?u \<in> set (map fst (np_traffic sample_report))" "u_id ?u = 2"
    by (simp_all add: sample_after_def sample_report_def sample_user_def)
  have "exceeded_traffic ?u" by (simp add: exceeded_traffic_def sample_after_def sample_user_def)
  then show ?thesis
    using exceeded_users_cut_off [OF sample_meter_ok sample_traffic_typed sample_counted u(1,2)] u(3) by auto
qed

section \<open>Device snapshots\<close>

text \<open>
  A report that replaces the devices of its node deletes the rows of users it does not mention, but counts again only the
  devices of those it does: here the second user's device is gone and the count still says one.
\<close>

definition sample_snapshot :: node_report_input where
  "sample_snapshot = sample_report\<lparr>np_report_id := [], np_traffic := [], np_alive := [], np_online := [], np_now := sample_now + seconds 60\<rparr>"

theorem replaced_device_count_stale:
  "case ApplyNodeReport sample_digest sample_snapshot sample_after of Inl e \<Rightarrow> False
   | Inr (res, m') \<Rightarrow> mt_devices m' = [] \<and> map pr_online_count (mt_presence m') = [1]"
  by code_simp

text \<open>
  A repetition of a report that replaces devices drops its list of devices and then still deletes those of the node, which the
  first report had stored.
\<close>

theorem repeated_snapshot_wiped:
  "mt_devices sample_after \<noteq> [] \<and>
   (case ApplyNodeReport sample_digest sample_report sample_after of Inl e \<Rightarrow> False
    | Inr (res, m') \<Rightarrow> nx_duplicate_traffic res \<and> mt_devices m' = [])"
proof
  show "mt_devices sample_after \<noteq> []" by (simp add: sample_after_def)
  show "case ApplyNodeReport sample_digest sample_report sample_after of Inl e \<Rightarrow> False
    | Inr (res, m') \<Rightarrow> nx_duplicate_traffic res \<and> mt_devices m' = []"
    unfolding ApplyNodeReport_def sample_claim_again by code_simp
qed

end
