(* ===== verification/Spec2Isabelle.thy ===== *)
theory Spec2Isabelle
  imports Order_Properties Payment_Properties Commission_Properties Plan_Properties Coupon_Properties Gift_Properties
    Desk_Properties Meter_Properties
begin

text \<open>
  Verification of the store of Xboard-Go, a panel that sells network subscriptions.

  \<^bold>\<open>The program.\<close> The package \<^verbatim>\<open>internal/store\<close> keeps all state in one SQLite database and offers
  operations that each run in one transaction under one write lock: an operation that returns an
  error leaves the database as it was. The HTTP API and the scheduler call these operations. The
  development models the commercial core: plans and traffic resets (\<^verbatim>\<open>plans.go\<close>, \<^verbatim>\<open>plan_visibility.go\<close>),
  coupons (\<^verbatim>\<open>coupons.go\<close>), orders (\<^verbatim>\<open>orders.go\<close>), payment checkout and the providers' webhooks
  (\<^verbatim>\<open>payment_checkout.go\<close>, \<^verbatim>\<open>payments.go\<close>, \<^verbatim>\<open>trusted_plugins.go\<close>), commissions (\<^verbatim>\<open>commissions.go\<close>), gift cards
  (\<^verbatim>\<open>gift_cards.go\<close>, \<^verbatim>\<open>gift_card_purchase.go\<close>), the support desk: tickets (\<^verbatim>\<open>tickets.go\<close>) and withdrawals of
  commission (\<^verbatim>\<open>commission_withdrawals.go\<close>); and the meter that counts what the nodes report (\<^verbatim>\<open>runtime.go\<close>).
  They interact through the tables: buying reads plans and coupons and writes users, coupons and orders; a checkout binds an order to a payment method; the webhook completes the
  order, which grants the plan to the user; a completed order earns its inviters a commission, which they move
  into their balance or withdraw behind a ticket; a gift card credits its user or records a completed order;
  the reports of the nodes use up the quota that was bought.

  \<^bold>\<open>Layers.\<close>
  \<^item> \<open>Prelude\<close>: the error monad \<open>ebind\<close> with its elimination rules, 64-bit wrap-around \<open>i64\<close>, the list
    operations that stand for SQL on a table.
  \<^item> \<open>Go_Time\<close>, \<open>Traffic_Reset\<close>, \<open>Go_Strings\<close>: what the source uses of Go's \<^verbatim>\<open>time\<close> and \<^verbatim>\<open>strings\<close>: instants in
    nanoseconds, the civil calendar, \<^verbatim>\<open>time.Date\<close> in a zone given by its offset function, trimming,
    UTF-8 checks, decimal and hexadecimal output; trade numbers and the next traffic reset.
  \<^item> \<open>Gift_Rows\<close>, \<open>Store_Schema\<close>: rows as records, errors as a datatype, the constraints of the schema.
  \<^item> \<open>Store_Tables\<close>: \<^verbatim>\<open>UPDATE\<close> and \<^verbatim>\<open>INSERT\<close> as functions that fail with \<open>ErrDatabase\<close> exactly when a
    constraint fails. The locale \<open>db_table\<close> is the contract of a table and is interpreted on each of
    the thirteen tables of the store; \<open>db_ok\<close> says that every table satisfies its constraints.
  \<^item> \<open>Plans\<close>, \<open>Coupons\<close>, \<open>Order_Pricing\<close>, \<open>Orders\<close>, \<open>Checkout\<close>, \<open>Commissions\<close>, \<open>Gift_Cards\<close>: one definition per
    operation, with the names of the source. A transaction is a function from the database to an error or to a
    result and the new database. Random bytes, the current time, the time zone, the Unicode tables, the URL
    parser and the Telegram outbox are arguments.
  \<^item> \<open>Desk_Schema\<close>, \<open>Tickets\<close>, \<open>Withdrawals\<close>: the support desk. A desk holds a store and five further tables, each
    one more interpretation of \<open>db_table\<close>, with the triggers that guard the ledger of withdrawals; the mail outbox,
    SHA-256 and SQLite's \<^verbatim>\<open>LIKE\<close> are arguments too.
  \<^item> \<open>Meter_Schema\<close>, \<open>Meter\<close>, \<open>Meter_Queries\<close>: the traffic meter. A meter holds a store, the nodes and the tables of their
    reports, seven more interpretations of \<open>db_table\<close>. A map of a report is the list of its entries in the order the
    loop meets them; the staging table of one transaction is a list; the columns \<^verbatim>\<open>online_count\<close> and \<^verbatim>\<open>last_online_at\<close>
    of the users, which no other modelled operation reads, are kept beside the store.
  \<^item> \<open>Evolution\<close>: how the database may change. The locale \<open>evolution\<close> (a reflexive, transitive relation)
    gives that loops respect what their steps respect; it is interpreted on the constraints, on the
    life of orders, on checkout attempts, on the append-only ledgers, on the books, on \<open>history\<close>, which joins
    them, on \<open>desk_history\<close>, and on what the steps of a report leave alone (\<open>traffic_same\<close>, \<open>receipts_same\<close>, \<open>same_store\<close>)
    or keep (\<open>keeps_meter\<close>).
  \<^item> \<open>Coupons_Correct\<close>, \<open>Orders_Correct\<close>, \<open>Completion_Correct\<close>, \<open>Checkout_Correct\<close>, \<open>Commissions_Correct\<close>,
    \<open>Plans_Correct\<close>, \<open>Gift_Cards_Correct\<close>, \<open>Desk_Correct\<close>, \<open>Withdrawals_Correct\<close>: the lemmas of each component: the stages
    a successful operation went through, its effect, and that it is a \<open>history\<close>.
  \<^item> \<open>Meter_Correct\<close>, \<open>Meter_Accounts\<close>, \<open>Meter_Reports\<close>, \<open>Meter_Invariant\<close>: the same for the meter: exact weights and staging,
    what a report adds, receipts, digests and the order of entries, and the invariant of the tables.
  \<^item> \<open>Store_Runs\<close>: the step relation of the whole store and its runs.
  \<^item> \<open>Sample_Store\<close>: a small store on which the witnesses evaluate the operations in the kernel.
  \<^item> \<open>Order_Properties\<close>, \<open>Payment_Properties\<close>, \<open>Commission_Properties\<close>, \<open>Plan_Properties\<close>, \<open>Coupon_Properties\<close>,
    \<open>Gift_Properties\<close>, \<open>Desk_Properties\<close>, \<open>Meter_Properties\<close> and this theory: the properties.

  \<^bold>\<open>What is shown.\<close> Orders and payments: the accounts of a purchase, what a webhook settles and refuses, the exact fee,
  the refund of a cancellation. Commissions: exact shares and their settlement. Plans and coupons: what a change keeps, the
  traffic reset batch, quotes. Gift cards: the exact accounts of a redemption, the odds of a mystery box, idempotent purchase
  cards. Desk: money is conserved by withdrawals, each of them has a complete audit trail, and a keyed request is carried
  out at most once. Meter: a report is counted exactly and once, whatever the order of its entries, and users beyond their
  quota are cut off. This theory, \<open>Desk_Properties\<close> and \<open>Meter_Properties\<close> show what holds in every run of all operations together.

  \<^bold>\<open>Bounds and loops.\<close> Loops over rows are folds; the loops that are not structural (the trimming of
    strings, the counting of runes, the batches that reschedule users and the batches of a query) have termination proofs, so no fuel is
    needed. Money is bounded by \<open>maxOrderMoneyCents\<close> and the arithmetic on it is shown not to wrap.

  \<^bold>\<open>Not modelled.\<close> Failures of the database other than constraints, cancellation of contexts, and the
  log and error texts; most listings and searches; the other components of the repository: distributors, accounts
  and sessions, the editing of nodes and their runtime configuration, content and settings, migrations of legacy data, the HTTP layer,
  providers' signatures, back-ups and the command line.
\<close>

section \<open>Runs of the store\<close>

lemma sample_run: "store_run sample_zone sample_db sample_commissioned"
  by (rule store_run_step [OF store_run_step [OF store_run_step [OF store_run_step [OF store_run_refl
        store_step.create_order [OF sample_created]] store_step.start_checkout [OF sample_start]]
        store_step.webhook [OF sample_webhook]] store_step.commissions [OF sample_commissions]])

lemma sample_run_paid: "store_run sample_zone sample_ordered sample_paid"
  by (rule store_run_step [OF store_run_step [OF store_run_refl store_step.start_checkout [OF sample_start]]
        store_step.webhook [OF sample_webhook]])

lemma sample_db_books: "commissions_booked sample_db" "receipts_settled sample_db" "gifts_counted sample_db"
  by (simp_all add: commissions_booked_def receipts_settled_def gifts_counted_def sample_db_def)

text \<open>C11: However the operations of the store are interleaved, every constraint of the schema keeps
  holding, every commission paid out is in the books of its order, every payment receipt belongs to
  an order that was completed, and every gift card counts exactly its recorded uses.\<close>

theorem store_stays_consistent:
  assumes "store_run loc d d'" and "db_ok d" and "commissions_booked d" and "receipts_settled d" and "gifts_counted d"
  shows "db_ok d' \<and> commissions_booked d' \<and> receipts_settled d' \<and> gifts_counted d'"
  using store_run_history [OF assms(1,2)] history_ok history_settled assms(2-5) by blast

theorem store_stays_consistent_witness:
  "db_ok sample_commissioned \<and> commissions_booked sample_commissioned \<and> receipts_settled sample_commissioned \<and>
   gifts_counted sample_commissioned"
  by (rule store_stays_consistent [OF sample_run sample_db_ok sample_db_books])

text \<open>C12: The life of an order: whatever the store does, an order is never lost, its buyer, price, discounts
  and trade number never change, its status only moves along the transitions pending to processing or
  cancelled, processing to completed, completed to discounted, and a payment time or callback number, once
  recorded, stays. A cancelled order stays cancelled and a completed one never goes back.\<close>

theorem order_life_cycle:
  assumes "store_run loc d d'" and "db_ok d" and "r \<in> set (db_orders d)"
  shows "\<exists>r'\<in>set (db_orders d'). o_id r' = o_id r \<and> order_terms r' = order_terms r \<and>
    status_reach (o_status r) (o_status r') \<and> (o_paid_at r \<noteq> None \<longrightarrow> o_paid_at r' = o_paid_at r) \<and>
    (o_callback_no r \<noteq> None \<longrightarrow> o_callback_no r' = o_callback_no r) \<and>
    (o_status r = OrderStatusCancelled \<longrightarrow> o_status r' = OrderStatusCancelled) \<and>
    (o_status r = OrderStatusCompleted \<longrightarrow> o_status r' \<in> {OrderStatusCompleted, OrderStatusDiscounted})"
proof -
  obtain r' where r': "r' \<in> set (db_orders d')" "order_evolves r r'"
    by (rule history_order [OF store_run_history [OF assms(1,2)] assms(3)])
  then show ?thesis using order_evolves_fields(1) [OF r'(2)]
    by (intro bexI [of _ r']) (auto simp: order_evolves_def status_reach_final status_reach_completed)
qed

theorem order_life_cycle_witness:
  "\<exists>r'\<in>set (db_orders sample_paid). o_id r' = 1 \<and> order_terms r' = order_terms sample_order \<and>
    status_reach OrderStatusPending (o_status r')"
proof -
  have "sample_order \<in> set (db_orders sample_ordered)" by (simp add: sample_ordered_def)
  from order_life_cycle [OF sample_run_paid sample_states_ok(1) this] show ?thesis
    by (auto simp: sample_order_def)
qed

text \<open>C13: Nothing that was paid is forgotten: the receipts, the entitlement events, the commission logs and the uses of
  gift cards only grow at their end, and a checkout attempt keeps its order, method and idempotency key for ever and, once the
  provider's response is recorded, never changes again.\<close>

theorem ledgers_append_only:
  assumes "store_run loc d d'" and "db_ok d"
  shows "(\<exists>rs. db_receipts d' = db_receipts d @ rs) \<and> (\<exists>es. db_events d' = db_events d @ es) \<and>
    (\<exists>ls. db_commission_logs d' = db_commission_logs d @ ls) \<and> (\<exists>gs. db_gift_usages d' = db_gift_usages d @ gs) \<and>
    (\<forall>a\<in>set (db_attempts d). \<exists>a'\<in>set (db_attempts d'). a_id a' = a_id a \<and> a_order_id a' = a_order_id a \<and>
       a_payment_id a' = a_payment_id a \<and> a_idempotency_key a' = a_idempotency_key a \<and>
       (a_status a = PaymentCheckoutCreated \<longrightarrow> a' = a))"
proof -
  have "history_core d d'" by (rule history_coreD [OF store_run_history [OF assms]])
  then have l: "ledgers_grow d d'" and "attempts_evolve d d'" by (simp_all add: history_core_def)
  then have "\<forall>a\<in>set (db_attempts d). \<exists>a'\<in>set (db_attempts d'). attempt_evolves a a'" by (simp add: attempts_evolve_def)
  then show ?thesis using l unfolding ledgers_grow_def attempt_evolves_def by blast
qed

theorem ledgers_append_only_witness:
  "\<exists>rs. db_receipts sample_paid = db_receipts sample_ordered @ rs"
  using ledgers_append_only [OF sample_run_paid sample_states_ok(1)] by blast

text \<open>C28: No gift card is ever used more often than its limit, whatever is bought, issued, edited or redeemed: after any
  run of the store the recorded uses of every card are as many as its counter says and at most its limit.\<close>

theorem gift_use_limited:
  assumes "store_run loc d d'" and "db_ok d" and "gifts_counted d" and "c \<in> set (db_gift_codes d')"
  shows "int (count_where (\<lambda>g. gu_code_id g = gc_id c) (db_gift_usages d')) = gc_usage_count c \<and>
    gc_usage_count c \<le> gc_max_usage c"
proof -
  note h = store_run_history [OF assms(1,2)]
  have "gift_counted (db_gift_usages d') c"
    using history_settled(3) [OF h assms(2,3)] assms(4) by (simp add: gifts_counted_def list_all_iff)
  moreover have "gift_code_ok c"
    using history_ok [OF h assms(2)] assms(4) by (auto simp: db_ok_def gift_codes.holds_def list_all_iff gift_code_check_def)
  ultimately show ?thesis by (simp add: gift_counted_def gift_code_ok_def)
qed

theorem gift_use_limited_witness:
  "int (count_where (\<lambda>g. gu_code_id g = 2) (db_gift_usages sample_purchased)) \<le> 1"
proof -
  have run: "store_run sample_zone sample_gift_db sample_purchased"
    by (rule store_run_step [OF store_run_refl store_step.redeem [OF sample_purchase]])
  have "gifts_counted sample_gift_db"
    by (simp add: gifts_counted_def gift_counted_def sample_gift_db_def sample_db_def sample_gift_code_def sample_purchase_code_def)
  moreover define c where "c = db_gift_codes sample_purchased ! 1"
  moreover have "c \<in> set (db_gift_codes sample_purchased)" "gc_id c = 2" "gc_max_usage c = 1"
    by (simp_all add: c_def sample_purchased_def sample_purchase_code_def Let_def)
  ultimately show ?thesis using gift_use_limited [OF run sample_gift_db_ok, of c] by simp
qed

end
